(* ===== verification/Prelude.thy ===== *)
theory Prelude
  imports Main "HOL-Library.Word" "HOL-Library.Multiset"
begin

text \<open>
  Shared vocabulary of the development: the result types that stand for Rust's \<open>Result\<close> and
  for panics, the iterator idioms of the source (\<open>position\<close>, a fallible loop, the stable
  \<open>sort_by_key\<close>), decimal formatting and parsing as done by \<open>format!\<close> and \<open>str::parse\<close>, and
  the fixed-width byte encodings \<open>to_le_bytes\<close> and \<open>to_be_bytes\<close>.

  Integers of the source are natural numbers with their width written out: \<open>u16_max\<close>,
  \<open>u64_max\<close> and \<open>usize_max\<close> are the largest values, saturating operations are \<open>min\<close> with
  them, and an unchecked \<open>+\<close> or \<open>-\<close> that leaves the range is the overflow panic of the dev
  profile the examples are run with (\<open>cargo run\<close> without \<open>--release\<close>).
\<close>

named_theorems rust_simps \<open>evaluation rules of the shared Rust idioms\<close>

type_synonym 'a rust = "string + 'a"
type_synonym byte = "8 word"
type_synonym node_id = "byte list"

definition u16_max :: nat where "u16_max = 2 ^ 16 - 1"
definition u32_max :: nat where "u32_max = 2 ^ 32 - 1"
definition u64_max :: nat where "u64_max = 2 ^ 64 - 1"
definition usize_max :: nat where "usize_max = 2 ^ 64 - 1"

section \<open>Results\<close>

definition rbind :: "'e + 'a \<Rightarrow> ('a \<Rightarrow> 'e + 'b) \<Rightarrow> 'e + 'b" where
  "rbind r f = (case r of Inl e \<Rightarrow> Inl e | Inr x \<Rightarrow> f x)"

lemma rbind_simps [simp, rust_simps]: "rbind (Inl e) f = Inl e" "rbind (Inr x) f = f x"
  by (simp_all add: rbind_def)

lemma rbind_Inr_iff: "rbind r f = Inr y \<longleftrightarrow> (\<exists>x. r = Inr x \<and> f x = Inr y)"
  by (cases r) auto

lemma rbind_Inl_iff: "rbind r f = Inl e \<longleftrightarrow> r = Inl e \<or> (\<exists>x. r = Inr x \<and> f x = Inl e)"
  by (cases r) auto

text \<open>\<open>assert!(b, msg)\<close> and the checked arithmetic of the dev profile.\<close>

definition rust_assert :: "bool \<Rightarrow> string \<Rightarrow> unit rust" where
  "rust_assert b msg = (if b then Inr () else Inl msg)"

lemma rust_assert_simps [simp, rust_simps]:
  "rust_assert True msg = Inr ()" "rust_assert False msg = Inl msg"
  by (simp_all add: rust_assert_def)

lemma rust_assert_Inr_iff [simp]: "rust_assert b msg = Inr u \<longleftrightarrow> b"
  by (simp add: rust_assert_def)

definition usize_add :: "nat \<Rightarrow> nat \<Rightarrow> nat rust" where
  "usize_add a b = (if a + b \<le> usize_max then Inr (a + b) else Inl ''attempt to add with overflow'')"

definition usize_sub :: "nat \<Rightarrow> nat \<Rightarrow> nat rust" where
  "usize_sub a b = (if b \<le> a then Inr (a - b) else Inl ''attempt to subtract with overflow'')"

definition u64_add :: "nat \<Rightarrow> nat \<Rightarrow> nat rust" where
  "u64_add a b = (if a + b \<le> u64_max then Inr (a + b) else Inl ''attempt to add with overflow'')"

definition saturating_mul :: "nat \<Rightarrow> nat \<Rightarrow> nat" where
  "saturating_mul a b = min (a * b) u64_max"

definition saturating_add :: "nat \<Rightarrow> nat \<Rightarrow> nat" where
  "saturating_add a b = min (a + b) u64_max"

text \<open>A loop that stops at the first error (\<open>?\<close>, a panic, an early \<open>return Err\<close>).\<close>

definition unwrap_or :: "'a \<Rightarrow> 'a option \<Rightarrow> 'a" where
  "unwrap_or d x = (case x of Some v \<Rightarrow> v | None \<Rightarrow> d)"

fun try_map :: "('a \<Rightarrow> 'e + 'b) \<Rightarrow> 'a list \<Rightarrow> 'e + 'b list" where
  "try_map f [] = Inr []"
| "try_map f (x # xs) = rbind (f x) (\<lambda>y. rbind (try_map f xs) (\<lambda>ys. Inr (y # ys)))"

lemma try_map_Inr_iff:
  "try_map f xs = Inr ys \<longleftrightarrow> list_all2 (\<lambda>x y. f x = Inr y) xs ys"
  by (induction xs arbitrary: ys) (auto simp: rbind_Inr_iff list_all2_Cons1)

lemma try_map_member: "try_map f xs = Inr ys \<Longrightarrow> y \<in> set ys \<Longrightarrow> \<exists>x \<in> set xs. f x = Inr y"
  by (auto simp: try_map_Inr_iff list_all2_conv_all_nth in_set_conv_nth) (metis nth_mem)

lemma try_map_error: "try_map f xs = Inl e \<Longrightarrow> \<exists>x \<in> set xs. f x = Inl e"
  by (induction xs) (auto simp: rbind_def split: sum.splits)

lemma try_map_length: "try_map f xs = Inr ys \<Longrightarrow> length ys = length xs"
  by (auto simp: try_map_Inr_iff dest: list_all2_lengthD)

lemma try_map_all_Inr: "(\<And>x. x \<in> set xs \<Longrightarrow> f x = Inr (g x)) \<Longrightarrow> try_map f xs = Inr (map g xs)"
  by (induction xs) auto

section \<open>Iterator idioms\<close>

fun position :: "('a \<Rightarrow> bool) \<Rightarrow> 'a list \<Rightarrow> nat option" where
  "position P [] = None"
| "position P (x # xs) = (if P x then Some 0 else map_option Suc (position P xs))"

lemma position_Some_iff:
  "position P xs = Some i \<longleftrightarrow> i < length xs \<and> P (xs ! i) \<and> (\<forall>j < i. \<not> P (xs ! j))"
proof (induction xs arbitrary: i)
  case (Cons x xs)
  then show ?case by (cases i) (auto simp: less_Suc_eq_0_disj)
qed simp

lemma position_None_iff: "position P xs = None \<longleftrightarrow> (\<forall>x \<in> set xs. \<not> P x)"
  by (induction xs) auto

lemma position_distinct:
  "distinct xs \<Longrightarrow> i < length xs \<Longrightarrow> position (\<lambda>x. x = xs ! i) xs = Some i"
  by (auto simp: position_Some_iff nth_eq_iff_index_eq)

text \<open>\<open>iter().filter_map(f).collect()\<close>, \<open>find_map\<close>.\<close>

fun find_map :: "('a \<Rightarrow> 'b option) \<Rightarrow> 'a list \<Rightarrow> 'b option" where
  "find_map f [] = None"
| "find_map f (x # xs) = (case f x of Some y \<Rightarrow> Some y | None \<Rightarrow> find_map f xs)"

lemma find_map_Some: "find_map f xs = Some y \<Longrightarrow> \<exists>x \<in> set xs. f x = Some y"
  by (induction xs) (auto split: option.splits)

lemma find_map_None: "find_map f xs = None \<longleftrightarrow> (\<forall>x \<in> set xs. f x = None)"
  by (induction xs) (auto split: option.splits)

definition filter_map :: "('a \<Rightarrow> 'b option) \<Rightarrow> 'a list \<Rightarrow> 'b list" where
  "filter_map f xs = List.map_filter f xs"

lemma filter_map_simps [simp, rust_simps]:
  "filter_map f [] = []"
  "filter_map f (x # xs) = (case f x of None \<Rightarrow> filter_map f xs | Some y \<Rightarrow> y # filter_map f xs)"
  by (auto simp: filter_map_def map_filter_simps split: option.splits)

lemma set_filter_map: "set (filter_map f xs) = {y. \<exists>x \<in> set xs. f x = Some y}"
  by (induction xs) (auto split: option.splits)

text \<open>\<open>join(sep)\<close> on a vector of strings.\<close>

fun join_with :: "string \<Rightarrow> string list \<Rightarrow> string" where
  "join_with sep [] = []"
| "join_with sep [x] = x"
| "join_with sep (x # y # ys) = x @ sep @ join_with sep (y # ys)"

section \<open>Decimal formatting and parsing\<close>

definition digit_char :: "nat \<Rightarrow> char" where
  "digit_char d = char_of (48 + d)"

fun show_nat :: "nat \<Rightarrow> string" where
  "show_nat n = (if n < 10 then [digit_char n] else show_nat (n div 10) @ [digit_char (n mod 10)])"

declare show_nat.simps [simp del]

definition digit_value :: "char \<Rightarrow> nat option" where
  "digit_value c = (let v = of_char c :: nat in if 48 \<le> v \<and> v \<le> 57 then Some (v - 48) else None)"

fun parse_digits :: "nat \<Rightarrow> string \<Rightarrow> nat option" where
  "parse_digits acc [] = Some acc"
| "parse_digits acc (c # cs) =
     (case digit_value c of
        None \<Rightarrow> None
      | Some d \<Rightarrow> if acc * 10 + d \<le> usize_max then parse_digits (acc * 10 + d) cs else None)"

text \<open>\<open>str::parse::<usize>()\<close>: digits with an optional leading plus sign, \<open>None\<close> on overflow.\<close>

definition parse_usize :: "string \<Rightarrow> nat option" where
  "parse_usize s =
     (case s of [] \<Rightarrow> None
      | c # cs \<Rightarrow> if c = CHR ''+'' then (if cs = [] then None else parse_digits 0 cs)
                  else parse_digits 0 s)"

lemma digit_value_char [simp]: "d < 10 \<Longrightarrow> digit_value (digit_char d) = Some d"
  by (simp add: digit_value_def digit_char_def)

lemma parse_digits_append:
  "parse_digits acc (xs @ ys) = Option.bind (parse_digits acc xs) (\<lambda>a. parse_digits a ys)"
  by (induction xs arbitrary: acc) (auto split: option.splits)

lemma parse_digits_show: "n \<le> usize_max \<Longrightarrow> parse_digits 0 (show_nat n) = Some n"
proof (induction n rule: show_nat.induct)
  case (1 n)
  show ?case
  proof (cases "n < 10")
    case True
    with 1(2) show ?thesis by (simp add: show_nat.simps [of n])
  next
    case False
    have "n div 10 \<le> usize_max" using 1(2) by (meson div_le_dividend order_trans)
    with 1(1) False have "parse_digits 0 (show_nat (n div 10)) = Some (n div 10)" by simp
    moreover have "n div 10 * 10 + n mod 10 = n" by simp
    ultimately show ?thesis using 1(2) False
      by (simp add: show_nat.simps [of n] parse_digits_append)
  qed
qed

lemma show_nat_nonempty [simp]: "show_nat n \<noteq> []"
  by (subst show_nat.simps) simp

lemma digit_char_bounds: "d < 10 \<Longrightarrow> of_char (digit_char d) = (48 + d :: nat)"
  by (simp add: digit_char_def)

lemma set_show_nat: "c \<in> set (show_nat n) \<Longrightarrow> \<exists>d < 10. c = digit_char d"
proof (induction n rule: show_nat.induct)
  case (1 n)
  have d: "\<exists>d < 10. digit_char (n mod 10) = digit_char d" by (rule exI [of _ "n mod 10"]) simp
  from 1 show ?case by (cases "n < 10") (auto simp: show_nat.simps [of n] intro: d)
qed

lemma digit_char_neq: "d < 10 \<Longrightarrow> c \<in> {CHR ''+'', CHR ''-'', CHR '':''} \<Longrightarrow> digit_char d \<noteq> c"
  using digit_char_bounds [of d] by auto

lemma parse_show_usize: "n \<le> usize_max \<Longrightarrow> parse_usize (show_nat n) = Some n"
proof -
  assume n: "n \<le> usize_max"
  obtain c cs where s: "show_nat n = c # cs" by (cases "show_nat n") auto
  then have "c \<noteq> CHR ''+''" using set_show_nat [of c n] digit_char_neq by auto
  then show ?thesis using parse_digits_show [OF n] by (simp add: parse_usize_def s)
qed

lemma show_nat_inj: "m \<le> usize_max \<Longrightarrow> n \<le> usize_max \<Longrightarrow> show_nat m = show_nat n \<Longrightarrow> m = n"
  by (metis option.inject parse_show_usize)

section \<open>Byte encodings\<close>

fun le_bytes :: "nat \<Rightarrow> nat \<Rightarrow> byte list" where
  "le_bytes 0 n = []"
| "le_bytes (Suc k) n = of_nat (n mod 256) # le_bytes k (n div 256)"

definition be_bytes :: "nat \<Rightarrow> nat \<Rightarrow> byte list" where
  "be_bytes k n = rev (le_bytes k n)"

text \<open>\<open>BigUint::from_bytes_le\<close>.\<close>

fun from_bytes_le :: "byte list \<Rightarrow> nat" where
  "from_bytes_le [] = 0"
| "from_bytes_le (b # bs) = unat b + 256 * from_bytes_le bs"

lemma length_le_bytes [simp]: "length (le_bytes k n) = k"
  by (induction k arbitrary: n) auto

lemma length_be_bytes [simp]: "length (be_bytes k n) = k"
  by (simp add: be_bytes_def)

lemma from_le_bytes: "n < 256 ^ k \<Longrightarrow> from_bytes_le (le_bytes k n) = n"
proof (induction k arbitrary: n)
  case (Suc k)
  then have "n div 256 < 256 ^ k" by (simp add: less_mult_imp_div_less mult.commute)
  with Suc.IH have "from_bytes_le (le_bytes k (n div 256)) = n div 256" by blast
  then show ?case by (simp add: unat_of_nat)
qed simp

lemma le_bytes_inj: "m < 256 ^ k \<Longrightarrow> n < 256 ^ k \<Longrightarrow> le_bytes k m = le_bytes k n \<Longrightarrow> m = n"
  by (metis from_le_bytes)

lemma be_bytes_inj: "m < 256 ^ k \<Longrightarrow> n < 256 ^ k \<Longrightarrow> be_bytes k m = be_bytes k n \<Longrightarrow> m = n"
  by (metis be_bytes_def le_bytes_inj rev_rev_ident)

lemma from_bytes_le_append:
  "from_bytes_le (xs @ ys) = from_bytes_le xs + 256 ^ length xs * from_bytes_le ys"
  by (induction xs) (auto simp: algebra_simps)

lemma byte_less: "unat (b :: byte) < 256"
proof -
  have "unat b < 2 ^ LENGTH(8)" by (rule unsigned_less)
  then show ?thesis by simp
qed

lemma from_bytes_le_bound: "from_bytes_le bs < 256 ^ length bs"
proof (induction bs)
  case (Cons b bs)
  note byte_less [of b]
  with Cons show ?case by simp
qed simp

lemma digit_split:
  assumes "a < 256" "b < 256" "a + 256 * x = b + 256 * (y::nat)" shows "a = b \<and> x = y"
proof -
  have "a = (a + 256 * x) mod 256" using assms(1) by simp
  also have "\<dots> = (b + 256 * y) mod 256" by (simp only: assms(3))
  also have "\<dots> = b" using assms(2) by simp
  finally show ?thesis using assms(3) by simp
qed

lemma from_bytes_le_inj:
  "length xs = length ys \<Longrightarrow> from_bytes_le xs = from_bytes_le ys \<Longrightarrow> xs = ys"
proof (induction xs ys rule: list_induct2)
  case (Cons x xs y ys)
  have "unat x < 256" "unat y < 256" by (rule byte_less)+
  with Cons.prems have "unat x = unat y \<and> from_bytes_le xs = from_bytes_le ys"
    by (intro digit_split) simp_all
  with Cons.IH show ?case by (simp add: word_unat_eq_iff)
qed simp

section \<open>Paths\<close>

text \<open>\<open>Path::join\<close>: a separator unless there is one; an absolute second path replaces the first.\<close>

definition path_join :: "string \<Rightarrow> string \<Rightarrow> string" where
  "path_join base rel =
     (if rel \<noteq> [] \<and> hd rel = CHR ''/'' then rel
      else if base = [] \<or> last base = CHR ''/'' then base @ rel else base @ ''/'' @ rel)"

end
