(* ===== verification/Network_Layout.thy ===== *)
theory Network_Layout
  imports Prelude
begin

text \<open>
  The libp2p layouts and the peer counts derived from them:
  \<open>configs/src/topology/configs/network.rs\<close> (which peers a node dials),
  \<open>core/src/topology/utils.rs\<close> (\<open>multiaddr_port\<close>) and \<open>find_expected_peer_counts\<close> of
  \<open>core/src/topology/generation.rs\<close> (how many connections the readiness check waits for).

  A \<open>Multiaddr\<close> is its list of protocol components. The constructor
  \<open>nomos_libp2p::multiaddr(ip, port)\<close> behind \<open>node_address_from_port\<close> is not part of the
  repository: it is the parameter \<open>addr\<close>, and what the callers rely on is that its first transport
  component carries the port (\<open>multiaddr_port (addr p) = Some p\<close>).
\<close>

section \<open>Addresses\<close>

datatype protocol = Ip4 string | Udp nat | Tcp nat | QuicV1 | P2p string | OtherProtocol string

type_synonym multiaddr = "protocol list"

fun multiaddr_port :: "multiaddr \<Rightarrow> nat option" where
  "multiaddr_port [] = None"
| "multiaddr_port (p # ps) =
     (case p of Udp port \<Rightarrow> Some port | Tcp port \<Rightarrow> Some port | _ \<Rightarrow> multiaddr_port ps)"

text \<open>The address format the source writes with \<open>format!\<close> and parses back.\<close>

definition quic_addr :: "string \<Rightarrow> nat \<Rightarrow> multiaddr" where
  "quic_addr ip port = [Ip4 ip, Udp port, QuicV1]"

lemma multiaddr_port_quic [simp]: "multiaddr_port (quic_addr ip port) = Some port"
  by (simp add: quic_addr_def)

section \<open>Layouts\<close>

datatype libp2p_layout = Star | Chain | Full

definition default_layout :: libp2p_layout where
  "default_layout = Star"

record network_params =
  libp2p_network_layout :: libp2p_layout

definition network_params_default :: network_params where
  "network_params_default = \<lparr>libp2p_network_layout = default_layout\<rparr>"

text \<open>\<open>ports\<close> are the swarm ports in node order; indexing an empty vector panics.\<close>

fun initial_peers_by_network_layout ::
  "(nat \<Rightarrow> multiaddr) \<Rightarrow> nat list \<Rightarrow> libp2p_layout \<Rightarrow> multiaddr list list rust" where
  "initial_peers_by_network_layout addr ports Star =
     (case ports of
        [] \<Rightarrow> Inl ''index out of bounds''
      | first # _ \<Rightarrow> Inr ([] # map (\<lambda>_. [addr first]) [1..<length ports]))"
| "initial_peers_by_network_layout addr ports Chain =
     Inr ([] # map (\<lambda>i. [addr (ports ! (i - 1))]) [1..<length ports])"
| "initial_peers_by_network_layout addr ports Full =
     Inr (map (\<lambda>i. map addr (take i ports)) [0..<length ports])"

text \<open>The ports a node dials, as the readiness check collects them from its initial peers.\<close>

definition peer_ports :: "multiaddr list \<Rightarrow> nat list" where
  "peer_ports peers = filter_map multiaddr_port peers"

section \<open>Expected peer counts\<close>

fun add_peer_edges :: "nat list \<Rightarrow> nat \<Rightarrow> nat list \<Rightarrow> nat set list \<Rightarrow> nat set list rust" where
  "add_peer_edges listen idx [] expected = Inr expected"
| "add_peer_edges listen idx (port # ports) expected =
     (case position (\<lambda>p. p = port) listen of
        None \<Rightarrow> add_peer_edges listen idx ports expected
      | Some peer_idx \<Rightarrow>
          if peer_idx = idx then add_peer_edges listen idx ports expected
          else let expected1 = expected[idx := insert peer_idx (expected ! idx)] in
            if peer_idx < length expected1
            then add_peer_edges listen idx ports
                   (expected1[peer_idx := insert idx (expected1 ! peer_idx)])
            else Inl ''index out of bounds'')"

fun peer_edges_loop :: "nat list \<Rightarrow> nat \<Rightarrow> nat list list \<Rightarrow> nat set list \<Rightarrow> nat set list rust" where
  "peer_edges_loop listen idx [] expected = Inr expected"
| "peer_edges_loop listen idx (ports # rest) expected =
     rbind (add_peer_edges listen idx ports expected) (peer_edges_loop listen (Suc idx) rest)"

definition find_expected_peer_counts :: "nat list \<Rightarrow> nat list list \<Rightarrow> nat list rust" where
  "find_expected_peer_counts listen initial_peer_ports =
     rbind (peer_edges_loop listen 0 initial_peer_ports
              (replicate (length initial_peer_ports) {})) (\<lambda>expected.
       Inr (map card expected))"

section \<open>The undirected graph behind the counts\<close>

text \<open>The specification: node \<open>i\<close> dials \<open>j\<close>; the two are peers when either dials the other.\<close>

definition dials :: "nat list \<Rightarrow> nat list list \<Rightarrow> nat \<Rightarrow> nat \<Rightarrow> bool" where
  "dials listen pss i j \<longleftrightarrow>
     i < length pss \<and> i \<noteq> j \<and> (\<exists>p \<in> set (pss ! i). position (\<lambda>q. q = p) listen = Some j)"

definition peer_set :: "nat list \<Rightarrow> nat list list \<Rightarrow> nat \<Rightarrow> nat set" where
  "peer_set listen pss i = {j. dials listen pss i j \<or> dials listen pss j i}"

definition link :: "nat \<times> nat \<Rightarrow> nat set list \<Rightarrow> nat set list" where
  "link e ex = (let ex1 = ex[fst e := insert (snd e) (ex ! fst e)]
                in ex1[snd e := insert (fst e) (ex1 ! snd e)])"

definition node_edges :: "nat list \<Rightarrow> nat \<Rightarrow> nat list \<Rightarrow> (nat \<times> nat) list" where
  "node_edges listen idx ports =
     map (Pair idx) (filter (\<lambda>j. j \<noteq> idx) (filter_map (\<lambda>p. position (\<lambda>q. q = p) listen) ports))"

fun all_edges :: "nat list \<Rightarrow> nat \<Rightarrow> nat list list \<Rightarrow> (nat \<times> nat) list" where
  "all_edges listen idx [] = []"
| "all_edges listen idx (ps # pss) = node_edges listen idx ps @ all_edges listen (Suc idx) pss"

lemma length_link [simp]: "length (link e ex) = length ex"
  by (simp add: link_def Let_def)

lemma length_fold_link [simp]: "length (fold link es ex) = length ex"
  by (induction es arbitrary: ex) auto

lemma link_nth:
  assumes "fst e < length ex" "snd e < length ex" "fst e \<noteq> snd e" "i < length ex"
  shows "link e ex ! i = ex ! i \<union> {j. e = (i, j) \<or> e = (j, i)}"
  using assms by (cases e) (auto simp: link_def Let_def nth_list_update)

lemma fold_link_nth:
  assumes "\<forall>e \<in> set es. fst e < length ex \<and> snd e < length ex \<and> fst e \<noteq> snd e" "i < length ex"
  shows "fold link es ex ! i = ex ! i \<union> {j. (i, j) \<in> set es \<or> (j, i) \<in> set es}"
  using assms by (induction es arbitrary: ex) (auto simp: link_nth)

lemma node_edges_bound: "e \<in> set (node_edges listen idx ports) \<Longrightarrow>
    fst e = idx \<and> snd e < length listen \<and> snd e \<noteq> idx"
  by (auto simp: node_edges_def set_filter_map position_Some_iff)

lemma add_peer_edges_fold:
  assumes "idx < length ex" "length listen \<le> length ex"
  shows "add_peer_edges listen idx ports ex = Inr (fold link (node_edges listen idx ports) ex)"
  using assms
proof (induction ports arbitrary: ex)
  case (Cons p ps)
  show ?case
  proof (cases "position (\<lambda>q. q = p) listen")
    case None
    with Cons show ?thesis by (simp add: node_edges_def)
  next
    case (Some j)
    then have "j < length listen" by (simp add: position_Some_iff)
    with Some Cons show ?thesis by (auto simp: node_edges_def Let_def link_def)
  qed
qed (simp add: node_edges_def)

lemma peer_edges_loop_fold:
  assumes "idx + length pss \<le> length ex" "length listen \<le> length ex"
  shows "peer_edges_loop listen idx pss ex = Inr (fold link (all_edges listen idx pss) ex)"
  using assms by (induction pss arbitrary: idx ex) (simp_all add: add_peer_edges_fold)

lemma all_edges_iff:
  "(i, j) \<in> set (all_edges listen idx pss) \<longleftrightarrow>
     idx \<le> i \<and> i < idx + length pss \<and> i \<noteq> j
     \<and> (\<exists>p \<in> set (pss ! (i - idx)). position (\<lambda>q. q = p) listen = Some j)"
proof (induction pss arbitrary: idx)
  case (Cons ps pss)
  show ?case
  proof (cases "i = idx")
    case True
    then show ?thesis using Cons.IH [of "Suc idx"] by (auto simp: node_edges_def set_filter_map)
  next
    case False
    then have "idx \<le> i \<Longrightarrow> (ps # pss) ! (i - idx) = pss ! (i - Suc idx)"
      by (metis Suc_diff_Suc le_neq_implies_less nth_Cons_Suc)
    with False show ?thesis by (auto simp: Cons.IH node_edges_def set_filter_map)
  qed
qed simp

lemma all_edges_dials: "(i, j) \<in> set (all_edges listen 0 pss) \<longleftrightarrow> dials listen pss i j"
  by (auto simp: all_edges_iff dials_def)

lemma find_expected_peer_counts_eq:
  assumes "length listen \<le> length pss"
  shows "find_expected_peer_counts listen pss
           = Inr (map (\<lambda>i. card (peer_set listen pss i)) [0..<length pss])"
proof -
  let ?es = "all_edges listen 0 pss" and ?ex = "replicate (length pss) {} :: nat set list"
  have bound: "\<forall>e \<in> set ?es. fst e < length ?ex \<and> snd e < length ?ex \<and> fst e \<noteq> snd e"
  proof
    fix e assume "e \<in> set ?es"
    then have "dials listen pss (fst e) (snd e)" using all_edges_dials [of "fst e" "snd e"] by simp
    then show "fst e < length ?ex \<and> snd e < length ?ex \<and> fst e \<noteq> snd e"
      using assms by (auto simp: dials_def position_Some_iff)
  qed
  have "fold link ?es ?ex = map (peer_set listen pss) [0..<length pss]"
    using fold_link_nth [OF bound]
    by (intro nth_equalityI) (auto simp: peer_set_def all_edges_dials)
  moreover have "peer_edges_loop listen 0 pss ?ex = Inr (fold link ?es ?ex)"
    using assms by (intro peer_edges_loop_fold) simp_all
  ultimately show ?thesis by (simp add: find_expected_peer_counts_def o_def)
qed


section \<open>The counts of the three layouts\<close>

lemma filter_map_total: "(\<And>x. f (g x) = Some x) \<Longrightarrow> filter_map f (map g xs) = xs"
  by (induction xs) auto

definition layout_dials :: "libp2p_layout \<Rightarrow> nat \<Rightarrow> nat \<Rightarrow> nat \<Rightarrow> bool" where
  "layout_dials l n i j \<longleftrightarrow> i < n \<and>
     (case l of Star \<Rightarrow> 0 < i \<and> j = 0 | Chain \<Rightarrow> 0 < i \<and> j = i - 1 | Full \<Rightarrow> j < i)"

lemma layout_peer_ports:
  assumes "\<And>p. multiaddr_port (addr p) = Some p" and "ports \<noteq> []"
    and "initial_peers_by_network_layout addr ports l = Inr pss" and "i < length ports"
  shows "length pss = length ports \<and> map peer_ports pss ! i =
    (case l of Star \<Rightarrow> if i = 0 then [] else [ports ! 0]
     | Chain \<Rightarrow> if i = 0 then [] else [ports ! (i - 1)]
     | Full \<Rightarrow> take i ports)"
proof (cases l)
  case Star
  obtain p ps where "ports = p # ps" using assms(2) by (cases ports) auto
  then show ?thesis using assms(1,3,4) Star by (cases i) (auto simp: peer_ports_def simp del: upt_Suc)
next
  case Chain
  obtain p ps where "ports = p # ps" using assms(2) by (cases ports) auto
  then show ?thesis using assms(1,3,4) Chain by (cases i) (auto simp: peer_ports_def simp del: upt_Suc)
next
  case Full
  then show ?thesis using assms(1,3,4) by (auto simp: peer_ports_def filter_map_total)
qed

lemma dials_layout:
  assumes addr: "\<And>p. multiaddr_port (addr p) = Some p" and d: "distinct ports" and ne: "ports \<noteq> []"
    and init: "initial_peers_by_network_layout addr ports l = Inr pss"
  shows "dials ports (map peer_ports pss) i j \<longleftrightarrow> layout_dials l (length ports) i j"
proof (cases "i < length ports")
  case True
  have pos: "position (\<lambda>q. q = ports ! k) ports = Some j \<longleftrightarrow> j = k" if "k < length ports" for k
    using position_distinct [OF d that] by auto
  have full: "(\<exists>p \<in> set (take i ports). position (\<lambda>q. q = p) ports = Some j) \<longleftrightarrow> j < i"
  proof
    assume "\<exists>p \<in> set (take i ports). position (\<lambda>q. q = p) ports = Some j"
    then obtain k where "k < i" "position (\<lambda>q. q = ports ! k) ports = Some j"
      by (auto simp: in_set_conv_nth)
    with pos [of k] True show "j < i" by simp
  next
    assume "j < i"
    with True have "ports ! j \<in> set (take i ports)" "position (\<lambda>q. q = ports ! j) ports = Some j"
      by (auto simp: in_set_conv_nth position_distinct [OF d])
    then show "\<exists>p \<in> set (take i ports). position (\<lambda>q. q = p) ports = Some j" by blast
  qed
  note lp = layout_peer_ports [OF addr ne init True]
  show ?thesis
    using True full pos [of 0] pos [of "i - 1"] ne lp
    by (cases l) (auto simp: dials_def layout_dials_def)
next
  case False
  with layout_peer_ports [OF addr ne init, of 0] ne show ?thesis
    by (simp add: dials_def layout_dials_def)
qed

definition layout_peers :: "libp2p_layout \<Rightarrow> nat \<Rightarrow> nat \<Rightarrow> nat" where
  "layout_peers l n i =
     (case l of Star \<Rightarrow> if i = 0 then n - 1 else 1
      | Chain \<Rightarrow> (if i = 0 then 0 else 1) + (if i + 1 = n then 0 else 1)
      | Full \<Rightarrow> n - 1)"

lemma card_layout_peers:
  assumes "i < n"
  shows "card {j. layout_dials l n i j \<or> layout_dials l n j i} = layout_peers l n i"
proof (cases l)
  case Star
  have "{j. layout_dials l n i j \<or> layout_dials l n j i} = (if i = 0 then {1..<n} else {0})"
    using assms Star by (auto simp: layout_dials_def)
  then show ?thesis using Star by (simp add: layout_peers_def)
next
  case Chain
  have "{j. layout_dials l n i j \<or> layout_dials l n j i}
      = (if i = 0 then {} else {i - 1}) \<union> (if i + 1 = n then {} else {i + 1})"
    using assms Chain by (auto simp: layout_dials_def)
  then show ?thesis using Chain by (simp add: layout_peers_def)
next
  case Full
  have "{j. layout_dials l n i j \<or> layout_dials l n j i} = {0..<n} - {i}"
    using assms Full by (auto simp: layout_dials_def)
  then show ?thesis using Full assms by (simp add: layout_peers_def)
qed

text \<open>
  C5. The peer counts that network readiness waits for are the degrees of the undirected graph
  whose edges are the dialled connections: for every node, the number of other nodes that it dials
  or that dial it, each counted once, whatever the order and the repetitions of its initial peers.
\<close>

theorem expected_peer_counts_are_degrees:
  assumes "length listen \<le> length initial_peer_ports"
  shows "find_expected_peer_counts listen initial_peer_ports
       = Inr (map (\<lambda>i. card {j. dials listen initial_peer_ports i j \<or> dials listen initial_peer_ports j i})
               [0..<length initial_peer_ports])"
  using find_expected_peer_counts_eq [OF assms] by (simp add: peer_set_def)

theorem expected_peer_counts_are_degrees_witness:
  "find_expected_peer_counts [7, 8] [[], [7, 7, 9]]
     = Inr (map (\<lambda>i. card {j. dials [7, 8] [[], [7, 7, 9]] i j \<or> dials [7, 8] [[], [7, 7, 9]] j i}) [0..<2])"
  using expected_peer_counts_are_degrees [of "[7, 8]" "[[], [7, 7, 9]]"]
  by (simp add: upt_rec)

text \<open>
  With distinct listen ports, the expected peer counts of the generated layouts are: in a star
  the hub waits for all other nodes and each leaf for one; in a chain the ends wait for one
  neighbour and the inner nodes for two; in the full mesh every node waits for all others.
\<close>

theorem layout_expected_peer_counts:
  assumes "\<And>p. multiaddr_port (addr p) = Some p" and "distinct ports" and "ports \<noteq> []"
    and "initial_peers_by_network_layout addr ports l = Inr pss"
  shows "find_expected_peer_counts ports (map peer_ports pss)
       = Inr (map (layout_peers l (length ports)) [0..<length ports])"
proof -
  have len: "length pss = length ports" 
    using layout_peer_ports [OF assms(1,3,4), of 0] assms(3) by simp
  then show ?thesis
    by (simp add: find_expected_peer_counts_eq peer_set_def dials_layout [OF assms] card_layout_peers)
qed

theorem layout_expected_peer_counts_witness:
  "find_expected_peer_counts [10, 11, 12, 13]
     (map peer_ports ([] # map (\<lambda>i. [quic_addr ''127.0.0.1'' ([10, 11, 12, 13] ! (i - 1))]) [1..<4]))
   = Inr (map (layout_peers Chain 4) [0..<4])
   \<and> map (layout_peers Chain 4) [0..<4] = [1, 2, 2, 1]"
  using layout_expected_peer_counts [of "quic_addr ''127.0.0.1''" "[10, 11, 12, 13]" Chain]
  by (simp add: layout_peers_def upt_rec)

end
