(* ===== verification/Wallet.thy ===== *)
theory Wallet
  imports Prelude
begin

text \<open>
  Genesis wallets: \<open>configs/src/topology/configs/wallet.rs\<close>. An account carries a label, a secret
  key and a positive value; \<open>uniform\<close> splits an amount over a number of users and derives the
  accounts deterministically from their index.

  A \<open>ZkKey\<close> is represented by the integer it is created from (\<open>ZkKey::from(BigUint)\<close>); the map
  from secret to public keys belongs to the key management crate and is a parameter where it is
  used.
\<close>

datatype zk_key = ZkKey nat

record wallet_account =
  label :: string
  secret_key :: zk_key
  funds :: nat

record wallet_config =
  accounts :: "wallet_account list"

definition wallet_config_default :: wallet_config where
  "wallet_config_default = \<lparr>accounts = []\<rparr>"

definition wallet_account_new :: "string \<Rightarrow> zk_key \<Rightarrow> nat \<Rightarrow> wallet_account rust" where
  "wallet_account_new l sk v =
     rbind (rust_assert (0 < v) ''wallet account value must be positive'') (\<lambda>_.
       Inr \<lparr>label = l, secret_key = sk, funds = v\<rparr>)"

text \<open>The 32-byte seed: the tag \<open>wl\<close>, the index in little endian, zeros.\<close>

definition wallet_seed :: "nat \<Rightarrow> byte list" where
  "wallet_seed index = [119, 108] @ le_bytes 8 index @ replicate 22 0"

definition deterministic :: "nat \<Rightarrow> nat \<Rightarrow> wallet_account rust" where
  "deterministic index v =
     wallet_account_new (''wallet-user-'' @ show_nat index)
       (ZkKey (from_bytes_le (wallet_seed index))) v"

text \<open>The closure of \<open>uniform\<close> mutates \<open>remainder\<close>; the loop passes it on.\<close>

fun uniform_accounts :: "nat \<Rightarrow> nat \<Rightarrow> nat \<Rightarrow> nat \<Rightarrow> wallet_account list rust" where
  "uniform_accounts base remainder idx 0 = Inr []"
| "uniform_accounts base remainder idx (Suc k) =
     (let amount = (if 0 < remainder then base + 1 else base);
          remainder' = (if 0 < remainder then remainder - 1 else remainder)
      in rbind (deterministic idx amount) (\<lambda>a.
         rbind (uniform_accounts base remainder' (Suc idx) k) (\<lambda>as. Inr (a # as))))"

definition uniform :: "nat \<Rightarrow> nat \<Rightarrow> wallet_config rust" where
  "uniform total_funds users =
     rbind (rust_assert (0 < users) ''wallet user count must be non-zero'') (\<lambda>_.
     rbind (rust_assert (users \<le> total_funds)
              ''wallet funds must allocate at least 1 token per user'') (\<lambda>_.
     rbind (uniform_accounts (total_funds div users) (total_funds mod users) 0 users) (\<lambda>as.
       Inr \<lparr>accounts = as\<rparr>)))"

section \<open>Deterministic accounts\<close>

lemma deterministic_simp:
  "0 < v \<Longrightarrow> deterministic i v =
     Inr \<lparr>label = ''wallet-user-'' @ show_nat i, secret_key = ZkKey (from_bytes_le (wallet_seed i)),
          funds = v\<rparr>"
  by (simp add: deterministic_def wallet_account_new_def)

lemma length_wallet_seed [simp]: "length (wallet_seed i) = 32"
  by (simp add: wallet_seed_def)

lemma wallet_seed_inj:
  "i \<le> u64_max \<Longrightarrow> j \<le> u64_max \<Longrightarrow>
     from_bytes_le (wallet_seed i) = from_bytes_le (wallet_seed j) \<Longrightarrow> i = j"
proof -
  assume ij: "i \<le> u64_max" "j \<le> u64_max"
    and "from_bytes_le (wallet_seed i) = from_bytes_le (wallet_seed j)"
  then have "wallet_seed i = wallet_seed j" by (intro from_bytes_le_inj) simp_all
  then have "le_bytes 8 i = le_bytes 8 j" by (simp add: wallet_seed_def)
  with ij show ?thesis by (intro le_bytes_inj [of i 8 j]) (simp_all add: u64_max_def)
qed

section \<open>The uniform split\<close>

lemma uniform_accounts_spec:
  assumes "0 < base"
  shows "uniform_accounts base remainder idx k = Inr
    (map (\<lambda>i. \<lparr>label = ''wallet-user-'' @ show_nat (idx + i),
               secret_key = ZkKey (from_bytes_le (wallet_seed (idx + i))),
               funds = (if i < remainder then base + 1 else base)\<rparr>) [0..<k])"
  using assms
proof (induction k arbitrary: remainder idx)
  case (Suc k)
  have "[0..<Suc k] = 0 # map Suc [0..<k]" by (simp add: map_Suc_upt upt_conv_Cons)
  moreover have "i < remainder - Suc 0 \<longleftrightarrow> Suc i < remainder" for i by auto
  ultimately show ?case using Suc by (simp add: deterministic_simp o_def)
qed simp

lemma uniform_ok:
  assumes "0 < users" "users \<le> amount"
  shows "uniform amount users = Inr \<lparr>accounts =
    map (\<lambda>i. \<lparr>label = ''wallet-user-'' @ show_nat i,
              secret_key = ZkKey (from_bytes_le (wallet_seed i)),
              funds = (if i < amount mod users then amount div users + 1 else amount div users)\<rparr>)
        [0..<users]\<rparr>"
proof -
  have "0 < amount div users" using assms by (simp add: div_greater_zero_iff)
  then show ?thesis using assms by (simp add: uniform_def uniform_accounts_spec)
qed

lemma uniform_ok_iff: "(\<exists>w. uniform amount users = Inr w) \<longleftrightarrow> 0 < users \<and> users \<le> amount"
  using uniform_ok [of users amount] by (auto simp: uniform_def rbind_Inr_iff)

lemma sum_split:
  "r \<le> (k::nat) \<Longrightarrow> sum_list (map (\<lambda>i. if i < r then b + 1 else b) [0..<k]) = k * b + r"
proof (induction k)
  case (Suc k)
  show ?case
  proof (cases "r \<le> k")
    case True
    with Suc show ?thesis by simp
  next
    case False
    with Suc.prems have r: "r = Suc k" by simp
    have "sum_list (map (\<lambda>i. if i < r then b + 1 else b) [0..<Suc k])
        = sum_list (map (\<lambda>_. b + 1) [0..<Suc k])"
      by (rule arg_cong [where f = sum_list], rule map_cong) (auto simp: r)
    then show ?thesis by (simp add: r sum_list_triv)
  qed
qed simp

lemma uniform_total:
  assumes "uniform amount users = Inr w"
  shows "sum_list (map funds (accounts w)) = amount"
proof -
  from assms have u: "0 < users" "users \<le> amount" using uniform_ok_iff [of amount users] by auto
  then have "amount mod users \<le> users" by (simp add: less_imp_le)
  then have "sum_list (map (\<lambda>i. if i < amount mod users then amount div users + 1
                                else amount div users) [0..<users]) = amount"
    by (simp add: sum_split [of "amount mod users" users])
  with assms uniform_ok [OF u] show ?thesis by (auto simp: o_def)
qed

lemma uniform_distinct_keys:
  assumes "uniform amount users = Inr w" and "users \<le> u64_max"
  shows "distinct (map secret_key (accounts w))"
proof -
  from assms have u: "0 < users" "users \<le> amount" using uniform_ok_iff [of amount users] by auto
  have "distinct (map (\<lambda>i. ZkKey (from_bytes_le (wallet_seed i))) [0..<users])"
    using assms(2) wallet_seed_inj by (auto simp: distinct_map inj_on_def)
  with assms uniform_ok [OF u] show ?thesis by (auto simp: o_def)
qed

text \<open>
  C6. \<open>WalletConfig::uniform\<close> allocates the funds completely and evenly: whenever it returns, the
  account values add up to exactly \<open>total_funds\<close>, there is one account per user, every value is
  the integer quotient or one more (the surplus going to the first users), every value is positive,
  and the secret keys are pairwise different.
\<close>

theorem uniform_allocates_exactly:
  assumes "uniform amount users = Inr w" and "users \<le> u64_max"
  shows "sum_list (map funds (accounts w)) = amount
       \<and> length (accounts w) = users
       \<and> (\<forall>a \<in> set (accounts w). funds a \<in> {amount div users, amount div users + 1} \<and> 0 < funds a)
       \<and> sorted_wrt (\<ge>) (map funds (accounts w))
       \<and> distinct (map secret_key (accounts w))"
proof -
  from assms have u: "0 < users" "users \<le> amount" using uniform_ok_iff [of amount users] by auto
  have w: "accounts w = map (\<lambda>i. \<lparr>label = ''wallet-user-'' @ show_nat i,
      secret_key = ZkKey (from_bytes_le (wallet_seed i)),
      funds = (if i < amount mod users then amount div users + 1 else amount div users)\<rparr>) [0..<users]"
    using assms(1) uniform_ok [OF u] by auto
  have "0 < amount div users" using u by (simp add: div_greater_zero_iff)
  moreover have "sorted_wrt (\<ge>) (map funds (accounts w))"
    by (auto simp: w sorted_wrt_iff_nth_less)
  ultimately show ?thesis
    using uniform_total [OF assms(1)] uniform_distinct_keys [OF assms] by (auto simp: w)
qed

theorem uniform_allocates_exactly_witness:
  "\<exists>w. uniform 10 3 = Inr w \<and> sum_list (map funds (accounts w)) = 10"
proof -
  obtain w where w: "uniform 10 3 = Inr w" using uniform_ok_iff [of 10 3] by auto
  moreover have "(3::nat) \<le> u64_max" by (simp add: u64_max_def)
  ultimately show ?thesis using uniform_allocates_exactly [OF w] by auto
qed

text \<open>
  \<open>WalletConfig::uniform\<close> returns exactly for a positive number of users with at least one
  token each; outside that range it panics with the message of the violated assertion.
\<close>

theorem uniform_error_behaviour:
  "uniform amount users =
     (if users = 0 then Inl ''wallet user count must be non-zero''
      else if amount < users then Inl ''wallet funds must allocate at least 1 token per user''
      else Inr \<lparr>accounts = map (\<lambda>i. \<lparr>label = ''wallet-user-'' @ show_nat i,
             secret_key = ZkKey (from_bytes_le (wallet_seed i)),
             funds = (if i < amount mod users then amount div users + 1
                      else amount div users)\<rparr>) [0..<users]\<rparr>)"
  using uniform_ok [of users amount] by (auto simp: uniform_def)

end
