(* ===== verification/Chain_Types.thy ===== *)
theory Chain_Types
  imports Network_Layout Wallet
begin

text \<open>
  The chain data the framework builds and observes: notes, unspent outputs, operations,
  transactions, blocks and service declarations. The types come from the node crates, which the
  repository only uses; field elements, hashes and signatures are the numbers or byte strings they
  are on the wire, and only the fields the repository reads or writes are kept.
\<close>

type_synonym zk_public_key = nat
type_synonym tx_hash = nat
type_synonym header_id = "byte list"
type_synonym channel_id = "byte list"
type_synonym msg_id = "byte list"
type_synonym blob_id = "byte list"

record zk_note =
  note_value :: nat
  note_pk :: zk_public_key

record utxo =
  utxo_tx_hash :: tx_hash
  utxo_output_index :: nat
  utxo_note :: zk_note

record ledger_tx =
  ledger_inputs :: "nat list"
  ledger_outputs :: "zk_note list"

datatype service_type = BlendNetwork | DataAvailability

record declaration_message =
  decl_service_type :: service_type
  decl_locators :: "multiaddr list"
  decl_provider_id :: "byte list"
  decl_zk_id :: zk_public_key
  decl_locked_note_id :: nat

record inscription_op =
  ins_channel_id :: channel_id
  ins_inscription :: "byte list"
  ins_parent :: msg_id
  ins_signer :: "byte list"

record blob_op =
  blob_channel :: channel_id
  blob_parent :: msg_id
  blob_blob :: blob_id

datatype op = ChannelInscribe inscription_op | ChannelBlob blob_op | SDPDeclare declaration_message | OtherOp

datatype op_proof = NoProof | Ed25519Sig "byte list" | ZkAndEd25519Sigs nat "byte list"

record mantle_tx =
  tx_ops :: "op list"
  tx_ledger :: ledger_tx
  tx_execution_gas_price :: nat
  tx_storage_gas_price :: nat

record signed_mantle_tx =
  signed_tx :: mantle_tx
  signed_ops_proofs :: "op_proof list"
  signed_ledger_proof :: nat

record block =
  block_parent :: header_id
  block_transactions :: "signed_mantle_tx list"

text \<open>The 32 zero bytes of the genesis parent and of the genesis channel and signer.\<close>

definition zero_id :: "byte list" where
  "zero_id = replicate 32 0"

text \<open>All operations of a block in the order the scanners visit them.\<close>

definition block_ops :: "block \<Rightarrow> op list" where
  "block_ops b = concat (map (\<lambda>tx. tx_ops (signed_tx tx)) (block_transactions b))"

end
