(* ===== verification/F64.thy ===== *)
theory F64
  imports Prelude Complex_Main "HOL-Library.Log_Nat"
begin

text \<open>
  The \<open>f64\<close> arithmetic the source uses, with its rounding. A finite value is the rational it
  denotes; every operation computes the exact result and rounds it to the nearest binary64 value,
  ties to even, with the gradual underflow of the format (exponents down to \<open>-1074\<close>) and
  overflow to infinity. The two zeros are one value, since the source never looks at the sign of a
  zero. The lemmas are the ones the components need: rounding is monotone and is exact on values
  of at most 53 significant bits.
\<close>

section \<open>Rounding\<close>

definition round_half_even :: "rat \<Rightarrow> int" where
  "round_half_even q =
     (let f = \<lfloor>q\<rfloor>; d = q - of_int f in
      if d < 1/2 then f else if 1/2 < d then f + 1 else if even f then f else f + 1)"

definition ilog2 :: "rat \<Rightarrow> int" where
  "ilog2 q = (if 1 \<le> q then int (floorlog 2 (nat \<lfloor>q\<rfloor>)) - 1
              else - int (ceillog2 (nat \<lceil>1 / q\<rceil>)))"

definition exponent_of :: "rat \<Rightarrow> int" where
  "exponent_of q = max (ilog2 \<bar>q\<bar> - 52) (- 1074)"

definition rnd :: "rat \<Rightarrow> rat" where
  "rnd q = (if q = 0 then 0
            else of_int (round_half_even (q / 2 powi exponent_of q)) * 2 powi exponent_of q)"

lemma rhe_le: "of_int n \<le> q \<Longrightarrow> n \<le> round_half_even q"
proof -
  assume "of_int n \<le> q"
  then have "n \<le> \<lfloor>q\<rfloor>" by (simp add: le_floor_iff)
  then show ?thesis by (auto simp: round_half_even_def Let_def)
qed

lemma rhe_ge: "q \<le> of_int n \<Longrightarrow> round_half_even q \<le> n"
proof -
  assume q: "q \<le> of_int n"
  show ?thesis
  proof (cases "\<lfloor>q\<rfloor> < n")
    case True then show ?thesis by (auto simp: round_half_even_def Let_def)
  next
    case False
    with q have "q = of_int n" "\<lfloor>q\<rfloor> = n" by linarith+
    then show ?thesis by (simp add: round_half_even_def)
  qed
qed

lemma rhe_of_int [simp]: "round_half_even (of_int n) = n"
  by (simp add: round_half_even_def)

lemma rhe_mono: "p \<le> q \<Longrightarrow> round_half_even p \<le> round_half_even q"
proof -
  assume pq: "p \<le> q"
  then have fl: "\<lfloor>p\<rfloor> \<le> \<lfloor>q\<rfloor>" by (rule floor_mono)
  show ?thesis
  proof (cases "\<lfloor>p\<rfloor> = \<lfloor>q\<rfloor>")
    case True
    with pq show ?thesis by (auto simp: round_half_even_def Let_def)
  next
    case False
    with fl have "\<lfloor>p\<rfloor> + 1 \<le> \<lfloor>q\<rfloor>" by simp
    then show ?thesis by (auto simp: round_half_even_def Let_def)
  qed
qed

lemma rhe_error: "\<bar>of_int (round_half_even q) - q\<bar> \<le> 1/2"
proof -
  have "of_int \<lfloor>q\<rfloor> \<le> q" "q < of_int \<lfloor>q\<rfloor> + 1" by linarith+
  then show ?thesis by (auto simp: round_half_even_def Let_def abs_le_iff)
qed

lemma rhe_near: "\<bar>q - of_int n\<bar> < 1/2 \<Longrightarrow> round_half_even q = n"
proof -
  assume "\<bar>q - of_int n\<bar> < 1/2"
  with rhe_error [of q] have "\<bar>of_int (round_half_even q) - (of_int n :: rat)\<bar> < 1" by linarith
  then show ?thesis by linarith
qed

lemma ilog2_bounds:
  assumes "0 < q" shows "2 powi ilog2 q \<le> q" and "q < 2 powi (ilog2 q + 1)"
proof -
  have "2 powi ilog2 q \<le> q \<and> q < 2 powi (ilog2 q + 1)"
  proof (cases "1 \<le> q")
    case True
    define n where "n = nat \<lfloor>q\<rfloor>"
    have n: "0 < n" "of_nat n \<le> q" "q < of_nat (n + 1)"
      using True unfolding n_def by (auto simp: le_floor_iff) linarith+
    have b: "2 ^ (floorlog 2 n - 1) \<le> n \<and> n < 2 ^ floorlog 2 n"
      using floorlog_bounds [of n 2] n(1) by simp
    have pos: "0 < floorlog 2 n" using b n(1) by (cases "floorlog 2 n") auto
    have e: "ilog2 q = int (floorlog 2 n - 1)" "ilog2 q + 1 = int (floorlog 2 n)"
      using True pos by (auto simp: ilog2_def n_def)
    have "(2::rat) ^ (floorlog 2 n - 1) = of_nat (2 ^ (floorlog 2 n - 1))" by simp
    also have "\<dots> \<le> of_nat n" using b by (simp del: of_nat_power)
    finally have lo: "(2::rat) ^ (floorlog 2 n - 1) \<le> q" using n(2) by linarith
    have "n + 1 \<le> 2 ^ floorlog 2 n" using b by simp
    then have "(of_nat (n + 1)::rat) \<le> of_nat (2 ^ floorlog 2 n)" by (simp only: of_nat_le_iff)
    then have hi: "q < 2 ^ floorlog 2 n" using n(3) by simp
    have "2 powi ilog2 q \<le> q" using lo by (simp only: e(1) power_int_of_nat)
    moreover have "q < 2 powi (ilog2 q + 1)" using hi by (simp only: e(2) power_int_of_nat)
    ultimately show ?thesis ..
  next
    case False
    define n where "n = nat \<lceil>1/q\<rceil>"
    have q1: "1 < 1/q" using False assms by simp
    have n: "1 < n" "1/q \<le> of_nat n" "of_nat n - 1 < 1/q"
      using q1 unfolding n_def by (auto simp: less_ceiling_iff) linarith+
    define c where "c = ceillog2 n"
    have b: "n \<le> 2 ^ c" "2 ^ c < 2 * n"
      using le_two_power_ceillog2 two_power_ceillog2_gt n(1) unfolding c_def by auto
    have cpos: "0 < c" using b n(1) by (cases c) auto
    have e: "ilog2 q = - int c" "ilog2 q + 1 = - int (c - 1)"
      using False cpos by (auto simp: ilog2_def n_def c_def)
    have "1/q \<le> 2 ^ c" using n(2) b(1) by (metis (mono_tags, lifting) of_nat_le_iff of_nat_numeral of_nat_power order_trans)
    then have lo: "1 / 2 ^ c \<le> q" using assms by (simp add: field_simps)
    have "(2::nat) ^ (c - 1) < n" using b(2) cpos by (cases c) auto
    then have "2 ^ (c - 1) \<le> n - 1" using n(1) by simp
    then have "(of_nat (2 ^ (c - 1))::rat) \<le> of_nat (n - 1)" by (simp only: of_nat_le_iff)
    then have "(2::rat) ^ (c - 1) < 1/q" using n by (simp add: of_nat_diff)
    then have hi: "q < 1 / 2 ^ (c - 1)" using assms by (simp add: field_simps)
    have "2 powi ilog2 q \<le> q"
      using lo by (simp only: e(1) power_int_minus power_int_of_nat inverse_eq_divide)
    moreover have "q < 2 powi (ilog2 q + 1)"
      using hi by (simp only: e(2) power_int_minus power_int_of_nat inverse_eq_divide)
    ultimately show ?thesis ..
  qed
  then show "2 powi ilog2 q \<le> q" and "q < 2 powi (ilog2 q + 1)" by auto
qed

lemma powi_less_iff [simp]: "(2::rat) powi a < 2 powi b \<longleftrightarrow> a < b"
  by (meson linorder_not_le one_less_numeral_iff order_less_imp_le power_int_increasing
      power_int_strict_increasing semiring_norm(76) not_less)

lemma ilog2_eqI:
  assumes "2 powi e \<le> q" and "q < 2 powi (e + 1)" shows "ilog2 q = e"
proof -
  have q: "0 < q" using assms(1) by (meson less_le_trans zero_less_numeral zero_less_power_int)
  have "(2::rat) powi e < 2 powi (ilog2 q + 1)" "(2::rat) powi ilog2 q < 2 powi (e + 1)"
    using assms ilog2_bounds [OF q] by linarith+
  then have "e < ilog2 q + 1" "ilog2 q < e + 1"
    by simp_all
  then show ?thesis by simp
qed

lemma ilog2_mono: "0 < p \<Longrightarrow> p \<le> q \<Longrightarrow> ilog2 p \<le> ilog2 q"
proof -
  assume p: "0 < p" "p \<le> q"
  then have "(2::rat) powi ilog2 p < 2 powi (ilog2 q + 1)"
    using ilog2_bounds [of p] ilog2_bounds [of q] by linarith
  then show ?thesis by simp
qed

lemma int_less_pow2: "n < 2 ^ k \<Longrightarrow> int n < 2 ^ k"
  by (metis of_nat_less_iff of_nat_numeral of_nat_power)

lemma rat_less_pow2: "n < 2 ^ k \<Longrightarrow> (of_nat n :: rat) < 2 ^ k"
  by (metis of_nat_less_iff of_nat_numeral of_nat_power)

lemma rnd_0 [simp]: "rnd 0 = 0" by (simp add: rnd_def)

lemma exponent_mono: "0 < p \<Longrightarrow> p \<le> q \<Longrightarrow> exponent_of p \<le> exponent_of q"
  using ilog2_mono [of p q] by (simp add: exponent_of_def)

text \<open>Exactness: a multiple \<open>k * 2 powi j\<close> with at most 53 significant bits is its own rounding.\<close>

lemma rnd_exact_at:
  assumes "q = of_int m * 2 powi exponent_of q" shows "rnd q = q"
proof (cases "q = 0")
  case False
  have "q / 2 powi exponent_of q = of_int m" using assms by (simp add: field_simps)
  with assms False show ?thesis by (simp add: rnd_def)
qed simp

lemma powi_split: "j \<le> i \<Longrightarrow> (2::rat) powi i = of_int (2 ^ nat (i - j)) * 2 powi j"
  by (simp add: power_int_add [symmetric] flip: power_int_of_nat)

lemma exponent_le:
  assumes "0 < q" "q < 2 powi (j + 53)" "- 1074 \<le> j" shows "exponent_of q \<le> j"
proof -
  have "(2::rat) powi ilog2 q < 2 powi (j + 53)" using assms ilog2_bounds [of q] by linarith
  then have "ilog2 q < j + 53" by simp
  with assms show ?thesis by (simp add: exponent_of_def)
qed

lemma rnd_exact:
  assumes q: "q = of_int k * 2 powi j" and k: "0 \<le> k" "k < 2 ^ 53" and j: "- 1074 \<le> j"
  shows "rnd q = q"
proof (cases "k = 0")
  case False
  have pos: "0 < q" using q k False by simp
  have "(of_int k :: rat) < of_int (2 ^ 53)" using k(2) by (simp only: of_int_less_iff)
  then have "q < 2 powi (j + 53)" using q by (simp add: power_int_add)
  then have "exponent_of q \<le> j" using pos j by (intro exponent_le)
  then have "2 powi j = of_int (2 ^ nat (j - exponent_of q)) * (2::rat) powi exponent_of q"
    by (rule powi_split)
  with q have "q = of_int (k * 2 ^ nat (j - exponent_of q)) * 2 powi exponent_of q" by simp
  then show ?thesis by (rule rnd_exact_at)
qed (simp add: q)

lemma rnd_pos_form:
  "0 < q \<Longrightarrow> rnd q = of_int (round_half_even (q / 2 powi exponent_of q)) * 2 powi exponent_of q"
  by (simp add: rnd_def)

lemma scaled_upper:
  assumes "0 < q" shows "q / 2 powi exponent_of q < of_int (2 ^ 53)"
proof -
  have "ilog2 q + 1 \<le> exponent_of q + 53" using assms by (simp add: exponent_of_def)
  then have "(2::rat) powi (ilog2 q + 1) \<le> 2 powi (exponent_of q + 53)"
    by (simp add: power_int_increasing)
  then have "q < 2 powi (exponent_of q + 53)" using ilog2_bounds [OF assms] by linarith
  then show ?thesis by (simp add: power_int_add field_simps)
qed

lemma rnd_mono_pos:
  assumes p: "0 < p" and pq: "p \<le> q" shows "rnd p \<le> rnd q"
proof (cases "exponent_of p = exponent_of q")
  case True
  have "p / 2 powi exponent_of q \<le> q / 2 powi exponent_of q"
    using pq by (simp add: divide_right_mono)
  then show ?thesis using p pq True by (simp add: rnd_pos_form mult_right_mono rhe_mono)
next
  case False
  let ?ep = "exponent_of p" and ?eq = "exponent_of q"
  have lt: "?ep < ?eq" using False exponent_mono [OF p pq] by simp
  have q: "0 < q" using p pq by simp
  have eq: "?eq = ilog2 q - 52" using lt q by (auto simp: exponent_of_def split: if_splits)
  have "round_half_even (p / 2 powi ?ep) \<le> 2 ^ 53" using scaled_upper [OF p] by (intro rhe_ge) simp
  then have "(of_int (round_half_even (p / 2 powi ?ep))::rat) \<le> of_int (2 ^ 53)"
    by (simp only: of_int_le_iff)
  then have "rnd p \<le> of_int (2 ^ 53) * 2 powi ?ep"
    using p by (simp only: rnd_pos_form) (rule mult_right_mono, auto)
  also have "\<dots> = 2 powi (?ep + 53)" by (simp add: power_int_add)
  also have "\<dots> \<le> 2 powi (?eq + 52)" using lt by (intro power_int_increasing) auto
  also have "\<dots> = of_int (2 ^ 52) * 2 powi ?eq" by (simp add: power_int_add)
  also have "\<dots> \<le> of_int (round_half_even (q / 2 powi ?eq)) * 2 powi ?eq"
  proof (rule mult_right_mono)
    have "(2::rat) powi (?eq + 52) \<le> q" using ilog2_bounds(1) [OF q] eq by simp
    then have "of_int (2 ^ 52) \<le> q / 2 powi ?eq" by (simp add: power_int_add field_simps)
    then show "(of_int (2 ^ 52)::rat) \<le> of_int (round_half_even (q / 2 powi ?eq))"
      by (simp only: of_int_le_iff rhe_le)
  qed simp
  finally show ?thesis using q by (simp add: rnd_pos_form)
qed

lemma rnd_nonneg: "0 \<le> q \<Longrightarrow> 0 \<le> rnd q"
proof -
  assume "0 \<le> q"
  then have "0 \<le> round_half_even (q / 2 powi exponent_of q)" by (intro rhe_le) simp
  then show ?thesis by (simp add: rnd_def)
qed

lemma rnd_mono: "0 \<le> p \<Longrightarrow> p \<le> q \<Longrightarrow> rnd p \<le> rnd q"
  using rnd_mono_pos [of p q] rnd_nonneg [of q] by (cases "p = 0") auto

lemma rnd_nat_exact: "n < 2 ^ 53 \<Longrightarrow> rnd (of_nat n) = of_nat n"
proof -
  assume "n < 2 ^ 53"
  then have "int n < 2 ^ 53" by (rule int_less_pow2)
  then show ?thesis by (intro rnd_exact [where k = "int n" and j = 0]) auto
qed


lemma rnd_le_nat: "0 \<le> q \<Longrightarrow> q \<le> of_nat n \<Longrightarrow> n < 2 ^ 53 \<Longrightarrow> rnd q \<le> of_nat n"
  using rnd_mono [of q "of_nat n"] rnd_nat_exact [of n] by simp

lemma rnd_ge_eighths:
  assumes "of_nat k / 8 \<le> q" and "k < 2 ^ 53" shows "of_nat k / 8 \<le> rnd q"
proof -
  have "int k < 2 ^ 53" using assms(2) by (rule int_less_pow2)
  then have "rnd (of_nat k / 8) = of_nat k / 8"
    by (intro rnd_exact [where k = "int k" and j = "- 3"]) (auto simp: power_int_minus)
  moreover have "rnd (of_nat k / 8) \<le> rnd q" using assms(1) by (intro rnd_mono) auto
  ultimately show ?thesis by simp
qed

text \<open>A value close enough to a multiple of its unit in the last place rounds to that multiple.\<close>

lemma rnd_near:
  assumes "0 < q" and "exponent_of q = e" and "\<bar>q - of_int m * 2 powi e\<bar> < 2 powi e / 2"
  shows "rnd q = of_int m * 2 powi e"
proof -
  have "q / 2 powi e - of_int m = (q - of_int m * 2 powi e) / 2 powi e"
    by (simp add: diff_divide_distrib)
  then have "\<bar>q / 2 powi e - of_int m\<bar> = \<bar>q - of_int m * 2 powi e\<bar> / 2 powi e" by simp
  also have "\<dots> < 1 / 2" using assms(3) by (simp add: field_simps)
  finally have "round_half_even (q / 2 powi e) = m" by (rule rhe_near)
  with assms show ?thesis by (simp add: rnd_pos_form)
qed

section \<open>Values and operations\<close>

datatype f64 = Fin rat | PInf | NInf | NaN

definition f64_of_rat :: "rat \<Rightarrow> f64" where
  "f64_of_rat q = (let r = rnd q in
     if 2 ^ 1024 \<le> r then PInf else if r \<le> - (2 ^ 1024) then NInf else Fin r)"

text \<open>The \<open>as f64\<close> cast of an unsigned integer.\<close>

definition f64_of_nat :: "nat \<Rightarrow> f64" where
  "f64_of_nat n = f64_of_rat (of_nat n)"

fun f64_neg :: "f64 \<Rightarrow> f64" where
  "f64_neg (Fin q) = Fin (- q)"
| "f64_neg PInf = NInf"
| "f64_neg NInf = PInf"
| "f64_neg NaN = NaN"

definition f64_inf_of_sign :: "rat \<Rightarrow> f64" where
  "f64_inf_of_sign s = (if 0 < s then PInf else if s < 0 then NInf else NaN)"

fun f64_sgn :: "f64 \<Rightarrow> rat" where
  "f64_sgn (Fin q) = sgn q"
| "f64_sgn PInf = 1"
| "f64_sgn NInf = - 1"
| "f64_sgn NaN = 0"

fun f64_add :: "f64 \<Rightarrow> f64 \<Rightarrow> f64" where
  "f64_add (Fin a) (Fin b) = f64_of_rat (a + b)"
| "f64_add NaN y = NaN"
| "f64_add x NaN = NaN"
| "f64_add PInf NInf = NaN"
| "f64_add NInf PInf = NaN"
| "f64_add PInf y = PInf"
| "f64_add NInf y = NInf"
| "f64_add (Fin a) y = y"

fun f64_mul :: "f64 \<Rightarrow> f64 \<Rightarrow> f64" where
  "f64_mul (Fin a) (Fin b) = f64_of_rat (a * b)"
| "f64_mul NaN y = NaN"
| "f64_mul x NaN = NaN"
| "f64_mul x y = f64_inf_of_sign (f64_sgn x * f64_sgn y)"

fun f64_div :: "f64 \<Rightarrow> f64 \<Rightarrow> f64" where
  "f64_div (Fin a) (Fin b) = (if b = 0 then f64_inf_of_sign a else f64_of_rat (a / b))"
| "f64_div NaN y = NaN"
| "f64_div x NaN = NaN"
| "f64_div (Fin a) y = Fin 0"
| "f64_div x (Fin b) = f64_inf_of_sign (f64_sgn x * (if b < 0 then - 1 else 1))"
| "f64_div x y = NaN"

fun f64_ceil :: "f64 \<Rightarrow> f64" where
  "f64_ceil (Fin q) = Fin (of_int \<lceil>q\<rceil>)"
| "f64_ceil x = x"

fun f64_floor :: "f64 \<Rightarrow> f64" where
  "f64_floor (Fin q) = Fin (of_int \<lfloor>q\<rfloor>)"
| "f64_floor x = x"

fun f64_less :: "f64 \<Rightarrow> f64 \<Rightarrow> bool" where
  "f64_less NaN y = False"
| "f64_less x NaN = False"
| "f64_less x NInf = False"
| "f64_less NInf y = True"
| "f64_less PInf y = False"
| "f64_less x PInf = True"
| "f64_less (Fin a) (Fin b) = (a < b)"

text \<open>\<open>f64::clamp\<close>: a NaN stays a NaN (the bounds of the source are never NaN and are ordered).\<close>

definition f64_clamp :: "f64 \<Rightarrow> f64 \<Rightarrow> f64 \<Rightarrow> f64" where
  "f64_clamp x lo hi = (if f64_less x lo then lo else if f64_less hi x then hi else x)"

text \<open>The saturating \<open>as u64\<close> cast: towards zero, NaN to 0.\<close>

fun f64_to_u64 :: "f64 \<Rightarrow> nat" where
  "f64_to_u64 (Fin q) = (if q < 0 then 0 else min (nat \<lfloor>q\<rfloor>) u64_max)"
| "f64_to_u64 PInf = u64_max"
| "f64_to_u64 NInf = 0"
| "f64_to_u64 NaN = 0"

lemma f64_of_rat_finite:
  assumes "0 \<le> q" "q < 2 ^ 1000" shows "f64_of_rat q = Fin (rnd q)"
proof -
  have "rnd (2 ^ 1000) = 2 ^ 1000"
    by (rule rnd_exact [where k = 1 and j = 1000]) auto
  then have "rnd q \<le> 2 ^ 1000" using rnd_mono [of q "2 ^ 1000"] assms by simp
  also have "(2::rat) ^ 1000 < 2 ^ 1024" by (rule power_strict_increasing) auto
  finally have "rnd q < 2 ^ 1024" .
  moreover have "0 \<le> rnd q" using assms by (simp add: rnd_nonneg)
  moreover have "(0::rat) < 2 ^ 1024" by simp
  ultimately show ?thesis unfolding f64_of_rat_def Let_def by (auto simp del: zero_less_power)
qed

lemma small_lt: "n < 2 ^ 64 \<Longrightarrow> (of_nat n :: rat) < 2 ^ 1000"
proof -
  assume "n < 2 ^ 64"
  then have "(of_nat n :: rat) < of_nat (2 ^ 64)" by (simp only: of_nat_less_iff)
  also have "\<dots> = 2 ^ 64" by simp
  also have "\<dots> < (2::rat) ^ 1000" by (rule power_strict_increasing) auto
  finally show ?thesis .
qed

lemma f64_of_nat_small: "n < 2 ^ 53 \<Longrightarrow> f64_of_nat n = Fin (of_nat n)"
  using f64_of_rat_finite [of "of_nat n"] rnd_nat_exact [of n] small_lt [of n]
  by (simp add: f64_of_nat_def)

end
