(* ===== verification/Genesis.thy ===== *)
theory Genesis
  imports Chain_Types F64
begin

text \<open>
  Genesis: \<open>configs/src/topology/configs/consensus.rs\<close>. Every node gets a leader note, a DA note and
  a Blend note, in that order; wallet accounts follow; the ledger transaction has these notes as
  outputs, and the genesis transaction declares the service providers, each locking its note by the
  output index recorded when the note was created.

  The cryptography is a record of parameters: hashes, public keys, note identifiers, signatures
  (\<open>multi_sign\<close> may fail, which the source unwraps) and the validity check of
  \<open>GenesisTx::from_tx\<close>, which the source expects to hold.
\<close>

record crypto =
  zk_public :: "zk_key \<Rightarrow> zk_public_key"
  ed_public_key :: "node_id \<Rightarrow> byte list"
  ledger_hash :: "ledger_tx \<Rightarrow> tx_hash"
  mantle_hash :: "mantle_tx \<Rightarrow> tx_hash"
  utxo_id :: "utxo \<Rightarrow> nat"
  multi_sign :: "zk_key list \<Rightarrow> tx_hash \<Rightarrow> nat option"
  sign_payload :: "node_id \<Rightarrow> tx_hash \<Rightarrow> byte list"
  dummy_proof :: nat
  genesis_valid :: "signed_mantle_tx \<Rightarrow> bool"
  root_msg :: msg_id

record consensus_params =
  n_participants :: nat
  security_param :: nat
  active_slot_coeff :: f64

definition default_for_participants :: "nat \<Rightarrow> consensus_params" where
  "default_for_participants n =
     \<lparr>n_participants = n, security_param = 10, active_slot_coeff = f64_of_rat (9 / 10)\<rparr>"

record service_note =
  sn_pk :: zk_public_key
  sn_sk :: zk_key
  sn_note :: zk_note
  sn_output_index :: nat

record provider_info =
  pi_service_type :: service_type
  pi_provider_sk :: node_id
  pi_zk_sk :: zk_key
  pi_locator :: multiaddr
  pi_note :: service_note

definition provider_id :: "crypto \<Rightarrow> provider_info \<Rightarrow> byte list" where
  "provider_id cr p = ed_public_key cr (pi_provider_sk p)"

definition zk_id :: "crypto \<Rightarrow> provider_info \<Rightarrow> zk_public_key" where
  "zk_id cr p = zk_public cr (pi_zk_sk p)"

record service_parameters =
  sp_lock_period :: nat
  sp_inactivity_period :: nat
  sp_retention_period :: nat
  sp_timestamp :: nat
  sp_session_duration :: nat

record ledger_config =
  lc_epoch_stake_distribution_stabilization :: nat
  lc_epoch_period_nonce_buffer :: nat
  lc_epoch_period_nonce_stabilization :: nat
  lc_security_param :: nat
  lc_active_slot_coeff :: f64
  lc_service_params :: "service_type \<Rightarrow> service_parameters"
  lc_min_stake_threshold :: nat
  lc_min_stake_timestamp :: nat
  lc_rounds_per_session :: nat
  lc_message_frequency_per_round :: f64
  lc_num_blend_layers :: nat
  lc_minimum_network_size :: nat

record general_consensus_config =
  cc_leader_pk :: zk_public_key
  cc_leader_sk :: zk_key
  cc_ledger_config :: ledger_config
  cc_genesis_tx :: signed_mantle_tx
  cc_utxos :: "utxo list"
  cc_blend_notes :: "service_note list"
  cc_da_notes :: "service_note list"
  cc_wallet_accounts :: "wallet_account list"

section \<open>Notes\<close>

text \<open>Sixteen bytes: the prefix, then the first bytes of the id (slices panic out of range).\<close>

definition derive_key_material :: "byte list \<Rightarrow> node_id \<Rightarrow> byte list rust" where
  "derive_key_material prefix node =
     (if length prefix \<le> 16 \<and> 16 - length prefix \<le> length node
      then Inr (prefix @ take (16 - length prefix) node)
      else Inl ''range end index out of range for slice'')"

record notes_state =
  ns_leader_keys :: "(zk_public_key \<times> zk_key) list"
  ns_blend_notes :: "service_note list"
  ns_da_notes :: "service_note list"
  ns_utxos :: "utxo list"
  ns_output_index :: nat

definition notes_init :: notes_state where
  "notes_init = \<lparr>ns_leader_keys = [], ns_blend_notes = [], ns_da_notes = [], ns_utxos = [],
                 ns_output_index = 0\<rparr>"

definition push_utxo :: "zk_note \<Rightarrow> notes_state \<Rightarrow> notes_state" where
  "push_utxo n st = st\<lparr>ns_utxos := ns_utxos st
       @ [\<lparr>utxo_tx_hash = 0, utxo_output_index = 0, utxo_note = n\<rparr>]\<rparr>"

text \<open>One iteration of the loop over the node ids.\<close>

definition node_notes :: "crypto \<Rightarrow> node_id \<Rightarrow> notes_state \<Rightarrow> notes_state rust" where
  "node_notes cr node st =
     rbind (derive_key_material [108, 100] node) (\<lambda>ld.
     let sk_leader = ZkKey (from_bytes_le ld);
         pk_leader = zk_public cr sk_leader;
         st1 = push_utxo \<lparr>note_value = 1000, note_pk = pk_leader\<rparr>
                 (st\<lparr>ns_leader_keys := ns_leader_keys st @ [(pk_leader, sk_leader)]\<rparr>);
         idx1 = ns_output_index st + 1
     in rbind (derive_key_material [100, 97] node) (\<lambda>da.
     let sk_da = ZkKey (from_bytes_le da);
         pk_da = zk_public cr sk_da;
         note_da = \<lparr>note_value = 1, note_pk = pk_da\<rparr>;
         st2 = push_utxo note_da (st1\<lparr>ns_da_notes := ns_da_notes st1
                 @ [\<lparr>sn_pk = pk_da, sn_sk = sk_da, sn_note = note_da, sn_output_index = idx1\<rparr>]\<rparr>);
         idx2 = idx1 + 1
     in rbind (derive_key_material [98, 110] node) (\<lambda>bn.
     let sk_blend = ZkKey (from_bytes_le bn);
         pk_blend = zk_public cr sk_blend;
         note_blend = \<lparr>note_value = 1, note_pk = pk_blend\<rparr>;
         st3 = push_utxo note_blend (st2\<lparr>ns_blend_notes := ns_blend_notes st2
                 @ [\<lparr>sn_pk = pk_blend, sn_sk = sk_blend, sn_note = note_blend,
                     sn_output_index = idx2\<rparr>]\<rparr>)
     in Inr (st3\<lparr>ns_output_index := idx2 + 1\<rparr>))))"

fun create_utxos_for_leader_and_services ::
  "crypto \<Rightarrow> node_id list \<Rightarrow> notes_state \<Rightarrow> notes_state rust" where
  "create_utxos_for_leader_and_services cr [] st = Inr st"
| "create_utxos_for_leader_and_services cr (node # nodes) st =
     rbind (node_notes cr node st) (create_utxos_for_leader_and_services cr nodes)"

definition append_wallet_utxos :: "crypto \<Rightarrow> utxo list \<Rightarrow> wallet_config \<Rightarrow> utxo list" where
  "append_wallet_utxos cr utxos w = utxos @ map (\<lambda>a. \<lparr>utxo_tx_hash = 0, utxo_output_index = 0,
     utxo_note = \<lparr>note_value = funds a, note_pk = zk_public cr (secret_key a)\<rparr>\<rparr>) (accounts w)"

section \<open>Genesis transactions\<close>

definition genesis_inscription :: "crypto \<Rightarrow> inscription_op" where
  "genesis_inscription cr = \<lparr>ins_channel_id = zero_id,
     ins_inscription = [103, 101, 110, 101, 115, 105, 115], ins_parent = root_msg cr,
     ins_signer = zero_id\<rparr>"

definition from_tx :: "crypto \<Rightarrow> signed_mantle_tx \<Rightarrow> signed_mantle_tx rust" where
  "from_tx cr tx = (if genesis_valid cr tx then Inr tx else Inl ''Invalid genesis transaction'')"

definition create_genesis_tx :: "crypto \<Rightarrow> utxo list \<Rightarrow> signed_mantle_tx rust" where
  "create_genesis_tx cr utxos = from_tx cr \<lparr>
     signed_tx = \<lparr>tx_ops = [ChannelInscribe (genesis_inscription cr)],
       tx_ledger = \<lparr>ledger_inputs = [], ledger_outputs = map utxo_note utxos\<rparr>,
       tx_execution_gas_price = 0, tx_storage_gas_price = 0\<rparr>,
     signed_ops_proofs = [NoProof], signed_ledger_proof = dummy_proof cr\<rparr>"

definition provider_declaration :: "crypto \<Rightarrow> tx_hash \<Rightarrow> provider_info \<Rightarrow> declaration_message" where
  "provider_declaration cr h p = \<lparr>decl_service_type = pi_service_type p,
     decl_locators = [pi_locator p], decl_provider_id = provider_id cr p, decl_zk_id = zk_id cr p,
     decl_locked_note_id = utxo_id cr \<lparr>utxo_tx_hash = h,
       utxo_output_index = sn_output_index (pi_note p), utxo_note = sn_note (pi_note p)\<rparr>\<rparr>"

definition provider_proof :: "crypto \<Rightarrow> tx_hash \<Rightarrow> provider_info \<Rightarrow> op_proof rust" where
  "provider_proof cr h p =
     (case multi_sign cr [sn_sk (pi_note p), pi_zk_sk p] h of
        None \<Rightarrow> Inl ''called `Result::unwrap()` on an `Err` value''
      | Some sig \<Rightarrow> Inr (ZkAndEd25519Sigs sig (sign_payload cr (pi_provider_sk p) h)))"

definition create_genesis_tx_with_declarations ::
  "crypto \<Rightarrow> ledger_tx \<Rightarrow> provider_info list \<Rightarrow> signed_mantle_tx rust" where
  "create_genesis_tx_with_declarations cr ledger providers =
     (let tx = \<lparr>tx_ops = ChannelInscribe (genesis_inscription cr)
                  # map (\<lambda>p. SDPDeclare (provider_declaration cr (ledger_hash cr ledger) p)) providers,
                tx_ledger = ledger, tx_execution_gas_price = 0, tx_storage_gas_price = 0\<rparr>
      in rbind (try_map (provider_proof cr (mantle_hash cr tx)) providers) (\<lambda>proofs.
         from_tx cr \<lparr>signed_tx = tx, signed_ops_proofs = NoProof # proofs,
                     signed_ledger_proof = dummy_proof cr\<rparr>))"

text \<open>Both services have the same parameters.\<close>

definition create_ledger_config :: "consensus_params \<Rightarrow> ledger_config" where
  "create_ledger_config params = \<lparr>lc_epoch_stake_distribution_stabilization = 3,
     lc_epoch_period_nonce_buffer = 3, lc_epoch_period_nonce_stabilization = 4,
     lc_security_param = security_param params, lc_active_slot_coeff = active_slot_coeff params,
     lc_service_params = (\<lambda>_. \<lparr>sp_lock_period = 10, sp_inactivity_period = 20,
       sp_retention_period = 100, sp_timestamp = 0, sp_session_duration = 1000\<rparr>),
     lc_min_stake_threshold = 1, lc_min_stake_timestamp = 0, lc_rounds_per_session = 10,
     lc_message_frequency_per_round = Fin 1, lc_num_blend_layers = 3, lc_minimum_network_size = 1\<rparr>"

definition create_consensus_configs ::
  "crypto \<Rightarrow> node_id list \<Rightarrow> consensus_params \<Rightarrow> wallet_config \<Rightarrow> general_consensus_config list rust"
where
  "create_consensus_configs cr ids params w =
     rbind (create_utxos_for_leader_and_services cr ids notes_init) (\<lambda>st.
     let utxos = append_wallet_utxos cr (ns_utxos st) w in
     rbind (create_genesis_tx cr utxos) (\<lambda>tx.
       Inr (map (\<lambda>(pk, sk). \<lparr>cc_leader_pk = pk, cc_leader_sk = sk,
              cc_ledger_config = create_ledger_config params, cc_genesis_tx = tx,
              cc_utxos = utxos, cc_blend_notes = ns_blend_notes st, cc_da_notes = ns_da_notes st,
              cc_wallet_accounts = accounts w\<rparr>) (ns_leader_keys st))))"

section \<open>What the loop builds\<close>

definition key_of :: "byte list \<Rightarrow> node_id \<Rightarrow> zk_key" where
  "key_of prefix node = ZkKey (from_bytes_le (prefix @ take (16 - length prefix) node))"

definition service_note_of :: "crypto \<Rightarrow> byte list \<Rightarrow> node_id \<Rightarrow> nat \<Rightarrow> service_note" where
  "service_note_of cr prefix node idx =
     \<lparr>sn_pk = zk_public cr (key_of prefix node), sn_sk = key_of prefix node,
      sn_note = \<lparr>note_value = 1, note_pk = zk_public cr (key_of prefix node)\<rparr>,
      sn_output_index = idx\<rparr>"

definition notes_of :: "crypto \<Rightarrow> node_id \<Rightarrow> zk_note list" where
  "notes_of cr node = [\<lparr>note_value = 1000, note_pk = zk_public cr (key_of [108, 100] node)\<rparr>,
     \<lparr>note_value = 1, note_pk = zk_public cr (key_of [100, 97] node)\<rparr>,
     \<lparr>note_value = 1, note_pk = zk_public cr (key_of [98, 110] node)\<rparr>]"

lemma derive_key_material_ok:
  "length node = 32 \<Longrightarrow> length prefix = 2 \<Longrightarrow>
     derive_key_material prefix node = Inr (prefix @ take (16 - length prefix) node)"
  by (simp add: derive_key_material_def)

lemma node_notes_ok:
  assumes "length node = 32"
  shows "node_notes cr node st = Inr (st\<lparr>
    ns_leader_keys := ns_leader_keys st @ [(zk_public cr (key_of [108, 100] node), key_of [108, 100] node)],
    ns_da_notes := ns_da_notes st @ [service_note_of cr [100, 97] node (ns_output_index st + 1)],
    ns_blend_notes := ns_blend_notes st @ [service_note_of cr [98, 110] node (ns_output_index st + 2)],
    ns_utxos := ns_utxos st @ map (\<lambda>n. \<lparr>utxo_tx_hash = 0, utxo_output_index = 0, utxo_note = n\<rparr>) (notes_of cr node),
    ns_output_index := ns_output_index st + 3\<rparr>)"
  by (simp add: node_notes_def derive_key_material_ok assms Let_def push_utxo_def key_of_def
      service_note_of_def notes_of_def)

text \<open>The loop started in any state: notes and outputs are appended node by node.\<close>

lemma create_utxos_ok:
  assumes "\<forall>node \<in> set nodes. length node = 32"
  shows "\<exists>st'. create_utxos_for_leader_and_services cr nodes st = Inr st'
    \<and> ns_leader_keys st' = ns_leader_keys st
        @ map (\<lambda>node. (zk_public cr (key_of [108, 100] node), key_of [108, 100] node)) nodes
    \<and> ns_da_notes st' = ns_da_notes st @ map (\<lambda>i. service_note_of cr [100, 97] (nodes ! i)
        (ns_output_index st + 3 * i + 1)) [0..<length nodes]
    \<and> ns_blend_notes st' = ns_blend_notes st @ map (\<lambda>i. service_note_of cr [98, 110] (nodes ! i)
        (ns_output_index st + 3 * i + 2)) [0..<length nodes]
    \<and> map utxo_note (ns_utxos st') = map utxo_note (ns_utxos st) @ concat (map (notes_of cr) nodes)
    \<and> ns_output_index st' = ns_output_index st + 3 * length nodes"
  using assms
proof (induction nodes arbitrary: st)
  case (Cons node nodes)
  have upt: "[0..<length (node # nodes)] = 0 # map Suc [0..<length nodes]"
    by (simp add: map_Suc_upt upt_conv_Cons del: upt_Suc)
  obtain st1 where st1: "node_notes cr node st = Inr st1" using node_notes_ok Cons.prems by simp
  then have f: "st1 = st\<lparr>
    ns_leader_keys := ns_leader_keys st @ [(zk_public cr (key_of [108, 100] node), key_of [108, 100] node)],
    ns_da_notes := ns_da_notes st @ [service_note_of cr [100, 97] node (ns_output_index st + 1)],
    ns_blend_notes := ns_blend_notes st @ [service_note_of cr [98, 110] node (ns_output_index st + 2)],
    ns_utxos := ns_utxos st @ map (\<lambda>n. \<lparr>utxo_tx_hash = 0, utxo_output_index = 0, utxo_note = n\<rparr>) (notes_of cr node),
    ns_output_index := ns_output_index st + 3\<rparr>"
    using node_notes_ok Cons.prems by simp
  from Cons.IH [of st1] Cons.prems st1 show ?case
    unfolding upt by (auto simp: f o_def algebra_simps)
qed simp


lemma concat_map_nth:
  assumes "\<forall>x \<in> set xs. length (f x) = m" "i < length xs" "k < m"
  shows "concat (map f xs) ! (m * i + k) = f (xs ! i) ! k"
  using assms
proof (induction xs arbitrary: i)
  case (Cons x xs)
  show ?case
  proof (cases i)
    case 0
    with Cons.prems show ?thesis by (simp add: nth_append)
  next
    case (Suc j)
    have "concat (map f (x # xs)) ! (m * i + k) = concat (map f xs) ! (m * j + k)"
      using Cons.prems Suc by (simp add: nth_append)
    with Cons Suc show ?thesis by simp
  qed
qed simp

lemma length_notes_of [simp]: "length (notes_of cr node) = 3"
  by (simp add: notes_of_def)

lemma length_concat_notes [simp]: "length (concat (map (notes_of cr) nodes)) = 3 * length nodes"
  by (induction nodes) auto

lemma consensus_configs_ok:
  assumes ids: "\<forall>node \<in> set ids. length node = 32"
    and ok: "create_consensus_configs cr ids params w = Inr cfgs"
  shows "length cfgs = length ids" and "c \<in> set cfgs \<Longrightarrow>
    cc_da_notes c = map (\<lambda>i. service_note_of cr [100, 97] (ids ! i) (3 * i + 1)) [0..<length ids]
    \<and> cc_blend_notes c = map (\<lambda>i. service_note_of cr [98, 110] (ids ! i) (3 * i + 2)) [0..<length ids]
    \<and> ledger_outputs (tx_ledger (signed_tx (cc_genesis_tx c)))
        = concat (map (notes_of cr) ids)
          @ map (\<lambda>a. \<lparr>note_value = funds a, note_pk = zk_public cr (secret_key a)\<rparr>) (accounts w)
    \<and> cc_wallet_accounts c = accounts w \<and> map utxo_note (cc_utxos c)
        = ledger_outputs (tx_ledger (signed_tx (cc_genesis_tx c)))
    \<and> cc_ledger_config c = create_ledger_config params"
proof -
  obtain st where st: "create_utxos_for_leader_and_services cr ids notes_init = Inr st"
    and keys: "length (ns_leader_keys st) = length ids"
    and da: "ns_da_notes st = map (\<lambda>i. service_note_of cr [100, 97] (ids ! i) (3 * i + 1)) [0..<length ids]"
    and bl: "ns_blend_notes st = map (\<lambda>i. service_note_of cr [98, 110] (ids ! i) (3 * i + 2)) [0..<length ids]"
    and ut: "map utxo_note (ns_utxos st) = concat (map (notes_of cr) ids)"
    using create_utxos_ok [OF ids, of cr notes_init] by (auto simp: notes_init_def)
  show "length cfgs = length ids"
    using ok st keys by (auto simp: create_consensus_configs_def Let_def rbind_Inr_iff)
  show "c \<in> set cfgs \<Longrightarrow> cc_da_notes c = map (\<lambda>i. service_note_of cr [100, 97] (ids ! i) (3 * i + 1)) [0..<length ids]
    \<and> cc_blend_notes c = map (\<lambda>i. service_note_of cr [98, 110] (ids ! i) (3 * i + 2)) [0..<length ids]
    \<and> ledger_outputs (tx_ledger (signed_tx (cc_genesis_tx c)))
        = concat (map (notes_of cr) ids)
          @ map (\<lambda>a. \<lparr>note_value = funds a, note_pk = zk_public cr (secret_key a)\<rparr>) (accounts w)
    \<and> cc_wallet_accounts c = accounts w \<and> map utxo_note (cc_utxos c)
        = ledger_outputs (tx_ledger (signed_tx (cc_genesis_tx c)))
    \<and> cc_ledger_config c = create_ledger_config params"
    using ok st ut
    by (auto simp: create_consensus_configs_def Let_def rbind_Inr_iff da bl append_wallet_utxos_def
        create_genesis_tx_def from_tx_def o_def split: if_splits)
qed

lemma consensus_configs_total:
  assumes "\<forall>node \<in> set ids. length node = 32" and "\<And>tx. genesis_valid cr tx"
  shows "\<exists>cfgs. create_consensus_configs cr ids params w = Inr cfgs"
  using create_utxos_ok [OF assms(1), of cr notes_init] assms(2)
  by (auto simp: create_consensus_configs_def Let_def create_genesis_tx_def from_tx_def)

text \<open>
  C3. Every service note recorded for a node is the ledger output at the index recorded with it.
  For any node ids of 32 bytes, in every generated consensus configuration, the DA and Blend notes
  of node \<open>i\<close> have pairwise different output indices, and the genesis ledger transaction has at each
  of these indices exactly that note; the leader's note of 1000 is at index \<open>3 i\<close>.
\<close>

theorem service_notes_are_genesis_outputs:
  assumes "\<forall>node \<in> set ids. length node = 32"
    and "create_consensus_configs cr ids params w = Inr cfgs" and "c \<in> set cfgs" and "i < length ids"
  shows "let outputs = ledger_outputs (tx_ledger (signed_tx (cc_genesis_tx c))) in
      outputs ! sn_output_index (cc_da_notes c ! i) = sn_note (cc_da_notes c ! i)
    \<and> outputs ! sn_output_index (cc_blend_notes c ! i) = sn_note (cc_blend_notes c ! i)
    \<and> note_value (outputs ! (3 * i)) = 1000
    \<and> sn_output_index (cc_blend_notes c ! i) < length outputs
    \<and> distinct (map sn_output_index (cc_da_notes c @ cc_blend_notes c))"
proof -
  note f = consensus_configs_ok(2) [OF assms(1-3)]
  have out: "ledger_outputs (tx_ledger (signed_tx (cc_genesis_tx c))) ! (3 * i + k)
      = notes_of cr (ids ! i) ! k" if "k < 3" for k
    using f assms(4) that concat_map_nth [of ids "notes_of cr" 3 i k]
    by (simp add: nth_append)
  have len: "3 * i + 2 < length (ledger_outputs (tx_ledger (signed_tx (cc_genesis_tx c))))"
    using f assms(4) by simp
  have "distinct (map sn_output_index (cc_da_notes c @ cc_blend_notes c))"
  proof -
    have "3 * a + 1 \<noteq> 3 * b + (2::nat)" for a b by presburger
    then show ?thesis using f
      by (auto simp: o_def service_note_of_def distinct_map inj_on_def)
  qed
  then show ?thesis using out [of 0] out [of 1] out [of 2] len f assms(4)
    by (simp add: Let_def service_note_of_def notes_of_def numeral_2_eq_2)
qed

text \<open>A transparent instance of the parameters, for concrete runs.\<close>

definition plain_crypto :: crypto where
  "plain_crypto = \<lparr>zk_public = (\<lambda>k. case k of ZkKey n \<Rightarrow> n), ed_public_key = (\<lambda>i. i),
     ledger_hash = (\<lambda>l. length (ledger_outputs l)), mantle_hash = (\<lambda>t. length (tx_ops t)),
     utxo_id = (\<lambda>u. utxo_output_index u), multi_sign = (\<lambda>ks h. Some h),
     sign_payload = (\<lambda>i h. i), dummy_proof = 0, genesis_valid = (\<lambda>_. True), root_msg = zero_id\<rparr>"

theorem service_notes_are_genesis_outputs_witness:
  "\<exists>cfgs. create_consensus_configs plain_crypto [zero_id, replicate 32 1] (default_for_participants 2)
       wallet_config_default = Inr cfgs
     \<and> distinct (map sn_output_index (cc_da_notes (cfgs ! 0) @ cc_blend_notes (cfgs ! 0)))"
proof -
  have ids: "\<forall>node \<in> set [zero_id, replicate 32 1]. length node = 32" by (simp add: zero_id_def)
  obtain cfgs where c: "create_consensus_configs plain_crypto [zero_id, replicate 32 1]
      (default_for_participants 2) wallet_config_default = Inr cfgs"
    using consensus_configs_total [OF ids, of plain_crypto] by (auto simp: plain_crypto_def)
  have "cfgs ! 0 \<in> set cfgs" using consensus_configs_ok(1) [OF ids c] by (intro nth_mem) simp
  from service_notes_are_genesis_outputs [OF ids c this, of 0] c show ?thesis by (auto simp: Let_def)
qed

text \<open>
  The genesis supply: the outputs of the genesis ledger transaction are worth 1002 tokens per
  node (1000 for the leader, one for each service) plus the funds of the wallet accounts, and there
  are three outputs per node and one per account.
\<close>

theorem genesis_supply:
  assumes "\<forall>node \<in> set ids. length node = 32"
    and "create_consensus_configs cr ids params w = Inr cfgs" and "c \<in> set cfgs"
  shows "sum_list (map note_value (ledger_outputs (tx_ledger (signed_tx (cc_genesis_tx c)))))
           = 1002 * length ids + sum_list (map funds (accounts w))
       \<and> length (ledger_outputs (tx_ledger (signed_tx (cc_genesis_tx c))))
           = 3 * length ids + length (accounts w)"
proof -
  have "sum_list (map note_value (concat (map (notes_of cr) ids))) = 1002 * length ids"
    by (induction ids) (auto simp: notes_of_def)
  then show ?thesis using consensus_configs_ok(2) [OF assms] by (simp add: o_def)
qed

theorem genesis_supply_witness:
  "\<exists>cfgs. create_consensus_configs plain_crypto [zero_id] (default_for_participants 1)
       wallet_config_default = Inr cfgs
     \<and> sum_list (map note_value (ledger_outputs (tx_ledger (signed_tx (cc_genesis_tx (cfgs ! 0)))))) = 1002"
proof -
  have ids: "\<forall>node \<in> set [zero_id]. length node = 32" by (simp add: zero_id_def)
  obtain cfgs where c: "create_consensus_configs plain_crypto [zero_id]
      (default_for_participants 1) wallet_config_default = Inr cfgs"
    using consensus_configs_total [OF ids, of plain_crypto] by (auto simp: plain_crypto_def)
  have "cfgs ! 0 \<in> set cfgs" using consensus_configs_ok(1) [OF ids c] by (intro nth_mem) simp
  from genesis_supply [OF ids c this] c show ?thesis by (auto simp: wallet_config_default_def)
qed

text \<open>Every declaration is accompanied by its proof and locks the note of its provider.\<close>

lemma genesis_with_declarations:
  assumes "create_genesis_tx_with_declarations cr ledger providers = Inr tx"
  shows "tx_ledger (signed_tx tx) = ledger"
    and "length (tx_ops (signed_tx tx)) = Suc (length providers)"
    and "length (signed_ops_proofs tx) = Suc (length providers)"
    and "\<And>i. i < length providers \<Longrightarrow> tx_ops (signed_tx tx) ! Suc i
           = SDPDeclare (provider_declaration cr (ledger_hash cr ledger) (providers ! i))"
  using assms
  by (auto simp: create_genesis_tx_with_declarations_def Let_def rbind_Inr_iff from_tx_def
      dest: try_map_length split: if_splits)

end
