(* ===== verification/Durations.thy ===== *)
theory Durations
  imports F64
begin

text \<open>
  \<open>std::time::Duration\<close> as a number of nanoseconds, bounded by \<open>duration_max\<close>, with the
  conversions from and to \<open>f64\<close> seconds that the run metrics, the cooldown and the submission plan
  are computed with, and the panics of these conversions.
\<close>

type_synonym duration = nat

definition nanos_per_sec :: nat where "nanos_per_sec = 1000000000"

definition duration_max :: duration where
  "duration_max = u64_max * nanos_per_sec + (nanos_per_sec - 1)"

definition from_secs :: "nat \<Rightarrow> duration" where "from_secs s = s * nanos_per_sec"
definition from_millis :: "nat \<Rightarrow> duration" where "from_millis m = m * 1000000"
definition as_secs :: "duration \<Rightarrow> nat" where "as_secs d = d div nanos_per_sec"

definition as_secs_f64 :: "duration \<Rightarrow> f64" where
  "as_secs_f64 d =
     f64_add (f64_of_nat (d div nanos_per_sec))
             (f64_div (f64_of_nat (d mod nanos_per_sec)) (f64_of_nat nanos_per_sec))"

fun from_secs_f64 :: "f64 \<Rightarrow> duration rust" where
  "from_secs_f64 (Fin q) =
     (if q < 0 then Inl ''cannot convert float seconds to Duration: value is negative''
      else let n = nat (round_half_even (q * of_nat nanos_per_sec)) in
        if n \<le> duration_max then Inr n
        else Inl ''cannot convert float seconds to Duration: value is either too big or NaN'')"
| "from_secs_f64 NInf = Inl ''cannot convert float seconds to Duration: value is negative''"
| "from_secs_f64 PInf =
     Inl ''cannot convert float seconds to Duration: value is either too big or NaN''"
| "from_secs_f64 NaN =
     Inl ''cannot convert float seconds to Duration: value is either too big or NaN''"

definition mul_f64 :: "duration \<Rightarrow> f64 \<Rightarrow> duration rust" where
  "mul_f64 d f = from_secs_f64 (f64_mul f (as_secs_f64 d))"

text \<open>\<open>Duration * u32\<close>.\<close>

definition duration_mul :: "duration \<Rightarrow> nat \<Rightarrow> duration rust" where
  "duration_mul d k = (if d * k \<le> duration_max then Inr (d * k)
                       else Inl ''overflow when multiplying duration by scalar'')"

lemma from_secs_mono: "a \<le> b \<Longrightarrow> from_secs a \<le> from_secs b"
  by (simp add: from_secs_def)

lemma from_secs_div [simp]: "from_secs s div nanos_per_sec = s" "from_secs s mod nanos_per_sec = 0"
  by (simp_all add: from_secs_def nanos_per_sec_def)

lemma as_secs_from_secs [simp]: "as_secs (from_secs s) = s"
  by (simp add: as_secs_def)

lemma from_secs_le_max: "s \<le> u64_max \<Longrightarrow> from_secs s \<le> duration_max"
  by (simp add: from_secs_def duration_max_def nanos_per_sec_def)

lemma f64_nanos [simp]: "f64_of_nat nanos_per_sec = Fin 1000000000"
  by (simp add: f64_of_nat_small nanos_per_sec_def)

lemma f64_of_nat_0 [simp]: "f64_of_nat 0 = Fin 0"
  using f64_of_nat_small [of 0] by simp

lemma f64_of_rat_0 [simp]: "f64_of_rat 0 = Fin 0"
  using f64_of_rat_finite [of 0] by simp

lemma as_secs_f64_whole: "s < 2 ^ 53 \<Longrightarrow> as_secs_f64 (from_secs s) = Fin (of_nat s)"
  using f64_of_nat_small [of s] f64_of_rat_finite [of "of_nat s"] rnd_nat_exact [of s]
    small_lt [of s]
  by (simp add: as_secs_f64_def)

text \<open>Scaling a whole number of seconds by a coefficient in \<open>[0, 1]\<close> neither panics nor grows it.\<close>

lemma mul_f64_unit:
  assumes s: "s < 2 ^ 53" and x: "0 \<le> x" "x \<le> 1"
  shows "\<exists>d \<le> from_secs s. mul_f64 (from_secs s) (Fin x) = Inr d"
proof -
  let ?q = "rnd (x * of_nat s)"
  have xs: "0 \<le> x * of_nat s" "x * of_nat s \<le> of_nat s"
    using x by (auto intro: mult_left_le_one_le)
  then have "x * of_nat s < 2 ^ 1000" using small_lt [of s] s by simp
  then have "f64_mul (Fin x) (as_secs_f64 (from_secs s)) = Fin ?q"
    using s xs by (simp add: as_secs_f64_whole f64_of_rat_finite)
  moreover have q: "0 \<le> ?q" "?q \<le> of_nat s" using xs s by (auto intro: rnd_nonneg rnd_le_nat)
  moreover have "round_half_even (?q * of_nat nanos_per_sec) \<le> int (from_secs s)"
    using q(2) by (intro rhe_ge) (simp add: from_secs_def nanos_per_sec_def)
  then have "nat (round_half_even (?q * of_nat nanos_per_sec)) \<le> from_secs s" by simp
  moreover have "from_secs s \<le> duration_max"
    using s by (intro from_secs_le_max) (simp add: u64_max_def)
  ultimately show ?thesis by (auto simp: mul_f64_def Let_def)
qed

section \<open>Required shares of a total\<close>

text \<open>
  The ratio literals of the inclusion expectations, \<open>0.8\<close> and \<open>0.5\<close>, as binary64 values. The
  literal \<open>0.8\<close> is not the rational 4/5; the lemmas show that the source's rounding up of the
  rounded product still computes the exact ceiling of 4/5 of the total.
\<close>

definition ratio_0_8 :: f64 where "ratio_0_8 = f64_of_rat (4 / 5)"
definition ratio_0_5 :: f64 where "ratio_0_5 = f64_of_rat (1 / 2)"

lemma ratio_0_5_exact: "ratio_0_5 = Fin (1 / 2)"
proof -
  have "rnd (1 / 2) = 1 / 2" by (rule rnd_exact [where k = 1 and j = "- 1"]) (auto simp: power_int_minus)
  moreover have "(1 / 2 :: rat) < 2 ^ 1000" by simp
  ultimately show ?thesis using f64_of_rat_finite [of "1 / 2"] by (simp add: ratio_0_5_def)
qed

lemma ratio_0_8_exact: "ratio_0_8 = Fin (4 / 5 + 1 / (5 * 2 ^ 52))"
proof -
  have e: "exponent_of (4 / 5) = - 53"
    using ilog2_eqI [of "- 1" "4 / 5"] by (simp add: exponent_of_def power_int_minus)
  have "rnd (4 / 5) = of_int 7205759403792794 * 2 powi (- 53)"
    by (rule rnd_near) (simp_all add: e power_int_minus)
  moreover have "f64_of_rat (4 / 5) = Fin (rnd (4 / 5))" by (rule f64_of_rat_finite) simp_all
  ultimately show ?thesis by (simp add: ratio_0_8_def power_int_minus)
qed

text \<open>The product with a multiple of five rounds back to the exact share.\<close>

lemma rnd_share_exact:
  assumes k: "0 < k" "k < 2 ^ 50"
  shows "rnd (of_nat (5 * k) * (4 / 5 + 1 / (5 * 2 ^ 52))) = of_nat (4 * k)"
proof -
  let ?q = "of_nat (5 * k) * (4 / 5 + 1 / (5 * 2 ^ 52)) :: rat"
  let ?n = "of_nat (4 * k) :: rat"
  define e where "e = ilog2 ?n"
  have n: "0 < ?n" using k by simp
  have q: "?q = ?n + of_nat k / 2 ^ 52" by (simp add: field_simps)
  have b: "2 powi e \<le> ?n" "?n < 2 powi (e + 1)" using ilog2_bounds [OF n] by (simp_all add: e_def)
  have "of_nat k * 2 < (2::rat) powi e" using b(2) by (simp add: power_int_add)
  then have err: "of_nat k / 2 ^ 52 < (2::rat) powi (e - 52) / 2"
    by (simp add: power_int_diff field_simps)
  have e2: "2 \<le> e"
  proof -
    have "(2::rat) powi 2 \<le> ?n" using k(1) by simp
    then have "(2::rat) powi 2 < 2 powi (e + 1)" using b(2) by (rule le_less_trans)
    then have "2 < e + 1" by (simp only: powi_less_iff)
    then show ?thesis by simp
  qed
  obtain m where m: "?n = of_int m * 2 powi (e - 52)"
  proof -
    have "e - 52 \<le> 0"
    proof -
      have "4 * k < 2 ^ 52" using k(2) by simp
      then have "(of_nat (4 * k) :: rat) < 2 ^ 52" by (rule rat_less_pow2)
      then have "(2::rat) powi e < 2 powi 52" using b(1) by simp
      then have "e < 52" by (simp only: powi_less_iff)
      then show ?thesis by simp
    qed
    then have "(1::rat) = of_int (2 ^ nat (52 - e)) * 2 powi (e - 52)"
      using powi_split [of "e - 52" 0] by simp
    then have "?n = of_int (int (4 * k) * 2 ^ nat (52 - e)) * 2 powi (e - 52)"
      by (metis (no_types, lifting) mult.assoc mult.right_neutral of_int_mult of_int_of_nat_eq)
    then show ?thesis by (rule that)
  qed
  have "ilog2 ?q = e"
  proof (rule ilog2_eqI)
    show "2 powi e \<le> ?q" using q b(1) by simp
    have "?n + 2 powi (e - 52) \<le> 2 powi (e + 1)"
    proof -
      let ?u = "(2::rat) powi (e - 52)"
      have top: "(2::rat) powi (e + 1) = of_int (2 ^ 53) * ?u" using powi_split [of "e - 52" "e + 1"] by simp
      have "of_int m * ?u < of_int (2 ^ 53) * ?u" using b(2) by (simp only: m top)
      then have "m < 2 ^ 53" by (simp only: mult_less_cancel_right_pos zero_less_power_int zero_less_numeral of_int_less_iff)
      then have "of_int (m + 1) * ?u \<le> of_int (2 ^ 53) * ?u"
        by (intro mult_right_mono) (simp_all only: of_int_le_iff, simp_all)
      then show ?thesis using m top by (simp add: algebra_simps)
    qed
    moreover have "(0::rat) < 2 powi (e - 52)" by simp
    ultimately show "?q < 2 powi (e + 1)" using q err by linarith
  qed
  then have ex: "exponent_of ?q = e - 52" using e2 q n by (simp add: exponent_of_def)
  have "rnd ?q = of_int m * 2 powi (e - 52)"
    using q n err m ex by (intro rnd_near) auto
  with m show ?thesis by simp
qed


definition required_share :: "f64 \<Rightarrow> nat \<Rightarrow> nat" where
  "required_share ratio n_total = f64_to_u64 (f64_ceil (f64_mul (f64_of_nat n_total) ratio))"

lemma required_share_form:
  assumes "n_total < 2 ^ 50" "0 \<le> r" "r \<le> 1"
  shows "required_share (Fin r) n_total = min (nat \<lceil>rnd (of_nat n_total * r)\<rceil>) u64_max"
proof -
  have b: "0 \<le> of_nat n_total * r" "of_nat n_total * r \<le> of_nat n_total"
    using assms by (auto intro: mult_right_le_one_le)
  have "f64_of_nat n_total = Fin (of_nat n_total)" using assms by (intro f64_of_nat_small) simp
  moreover have "of_nat n_total * r < 2 ^ 1000" using b(2) small_lt [of n_total] assms(1) by simp
  ultimately show ?thesis using b(1) rnd_nonneg [of "of_nat n_total * r"]
    by (simp add: required_share_def f64_of_rat_finite)
qed

lemma required_share_half:
  assumes "n_total < 2 ^ 50" shows "required_share ratio_0_5 n_total = (n_total + 1) div 2"
proof -
  have "n_total < 2 ^ 53" using assms by simp
  then have "int n_total < 2 ^ 53" by (rule int_less_pow2)
  then have "rnd (of_nat n_total * (1 / 2)) = of_nat n_total * (1 / 2)"
    by (intro rnd_exact [where k = "int n_total" and j = "- 1"]) (auto simp: power_int_minus)
  moreover have "nat \<lceil>(of_nat n_total * (1 / 2) :: rat)\<rceil> = (n_total + 1) div 2"
  proof -
    have "\<lceil>(of_nat n_total / 2 :: rat)\<rceil> = int ((n_total + 1) div 2)"
      by (rule ceiling_unique) (cases "even n_total"; auto elim!: evenE oddE simp: field_simps)+
    then show ?thesis by simp
  qed
  moreover have "(n_total + 1) div 2 \<le> u64_max" using assms by (simp add: u64_max_def)
  ultimately show ?thesis
    using required_share_form [of n_total "1 / 2"] assms by (simp only: ratio_0_5_exact)
qed

lemma required_share_four_fifths:
  assumes t: "n_total < 2 ^ 50" shows "required_share ratio_0_8 n_total = (4 * n_total + 4) div 5"
proof -
  let ?c = "4 / 5 + 1 / (5 * 2 ^ 52) :: rat"
  let ?q = "of_nat n_total * ?c"
  define k r where "k = n_total div 5" and "r = n_total mod 5"
  have tot: "n_total = 5 * k + r" and r: "r < 5" by (simp_all add: k_def r_def)
  have tr: "(of_nat n_total :: rat) < 2 ^ 50" using t by (rule rat_less_pow2)
  have ceil: "\<lceil>rnd ?q\<rceil> = int ((4 * n_total + 4) div 5)"
  proof (cases "r = 0")
    case True
    then have d: "(4 * n_total + 4) div 5 = 4 * k" using tot by simp
    show ?thesis
    proof (cases "k = 0")
      case False
      have "k < 2 ^ 50" using t by (simp add: k_def)
      then have "rnd ?q = of_nat (4 * k)" using rnd_share_exact [of k] False True tot by simp
      then show ?thesis by (simp only: d ceiling_of_nat)
    qed (use True tot in simp)
  next
    case False
    define n where "n = 4 * k + r"
    have "4 * n_total + 4 = (4 - r) + 5 * n" using tot r unfolding n_def by simp
    then have d: "(4 * n_total + 4) div 5 = n" using r False by simp
    have q: "?q = of_nat n - of_nat r / 5 + of_nat n_total / (5 * 2 ^ 52)"
      by (simp add: n_def tot field_simps)
    have r5: "1 / 5 \<le> (of_nat r / 5 :: rat)" "(of_nat r / 5 :: rat) \<le> 4 / 5" using False r by auto
    have "of_nat n_total / (5 * 2 ^ 52) < (1 / 20 :: rat)" using tr by simp
    then have up: "?q \<le> of_nat n" and lo: "of_nat (8 * (n - 1) + 1) / 8 \<le> ?q"
      using q r5 False by (auto simp: n_def of_nat_diff)
    have n53: "8 * n + 1 < 2 ^ 53" using t tot r by (simp add: n_def)
    have "0 \<le> ?q" by simp
    then have "rnd ?q \<le> of_nat n" using up n53 by (intro rnd_le_nat) auto
    moreover have "of_nat (8 * (n - 1) + 1) / 8 \<le> rnd ?q" using lo n53 by (intro rnd_ge_eighths) auto
    then have "of_nat n - 1 < rnd ?q" using False by (auto simp: n_def of_nat_diff)
    ultimately have "\<lceil>rnd ?q\<rceil> = int n" by (intro ceiling_unique) auto
    with d show ?thesis by simp
  qed
  have "(4 * n_total + 4) div 5 \<le> u64_max" using t by (simp add: u64_max_def)
  moreover have "?c \<le> 1" by simp
  ultimately show ?thesis using required_share_form [OF t, of ?c] ceil
    by (simp only: ratio_0_8_exact) simp
qed

end
