(* ===== verification/Da_Membership.thy ===== *)
theory Da_Membership
  imports Durations Network_Layout Wallet
begin

text \<open>
  The data-availability parameters and configurations of \<open>configs/src/topology/configs/da.rs\<close>:
  the defaults, and \<open>create_da_configs\<close>, whose core is the assignment of peers to subnetworks by a
  cycling iterator over the sorted peer ids.

  Outside the repository, and parameters here: the peer id of a node key (\<open>peer_of\<close>), the BLS
  verifier key in hex (\<open>verifier_key\<close>), the ed25519 public key bytes the ZK key is built from
  (\<open>ed_public\<close>), the subnetworks of a peer under an assignment (\<open>subnets_of\<close>, the method
  \<open>membership\<close> of \<open>NomosDaMembership\<close>) and the blob directory name (\<open>blob_dir\<close>). Keys made from a
  node id by \<open>from_bytes\<close> are represented by that id.
\<close>

record da_policy =
  min_dispersal_peers :: nat
  min_replication_peers :: nat
  max_dispersal_failures :: nat
  max_sampling_failures :: nat
  max_replication_failures :: nat
  malicious_threshold :: nat

record replication_config =
  seen_message_cache_size :: nat
  seen_message_ttl :: duration

record da_params =
  dp_subnetwork_size :: nat
  dp_dispersal_factor :: nat
  dp_num_samples :: nat
  dp_num_subnets :: nat
  dp_old_blobs_check_interval :: duration
  dp_blobs_validity_duration :: duration
  dp_global_params_path :: string
  dp_policy_settings :: da_policy
  dp_failure_time_window :: duration
  dp_balancer_interval :: duration
  dp_redial_cooldown :: duration
  dp_replication_settings :: replication_config
  dp_subnets_refresh_interval :: duration
  dp_retry_shares_limit :: nat
  dp_retry_commitments_limit :: nat

definition da_params_default :: "string \<Rightarrow> da_params" where
  "da_params_default global_params_path = \<lparr>
     dp_subnetwork_size = 2, dp_dispersal_factor = 1, dp_num_samples = 1, dp_num_subnets = 2,
     dp_old_blobs_check_interval = from_secs 5, dp_blobs_validity_duration = from_secs 60,
     dp_global_params_path = global_params_path,
     dp_policy_settings = \<lparr>min_dispersal_peers = 1, min_replication_peers = 1,
       max_dispersal_failures = 0, max_sampling_failures = 0, max_replication_failures = 0,
       malicious_threshold = 0\<rparr>,
     dp_failure_time_window = from_secs 5, dp_balancer_interval = from_secs 1,
     dp_redial_cooldown = 0,
     dp_replication_settings = \<lparr>seen_message_cache_size = 1000, seen_message_ttl = from_secs 3600\<rparr>,
     dp_subnets_refresh_interval = from_secs 30, dp_retry_shares_limit = 1,
     dp_retry_commitments_limit = 1\<rparr>"

section \<open>Subnetwork assignations\<close>

definition effective_subnetwork_size :: "da_params \<Rightarrow> nat \<Rightarrow> nat" where
  "effective_subnetwork_size da n_ids = max (dp_subnetwork_size da) (max n_ids 1)"

text \<open>\<open>u16::try_from(id).unwrap_or_default()\<close>.\<close>

definition u16_key :: "nat \<Rightarrow> nat" where
  "u16_key i = (if i \<le> u16_max then i else 0)"

text \<open>\<open>k\<close> draws from the cycling iterator, whose position \<open>pos\<close> is kept across subnetworks.\<close>

fun cycle_members :: "'p list \<Rightarrow> nat \<Rightarrow> nat \<Rightarrow> 'p set \<Rightarrow> 'p set" where
  "cycle_members peers pos 0 members = members"
| "cycle_members peers pos (Suc k) members =
     cycle_members peers (Suc pos) k (insert (peers ! (pos mod length peers)) members)"

fun assign_loop :: "'p list \<Rightarrow> nat \<Rightarrow> nat \<Rightarrow> nat \<Rightarrow> nat \<Rightarrow> (nat \<rightharpoonup> 'p set) \<Rightarrow> (nat \<rightharpoonup> 'p set)" where
  "assign_loop peers dispersal pos i 0 m = m"
| "assign_loop peers dispersal pos i (Suc k) m =
     assign_loop peers dispersal (pos + dispersal) (Suc i) k
       (m(u16_key i \<mapsto> cycle_members peers pos dispersal {}))"

fun empty_loop :: "nat \<Rightarrow> nat \<Rightarrow> (nat \<rightharpoonup> 'p set) \<Rightarrow> (nat \<rightharpoonup> 'p set)" where
  "empty_loop i 0 m = m"
| "empty_loop i (Suc k) m = empty_loop (Suc i) k (m(u16_key i \<mapsto> {}))"

definition da_assignations :: "da_params \<Rightarrow> 'p::linorder list \<Rightarrow> (nat \<rightharpoonup> 'p set)" where
  "da_assignations da peer_ids =
     (let size = effective_subnetwork_size da (length peer_ids) in
      if peer_ids = [] then empty_loop 0 size Map.empty
      else assign_loop (sort peer_ids) (max (dp_dispersal_factor da) 1) 0 0 size Map.empty)"

section \<open>Node configurations\<close>

record 'p general_da_config =
  dc_node_key :: node_id
  dc_signer :: node_id
  dc_peer_id :: 'p
  dc_membership :: "nat \<rightharpoonup> 'p set"
  dc_listening_address :: multiaddr
  dc_blob_storage_directory :: string
  dc_global_params_path :: string
  dc_verifier_sk :: string
  dc_verifier_index :: "nat set"
  dc_num_samples :: nat
  dc_num_subnets :: nat
  dc_old_blobs_check_interval :: duration
  dc_blobs_validity_duration :: duration
  dc_policy_settings :: da_policy
  dc_failure_time_window :: duration
  dc_balancer_interval :: duration
  dc_redial_cooldown :: duration
  dc_replication_settings :: replication_config
  dc_subnets_refresh_interval :: duration
  dc_retry_shares_limit :: nat
  dc_retry_commitments_limit :: nat
  dc_secret_zk_key :: zk_key

record 'p da_env =
  peer_of :: "node_id \<Rightarrow> 'p"
  verifier_key :: "node_id \<Rightarrow> string"
  ed_public :: "node_id \<Rightarrow> byte list"
  subnets_of :: "(nat \<rightharpoonup> 'p set) \<Rightarrow> 'p \<Rightarrow> nat set"
  blob_dir :: "nat \<Rightarrow> string"

text \<open>\<open>ports[i]\<close> is read for every id, so too few ports panic.\<close>

definition create_da_configs ::
  "'p::linorder da_env \<Rightarrow> node_id list \<Rightarrow> da_params \<Rightarrow> nat list \<Rightarrow> 'p general_da_config list rust" where
  "create_da_configs env ids da ports =
     (if length ports < length ids then Inl ''index out of bounds''
      else let peer_ids = map (peer_of env) ids;
               assignations = da_assignations da peer_ids
           in Inr (map (\<lambda>i. \<lparr>
                dc_node_key = ids ! i, dc_signer = ids ! i, dc_peer_id = peer_ids ! i,
                dc_membership = assignations,
                dc_listening_address = quic_addr ''127.0.0.1'' (ports ! i),
                dc_blob_storage_directory = blob_dir env i,
                dc_global_params_path = dp_global_params_path da,
                dc_verifier_sk = verifier_key env (ids ! i),
                dc_verifier_index = subnets_of env assignations (peer_ids ! i),
                dc_num_samples = dp_num_samples da, dc_num_subnets = dp_num_subnets da,
                dc_old_blobs_check_interval = dp_old_blobs_check_interval da,
                dc_blobs_validity_duration = dp_blobs_validity_duration da,
                dc_policy_settings = dp_policy_settings da,
                dc_failure_time_window = dp_failure_time_window da,
                dc_balancer_interval = dp_balancer_interval da,
                dc_redial_cooldown = dp_redial_cooldown da,
                dc_replication_settings = dp_replication_settings da,
                dc_subnets_refresh_interval = dp_subnets_refresh_interval da,
                dc_retry_shares_limit = dp_retry_shares_limit da,
                dc_retry_commitments_limit = dp_retry_commitments_limit da,
                dc_secret_zk_key = ZkKey (from_bytes_le (ed_public env (ids ! i)))\<rparr>)
              [0..<length ids]))"

section \<open>Properties of the assignment\<close>

lemma cycle_members_eq:
  "cycle_members peers pos k ms = ms \<union> (\<lambda>j. peers ! ((pos + j) mod length peers)) ` {0..<k}"
proof (induction k arbitrary: pos ms)
  case (Suc k)
  have "(\<lambda>j. peers ! ((pos + j) mod length peers)) ` {0..<Suc k} =
    insert (peers ! (pos mod length peers))
      ((\<lambda>j. peers ! ((Suc pos + j) mod length peers)) ` {0..<k})"
    by (simp only: atLeast0_lessThan_Suc_eq_insert_0 image_insert image_image) simp
  then show ?case by (simp only: cycle_members.simps Suc) simp
qed simp

lemma assign_loop_lookup:
  assumes "i + k \<le> Suc u16_max"
  shows "assign_loop peers d pos i k m s =
    (if i \<le> s \<and> s < i + k then Some (cycle_members peers (pos + d * (s - i)) d {}) else m s)"
  using assms
proof (induction k arbitrary: pos i m)
  case (Suc k)
  have "assign_loop peers d pos i (Suc k) m s
      = (if Suc i \<le> s \<and> s < Suc i + k then Some (cycle_members peers (pos + d + d * (s - Suc i)) d {})
         else (m(i \<mapsto> cycle_members peers pos d {})) s)"
    using Suc by (simp add: u16_key_def)
  moreover have "Suc i \<le> s \<Longrightarrow> pos + d + d * (s - Suc i) = pos + d * (s - i)"
    by (metis Suc_diff_Suc add.assoc less_eq_Suc_le mult_Suc_right)
  ultimately show ?case by (auto simp: add.assoc)
qed auto

lemma da_assignations_lookup:
  assumes "peer_ids \<noteq> []" "effective_subnetwork_size da (length peer_ids) \<le> Suc u16_max"
  shows "da_assignations da peer_ids s =
    (if s < effective_subnetwork_size da (length peer_ids)
     then Some ((\<lambda>j. sort peer_ids ! ((max (dp_dispersal_factor da) 1 * s + j) mod length peer_ids))
                 ` {0..<max (dp_dispersal_factor da) 1})
     else None)"
  using assms by (simp add: da_assignations_def Let_def assign_loop_lookup cycle_members_eq)

lemma mod_window_eq:
  assumes "(b + x) mod n = (b + y) mod n" "x < n" "y < (n::nat)" shows "x = y"
  using assms
proof (induction x y rule: linorder_wlog)
  case (le x y)
  then have "n dvd y - x" using mod_eq_dvd_iff_nat [of "b + x" "b + y" n] by simp
  then show ?case using le by (metis diff_is_0_eq dvd_imp_le gr0I le_antisym less_imp_diff_less not_le)
next
  case (sym x y)
  then show ?case by metis
qed

lemma card_window:
  assumes "distinct xs" "xs \<noteq> []" "d \<le> length xs"
  shows "card ((\<lambda>j. xs ! ((b + j) mod length xs)) ` {0..<d}) = d"
proof -
  have "inj_on (\<lambda>j. xs ! ((b + j) mod length xs)) {0..<d}"
  proof (rule inj_onI)
    fix x y assume "x \<in> {0..<d}" "y \<in> {0..<d}"
      and "xs ! ((b + x) mod length xs) = xs ! ((b + y) mod length xs)"
    with assms show "x = y"
      by (intro mod_window_eq [of b x "length xs" y]) (auto simp: nth_eq_iff_index_eq)
  qed
  then show ?thesis by (simp add: card_image)
qed

text \<open>A window as long as the list covers it.\<close>

lemma window_covers:
  assumes "p \<in> set xs" "length xs \<le> d"
  shows "\<exists>j < d. xs ! ((b + j) mod length xs) = p"
proof -
  let ?n = "length xs"
  obtain i where i: "i < ?n" "xs ! i = p" using assms(1) by (auto simp: in_set_conv_nth)
  let ?j = "(i + (?n - b mod ?n)) mod ?n"
  have n: "0 < ?n" using i(1) by linarith
  have "(b + ?j) mod ?n = (b mod ?n + (i + (?n - b mod ?n))) mod ?n" by (simp add: mod_simps)
  also have "b mod ?n + (i + (?n - b mod ?n)) = i + ?n"
    using mod_less_divisor [OF n, of b] by linarith
  finally have "(b + ?j) mod ?n = i" using i by simp
  moreover have "?j < d" using n assms(2) by (meson less_le_trans mod_less_divisor)
  ultimately show ?thesis using i(2) by (intro exI [of _ ?j]) simp
qed

lemma slot_split: "0 < d \<Longrightarrow> (t::nat) < s * d \<Longrightarrow> \<exists>q r. t = d * q + r \<and> q < s \<and> r < d"
  by (rule exI [of _ "t div d"], rule exI [of _ "t mod d"])
     (auto simp: less_mult_imp_div_less)

lemma da_assignations_cover:
  assumes ne: "peer_ids \<noteq> []" and size: "effective_subnetwork_size da (length peer_ids) \<le> Suc u16_max"
    and p: "p \<in> set peer_ids"
  shows "\<exists>s ms. da_assignations da peer_ids s = Some ms \<and> p \<in> ms"
proof -
  let ?d = "max (dp_dispersal_factor da) 1" and ?S = "effective_subnetwork_size da (length peer_ids)"
  have n: "length peer_ids \<le> ?S" by (simp add: effective_subnetwork_size_def)
  have "length (sort peer_ids) \<le> ?S * ?d" using n by (simp add: order.trans)
  then obtain t where t: "t < ?S * ?d" "sort peer_ids ! ((0 + t) mod length (sort peer_ids)) = p"
    using window_covers [of p "sort peer_ids" "?S * ?d" 0] p by auto
  obtain q r where q: "t = ?d * q + r" "q < ?S" "r < ?d" 
    using slot_split [OF _ t(1)] by (auto simp: less_max_iff_disj)
  have "p \<in> (\<lambda>j. sort peer_ids ! ((?d * q + j) mod length peer_ids)) ` {0..<?d}"
    using t(2) q by (intro rev_image_eqI [of r]) auto
  then show ?thesis using da_assignations_lookup [OF ne size, of q] q(2) by auto
qed

text \<open>
  C4. The generated DA membership is usable by every node. For distinct peers and at most 65536
  subnetworks: exactly the subnetworks below the effective size are assigned; each has as many
  members as the dispersal factor asks for (all peers when there are fewer, at least one), all of
  them real peers; and every peer is a member of at least one subnetwork.
\<close>

theorem da_membership_complete:
  fixes peer_ids :: "'p::linorder list"
  assumes "peer_ids \<noteq> []" and "distinct peer_ids"
    and "effective_subnetwork_size da (length peer_ids) \<le> Suc u16_max"
  shows "dom (da_assignations da peer_ids) = {0..<effective_subnetwork_size da (length peer_ids)}
     \<and> (\<forall>s ms. da_assignations da peer_ids s = Some ms \<longrightarrow> ms \<subseteq> set peer_ids
           \<and> card ms = min (max (dp_dispersal_factor da) 1) (length peer_ids))
     \<and> (\<forall>p \<in> set peer_ids. \<exists>s ms. da_assignations da peer_ids s = Some ms \<and> p \<in> ms)"
proof (intro conjI allI impI ballI)
  show "dom (da_assignations da peer_ids) = {0..<effective_subnetwork_size da (length peer_ids)}"
    by (auto simp: dom_def da_assignations_lookup [OF assms(1,3)])
next
  fix s ms assume "da_assignations da peer_ids s = Some ms"
  then have ms: "ms = (\<lambda>j. sort peer_ids ! ((max (dp_dispersal_factor da) 1 * s + j) mod length (sort peer_ids)))
      ` {0..<max (dp_dispersal_factor da) 1}"
    by (simp add: da_assignations_lookup [OF assms(1,3)] split: if_splits)
  have len: "0 < length (sort peer_ids)" using assms(1) by simp
  have sub: "ms \<subseteq> set (sort peer_ids)" unfolding ms using len by (intro image_subsetI nth_mem mod_less_divisor)
  then show "ms \<subseteq> set peer_ids" by simp
  show "card ms = min (max (dp_dispersal_factor da) 1) (length peer_ids)"
  proof (cases "max (dp_dispersal_factor da) 1 \<le> length peer_ids")
    case True
    have "sort peer_ids \<noteq> []" using assms(1) by (metis length_0_conv length_sort)
    then have "card ms = max (dp_dispersal_factor da) 1"
      unfolding ms using True assms(2) by (intro card_window) auto
    with True show ?thesis by simp
  next
    case False
    then have d: "length (sort peer_ids) \<le> max (dp_dispersal_factor da) 1" by (metis length_sort linear)
    have "set (sort peer_ids) \<subseteq> ms"
    proof
      fix p assume "p \<in> set (sort peer_ids)"
      from window_covers [OF this d, of "max (dp_dispersal_factor da) 1 * s"]
      show "p \<in> ms" unfolding ms image_iff by (metis atLeastLessThan_iff zero_le)
    qed
    with sub have "ms = set peer_ids" by simp
    then have "card ms = length peer_ids" using assms(2) by (simp add: distinct_card)
    moreover have "min (max (dp_dispersal_factor da) 1) (length peer_ids) = length peer_ids"
      using d by (metis length_sort min_absorb2)
    ultimately show ?thesis by simp
  qed
next
  fix p assume "p \<in> set peer_ids"
  then show "\<exists>s ms. da_assignations da peer_ids s = Some ms \<and> p \<in> ms"
    by (rule da_assignations_cover [OF assms(1,3)])
qed

theorem da_membership_complete_witness:
  "dom (da_assignations (da_params_default ''kzg'') [3, 1, 2 :: nat]) = {0..<3}"
proof -
  have size: "effective_subnetwork_size (da_params_default ''kzg'') (length [3, 1, 2 :: nat]) = 3"
    by (simp add: effective_subnetwork_size_def da_params_default_def)
  have "dom (da_assignations (da_params_default ''kzg'') [3, 1, 2 :: nat])
      = {0..<effective_subnetwork_size (da_params_default ''kzg'') (length [3, 1, 2 :: nat])}"
    by (rule da_membership_complete [THEN conjunct1]) (simp_all only: size, simp_all add: u16_max_def)
  then show ?thesis by (simp only: size)
qed

end
