(* ===== verification/Tracing_Config.thy ===== *)
theory Tracing_Config
  imports Prelude
begin

text \<open>
  Process environment and tracing settings: \<open>configs/src/topology/configs/tracing.rs\<close> and
  \<open>tools/cfgsync/src/config/tracing.rs\<close>. The environment is a partial function from variable names
  to values; URL and level parsing and the default settings belong to other crates and are
  parameters.
\<close>

type_synonym environment = "string \<rightharpoonup> string"

datatype logger_layer = LoggerLoki string string | LoggerFile string "string option" | LoggerOther
datatype tracing_layer = TracingOtlp string string | TracingNone
datatype metrics_layer = MetricsOtlp string string | MetricsNone

record tracing_settings =
  ts_logger :: logger_layer
  ts_tracing :: tracing_layer
  ts_filters :: "(string \<times> string) list option"
  ts_metrics :: metrics_layer
  ts_level :: string

record tracing_env =
  parse_endpoint :: "string \<Rightarrow> string option"
  parse_level :: "string \<Rightarrow> string option"
  default_settings :: tracing_settings

definition otlp_tracing_endpoint :: "environment \<Rightarrow> string option" where
  "otlp_tracing_endpoint env = env ''NOMOS_OTLP_ENDPOINT''"

definition otlp_metrics_endpoint :: "environment \<Rightarrow> string option" where
  "otlp_metrics_endpoint env = env ''NOMOS_OTLP_METRICS_ENDPOINT''"

section \<open>The filter override\<close>

fun split_on :: "char \<Rightarrow> string \<Rightarrow> string list" where
  "split_on c [] = [[]]"
| "split_on c (x # xs) =
     (if x = c then [] # split_on c xs
      else case split_on c xs of [] \<Rightarrow> [[x]] | s # ss \<Rightarrow> (x # s) # ss)"

text \<open>\<open>splitn(2, '=')\<close>: the part before the first separator and, if there is one, the rest.\<close>

fun splitn2 :: "char \<Rightarrow> string \<Rightarrow> string \<times> string option" where
  "splitn2 c [] = ([], None)"
| "splitn2 c (x # xs) = (if x = c then ([], Some xs) else case splitn2 c xs of (a, b) \<Rightarrow> (x # a, b))"

definition is_space :: "char \<Rightarrow> bool" where
  "is_space c \<longleftrightarrow> c \<in> {CHR '' '', CHR 0x09, CHR 0x0A, CHR 0x0B, CHR 0x0C, CHR 0x0D}"

definition trim :: "string \<Rightarrow> string" where
  "trim s = rev (dropWhile is_space (rev (dropWhile is_space s)))"

definition filter_pair :: "string \<Rightarrow> (string \<times> string) option" where
  "filter_pair pair =
     (case splitn2 (CHR ''='') pair of
        (target, None) \<Rightarrow> None
      | (target, Some level) \<Rightarrow>
          if trim target \<noteq> [] \<and> trim level \<noteq> [] then Some (trim target, trim level) else None)"

text \<open>The filters are collected into a map, so a later pair replaces an earlier one.\<close>

definition file_filter_override :: "environment \<Rightarrow> (string \<times> string) list option" where
  "file_filter_override env =
     map_option (\<lambda>raw. filter_map filter_pair (split_on (CHR '','') raw)) (env ''NOMOS_LOG_FILTER'')"

section \<open>Per-node settings\<close>

definition local_debug_tracing :: "tracing_env \<Rightarrow> environment \<Rightarrow> nat \<Rightarrow> tracing_settings" where
  "local_debug_tracing te env i =
     (let host_identifier = ''node-'' @ show_nat i in
      \<lparr>ts_logger = LoggerLoki ''http://localhost:3100'' host_identifier,
       ts_tracing = (case Option.bind (otlp_tracing_endpoint env) (parse_endpoint te) of
           Some endpoint \<Rightarrow> TracingOtlp endpoint host_identifier | None \<Rightarrow> TracingNone),
       ts_filters = Some (case file_filter_override env of
           Some fs \<Rightarrow> fs | None \<Rightarrow> [(''nomos'', ''debug'')]),
       ts_metrics = (case Option.bind (otlp_metrics_endpoint env) (parse_endpoint te) of
           Some endpoint \<Rightarrow> MetricsOtlp endpoint host_identifier | None \<Rightarrow> MetricsNone),
       ts_level = ''DEBUG''\<rparr>)"

definition file_log_level :: "tracing_env \<Rightarrow> environment \<Rightarrow> string" where
  "file_log_level te env =
     (case Option.bind (env ''NOMOS_LOG_LEVEL'') (parse_level te) of Some l \<Rightarrow> l | None \<Rightarrow> ''INFO'')"

definition apply_file_logger_override ::
  "tracing_env \<Rightarrow> environment \<Rightarrow> tracing_settings \<Rightarrow> nat \<Rightarrow> tracing_settings" where
  "apply_file_logger_override te env cfg node_index =
     (case env ''NOMOS_LOG_DIR'' of
        Some dir \<Rightarrow> cfg\<lparr>ts_logger := LoggerFile dir (Some (''nomos-node-'' @ show_nat node_index)),
                       ts_level := file_log_level te env\<rparr>
      | None \<Rightarrow> cfg)"

definition maybe_disable_otlp_layers :: "environment \<Rightarrow> tracing_settings \<Rightarrow> tracing_settings" where
  "maybe_disable_otlp_layers env cfg =
     (let cfg1 = (if otlp_tracing_endpoint env = None then cfg\<lparr>ts_tracing := TracingNone\<rparr> else cfg)
      in if otlp_metrics_endpoint env = None then cfg1\<lparr>ts_metrics := MetricsNone\<rparr> else cfg1)"

definition lower_char :: "char \<Rightarrow> char" where
  "lower_char c = (let v = of_char c :: nat in if 65 \<le> v \<and> v \<le> 90 then char_of (v + 32) else c)"

definition is_debug_tracing :: "environment \<Rightarrow> bool" where
  "is_debug_tracing env \<longleftrightarrow>
     (case env ''NOMOS_TESTS_TRACING'' of Some v \<Rightarrow> map lower_char v = ''true'' | None \<Rightarrow> False)"

definition create_tracing_configs :: "tracing_env \<Rightarrow> environment \<Rightarrow> nat \<Rightarrow> tracing_settings list" where
  "create_tracing_configs te env n = map (\<lambda>i.
     maybe_disable_otlp_layers env (apply_file_logger_override te env
       (if is_debug_tracing env then local_debug_tracing te env i else default_settings te) i)) [0..<n]"

text \<open>The identifier the cfgsync server stamps on the settings of a host.\<close>

definition update_tracing_identifier :: "tracing_settings \<Rightarrow> string \<Rightarrow> tracing_settings" where
  "update_tracing_identifier s identifier = s\<lparr>
     ts_logger := (case ts_logger s of LoggerLoki e _ \<Rightarrow> LoggerLoki e identifier | other \<Rightarrow> other),
     ts_tracing := (case ts_tracing s of TracingOtlp e _ \<Rightarrow> TracingOtlp e identifier | TracingNone \<Rightarrow> TracingNone),
     ts_metrics := (case ts_metrics s of MetricsOtlp e _ \<Rightarrow> MetricsOtlp e identifier | MetricsNone \<Rightarrow> MetricsNone)\<rparr>"

section \<open>Properties\<close>

lemma split_on_nonempty [simp]: "split_on c s \<noteq> []"
  by (induction s) (auto split: list.splits)

lemma splitn2_Some: "splitn2 c s = (a, Some b) \<Longrightarrow> s = a @ c # b \<and> c \<notin> set a"
  by (induction s arbitrary: a) (auto split: if_splits prod.splits)

lemma split_on_no_sep: "s \<in> set (split_on c xs) \<Longrightarrow> c \<notin> set s"
proof (induction xs arbitrary: s)
  case (Cons x xs)
  then show ?case by (cases "split_on c xs") (auto split: if_splits)
qed simp

lemma join_split: "concat (map (\<lambda>s. c # s) (split_on c xs)) = c # xs"
proof (induction xs)
  case (Cons x xs)
  then show ?case by (cases "split_on c xs") auto
qed simp

text \<open>
  Every filter taken from \<open>NOMOS_LOG_FILTER\<close> comes from one comma-separated entry
  \<open>target=level\<close> of the variable, has a non-empty target and level with no surrounding blanks, and
  the target contains no equals sign.
\<close>

theorem log_filter_entries:
  assumes "file_filter_override env = Some fs" and "(t, l) \<in> set fs"
  shows "\<exists>raw entry a b. env ''NOMOS_LOG_FILTER'' = Some raw \<and> entry \<in> set (split_on (CHR '','') raw)
     \<and> CHR '','' \<notin> set entry \<and> entry = a @ CHR ''='' # b \<and> t = trim a \<and> l = trim b
     \<and> t \<noteq> [] \<and> l \<noteq> [] \<and> CHR ''='' \<notin> set t"
proof -
  obtain raw entry where raw: "env ''NOMOS_LOG_FILTER'' = Some raw"
    and entry: "entry \<in> set (split_on (CHR '','') raw)" "filter_pair entry = Some (t, l)"
    using assms by (auto simp: file_filter_override_def set_filter_map)
  obtain a b where ab: "splitn2 (CHR ''='') entry = (a, Some b)" "t = trim a" "l = trim b" "t \<noteq> []" "l \<noteq> []"
    using entry(2) by (auto simp: filter_pair_def split: prod.splits option.splits if_splits)
  have "set (trim a) \<subseteq> set a" unfolding trim_def by (auto dest!: set_dropWhileD)
  then show ?thesis using raw entry(1) ab splitn2_Some [OF ab(1)] split_on_no_sep [OF entry(1)]
    by blast
qed

theorem log_filter_entries_witness:
  "\<exists>raw entry a b. [''NOMOS_LOG_FILTER'' \<mapsto> ''nomos = debug,bad''] ''NOMOS_LOG_FILTER'' = Some raw
     \<and> entry \<in> set (split_on (CHR '','') raw) \<and> CHR '','' \<notin> set entry \<and> entry = a @ CHR ''='' # b
     \<and> ''nomos'' = trim a \<and> ''debug'' = trim b \<and> ''nomos'' \<noteq> [] \<and> ''debug'' \<noteq> []
     \<and> CHR ''='' \<notin> set ''nomos''"
  by (rule log_filter_entries [where fs = "[(''nomos'', ''debug'')]"])
     (simp_all add: file_filter_override_def filter_pair_def trim_def is_space_def)

text \<open>
  OTLP layers are only active with an endpoint: whatever the settings, a generated node
  configuration has no OTLP tracing layer when \<open>NOMOS_OTLP_ENDPOINT\<close> is unset and no OTLP metrics
  layer when \<open>NOMOS_OTLP_METRICS_ENDPOINT\<close> is unset, and with \<open>NOMOS_LOG_DIR\<close> set every node logs to
  that directory under its own prefix.
\<close>

theorem tracing_layers_follow_environment:
  assumes "i < n"
  shows "(env ''NOMOS_OTLP_ENDPOINT'' = None \<longrightarrow> ts_tracing (create_tracing_configs te env n ! i) = TracingNone)
    \<and> (env ''NOMOS_OTLP_METRICS_ENDPOINT'' = None \<longrightarrow> ts_metrics (create_tracing_configs te env n ! i) = MetricsNone)
    \<and> (\<forall>dir. env ''NOMOS_LOG_DIR'' = Some dir \<longrightarrow>
         ts_logger (create_tracing_configs te env n ! i) = LoggerFile dir (Some (''nomos-node-'' @ show_nat i)))"
  using assms
  by (auto simp: create_tracing_configs_def maybe_disable_otlp_layers_def apply_file_logger_override_def
      otlp_tracing_endpoint_def otlp_metrics_endpoint_def Let_def)

theorem tracing_layers_follow_environment_witness:
  "ts_tracing (create_tracing_configs \<lparr>parse_endpoint = Some, parse_level = Some,
     default_settings = \<lparr>ts_logger = LoggerOther, ts_tracing = TracingOtlp ''a'' ''b'',
       ts_filters = None, ts_metrics = MetricsNone, ts_level = ''INFO''\<rparr>\<rparr> Map.empty 2 ! 1) = TracingNone"
  using tracing_layers_follow_environment [of 1 2 Map.empty] by simp

end
