(* ===== verification/Topology_Config.thy ===== *)
theory Topology_Config
  imports Genesis Da_Membership Tracing_Config
begin

text \<open>
  Topologies: \<open>core/src/topology/config.rs\<close> (the configuration constructors and the builder),
  \<open>core/src/topology/utils.rs\<close> (ids, ports, preloaded keys), \<open>core/src/topology/generation.rs\<close> (the
  generated descriptors) and the per-service constructors of \<open>configs/src/topology/configs\<close>
  (\<open>api.rs\<close>, \<open>blend.rs\<close>, \<open>bootstrap.rs\<close>, \<open>network.rs\<close>, \<open>time.rs\<close>).

  What the operating system and other crates supply is the record \<open>topology_env\<close>: random ids, free
  ports (\<open>None\<close> where \<open>get_available_udp_port\<close> or its TCP twin finds none, which the source
  unwraps), the process environment, key identifiers in hex and the cryptography.
\<close>

datatype node_role = Validator | Executor

datatype kms_key = KeyEd25519 node_id | KeyZk zk_key

record 'p topology_env =
  te_crypto :: crypto
  te_da :: "'p da_env"
  te_tracing :: tracing_env
  te_env :: environment
  te_addr :: "nat \<Rightarrow> multiaddr"
  te_random_id :: "nat \<Rightarrow> node_id"
  te_da_port :: "nat \<Rightarrow> nat option"
  te_blend_port :: "nat \<Rightarrow> nat option"
  te_network_port :: "nat \<Rightarrow> nat option"
  te_api_port :: "nat \<Rightarrow> nat option"
  te_testing_port :: "nat \<Rightarrow> nat option"
  te_ed_key_id :: "byte list \<Rightarrow> string"
  te_zk_key_id :: "zk_public_key \<Rightarrow> string"
  te_params_path :: string
  te_now :: nat

section \<open>Topology configurations\<close>

record topology_config =
  n_validators :: nat
  n_executors :: nat
  tc_consensus_params :: consensus_params
  tc_da_params :: da_params
  tc_network_params :: network_params
  tc_wallet_config :: wallet_config

definition topology_config_empty :: "string \<Rightarrow> topology_config" where
  "topology_config_empty path = \<lparr>n_validators = 0, n_executors = 0,
     tc_consensus_params = default_for_participants 1, tc_da_params = da_params_default path,
     tc_network_params = network_params_default, tc_wallet_config = wallet_config_default\<rparr>"

definition two_validators :: "string \<Rightarrow> topology_config" where
  "two_validators path = \<lparr>n_validators = 2, n_executors = 0,
     tc_consensus_params = default_for_participants 2, tc_da_params = da_params_default path,
     tc_network_params = network_params_default, tc_wallet_config = wallet_config_default\<rparr>"

definition zero_failure_policy :: "nat \<Rightarrow> nat \<Rightarrow> da_policy" where
  "zero_failure_policy dispersal replication = \<lparr>min_dispersal_peers = dispersal,
     min_replication_peers = replication, max_dispersal_failures = 0, max_sampling_failures = 0,
     max_replication_failures = 0, malicious_threshold = 0\<rparr>"

definition validator_and_executor :: "string \<Rightarrow> topology_config" where
  "validator_and_executor path = \<lparr>n_validators = 1, n_executors = 1,
     tc_consensus_params = default_for_participants 2,
     tc_da_params = (da_params_default path)\<lparr>dp_dispersal_factor := 2, dp_subnetwork_size := 2,
       dp_num_subnets := 2, dp_policy_settings := zero_failure_policy 1 1,
       dp_balancer_interval := from_secs 1\<rparr>,
     tc_network_params = network_params_default, tc_wallet_config = wallet_config_default\<rparr>"

text \<open>\<open>x as u16\<close> truncates.\<close>

definition as_u16 :: "nat \<Rightarrow> nat" where
  "as_u16 n = n mod 2 ^ 16"

definition with_node_numbers :: "string \<Rightarrow> nat \<Rightarrow> nat \<Rightarrow> topology_config rust" where
  "with_node_numbers path validators executors =
     rbind (usize_add validators executors) (\<lambda>participants.
     rbind (rust_assert (0 < participants) ''topology must include at least one node'') (\<lambda>_.
     let da = da_params_default path;
         policy = dp_policy_settings da;
         da' = (if participants \<le> 1
                then da\<lparr>dp_subnetwork_size := 1, dp_num_subnets := 1, dp_dispersal_factor := 1,
                        dp_policy_settings := policy\<lparr>min_dispersal_peers := 0,
                                                     min_replication_peers := 0\<rparr>\<rparr>
                else let dispersal = min participants (max (dp_dispersal_factor da) 2);
                         size = max (dp_subnetwork_size da) dispersal;
                         min_peers = max (dispersal - 1) 1
                     in da\<lparr>dp_dispersal_factor := dispersal, dp_subnetwork_size := size,
                           dp_num_subnets := as_u16 size,
                           dp_policy_settings := policy\<lparr>min_dispersal_peers := min_peers,
                                                        min_replication_peers := min_peers\<rparr>,
                           dp_balancer_interval := from_secs 1\<rparr>)
     in Inr \<lparr>n_validators = validators, n_executors = executors,
             tc_consensus_params = default_for_participants participants, tc_da_params = da',
             tc_network_params = network_params_default, tc_wallet_config = wallet_config_default\<rparr>))"

definition validators_and_executor :: "string \<Rightarrow> nat \<Rightarrow> nat \<Rightarrow> nat \<Rightarrow> topology_config rust" where
  "validators_and_executor path num_validators num_subnets dispersal_factor =
     rbind (usize_add num_validators 1) (\<lambda>participants.
     rbind (usize_sub dispersal_factor 1) (\<lambda>replication.
       Inr \<lparr>n_validators = num_validators, n_executors = 1,
         tc_consensus_params = default_for_participants participants,
         tc_da_params = (da_params_default path)\<lparr>dp_dispersal_factor := dispersal_factor,
           dp_subnetwork_size := num_subnets, dp_num_subnets := as_u16 num_subnets,
           dp_policy_settings := zero_failure_policy num_subnets replication,
           dp_balancer_interval := from_secs 5\<rparr>,
         tc_network_params = network_params_default, tc_wallet_config = wallet_config_default\<rparr>))"

section \<open>Ids, ports and keys\<close>

definition resolve_ids :: "(nat \<Rightarrow> node_id) \<Rightarrow> node_id list option \<Rightarrow> nat \<Rightarrow> node_id list rust" where
  "resolve_ids random ids expected =
     (case ids of
        None \<Rightarrow> Inr (map random [0..<expected])
      | Some ids \<Rightarrow>
          rbind (rust_assert (length ids = expected)
                   (''expected '' @ show_nat expected @ '' ids but got '' @ show_nat (length ids))) (\<lambda>_.
            Inr ids))"

definition unwrap_port :: "nat option \<Rightarrow> nat rust" where
  "unwrap_port p = (case p of Some p \<Rightarrow> Inr p | None \<Rightarrow> Inl ''called `Option::unwrap()` on a `None` value'')"

definition resolve_ports :: "(nat \<Rightarrow> nat option) \<Rightarrow> nat list option \<Rightarrow> nat \<Rightarrow> string \<Rightarrow> nat list rust" where
  "resolve_ports free ports expected lbl =
     rbind (case ports of Some ps \<Rightarrow> Inr ps
            | None \<Rightarrow> try_map (\<lambda>i. unwrap_port (free i)) [0..<expected]) (\<lambda>resolved.
     rbind (rust_assert (length resolved = expected)
              (''expected '' @ show_nat expected @ '' '' @ lbl @ '' ports but got ''
               @ show_nat (length resolved))) (\<lambda>_.
       Inr resolved))"

record blend_config =
  bc_listening_address :: multiaddr
  bc_core_peering_degree :: "nat \<times> nat"
  bc_minimum_messages_coefficient :: nat
  bc_normalization_constant :: f64
  bc_edge_node_connection_timeout :: duration
  bc_max_edge_node_incoming_connections :: nat
  bc_max_dial_attempts_per_peer :: nat
  bc_protocol_name :: string
  bc_max_dial_attempts_per_peer_per_message :: nat
  bc_replication_factor :: nat
  bc_private_key :: node_id
  bc_secret_zk_key :: zk_key
  bc_signer :: node_id

text \<open>\<open>zip\<close>: one configuration per id that has a port.\<close>

definition create_blend_configs :: "crypto \<Rightarrow> node_id list \<Rightarrow> nat list \<Rightarrow> blend_config list" where
  "create_blend_configs cr ids ports = map (\<lambda>(i, port). \<lparr>
     bc_listening_address = quic_addr ''127.0.0.1'' port, bc_core_peering_degree = (1, 3),
     bc_minimum_messages_coefficient = 1, bc_normalization_constant = f64_of_rat (103 / 100),
     bc_edge_node_connection_timeout = from_secs 1, bc_max_edge_node_incoming_connections = 300,
     bc_max_dial_attempts_per_peer = 3, bc_protocol_name = ''/blend/integration-tests'',
     bc_max_dial_attempts_per_peer_per_message = 1, bc_replication_factor = 1, bc_private_key = i,
     bc_secret_zk_key = ZkKey (from_bytes_le (ed_public_key cr i)), bc_signer = i\<rparr>) (zip ids ports)"

text \<open>The keys of one node: four service keys, then the wallet keys that are not yet there.\<close>

fun insert_wallet_keys ::
  "(zk_public_key \<Rightarrow> string) \<Rightarrow> crypto \<Rightarrow> wallet_account list \<Rightarrow> (string \<rightharpoonup> kms_key) \<Rightarrow> (string \<rightharpoonup> kms_key)"
where
  "insert_wallet_keys key_id cr [] keys = keys"
| "insert_wallet_keys key_id cr (a # as) keys =
     (let k = key_id (zk_public cr (secret_key a)) in
      insert_wallet_keys key_id cr as (if keys k = None then keys(k \<mapsto> KeyZk (secret_key a)) else keys))"

definition create_kms_configs ::
  "'p topology_env \<Rightarrow> blend_config list \<Rightarrow> 'p general_da_config list \<Rightarrow> wallet_account list
     \<Rightarrow> (string \<rightharpoonup> kms_key) list" where
  "create_kms_configs te blend_configs da_configs as = map (\<lambda>(da, blend).
     let cr = te_crypto te in
     insert_wallet_keys (te_zk_key_id te) cr as
       [te_ed_key_id te (ed_public_key cr (bc_signer blend)) \<mapsto> KeyEd25519 (bc_signer blend),
        te_zk_key_id te (zk_public cr (bc_secret_zk_key blend)) \<mapsto> KeyZk (bc_secret_zk_key blend),
        te_ed_key_id te (ed_public_key cr (dc_signer da)) \<mapsto> KeyEd25519 (dc_signer da),
        te_zk_key_id te (zk_public cr (dc_secret_zk_key da)) \<mapsto> KeyZk (dc_secret_zk_key da)])
     (zip da_configs blend_configs)"

section \<open>The other service configurations\<close>

record network_config =
  nc_host :: string
  nc_port :: nat
  nc_node_key :: node_id
  nc_peer_response_timeout :: duration
  nc_nat_external :: "multiaddr option"
  nc_initial_peers :: "multiaddr list"

definition nat_settings :: "environment \<Rightarrow> nat \<Rightarrow> multiaddr option" where
  "nat_settings env port =
     (if env ''NOMOS_USE_AUTONAT'' \<noteq> None then None else Some (quic_addr ''127.0.0.1'' port))"

definition create_network_configs ::
  "'p topology_env \<Rightarrow> node_id list \<Rightarrow> network_params \<Rightarrow> network_config list rust" where
  "create_network_configs te ids params =
     rbind (try_map (\<lambda>i. unwrap_port (te_network_port te i)) [0..<length ids]) (\<lambda>ports.
     rbind (initial_peers_by_network_layout (te_addr te) ports (libp2p_network_layout params)) (\<lambda>all_peers.
       Inr (map (\<lambda>((i, port), peers). \<lparr>nc_host = ''0.0.0.0'', nc_port = port, nc_node_key = i,
              nc_peer_response_timeout = from_secs 60,
              nc_nat_external = nat_settings (te_env te) port, nc_initial_peers = peers\<rparr>)
            (zip (zip ids ports) all_peers))))"

record api_config =
  ac_address_port :: nat
  ac_testing_http_port :: nat

definition create_api_configs :: "'p topology_env \<Rightarrow> node_id list \<Rightarrow> api_config list rust" where
  "create_api_configs te ids = try_map (\<lambda>i.
     rbind (unwrap_port (te_api_port te i)) (\<lambda>p.
     rbind (unwrap_port (te_testing_port te i)) (\<lambda>q.
       Inr \<lparr>ac_address_port = p, ac_testing_http_port = q\<rparr>))) [0..<length ids]"

definition short_prolonged_bootstrap_period :: duration where
  "short_prolonged_bootstrap_period = from_secs 1"

definition create_bootstrap_configs :: "node_id list \<Rightarrow> duration \<Rightarrow> duration list" where
  "create_bootstrap_configs ids period = map (\<lambda>_. period) ids"

record time_config =
  tm_slot_duration :: duration
  tm_chain_start_time :: nat
  tm_ntp_server :: string
  tm_timeout :: duration
  tm_interface :: string
  tm_update_interval :: duration

text \<open>\<open>CONSENSUS_SLOT_TIME\<close> in whole seconds, two by default; an unparsable value panics.\<close>

definition default_time_config :: "nat \<Rightarrow> environment \<Rightarrow> time_config rust" where
  "default_time_config now env =
     rbind (case env ''CONSENSUS_SLOT_TIME'' of
        None \<Rightarrow> Inr 2
      | Some s \<Rightarrow> (case parse_usize s of
            Some n \<Rightarrow> Inr n
          | None \<Rightarrow> Inl ''called `Result::unwrap()` on an `Err` value'')) (\<lambda>slot_duration.
     Inr \<lparr>tm_slot_duration = from_secs slot_duration, tm_chain_start_time = now,
          tm_ntp_server = ''pool.ntp.org'', tm_timeout = from_secs 5, tm_interface = ''0.0.0.0'',
          tm_update_interval = from_secs 16\<rparr>)"

record 'p general_config =
  gc_consensus :: general_consensus_config
  gc_bootstrap :: duration
  gc_da :: "'p general_da_config"
  gc_network :: network_config
  gc_blend :: blend_config
  gc_api :: api_config
  gc_tracing :: tracing_settings
  gc_time :: time_config
  gc_kms :: "string \<rightharpoonup> kms_key"

record 'p generated_node =
  gn_role :: node_role
  gn_index :: nat
  gn_id :: node_id
  gn_general :: "'p general_config"
  gn_da_port :: nat
  gn_blend_port :: nat

record 'p generated_topology =
  gt_config :: topology_config
  gt_validators :: "'p generated_node list"
  gt_executors :: "'p generated_node list"

definition nodes :: "'p generated_topology \<Rightarrow> 'p generated_node list" where
  "nodes t = gt_validators t @ gt_executors t"

definition slot_duration :: "'p generated_topology \<Rightarrow> duration option" where
  "slot_duration t = (case gt_validators t of [] \<Rightarrow> None | n # _ \<Rightarrow> Some (tm_slot_duration (gc_time (gn_general n))))"

definition network_port :: "'p generated_node \<Rightarrow> nat" where
  "network_port n = nc_port (gc_network (gn_general n))"

definition wallet_accounts_of :: "'p generated_topology \<Rightarrow> wallet_account list" where
  "wallet_accounts_of t = accounts (tc_wallet_config (gt_config t))"

section \<open>The builder\<close>

record topology_builder =
  tb_config :: topology_config
  tb_ids :: "node_id list option"
  tb_da_ports :: "nat list option"
  tb_blend_ports :: "nat list option"

definition topology_builder_new :: "topology_config \<Rightarrow> topology_builder" where
  "topology_builder_new c = \<lparr>tb_config = c, tb_ids = None, tb_da_ports = None, tb_blend_ports = None\<rparr>"

definition with_ids :: "topology_builder \<Rightarrow> node_id list \<Rightarrow> topology_builder" where
  "with_ids b ids = b\<lparr>tb_ids := Some ids\<rparr>"

definition with_da_ports :: "topology_builder \<Rightarrow> nat list \<Rightarrow> topology_builder" where
  "with_da_ports b ports = b\<lparr>tb_da_ports := Some ports\<rparr>"

definition with_blend_ports :: "topology_builder \<Rightarrow> nat list \<Rightarrow> topology_builder" where
  "with_blend_ports b ports = b\<lparr>tb_blend_ports := Some ports\<rparr>"

definition with_validator_count :: "topology_builder \<Rightarrow> nat \<Rightarrow> topology_builder" where
  "with_validator_count b n = b\<lparr>tb_config := (tb_config b)\<lparr>n_validators := n\<rparr>\<rparr>"

definition with_executor_count :: "topology_builder \<Rightarrow> nat \<Rightarrow> topology_builder" where
  "with_executor_count b n = b\<lparr>tb_config := (tb_config b)\<lparr>n_executors := n\<rparr>\<rparr>"

definition with_node_counts :: "topology_builder \<Rightarrow> nat \<Rightarrow> nat \<Rightarrow> topology_builder" where
  "with_node_counts b v e = b\<lparr>tb_config := (tb_config b)\<lparr>n_validators := v, n_executors := e\<rparr>\<rparr>"

definition with_network_layout :: "topology_builder \<Rightarrow> libp2p_layout \<Rightarrow> topology_builder" where
  "with_network_layout b l =
     b\<lparr>tb_config := (tb_config b)\<lparr>tc_network_params := \<lparr>libp2p_network_layout = l\<rparr>\<rparr>\<rparr>"

definition with_wallet_config :: "topology_builder \<Rightarrow> wallet_config \<Rightarrow> topology_builder" where
  "with_wallet_config b w = b\<lparr>tb_config := (tb_config b)\<lparr>tc_wallet_config := w\<rparr>\<rparr>"

text \<open>Indexing with the bounds check of Rust.\<close>

definition index_checked :: "'a list \<Rightarrow> nat \<Rightarrow> 'a rust" where
  "index_checked xs i = (if i < length xs then Inr (xs ! i) else Inl ''index out of bounds'')"

definition da_provider :: "'p general_da_config \<Rightarrow> service_note \<Rightarrow> provider_info" where
  "da_provider da n = \<lparr>pi_service_type = DataAvailability, pi_provider_sk = dc_signer da,
     pi_zk_sk = dc_secret_zk_key da, pi_locator = dc_listening_address da, pi_note = n\<rparr>"

definition blend_provider :: "blend_config \<Rightarrow> service_note \<Rightarrow> provider_info" where
  "blend_provider b n = \<lparr>pi_service_type = BlendNetwork, pi_provider_sk = bc_signer b,
     pi_zk_sk = bc_secret_zk_key b, pi_locator = bc_listening_address b, pi_note = n\<rparr>"

text \<open>The providers of \<open>build\<close>: all DA configurations, then all Blend configurations.\<close>

definition build_providers ::
  "'p general_da_config list \<Rightarrow> blend_config list \<Rightarrow> general_consensus_config \<Rightarrow> provider_info list rust" where
  "build_providers das blends c0 =
     rbind (try_map (\<lambda>(i, da). rbind (index_checked (cc_da_notes c0) i) (\<lambda>n. Inr (da_provider da n)))
              (enumerate 0 das)) (\<lambda>ps.
     rbind (try_map (\<lambda>(i, b). rbind (index_checked (cc_blend_notes c0) i) (\<lambda>n. Inr (blend_provider b n)))
              (enumerate 0 blends)) (\<lambda>qs.
       Inr (ps @ qs)))"

text \<open>One node of the final loop.\<close>

definition build_node ::
  "topology_config \<Rightarrow> node_id list \<Rightarrow> nat list \<Rightarrow> nat list \<Rightarrow> general_consensus_config list
   \<Rightarrow> duration list \<Rightarrow> 'p general_da_config list \<Rightarrow> network_config list \<Rightarrow> blend_config list
   \<Rightarrow> api_config list \<Rightarrow> tracing_settings list \<Rightarrow> time_config \<Rightarrow> (string \<rightharpoonup> kms_key) list
   \<Rightarrow> nat \<Rightarrow> 'p generated_node rust" where
  "build_node config ids da_ports blend_ports cs bs das nets blends apis trs slot kms i =
     rbind (index_checked cs i) (\<lambda>c. rbind (index_checked bs i) (\<lambda>b.
     rbind (index_checked das i) (\<lambda>da. rbind (index_checked nets i) (\<lambda>net.
     rbind (index_checked blends i) (\<lambda>blend. rbind (index_checked apis i) (\<lambda>api.
     rbind (index_checked trs i) (\<lambda>tr. rbind (index_checked kms i) (\<lambda>k.
     rbind (index_checked ids i) (\<lambda>node. rbind (index_checked da_ports i) (\<lambda>dp.
     rbind (index_checked blend_ports i) (\<lambda>bp.
     let role = (if i < n_validators config then Validator else Executor) in
       Inr \<lparr>gn_role = role,
            gn_index = (case role of Validator \<Rightarrow> i | Executor \<Rightarrow> i - n_validators config),
            gn_id = node,
            gn_general = \<lparr>gc_consensus = c, gc_bootstrap = b, gc_da = da, gc_network = net,
              gc_blend = blend, gc_api = api, gc_tracing = tr, gc_time = slot, gc_kms = k\<rparr>,
            gn_da_port = dp, gn_blend_port = bp\<rparr>)))))))))))"

definition build :: "'p::linorder topology_env \<Rightarrow> topology_builder \<Rightarrow> 'p generated_topology rust" where
  "build te builder =
    (let config = tb_config builder; cr = te_crypto te in
     rbind (usize_add (n_validators config) (n_executors config)) (\<lambda>n_participants.
     rbind (rust_assert (0 < n_participants) ''topology must have at least one node'') (\<lambda>_.
     rbind (resolve_ids (te_random_id te) (tb_ids builder) n_participants) (\<lambda>ids.
     rbind (resolve_ports (te_da_port te) (tb_da_ports builder) n_participants ''DA'') (\<lambda>da_ports.
     rbind (resolve_ports (te_blend_port te) (tb_blend_ports builder) n_participants ''Blend'') (\<lambda>blend_ports.
     rbind (create_consensus_configs cr ids (tc_consensus_params config) (tc_wallet_config config)) (\<lambda>cs.
     rbind (create_da_configs (te_da te) ids (tc_da_params config) da_ports) (\<lambda>das.
     rbind (create_network_configs te ids (tc_network_params config)) (\<lambda>nets.
     let bs = create_bootstrap_configs ids short_prolonged_bootstrap_period;
         blends = create_blend_configs cr ids blend_ports in
     rbind (create_api_configs te ids) (\<lambda>apis.
     rbind (default_time_config (te_now te) (te_env te)) (\<lambda>slot.
     rbind (index_checked cs 0) (\<lambda>c0.
     rbind (build_providers das blends c0) (\<lambda>providers.
     rbind (create_genesis_tx_with_declarations cr (tx_ledger (signed_tx (cc_genesis_tx c0))) providers) (\<lambda>genesis.
     let cs' = map (\<lambda>c. c\<lparr>cc_genesis_tx := genesis\<rparr>) cs;
         kms = create_kms_configs te blends das (accounts (tc_wallet_config config));
         trs = create_tracing_configs (te_tracing te) (te_env te) (length ids) in
     rbind (try_map (build_node config ids da_ports blend_ports cs' bs das nets blends apis trs slot kms)
              [0..<n_participants]) (\<lambda>ns.
       Inr \<lparr>gt_config = config,
            gt_validators = filter (\<lambda>n. gn_role n = Validator) ns,
            gt_executors = filter (\<lambda>n. gn_role n = Executor) ns\<rparr>)))))))))))))))"

section \<open>Configurations without a builder\<close>

text \<open>
  \<open>configs/src/topology/configs/mod.rs\<close>: default parameters, no wallets, and only the first
  \<open>n_blend_core_nodes\<close> nodes declared, for Blend.
\<close>

definition blend_kms :: "'p topology_env \<Rightarrow> blend_config \<Rightarrow> (string \<rightharpoonup> kms_key)" where
  "blend_kms te blend =
     [te_ed_key_id te (ed_public_key (te_crypto te) (bc_signer blend)) \<mapsto> KeyEd25519 (bc_signer blend),
      te_zk_key_id te (zk_public (te_crypto te) (bc_secret_zk_key blend)) \<mapsto> KeyZk (bc_secret_zk_key blend)]"

definition general_config_at ::
  "general_consensus_config list \<Rightarrow> duration list \<Rightarrow> 'p general_da_config list \<Rightarrow> network_config list
   \<Rightarrow> blend_config list \<Rightarrow> api_config list \<Rightarrow> tracing_settings list \<Rightarrow> time_config
   \<Rightarrow> (string \<rightharpoonup> kms_key) list \<Rightarrow> nat \<Rightarrow> 'p general_config rust" where
  "general_config_at cs bs das nets blends apis trs time kms i =
     rbind (index_checked apis i) (\<lambda>api. rbind (index_checked cs i) (\<lambda>c.
     rbind (index_checked bs i) (\<lambda>b. rbind (index_checked das i) (\<lambda>da.
     rbind (index_checked nets i) (\<lambda>net. rbind (index_checked blends i) (\<lambda>blend.
     rbind (index_checked trs i) (\<lambda>tr. rbind (index_checked kms i) (\<lambda>k.
       Inr \<lparr>gc_consensus = c, gc_bootstrap = b, gc_da = da, gc_network = net, gc_blend = blend,
            gc_api = api, gc_tracing = tr, gc_time = time, gc_kms = k\<rparr>))))))))"

definition create_general_configs_with_blend_core_subset ::
  "'p::linorder topology_env \<Rightarrow> nat \<Rightarrow> nat \<Rightarrow> network_params \<Rightarrow> 'p general_config list rust" where
  "create_general_configs_with_blend_core_subset te n_nodes n_blend_core_nodes params =
    (let cr = te_crypto te; ids = map (te_random_id te) [0..<n_nodes] in
     rbind (rust_assert (n_blend_core_nodes \<le> n_nodes)
              (''n_blend_core_nodes('' @ show_nat n_blend_core_nodes
               @ '') must be less than or equal to n_nodes('' @ show_nat n_nodes @ '')'')) (\<lambda>_.
     rbind (try_map (\<lambda>i. unwrap_port (te_da_port te i)) [0..<n_nodes]) (\<lambda>da_ports.
     rbind (try_map (\<lambda>i. unwrap_port (te_blend_port te i)) [0..<n_nodes]) (\<lambda>blend_ports.
     rbind (create_consensus_configs cr ids (default_for_participants n_nodes) wallet_config_default) (\<lambda>cs.
     rbind (create_network_configs te ids params) (\<lambda>nets.
     rbind (create_da_configs (te_da te) ids (da_params_default (te_params_path te)) da_ports) (\<lambda>das.
     rbind (create_api_configs te ids) (\<lambda>apis.
     let bs = create_bootstrap_configs ids short_prolonged_bootstrap_period;
         blends = create_blend_configs cr ids blend_ports;
         trs = create_tracing_configs (te_tracing te) (te_env te) (length ids) in
     rbind (default_time_config (te_now te) (te_env te)) (\<lambda>time.
     rbind (index_checked cs 0) (\<lambda>c0.
     rbind (build_providers ([] :: 'p general_da_config list) (take n_blend_core_nodes blends) c0) (\<lambda>providers.
     rbind (create_genesis_tx_with_declarations cr (tx_ledger (signed_tx (cc_genesis_tx c0))) providers) (\<lambda>genesis.
     let cs' = map (\<lambda>c. c\<lparr>cc_genesis_tx := genesis\<rparr>) cs in
       try_map (general_config_at cs' bs das nets blends apis trs time (map (blend_kms te) blends))
         [0..<n_nodes]))))))))))))"

definition create_general_configs_with_network ::
  "'p::linorder topology_env \<Rightarrow> nat \<Rightarrow> network_params \<Rightarrow> 'p general_config list rust" where
  "create_general_configs_with_network te n params =
     create_general_configs_with_blend_core_subset te n n params"

definition create_general_configs :: "'p::linorder topology_env \<Rightarrow> nat \<Rightarrow> 'p general_config list rust" where
  "create_general_configs te n = create_general_configs_with_network te n network_params_default"

section \<open>What a successful build contains\<close>

lemma index_checked_Inr_iff [simp]: "index_checked xs i = Inr x \<longleftrightarrow> i < length xs \<and> x = xs ! i"
  by (auto simp: index_checked_def)

lemma usize_add_Inr_iff [simp]: "usize_add a b = Inr n \<longleftrightarrow> n = a + b \<and> a + b \<le> usize_max"
  by (auto simp: usize_add_def)

lemma resolve_ids_Inr:
  "resolve_ids random ids n = Inr r \<longleftrightarrow>
     (case ids of None \<Rightarrow> r = map random [0..<n] | Some xs \<Rightarrow> r = xs \<and> length xs = n)"
  by (auto simp: resolve_ids_def rbind_Inr_iff split: option.splits)

lemma resolve_ports_Inr:
  "resolve_ports free ports n lbl = Inr r \<Longrightarrow>
     length r = n \<and> (\<forall>ps. ports = Some ps \<longrightarrow> r = ps)"
  by (auto simp: resolve_ports_def rbind_Inr_iff split: option.splits)

lemma build_cases:
  assumes "build te b = Inr t"
  obtains ids dps bps cs das nets apis slot providers genesis ns where
    "n_validators (tb_config b) + n_executors (tb_config b) \<le> usize_max"
    "0 < n_validators (tb_config b) + n_executors (tb_config b)"
    "resolve_ids (te_random_id te) (tb_ids b) (n_validators (tb_config b) + n_executors (tb_config b)) = Inr ids"
    "resolve_ports (te_da_port te) (tb_da_ports b) (n_validators (tb_config b) + n_executors (tb_config b)) ''DA'' = Inr dps"
    "resolve_ports (te_blend_port te) (tb_blend_ports b) (n_validators (tb_config b) + n_executors (tb_config b)) ''Blend'' = Inr bps"
    "create_consensus_configs (te_crypto te) ids (tc_consensus_params (tb_config b)) (tc_wallet_config (tb_config b)) = Inr cs"
    "create_da_configs (te_da te) ids (tc_da_params (tb_config b)) dps = Inr das"
    "create_network_configs te ids (tc_network_params (tb_config b)) = Inr nets"
    "create_api_configs te ids = Inr apis"
    "default_time_config (te_now te) (te_env te) = Inr slot"
    "0 < length cs"
    "build_providers das (create_blend_configs (te_crypto te) ids bps) (cs ! 0) = Inr providers"
    "create_genesis_tx_with_declarations (te_crypto te) (tx_ledger (signed_tx (cc_genesis_tx (cs ! 0)))) providers = Inr genesis"
    "try_map (build_node (tb_config b) ids dps bps (map (\<lambda>c. c\<lparr>cc_genesis_tx := genesis\<rparr>) cs)
        (create_bootstrap_configs ids short_prolonged_bootstrap_period) das nets
        (create_blend_configs (te_crypto te) ids bps) apis
        (create_tracing_configs (te_tracing te) (te_env te) (length ids)) slot
        (create_kms_configs te (create_blend_configs (te_crypto te) ids bps) das
           (accounts (tc_wallet_config (tb_config b)))))
      [0..<n_validators (tb_config b) + n_executors (tb_config b)] = Inr ns"
    "t = \<lparr>gt_config = tb_config b, gt_validators = filter (\<lambda>n. gn_role n = Validator) ns,
          gt_executors = filter (\<lambda>n. gn_role n = Executor) ns\<rparr>"
  using assms(1)
  unfolding build_def Let_def rbind_Inr_iff usize_add_Inr_iff rust_assert_Inr_iff
    index_checked_Inr_iff sum.inject
  by (elim exE conjE) (hypsubst, rule that, (assumption | rule refl)+)

text \<open>The node built at position \<open>i\<close>.\<close>

lemma build_node_fields:
  assumes "build_node config ids dps bps cs bs das nets blends apis trs slot kms i = Inr n"
  shows "gn_role n = (if i < n_validators config then Validator else Executor)"
    and "gn_index n = (if i < n_validators config then i else i - n_validators config)"
    and "gn_id n = ids ! i" and "gn_da_port n = dps ! i" and "gn_blend_port n = bps ! i"
    and "gc_consensus (gn_general n) = cs ! i" and "i < length cs"
    and "gc_kms (gn_general n) = kms ! i" and "gc_time (gn_general n) = slot"
    and "gc_da (gn_general n) = das ! i" and "gc_network (gn_general n) = nets ! i"
    and "gc_blend (gn_general n) = blends ! i" and "gc_api (gn_general n) = apis ! i"
    and "i < length nets" and "i < length apis"
  using assms unfolding build_node_def Let_def
  by (auto simp only: rbind_Inr_iff index_checked_Inr_iff sum.inject split: if_splits)
    (auto split: if_splits)

lemma build_ordered:
  assumes "try_map (build_node config ids dps bps cs bs das nets blends apis trs slot kms)
      [0..<n_validators config + n_executors config] = Inr ns"
  shows "length ns = n_validators config + n_executors config"
    and "\<And>i. i < length ns \<Longrightarrow>
      build_node config ids dps bps cs bs das nets blends apis trs slot kms i = Inr (ns ! i)"
    and "filter (\<lambda>n. gn_role n = Validator) ns = take (n_validators config) ns"
    and "filter (\<lambda>n. gn_role n = Executor) ns = drop (n_validators config) ns"
proof -
  let ?v = "n_validators config"
  show len: "length ns = ?v + n_executors config" using assms by (auto dest: try_map_length)
  show nth: "build_node config ids dps bps cs bs das nets blends apis trs slot kms i = Inr (ns ! i)"
    if "i < length ns" for i
    using assms that by (auto simp: try_map_Inr_iff list_all2_conv_all_nth simp del: upt_Suc)
  have role: "gn_role (ns ! i) = (if i < ?v then Validator else Executor)" if "i < length ns" for i
    using build_node_fields(1) [OF nth [OF that]] .
  have v: "gn_role n = Validator" if "n \<in> set (take ?v ns)" for n
    using that role by (auto simp: in_set_conv_nth)
  have e: "gn_role n = Executor" if "n \<in> set (drop ?v ns)" for n
    using that role by (auto simp: in_set_conv_nth)
  have split: "filter P ns = filter P (take ?v ns) @ filter P (drop ?v ns)" for P
    by (metis append_take_drop_id filter_append)
  show "filter (\<lambda>n. gn_role n = Validator) ns = take ?v ns"
    unfolding split using v e by (simp add: filter_id_conv filter_empty_conv)
  show "filter (\<lambda>n. gn_role n = Executor) ns = drop ?v ns"
    unfolding split using v e by (simp add: filter_id_conv filter_empty_conv)
qed

lemma build_lengths:
  assumes "build te b = Inr t"
  shows "length (gt_validators t) = n_validators (tb_config b) \<and> length (gt_executors t) = n_executors (tb_config b)"
  using assms
proof (cases rule: build_cases)
  case (1 ids dps bps cs das nets apis slot providers genesis ns)
  note o = build_ordered [OF 1(14)]
  show ?thesis using o(1) unfolding 1(15) by (simp add: o(3,4))
qed

text \<open>
  C1. A successful \<open>TopologyBuilder::build\<close> returns exactly \<open>n_validators\<close> validators followed by
  \<open>n_executors\<close> executors, each with its role and its index within its role; ids and DA and Blend
  ports given to the builder are assigned to the nodes in order, and the configuration is kept.
\<close>

theorem topology_build_nodes:
  assumes "build te b = Inr t"
  shows "map gn_role (nodes t) = replicate (n_validators (tb_config b)) Validator
           @ replicate (n_executors (tb_config b)) Executor
       \<and> map gn_index (gt_validators t) = [0..<n_validators (tb_config b)]
       \<and> map gn_index (gt_executors t) = [0..<n_executors (tb_config b)]
       \<and> (\<forall>ids. tb_ids b = Some ids \<longrightarrow> map gn_id (nodes t) = ids)
       \<and> (\<forall>ps. tb_da_ports b = Some ps \<longrightarrow> map gn_da_port (nodes t) = ps)
       \<and> (\<forall>ps. tb_blend_ports b = Some ps \<longrightarrow> map gn_blend_port (nodes t) = ps)
       \<and> gt_config t = tb_config b"
  using assms
proof (cases rule: build_cases)
  case (1 ids dps bps cs das nets apis slot providers genesis ns)
  let ?v = "n_validators (tb_config b)" and ?e = "n_executors (tb_config b)"
  note o = build_ordered [OF 1(14)]
  note f = build_node_fields [OF o(2)]
  have t: "nodes t = ns" "gt_validators t = take ?v ns" "gt_executors t = drop ?v ns"
    using 1(15) o(3,4) by (simp_all add: nodes_def)
  have "map gn_role ns = replicate ?v Validator @ replicate ?e Executor"
    using o(1) f(1) by (intro nth_equalityI) (auto simp: nth_append)
  moreover have "map gn_index (take ?v ns) = [0..<?v]"
    using o(1) f(2) by (intro nth_equalityI) auto
  moreover have "map gn_index (drop ?v ns) = [0..<?e]"
    using o(1) f(2) by (intro nth_equalityI) auto
  moreover have "tb_ids b = Some xs \<longrightarrow> map gn_id ns = xs" for xs
    using 1(3) o(1) f(3) by (auto simp: resolve_ids_Inr intro!: nth_equalityI)
  moreover have "tb_da_ports b = Some xs \<longrightarrow> map gn_da_port ns = xs" for xs
    using resolve_ports_Inr [OF 1(4)] o(1) f(4) by (auto intro!: nth_equalityI)
  moreover have "tb_blend_ports b = Some xs \<longrightarrow> map gn_blend_port ns = xs" for xs
    using resolve_ports_Inr [OF 1(5)] o(1) f(5) by (auto intro!: nth_equalityI)
  ultimately show ?thesis using 1(15) t by simp
qed

section \<open>When a build succeeds\<close>

text \<open>
  What the build relies on in its environment: free ports are found, signing and the genesis
  validity check succeed, generated ids have 32 bytes and the slot time, if set, is a number.
\<close>

definition env_supplies :: "'p topology_env \<Rightarrow> bool" where
  "env_supplies te \<longleftrightarrow>
     (\<forall>i. te_da_port te i \<noteq> None \<and> te_blend_port te i \<noteq> None \<and> te_network_port te i \<noteq> None
          \<and> te_api_port te i \<noteq> None \<and> te_testing_port te i \<noteq> None)
     \<and> (\<forall>i. length (te_random_id te i) = 32)
     \<and> (\<forall>ks h. multi_sign (te_crypto te) ks h \<noteq> None)
     \<and> (\<forall>tx. genesis_valid (te_crypto te) tx)
     \<and> (\<exists>d. default_time_config (te_now te) (te_env te) = Inr d)"

lemma try_map_total: "(\<And>x. x \<in> set xs \<Longrightarrow> \<exists>y. f x = Inr y) \<Longrightarrow> \<exists>ys. try_map f xs = Inr ys"
proof (induction xs)
  case (Cons x xs)
  then obtain y ys where "f x = Inr y" "try_map f xs = Inr ys" by force
  then show ?case by simp
qed simp

lemma unwrap_port_total: "p \<noteq> None \<Longrightarrow> \<exists>x. unwrap_port p = Inr x"
  by (auto simp: unwrap_port_def)

lemma resolve_ports_iff:
  assumes "\<And>i. free i \<noteq> None"
  shows "(\<exists>r. resolve_ports free ports n lbl = Inr r) \<longleftrightarrow> (\<forall>ps. ports = Some ps \<longrightarrow> length ps = n)"
proof -
  obtain rs where rs: "try_map (\<lambda>i. unwrap_port (free i)) [0..<n] = Inr rs"
    using try_map_total unwrap_port_total assms by meson
  show ?thesis using try_map_length [OF rs]
    by (auto simp: resolve_ports_def rbind_Inr_iff rs split: option.splits)
qed

lemma resolve_ids_iff:
  "(\<exists>r. resolve_ids random ids n = Inr r) \<longleftrightarrow> (\<forall>xs. ids = Some xs \<longrightarrow> length xs = n)"
  by (cases ids) (auto simp: resolve_ids_Inr)

lemma network_configs_total:
  assumes "\<And>i. te_network_port te i \<noteq> None" and "ids \<noteq> []"
  shows "\<exists>nets. create_network_configs te ids params = Inr nets \<and> length nets = length ids"
proof -
  obtain ports where ports: "try_map (\<lambda>i. unwrap_port (te_network_port te i)) [0..<length ids] = Inr ports"
    using try_map_total unwrap_port_total assms(1) by meson
  then have len: "length ports = length ids" by (auto dest: try_map_length)
  then have "ports \<noteq> []" using assms(2) by auto
  then obtain peers where "initial_peers_by_network_layout (te_addr te) ports (libp2p_network_layout params) = Inr peers"
    "length peers = length ids"
    using len by (cases "libp2p_network_layout params"; cases ports) (auto simp del: upt_Suc)
  then show ?thesis using len by (auto simp: create_network_configs_def ports)
qed

lemma api_configs_total:
  assumes "\<And>i. te_api_port te i \<noteq> None" "\<And>i. te_testing_port te i \<noteq> None"
  shows "\<exists>apis. create_api_configs te ids = Inr apis \<and> length apis = length ids"
proof -
  have "\<exists>apis. create_api_configs te ids = Inr apis"
    unfolding create_api_configs_def using assms
    by (intro try_map_total) (metis rbind_simps(2) unwrap_port_total)
  then show ?thesis unfolding create_api_configs_def using try_map_length by fastforce
qed

lemma provider_loop:
  assumes "length xs = length ns"
  shows "try_map (\<lambda>(i, x). rbind (index_checked ns i) (\<lambda>n. Inr (g x n))) (enumerate 0 xs) = Inr (map2 g xs ns)"
proof -
  have "try_map (\<lambda>(i, x). rbind (index_checked ns i) (\<lambda>n. Inr (g x n))) (enumerate 0 xs)
      = Inr (map (\<lambda>(i, x). g x (ns ! i)) (enumerate 0 xs))"
    using assms by (intro try_map_all_Inr) (auto simp: in_set_enumerate_eq index_checked_def)
  also have "map (\<lambda>(i, x). g x (ns ! i)) (enumerate 0 xs) = map2 g xs ns"
    using assms by (intro nth_equalityI) (auto simp: nth_enumerate_eq)
  finally show ?thesis .
qed

lemma build_providers_eq:
  assumes "length das = n" "length blends = n" "length (cc_da_notes c0) = n" "length (cc_blend_notes c0) = n"
  shows "build_providers das blends c0 = Inr (map2 da_provider das (cc_da_notes c0)
           @ map2 blend_provider blends (cc_blend_notes c0))"
  using assms by (simp add: build_providers_def provider_loop)

lemma genesis_declarations_total:
  assumes "\<And>ks h. multi_sign cr ks h \<noteq> None" "\<And>tx. genesis_valid cr tx"
  shows "\<exists>tx. create_genesis_tx_with_declarations cr ledger providers = Inr tx"
proof -
  have "\<exists>y. provider_proof cr h p = Inr y" for h p
    using assms(1) [of "[sn_sk (pi_note p), pi_zk_sk p]" h] by (auto simp: provider_proof_def)
  then obtain ps where "try_map (provider_proof cr (mantle_hash cr
      \<lparr>tx_ops = ChannelInscribe (genesis_inscription cr)
          # map (\<lambda>p. SDPDeclare (provider_declaration cr (ledger_hash cr ledger) p)) providers,
       tx_ledger = ledger, tx_execution_gas_price = 0, tx_storage_gas_price = 0\<rparr>)) providers = Inr ps"
    using try_map_total by meson
  then show ?thesis
    using assms(2) by (simp add: create_genesis_tx_with_declarations_def Let_def from_tx_def)
qed

lemma build_node_total:
  assumes "\<And>xs. xs \<in> {length ids, length dps, length bps, length cs, length bs, length das,
      length nets, length blends, length apis, length trs, length kms} \<Longrightarrow> xs = n" and "i < n"
  shows "\<exists>y. build_node config ids dps bps cs bs das nets blends apis trs slot kms i = Inr y"
proof -
  have "length ids = n" "length dps = n" "length bps = n" "length cs = n" "length bs = n"
    "length das = n" "length nets = n" "length blends = n" "length apis = n" "length trs = n"
    "length kms = n"
    by (rule assms(1), simp)+
  then show ?thesis using assms(2) by (simp add: build_node_def Let_def index_checked_def)
qed

lemma ids_resolved:
  assumes "env_supplies te" "\<forall>xs. tb_ids b = Some xs \<longrightarrow> (\<forall>x \<in> set xs. length x = 32)"
    and "resolve_ids (te_random_id te) (tb_ids b) n = Inr ids"
  shows "length ids = n \<and> (\<forall>x \<in> set ids. length x = 32)"
  using assms by (auto simp: resolve_ids_Inr env_supplies_def split: option.splits)

lemma service_configs_lengths:
  assumes "length ids = n" "length bps = n"
  shows "length (create_blend_configs cr ids bps) = n"
    and "length (create_bootstrap_configs ids p) = n"
    and "create_da_configs env ids da dps = Inr das \<Longrightarrow> length das = n"
    and "length dps = n \<Longrightarrow> \<exists>das. create_da_configs env ids da dps = Inr das"
    and "length (create_tracing_configs tr e (length ids)) = n"
    and "length das = n \<Longrightarrow> length (create_kms_configs te (create_blend_configs cr ids bps) das as) = n"
  using assms
  by (auto simp: create_blend_configs_def create_bootstrap_configs_def create_da_configs_def Let_def
      create_tracing_configs_def create_kms_configs_def split: if_splits)

lemma consensus_notes_lengths:
  assumes "\<forall>node \<in> set ids. length node = 32"
    and "create_consensus_configs cr ids params w = Inr cs" and "ids \<noteq> []"
  shows "length cs = length ids" "cs ! 0 \<in> set cs" "length (cc_da_notes (cs ! 0)) = length ids"
    "length (cc_blend_notes (cs ! 0)) = length ids"
proof -
  show l: "length cs = length ids" using consensus_configs_ok(1) [OF assms(1,2)] .
  then show m: "cs ! 0 \<in> set cs" using assms(3) by (intro nth_mem) simp
  show "length (cc_da_notes (cs ! 0)) = length ids" "length (cc_blend_notes (cs ! 0)) = length ids"
    using consensus_configs_ok(2) [OF assms(1,2) m] by simp_all
qed

lemma build_total:
  assumes env: "env_supplies te" and b32: "\<forall>xs. tb_ids b = Some xs \<longrightarrow> (\<forall>x \<in> set xs. length x = 32)"
    and n: "n = n_validators (tb_config b) + n_executors (tb_config b)" "0 < n" "n \<le> usize_max"
    and ids: "resolve_ids (te_random_id te) (tb_ids b) n = Inr ids"
    and dps: "resolve_ports (te_da_port te) (tb_da_ports b) n ''DA'' = Inr dps"
    and bps: "resolve_ports (te_blend_port te) (tb_blend_ports b) n ''Blend'' = Inr bps"
  shows "\<exists>t. build te b = Inr t"
proof -
  let ?c = "tb_config b"
  let ?cr = "te_crypto te"
  let ?bl = "create_blend_configs ?cr ids bps"
  have i: "length ids = n" "\<forall>x \<in> set ids. length x = 32" "ids \<noteq> []"
    using ids_resolved [OF env b32 ids] n by auto
  have dl: "length dps = n" and bl: "length bps = n"
    using resolve_ports_Inr [OF dps] resolve_ports_Inr [OF bps] by auto
  note len = service_configs_lengths [OF i(1) bl]
  have "\<And>tx. genesis_valid ?cr tx" using env by (simp add: env_supplies_def)
  then obtain cs where cs: "create_consensus_configs ?cr ids (tc_consensus_params ?c) (tc_wallet_config ?c) = Inr cs"
    using consensus_configs_total [OF i(2)] by blast
  note cl = consensus_notes_lengths [OF i(2) cs i(3)]
  obtain das where das: "create_da_configs (te_da te) ids (tc_da_params ?c) dps = Inr das"
    using len(4) [OF dl] by blast
  obtain nets where nets: "create_network_configs te ids (tc_network_params ?c) = Inr nets" "length nets = n"
    using network_configs_total [of te ids "tc_network_params ?c"] env i by (auto simp: env_supplies_def)
  obtain apis where apis: "create_api_configs te ids = Inr apis" "length apis = n"
    using api_configs_total [of te ids] env i by (auto simp: env_supplies_def)
  obtain slot where slot: "default_time_config (te_now te) (te_env te) = Inr slot"
    using env by (auto simp: env_supplies_def)
  obtain ps where ps: "build_providers das ?bl (cs ! 0) = Inr ps"
    using build_providers_eq [of das n ?bl "cs ! 0"] len(1) len(3) [OF das] cl i(1) by auto
  obtain g where g: "create_genesis_tx_with_declarations ?cr (tx_ledger (signed_tx (cc_genesis_tx (cs ! 0)))) ps = Inr g"
    using genesis_declarations_total env by (fastforce simp: env_supplies_def)
  have "\<exists>ns. try_map (build_node ?c ids dps bps (map (\<lambda>c. c\<lparr>cc_genesis_tx := g\<rparr>) cs)
        (create_bootstrap_configs ids short_prolonged_bootstrap_period) das nets ?bl apis
        (create_tracing_configs (te_tracing te) (te_env te) (length ids)) slot
        (create_kms_configs te ?bl das (accounts (tc_wallet_config ?c)))) [0..<n] = Inr ns"
    using i(1) dl bl cl(1) len(1,2,5) len(3) [OF das] len(6) [OF len(3) [OF das]] nets(2) apis(2)
    by (intro try_map_total build_node_total [where n = n]) auto
  then obtain ns where ns: "try_map (build_node ?c ids dps bps (map (\<lambda>c. c\<lparr>cc_genesis_tx := g\<rparr>) cs)
        (create_bootstrap_configs ids short_prolonged_bootstrap_period) das nets ?bl apis
        (create_tracing_configs (te_tracing te) (te_env te) (length ids)) slot
        (create_kms_configs te ?bl das (accounts (tc_wallet_config ?c)))) [0..<n] = Inr ns" ..
  have ix: "index_checked cs 0 = Inr (cs ! 0)" using cl(1) i(3) by (simp add: index_checked_def)
  have sum: "usize_add (n_validators ?c) (n_executors ?c) = Inr n" using n by simp
  show ?thesis
    by (simp only: build_def Let_def rbind_simps rust_assert_simps sum n(2) ids dps bps cs das nets(1)
        apis(1) slot ix ps g ns sum.inject simp_thms)
qed


section \<open>Declarations and keys of a generated topology\<close>

lemma declared_output:
  assumes "\<forall>node \<in> set ids. length node = 32"
    and "create_consensus_configs cr ids params w = Inr cs" and "c \<in> set cs" and "i < length ids"
  shows "sn_output_index (cc_da_notes c ! i) = 3 * i + 1
       \<and> sn_note (cc_da_notes c ! i) = ledger_outputs (tx_ledger (signed_tx (cc_genesis_tx c))) ! (3 * i + 1)
       \<and> sn_output_index (cc_blend_notes c ! i) = 3 * i + 2
       \<and> sn_note (cc_blend_notes c ! i) = ledger_outputs (tx_ledger (signed_tx (cc_genesis_tx c))) ! (3 * i + 2)
       \<and> 3 * i + 2 < length (ledger_outputs (tx_ledger (signed_tx (cc_genesis_tx c))))"
proof -
  note f = consensus_configs_ok(2) [OF assms(1-3)]
  have "concat (map (notes_of cr) ids) ! (3 * i + 1) = notes_of cr (ids ! i) ! 1"
    "concat (map (notes_of cr) ids) ! (3 * i + 2) = notes_of cr (ids ! i) ! 2"
    using assms(4) by (intro concat_map_nth; simp)+
  then show ?thesis using f assms(4)
    by (simp add: nth_append service_note_of_def notes_of_def)
qed

text \<open>
  C2. All nodes of a generated topology share one genesis transaction: one inscription, then a
  declaration per node for data availability and one per node for Blend. The declaration of node
  \<open>i\<close> announces the address and keys of that node's own service configuration and locks an output
  that the genesis ledger transaction really has, its own service note at index \<open>3 i + 1\<close> (DA) or
  \<open>3 i + 2\<close> (Blend).
\<close>

theorem genesis_declares_every_node:
  assumes "build te b = Inr t" and "\<forall>n \<in> set (nodes t). length (gn_id n) = 32" and "i < length (nodes t)"
  shows "let g = cc_genesis_tx (gc_consensus (gn_general (nodes t ! 0))); ledger = tx_ledger (signed_tx g);
             cr = te_crypto te; da = gc_da (gn_general (nodes t ! i)); bl = gc_blend (gn_general (nodes t ! i));
             locked = (\<lambda>k. utxo_id cr \<lparr>utxo_tx_hash = ledger_hash cr ledger, utxo_output_index = k,
                                       utxo_note = ledger_outputs ledger ! k\<rparr>) in
      cc_genesis_tx (gc_consensus (gn_general (nodes t ! i))) = g
    \<and> length (tx_ops (signed_tx g)) = 1 + 2 * length (nodes t)
    \<and> tx_ops (signed_tx g) ! (1 + i) = SDPDeclare \<lparr>decl_service_type = DataAvailability,
        decl_locators = [dc_listening_address da], decl_provider_id = ed_public_key cr (dc_signer da),
        decl_zk_id = zk_public cr (dc_secret_zk_key da), decl_locked_note_id = locked (3 * i + 1)\<rparr>
    \<and> tx_ops (signed_tx g) ! (1 + length (nodes t) + i) = SDPDeclare \<lparr>decl_service_type = BlendNetwork,
        decl_locators = [bc_listening_address bl], decl_provider_id = ed_public_key cr (bc_signer bl),
        decl_zk_id = zk_public cr (bc_secret_zk_key bl), decl_locked_note_id = locked (3 * i + 2)\<rparr>
    \<and> 3 * i + 2 < length (ledger_outputs ledger)"
  using assms(1)
proof (cases rule: build_cases)
  case (1 ids dps bps cs das nets apis slot providers genesis ns)
  let ?n = "n_validators (tb_config b) + n_executors (tb_config b)"
  let ?bl = "create_blend_configs (te_crypto te) ids bps"
  note o = build_ordered [OF 1(14)]
  note f = build_node_fields [OF o(2)]
  have t: "nodes t = ns" using 1(15) o(3,4) by (simp add: nodes_def)
  have idl: "length ids = ?n" using 1(3) by (auto simp: resolve_ids_Inr split: option.splits)
  have ids: "\<forall>x \<in> set ids. length x = 32"
    using assms(2) f(3) idl o(1) unfolding t by (auto simp: in_set_conv_nth all_set_conv_all_nth)
  note c = consensus_notes_lengths [OF ids 1(6)]
  have ne: "ids \<noteq> []" using 1(2) idl by auto
  have i: "i < length ids" and lt: "i < length ns" using assms(3) t o(1) idl by auto
  have bpl: "length bps = ?n" using resolve_ports_Inr [OF 1(5)] by simp
  note len = service_configs_lengths [OF idl bpl]
  have pr: "providers = map2 da_provider das (cc_da_notes (cs ! 0)) @ map2 blend_provider ?bl (cc_blend_notes (cs ! 0))"
    using build_providers_eq [of das ?n ?bl "cs ! 0"] len(1) len(3) [OF 1(7)] c [OF ne] idl 1(12) by simp
  have pl: "length providers = 2 * ?n" using pr len(1) len(3) [OF 1(7)] c [OF ne] idl by simp
  have p1: "providers ! i = da_provider (das ! i) (cc_da_notes (cs ! 0) ! i)"
    "providers ! (?n + i) = blend_provider (?bl ! i) (cc_blend_notes (cs ! 0) ! i)"
    using pr len(1) len(3) [OF 1(7)] c [OF ne] idl i by (simp_all add: nth_append)
  note g = genesis_with_declarations [OF 1(13)]
  have g1: "tx_ops (signed_tx genesis) ! Suc i = SDPDeclare (provider_declaration (te_crypto te)
      (ledger_hash (te_crypto te) (tx_ledger (signed_tx (cc_genesis_tx (cs ! 0))))) (providers ! i))"
    and g2: "tx_ops (signed_tx genesis) ! Suc (?n + i) = SDPDeclare (provider_declaration (te_crypto te)
      (ledger_hash (te_crypto te) (tx_ledger (signed_tx (cc_genesis_tx (cs ! 0))))) (providers ! (?n + i)))"
    using g(4) pl i idl by auto
  have gen: "cc_genesis_tx (gc_consensus (gn_general (ns ! k))) = genesis" if "k < length ns" for k
    using f(6,7) [OF that] by simp
  have g0: "cc_genesis_tx (gc_consensus (gn_general (ns ! 0))) = genesis" using lt by (intro gen) linarith
  show ?thesis
    unfolding t Let_def g0 gen [OF lt] f(10) [OF lt] f(12) [OF lt] g(1)
    using declared_output [OF ids 1(6) c(2) [OF ne] i] g(2) pl o(1) g1 g2
    by (simp add: p1 provider_declaration_def da_provider_def blend_provider_def provider_id_def zk_id_def)
qed

text \<open>The genesis ledger every node of a generated topology is configured with.\<close>

lemma build_ledger:
  assumes "build te b = Inr t" and ids32: "\<forall>n \<in> set (nodes t). length (gn_id n) = 32" and n: "n \<in> set (nodes t)"
  shows "ledger_outputs (tx_ledger (signed_tx (cc_genesis_tx (gc_consensus (gn_general n)))))
    = concat (map (notes_of (te_crypto te)) (map gn_id (nodes t)))
      @ map (\<lambda>a. \<lparr>note_value = funds a, note_pk = zk_public (te_crypto te) (secret_key a)\<rparr>) (wallet_accounts_of t)"
  using assms(1)
proof (cases rule: build_cases)
  case (1 ids dps bps cs das nets apis slot providers genesis ns)
  note o = build_ordered [OF 1(14)]
  note f = build_node_fields [OF o(2)]
  have t: "nodes t = ns" using 1(15) o(3,4) by (simp add: nodes_def)
  have idl: "length ids = length ns" using 1(3) o(1) by (auto simp: resolve_ids_Inr split: option.splits)
  have map_ids: "map gn_id ns = ids" using idl f(3) by (intro nth_equalityI) auto
  then have ids: "\<forall>x \<in> set ids. length x = 32" using ids32 t by auto
  have ne: "ids \<noteq> []" using 1(2) idl o(1) by auto
  note c = consensus_notes_lengths(2) [OF ids 1(6) ne]
  obtain k where k: "k < length ns" "n = ns ! k" using n t by (auto simp: in_set_conv_nth)
  have "cc_genesis_tx (gc_consensus (gn_general n)) = genesis" using f(6,7) [OF k(1)] k(2) by simp
  then show ?thesis
    using genesis_with_declarations(1) [OF 1(13)] consensus_configs_ok(2) [OF ids 1(6) c] map_ids t 1(15)
    by (simp add: wallet_accounts_of_def)
qed

lemma insert_wallet_keys_keeps:
  "keys k = Some v \<Longrightarrow> insert_wallet_keys key_id cr as keys k = Some v"
proof (induction as arbitrary: keys)
  case (Cons a as)
  let ?k = "key_id (zk_public cr (secret_key a))"
  have "(if keys ?k = None then keys(?k \<mapsto> KeyZk (secret_key a)) else keys) k = Some v"
    using Cons.prems by auto
  then show ?case unfolding insert_wallet_keys.simps Let_def by (rule Cons.IH)
qed simp

lemma insert_wallet_keys_has:
  "a \<in> set as \<Longrightarrow> insert_wallet_keys key_id cr as keys (key_id (zk_public cr (secret_key a))) \<noteq> None"
proof (induction as arbitrary: keys)
  case (Cons x as)
  show ?case
  proof (cases "a = x")
    case True
    let ?k = "key_id (zk_public cr (secret_key x))"
    obtain v where "(if keys ?k = None then keys(?k \<mapsto> KeyZk (secret_key x)) else keys) ?k = Some v"
      by (cases "keys ?k") auto
    from insert_wallet_keys_keeps [where keys = "if keys ?k = None then keys(?k \<mapsto> KeyZk (secret_key x)) else keys", OF this]
    show ?thesis using True by (simp add: Let_def)
  next
    case False
    with Cons show ?thesis by (simp add: Let_def)
  qed
qed simp

text \<open>
  The preloaded key store of every generated node answers for the keys that node signs with:
  the identifier of its Blend signer, of its DA signer and of both their ZK keys, and of every
  wallet account of the configuration.
\<close>

lemma node_store_keys:
  assumes "build te b = Inr t" and "n \<in> set (nodes t)"
  shows "let cr = te_crypto te; kms = gc_kms (gn_general n);
             da = gc_da (gn_general n); bl = gc_blend (gn_general n) in
      te_ed_key_id te (ed_public_key cr (bc_signer bl)) \<in> dom kms
    \<and> te_ed_key_id te (ed_public_key cr (dc_signer da)) \<in> dom kms
    \<and> te_zk_key_id te (zk_public cr (bc_secret_zk_key bl)) \<in> dom kms
    \<and> kms (te_zk_key_id te (zk_public cr (dc_secret_zk_key da))) = Some (KeyZk (dc_secret_zk_key da))
    \<and> (\<forall>a \<in> set (wallet_accounts_of t). te_zk_key_id te (zk_public cr (secret_key a)) \<in> dom kms)"
  using assms(1)
proof (cases rule: build_cases)
  case (1 ids dps bps cs das nets apis slot providers genesis ns)
  let ?n = "n_validators (tb_config b) + n_executors (tb_config b)"
  let ?bl = "create_blend_configs (te_crypto te) ids bps"
  let ?as = "accounts (tc_wallet_config (tb_config b))"
  note o = build_ordered [OF 1(14)]
  have t: "nodes t = ns" using 1(15) o(3,4) by (simp add: nodes_def)
  then obtain i where i: "i < length ns" "n = ns ! i" using assms(2) by (auto simp: in_set_conv_nth)
  note f = build_node_fields [OF o(2) [OF i(1)], folded i(2)]
  have idl: "length ids = ?n" using 1(3) by (auto simp: resolve_ids_Inr split: option.splits)
  have bpl: "length bps = ?n" using resolve_ports_Inr [OF 1(5)] by simp
  note len = service_configs_lengths [OF idl bpl]
  let ?base = "[te_ed_key_id te (ed_public_key (te_crypto te) (bc_signer (?bl ! i))) \<mapsto> KeyEd25519 (bc_signer (?bl ! i)),
        te_zk_key_id te (zk_public (te_crypto te) (bc_secret_zk_key (?bl ! i))) \<mapsto> KeyZk (bc_secret_zk_key (?bl ! i)),
        te_ed_key_id te (ed_public_key (te_crypto te) (dc_signer (das ! i))) \<mapsto> KeyEd25519 (dc_signer (das ! i)),
        te_zk_key_id te (zk_public (te_crypto te) (dc_secret_zk_key (das ! i))) \<mapsto> KeyZk (dc_secret_zk_key (das ! i))]"
  have kms: "gc_kms (gn_general n) = insert_wallet_keys (te_zk_key_id te) (te_crypto te) ?as ?base"
    using f(8) i(1) o(1) len(1) len(3) [OF 1(7)] by (simp add: create_kms_configs_def Let_def)
  have keeps: "k \<in> dom (gc_kms (gn_general n))" if k: "k \<in> dom ?base" for k
  proof -
    from domD [OF k] obtain v where "?base k = Some v" ..
    then show ?thesis unfolding kms by (intro domI insert_wallet_keys_keeps)
  qed
  have zk: "gc_kms (gn_general n) (te_zk_key_id te (zk_public (te_crypto te) (dc_secret_zk_key (das ! i))))
      = Some (KeyZk (dc_secret_zk_key (das ! i)))"
    unfolding kms by (rule insert_wallet_keys_keeps) simp
  have wal: "te_zk_key_id te (zk_public (te_crypto te) (secret_key a)) \<in> dom (gc_kms (gn_general n))"
    if "a \<in> set (wallet_accounts_of t)" for a
    using insert_wallet_keys_has that unfolding kms domIff
    by (simp add: wallet_accounts_of_def 1(15))
  show ?thesis unfolding Let_def f(10) f(12)
    by (intro conjI ballI zk; (rule wal, assumption | rule keeps, simp))
qed

section \<open>A concrete environment and the witnesses\<close>

definition plain_tracing_env :: tracing_env where
  "plain_tracing_env = \<lparr>parse_endpoint = Some, parse_level = Some,
     default_settings = \<lparr>ts_logger = LoggerOther, ts_tracing = TracingNone, ts_filters = None,
       ts_metrics = MetricsNone, ts_level = ''INFO''\<rparr>\<rparr>"

definition plain_topology_env :: "nat topology_env" where
  "plain_topology_env = \<lparr>te_crypto = plain_crypto,
     te_da = \<lparr>peer_of = from_bytes_le, verifier_key = (\<lambda>_. ''sk''), ed_public = (\<lambda>i. i),
       subnets_of = (\<lambda>m p. {s. \<exists>ms. m s = Some ms \<and> p \<in> ms}), blob_dir = show_nat\<rparr>,
     te_tracing = plain_tracing_env, te_env = Map.empty, te_addr = quic_addr ''127.0.0.1'',
     te_random_id = le_bytes 32, te_da_port = (\<lambda>i. Some (9000 + i)),
     te_blend_port = (\<lambda>i. Some (9100 + i)), te_network_port = (\<lambda>i. Some (9200 + i)),
     te_api_port = (\<lambda>i. Some (9300 + i)), te_testing_port = (\<lambda>i. Some (9400 + i)),
     te_ed_key_id = (\<lambda>k. ''ed'' @ show_nat (from_bytes_le k)), te_zk_key_id = show_nat,
     te_params_path = ''kzg'', te_now = 0\<rparr>"

definition plain_builder :: topology_builder where
  "plain_builder = topology_builder_new (validator_and_executor ''kzg'')"

lemma plain_env_supplies: "env_supplies plain_topology_env"
  by (simp add: env_supplies_def plain_topology_env_def plain_crypto_def default_time_config_def)

lemma plain_builder_fields [simp]:
  "tb_ids plain_builder = None" "tb_da_ports plain_builder = None" "tb_blend_ports plain_builder = None"
  "n_validators (tb_config plain_builder) = 1" "n_executors (tb_config plain_builder) = 1"
  by (simp_all add: plain_builder_def topology_builder_new_def validator_and_executor_def)

text \<open>Every builder of one validator and one executor that presets neither ids nor ports.\<close>

definition two_node_builder :: "topology_builder \<Rightarrow> bool" where
  "two_node_builder b \<longleftrightarrow> tb_ids b = None \<and> tb_da_ports b = None \<and> tb_blend_ports b = None
     \<and> n_validators (tb_config b) = 1 \<and> n_executors (tb_config b) = 1"

lemma plain_two_node_builder [simp]: "two_node_builder plain_builder"
  by (simp add: two_node_builder_def)

lemma two_node_build:
  assumes "two_node_builder b" shows "\<exists>t. build plain_topology_env b = Inr t"
proof -
  have free: "\<And>i. te_da_port plain_topology_env i \<noteq> None" "\<And>i. te_blend_port plain_topology_env i \<noteq> None"
    by (simp_all add: plain_topology_env_def)
  have u: "2 \<le> usize_max" by (simp add: usize_max_def)
  obtain ids dps bps where "resolve_ids (te_random_id plain_topology_env) (tb_ids b) 2 = Inr ids"
    "resolve_ports (te_da_port plain_topology_env) (tb_da_ports b) 2 ''DA'' = Inr dps"
    "resolve_ports (te_blend_port plain_topology_env) (tb_blend_ports b) 2 ''Blend'' = Inr bps"
    using resolve_ids_iff [of "te_random_id plain_topology_env" None 2]
      resolve_ports_iff [where free = "te_da_port plain_topology_env" and ports = None and n = 2 and lbl = "''DA''"]
      resolve_ports_iff [where free = "te_blend_port plain_topology_env" and ports = None and n = 2 and lbl = "''Blend''"]
      free assms by (auto simp: two_node_builder_def)
  then show ?thesis using assms
    by (intro build_total [OF plain_env_supplies, of b 2]) (simp_all add: u two_node_builder_def)
qed

lemmas plain_build = two_node_build [OF plain_two_node_builder]

theorem topology_build_nodes_witness:
  "\<exists>t. build plain_topology_env plain_builder = Inr t \<and> map gn_role (nodes t) = [Validator, Executor]"
proof -
  obtain t where t: "build plain_topology_env plain_builder = Inr t" using plain_build ..
  from topology_build_nodes [OF t] t show ?thesis by auto
qed


lemma two_node_build_ids:
  assumes "two_node_builder b" and "build plain_topology_env b = Inr t"
  shows "map gn_id (nodes t) = [le_bytes 32 0, le_bytes 32 1]"
  using assms(2)
proof (cases rule: build_cases)
  case (1 ids dps bps cs das nets apis slot providers genesis ns)
  note o = build_ordered [OF 1(14)]
  have t: "nodes t = ns" using 1(15) o(3,4) by (simp add: nodes_def)
  have ids: "ids = [le_bytes 32 0, le_bytes 32 1]"
    using 1(3) assms(1) by (simp add: resolve_ids_Inr two_node_builder_def plain_topology_env_def numeral_2_eq_2)
  have "length ns = 2" using o(1) assms(1) by (simp add: two_node_builder_def)
  then have "map gn_id ns = ids"
    using build_node_fields(3) [OF o(2)] by (intro nth_equalityI) (simp_all add: ids)
  then show ?thesis by (simp add: t ids)
qed

lemma plain_build_ids:
  assumes "build plain_topology_env plain_builder = Inr t"
  shows "length (nodes t) = 2 \<and> (\<forall>n \<in> set (nodes t). length (gn_id n) = 32)"
proof -
  have m: "map gn_id (nodes t) = [le_bytes 32 0, le_bytes 32 1]"
    using two_node_build_ids [OF plain_two_node_builder assms] .
  have "length (nodes t) = length (map gn_id (nodes t))" by simp
  then have "length (nodes t) = 2" unfolding m by simp
  moreover have "\<forall>x \<in> set (map gn_id (nodes t)). length x = 32" unfolding m by simp
  ultimately show ?thesis by simp
qed

theorem genesis_declares_every_node_witness:
  "\<exists>t. build plain_topology_env plain_builder = Inr t
     \<and> length (tx_ops (signed_tx (cc_genesis_tx (gc_consensus (gn_general (nodes t ! 0)))))) = 5"
proof -
  obtain t where t: "build plain_topology_env plain_builder = Inr t" using plain_build ..
  from genesis_declares_every_node [OF t plain_build_ids [OF t, THEN conjunct2], of 0] plain_build_ids [OF t] t
  show ?thesis by (auto simp: Let_def)
qed

text \<open>The builder-free configurations: one per node, sharing a genesis with the core nodes declared.\<close>

lemma general_configs_shape:
  assumes "create_general_configs_with_blend_core_subset te n k params = Inr gcs"
  shows "k \<le> n \<and> length gcs = n \<and> (\<exists>genesis. \<forall>g \<in> set gcs. cc_genesis_tx (gc_consensus g) = genesis)"
proof -
  obtain cs bs das nets blends apis trs time kms genesis where k: "k \<le> n" and
    l: "try_map (general_config_at (map (\<lambda>c. c\<lparr>cc_genesis_tx := genesis\<rparr>) cs) bs das nets blends apis trs time kms)
         [0..<n] = Inr gcs"
    using assms unfolding create_general_configs_with_blend_core_subset_def Let_def rbind_Inr_iff
      rust_assert_Inr_iff
    by (elim exE conjE) (rule that, assumption+)
  have "cc_genesis_tx (gc_consensus g) = genesis"
    if "general_config_at (map (\<lambda>c. c\<lparr>cc_genesis_tx := genesis\<rparr>) cs) bs das nets blends apis trs time kms i = Inr g"
    for i g
    using that by (auto simp: general_config_at_def rbind_Inr_iff)
  then have "\<forall>g \<in> set gcs. cc_genesis_tx (gc_consensus g) = genesis"
    using l by (auto simp: try_map_Inr_iff list_all2_conv_all_nth all_set_conv_all_nth)
  with k try_map_length [OF l] show ?thesis by auto
qed

section \<open>DA parameters of a sized topology\<close>

text \<open>
  \<open>TopologyConfig::with_node_numbers\<close> panics exactly when there is no node (or the counts
  overflow); otherwise its DA parameters can be met: every blob goes to at least one and at most
  as many nodes as there are, never to more than a subnetwork holds, there is one subnetwork id per
  slot of the subnetwork size, and no node is required to have more dispersal or replication peers
  than there are other nodes.
\<close>

theorem with_node_numbers_da_params:
  "(case with_node_numbers path v e of
      Inl _ \<Rightarrow> v + e = 0 \<or> usize_max < v + e
    | Inr c \<Rightarrow> let da = tc_da_params c; policy = dp_policy_settings da in
        0 < v + e \<and> n_validators c = v \<and> n_executors c = e
        \<and> n_participants (tc_consensus_params c) = v + e
        \<and> 1 \<le> dp_dispersal_factor da \<and> dp_dispersal_factor da \<le> v + e
        \<and> dp_dispersal_factor da \<le> dp_subnetwork_size da
        \<and> dp_num_subnets da = dp_subnetwork_size da
        \<and> min_dispersal_peers policy \<le> v + e - 1
        \<and> min_replication_peers policy = min_dispersal_peers policy)"
proof (cases "v + e = 0 \<or> usize_max < v + e")
  case True
  then show ?thesis by (auto simp: with_node_numbers_def usize_add_def)
next
  case False
  then have s: "v + e \<le> usize_max" and p: "0 < v + e" by auto
  show ?thesis
  proof (cases "v + e \<le> 1")
    case True
    with p have n: "v + e = 1" by linarith
    show ?thesis unfolding with_node_numbers_def usize_add_def n
      by (simp add: da_params_default_def Let_def default_for_participants_def usize_max_def n)
  next
    case False
    then have "min (v + e) 2 = 2" by simp
    with False p s show ?thesis
      by (simp add: with_node_numbers_def da_params_default_def Let_def default_for_participants_def as_u16_def usize_add_def)
  qed
qed

end
