(* ===== verification/Scenario.thy ===== *)
theory Scenario
  imports Topology_Config
begin

text \<open>
  Scenario definitions: \<open>core/src/scenario/definition.rs\<close> (the builder, the topology configurator,
  initialisation and the minimum duration) and the run metrics of
  \<open>core/src/scenario/runtime/context.rs\<close>.

  The traits \<open>Workload\<close> and \<open>Expectation\<close> are records of operations over the state of the
  implementing type (\<open>'w\<close>, \<open>'x\<close>); an operation that takes \<open>&mut self\<close> returns the new state.
\<close>

section \<open>Run metrics\<close>

record run_metrics =
  rm_run_duration :: duration
  rm_expected_blocks :: nat
  rm_block_interval_hint :: "duration option"

definition calculate_expected_blocks :: "duration \<Rightarrow> duration option \<Rightarrow> f64 \<Rightarrow> nat" where
  "calculate_expected_blocks run slot coeff =
     (case slot of None \<Rightarrow> 0
      | Some slot \<Rightarrow>
          let expected = f64_mul (f64_div (as_secs_f64 run) (as_secs_f64 slot)) coeff
          in f64_to_u64 (f64_clamp (f64_ceil expected) (Fin 0) (f64_of_nat u64_max)))"

definition from_topology :: "'p generated_topology \<Rightarrow> duration \<Rightarrow> run_metrics rust" where
  "from_topology t run =
     (let slot = slot_duration t;
          coeff = active_slot_coeff (tc_consensus_params (gt_config t));
          expected = calculate_expected_blocks run slot coeff in
      rbind (case slot of None \<Rightarrow> Inr None
             | Some d \<Rightarrow> rbind (mul_f64 d (f64_clamp coeff (Fin 0) (Fin 1))) (\<lambda>h. Inr (Some h))) (\<lambda>hint.
      Inr \<lparr>rm_run_duration = run, rm_expected_blocks = expected, rm_block_interval_hint = hint\<rparr>))"

section \<open>Workloads, expectations and the builder\<close>

record ('p, 'x) expectation_ops =
  e_name :: "'x \<Rightarrow> string"
  e_init :: "'p generated_topology \<Rightarrow> run_metrics \<Rightarrow> 'x \<Rightarrow> string + 'x"

record ('p, 'w, 'x) workload_ops =
  w_name :: "'w \<Rightarrow> string"
  w_expectations :: "'w \<Rightarrow> 'x list"
  w_init :: "'p generated_topology \<Rightarrow> run_metrics \<Rightarrow> 'w \<Rightarrow> string + 'w"

datatype capability = NoCapability | NodeControlCapability

record ('w, 'x) scenario_builder =
  sb_topology :: topology_builder
  sb_workloads :: "'w list"
  sb_expectations :: "'x list"
  sb_duration :: duration
  sb_capabilities :: capability

record ('p, 'w, 'x) scenario =
  sc_topology :: "'p generated_topology"
  sc_workloads :: "'w list"
  sc_expectations :: "'x list"
  sc_duration :: duration
  sc_capabilities :: capability

definition requires_node_control :: "capability \<Rightarrow> bool" where
  "requires_node_control c = (case c of NoCapability \<Rightarrow> False | NodeControlCapability \<Rightarrow> True)"

definition scenario_builder_new :: "topology_builder \<Rightarrow> ('w, 'x) scenario_builder" where
  "scenario_builder_new t = \<lparr>sb_topology = t, sb_workloads = [], sb_expectations = [],
     sb_duration = 0, sb_capabilities = NoCapability\<rparr>"

definition scenario_with_node_counts :: "string \<Rightarrow> nat \<Rightarrow> nat \<Rightarrow> ('w, 'x) scenario_builder rust" where
  "scenario_with_node_counts path v e =
     rbind (with_node_numbers path v e) (\<lambda>c. Inr (scenario_builder_new (topology_builder_new c)))"

definition with_capabilities :: "capability \<Rightarrow> ('w, 'x) scenario_builder \<Rightarrow> ('w, 'x) scenario_builder" where
  "with_capabilities c b = b\<lparr>sb_capabilities := c\<rparr>"

definition enable_node_control :: "('w, 'x) scenario_builder \<Rightarrow> ('w, 'x) scenario_builder" where
  "enable_node_control b = with_capabilities NodeControlCapability b"

definition with_workload ::
  "('p, 'w, 'x) workload_ops \<Rightarrow> 'w \<Rightarrow> ('w, 'x) scenario_builder \<Rightarrow> ('w, 'x) scenario_builder" where
  "with_workload W w b = b\<lparr>sb_expectations := sb_expectations b @ w_expectations W w,
                            sb_workloads := sb_workloads b @ [w]\<rparr>"

definition with_expectation :: "'x \<Rightarrow> ('w, 'x) scenario_builder \<Rightarrow> ('w, 'x) scenario_builder" where
  "with_expectation x b = b\<lparr>sb_expectations := sb_expectations b @ [x]\<rparr>"

definition with_run_duration :: "duration \<Rightarrow> ('w, 'x) scenario_builder \<Rightarrow> ('w, 'x) scenario_builder" where
  "with_run_duration d b = b\<lparr>sb_duration := d\<rparr>"

definition map_topology ::
  "(topology_builder \<Rightarrow> topology_builder) \<Rightarrow> ('w, 'x) scenario_builder \<Rightarrow> ('w, 'x) scenario_builder" where
  "map_topology f b = b\<lparr>sb_topology := f (sb_topology b)\<rparr>"

definition scenario_with_wallet_config ::
  "wallet_config \<Rightarrow> ('w, 'x) scenario_builder \<Rightarrow> ('w, 'x) scenario_builder" where
  "scenario_with_wallet_config w b = b\<lparr>sb_topology := with_wallet_config (sb_topology b) w\<rparr>"

definition default_funds_per_wallet :: nat where "default_funds_per_wallet = 100"

definition wallets :: "nat \<Rightarrow> ('w, 'x) scenario_builder \<Rightarrow> ('w, 'x) scenario_builder rust" where
  "wallets users b =
     rbind (rust_assert (users \<noteq> 0) ''wallet user count must be non-zero'') (\<lambda>_.
     rbind (rust_assert (default_funds_per_wallet * users \<le> u64_max) ''wallet count exceeds capacity'') (\<lambda>_.
     rbind (uniform (default_funds_per_wallet * users) users) (\<lambda>w.
       Inr (scenario_with_wallet_config w b))))"

section \<open>The topology configurator\<close>

record ('w, 'x) topology_configurator =
  cf_builder :: "('w, 'x) scenario_builder"
  cf_validators :: nat
  cf_executors :: nat
  cf_network_star :: bool

definition configurator_new :: "('w, 'x) scenario_builder \<Rightarrow> ('w, 'x) topology_configurator" where
  "configurator_new b = \<lparr>cf_builder = b, cf_validators = 0, cf_executors = 0, cf_network_star = False\<rparr>"

definition topology :: "string \<Rightarrow> ('w, 'x) topology_configurator" where
  "topology path = configurator_new (scenario_builder_new (topology_builder_new (topology_config_empty path)))"

definition cf_set_validators :: "nat \<Rightarrow> ('w, 'x) topology_configurator \<Rightarrow> ('w, 'x) topology_configurator" where
  "cf_set_validators n c = c\<lparr>cf_validators := n\<rparr>"

definition cf_set_executors :: "nat \<Rightarrow> ('w, 'x) topology_configurator \<Rightarrow> ('w, 'x) topology_configurator" where
  "cf_set_executors n c = c\<lparr>cf_executors := n\<rparr>"

definition network_star :: "('w, 'x) topology_configurator \<Rightarrow> ('w, 'x) topology_configurator" where
  "network_star c = c\<lparr>cf_network_star := True\<rparr>"

definition configurator_apply :: "string \<Rightarrow> ('w, 'x) topology_configurator \<Rightarrow> ('w, 'x) scenario_builder rust" where
  "configurator_apply path c =
     rbind (usize_add (cf_validators c) (cf_executors c)) (\<lambda>participants.
     rbind (rust_assert (0 < participants)
       ''topology must include at least one node; call validators()/executors() before apply()'') (\<lambda>_.
     rbind (with_node_numbers path (cf_validators c) (cf_executors c)) (\<lambda>config.
     let config' = (if cf_network_star c
                    then config\<lparr>tc_network_params := \<lparr>libp2p_network_layout = Star\<rparr>\<rparr> else config)
     in Inr ((cf_builder c)\<lparr>sb_topology := topology_builder_new config'\<rparr>))))"

definition topology_with ::
  "string \<Rightarrow> (('w, 'x) topology_configurator \<Rightarrow> ('w, 'x) topology_configurator) \<Rightarrow> ('w, 'x) scenario_builder rust" where
  "topology_with path f = configurator_apply path (f (topology path))"

section \<open>Building a scenario\<close>

definition min_expectation_blocks :: nat where "min_expectation_blocks = 2"
definition min_expectation_fallback_secs :: nat where "min_expectation_fallback_secs = 10"

definition enforce_min_duration :: "'p generated_topology \<Rightarrow> duration \<Rightarrow> duration rust" where
  "enforce_min_duration t requested =
     rbind (case slot_duration t of
              None \<Rightarrow> Inr (from_secs min_expectation_fallback_secs)
            | Some slot \<Rightarrow> duration_mul slot min_expectation_blocks) (\<lambda>min_duration.
     Inr (max requested min_duration))"

definition initialize_workloads ::
  "('p, 'w, 'x) workload_ops \<Rightarrow> 'p generated_topology \<Rightarrow> run_metrics \<Rightarrow> 'w list \<Rightarrow> 'w list rust" where
  "initialize_workloads W t m ws = try_map (\<lambda>w. case w_init W t m w of
       Inr w' \<Rightarrow> Inr w'
     | Inl err \<Rightarrow> Inl (''workload '' @ [CHR 0x27] @ w_name W w @ [CHR 0x27] @ '' failed to initialize: '' @ err)) ws"

definition initialize_expectations ::
  "('p, 'x) expectation_ops \<Rightarrow> 'p generated_topology \<Rightarrow> run_metrics \<Rightarrow> 'x list \<Rightarrow> 'x list rust" where
  "initialize_expectations X t m xs = try_map (\<lambda>x. case e_init X t m x of
       Inr x' \<Rightarrow> Inr x'
     | Inl err \<Rightarrow> Inl (''expectation '' @ [CHR 0x27] @ e_name X x @ [CHR 0x27] @ '' failed to initialize: '' @ err)) xs"

definition scenario_build ::
  "'p::linorder topology_env \<Rightarrow> ('p, 'w, 'x) workload_ops \<Rightarrow> ('p, 'x) expectation_ops
   \<Rightarrow> ('w, 'x) scenario_builder \<Rightarrow> ('p, 'w, 'x) scenario rust" where
  "scenario_build te W X b =
     rbind (build te (sb_topology b)) (\<lambda>generated.
     rbind (enforce_min_duration generated (sb_duration b)) (\<lambda>duration.
     rbind (from_topology generated duration) (\<lambda>metrics.
     rbind (initialize_workloads W generated metrics (sb_workloads b)) (\<lambda>ws.
     rbind (initialize_expectations X generated metrics (sb_expectations b)) (\<lambda>xs.
       Inr \<lparr>sc_topology = generated, sc_workloads = ws, sc_expectations = xs,
            sc_duration = duration, sc_capabilities = sb_capabilities b\<rparr>)))))"

section \<open>Properties\<close>

lemma default_coeff:
  "\<exists>c. active_slot_coeff (default_for_participants n) = Fin c \<and> 5 / 8 \<le> c \<and> c \<le> 1"
proof -
  have "f64_of_rat (9 / 10) = Fin (rnd (9 / 10))" by (rule f64_of_rat_finite) simp_all
  moreover have "5 / 8 \<le> rnd (9 / 10)" using rnd_ge_eighths [of 5 "9 / 10"] by simp
  moreover have "rnd (9 / 10) \<le> 1" using rnd_le_nat [of "9 / 10" 1] by simp
  ultimately show ?thesis by (auto simp: default_for_participants_def)
qed

lemma u64_max_f64: "N < 2 ^ 53 \<Longrightarrow> \<exists>m. f64_of_nat u64_max = Fin m \<and> of_nat N \<le> m"
proof -
  assume N: "N < 2 ^ 53"
  have u: "u64_max < 2 ^ 64" by (simp add: u64_max_def)
  have "f64_of_nat u64_max = Fin (rnd (of_nat u64_max))"
    unfolding f64_of_nat_def by (rule f64_of_rat_finite [OF of_nat_0_le_iff small_lt [OF u]])
  moreover have "N \<le> u64_max" using N by (simp add: u64_max_def)
  then have "rnd (of_nat N) \<le> rnd (of_nat u64_max)" by (intro rnd_mono) (simp_all only: of_nat_le_iff of_nat_0_le_iff)
  ultimately show ?thesis using rnd_nat_exact [OF N] by auto
qed

text \<open>Whole seconds and a coefficient in the unit interval: the rounded quotient stays below the slot count.\<close>

lemma expected_blocks_whole:
  assumes s: "0 < s" "s < 2 ^ 50" and r: "r < 2 ^ 50" and c: "0 \<le> c" "c \<le> 1"
  defines "y \<equiv> rnd (rnd (of_nat r / of_nat s) * c)"
  shows "calculate_expected_blocks (from_secs r) (Some (from_secs s)) (Fin c) = nat \<lceil>y\<rceil>"
    and "0 \<le> y" and "y \<le> of_nat ((r + s - 1) div s)"
proof -
  define N where "N = (r + s - 1) div s"
  define x where "x = rnd (of_nat r / of_nat s)"
  have N: "N < 2 ^ 53"
  proof -
    have "N \<le> r + s - 1" by (simp add: N_def)
    then show ?thesis using s r by simp
  qed
  have q: "0 \<le> (of_nat r / of_nat s :: rat)" "(of_nat r / of_nat s :: rat) \<le> of_nat N"
  proof -
    have "r \<le> N * s"
      using div_mult_mod_eq [of "r + s - 1" s] mod_less_divisor [OF s(1), of "r + s - 1"] s(1)
      unfolding N_def by linarith
    then have "(of_nat r :: rat) \<le> of_nat N * of_nat s" by (metis of_nat_le_iff of_nat_mult)
    then show "(of_nat r / of_nat s :: rat) \<le> of_nat N" using s by (simp add: field_simps)
  qed simp
  have x: "0 \<le> x" "x \<le> of_nat N" using q N by (auto simp: x_def intro: rnd_nonneg rnd_le_nat)
  have xc: "0 \<le> x * c" "x * c \<le> of_nat N" using x c mult_mono [of x "of_nat N" c 1] by auto
  show y0: "0 \<le> y" and yN: "y \<le> of_nat ((r + s - 1) div s)"
    using rnd_nonneg [OF xc(1)] rnd_le_nat [OF xc N] by (simp_all add: y_def x_def N_def)
  have big: "q < 2 ^ 1000" if "q \<le> of_nat N" for q :: rat using small_lt [of N] N that by simp
  have "f64_div (as_secs_f64 (from_secs r)) (as_secs_f64 (from_secs s)) = Fin x"
    using s r f64_of_rat_finite [OF q(1) big [OF q(2)]] by (simp add: as_secs_f64_whole x_def)
  moreover have "f64_mul (Fin x) (Fin c) = Fin y"
    using f64_of_rat_finite [OF xc(1) big [OF xc(2)]] by (simp add: y_def x_def)
  moreover obtain m where m: "f64_of_nat u64_max = Fin m" "of_nat N \<le> m" using u64_max_f64 [OF N] by blast
  moreover have ceil: "\<lceil>y\<rceil> \<le> int N" using yN by (simp add: N_def ceiling_le_iff)
  moreover have "(of_int \<lceil>y\<rceil> :: rat) \<le> m" using ceil m(2) by (metis of_int_le_iff of_int_of_nat_eq order_trans)
  moreover have "0 \<le> \<lceil>y\<rceil>" using y0 by simp
  moreover have "nat \<lceil>y\<rceil> \<le> u64_max" using ceil N by (simp add: u64_max_def)
  ultimately show "calculate_expected_blocks (from_secs r) (Some (from_secs s)) (Fin c) = nat \<lceil>y\<rceil>"
    by (simp add: calculate_expected_blocks_def Let_def f64_clamp_def)
qed

text \<open>
  For whole-second slots and durations, a run of at least two slots (the minimum that building
  a scenario enforces) expects at least two consensus blocks under the default slot coefficient,
  and never more blocks than there are slots in the run, in spite of the binary64 rounding of the
  quotient and of the product.
\<close>

theorem expected_blocks_bounds:
  assumes "0 < s" and "2 * s \<le> r" and "r < 2 ^ 50"
  shows "let e = calculate_expected_blocks (from_secs r) (Some (from_secs s))
                   (active_slot_coeff (default_for_participants n))
         in 2 \<le> e \<and> e \<le> (r + s - 1) div s"
proof -
  obtain c where c: "active_slot_coeff (default_for_participants n) = Fin c" "5 / 8 \<le> c" "c \<le> 1"
    using default_coeff by blast
  let ?y = "rnd (rnd (of_nat r / of_nat s) * c)"
  have sb: "s < 2 ^ 50" using assms by simp
  note w = expected_blocks_whole [OF assms(1) sb assms(3), of c]
  have "(of_nat 16 / 8 :: rat) \<le> of_nat r / of_nat s"
  proof -
    have "(of_nat (2 * s) :: rat) \<le> of_nat r" using assms(2) by (simp only: of_nat_le_iff)
    then show ?thesis using assms(1) by (simp add: field_simps)
  qed
  then have "2 \<le> rnd (of_nat r / of_nat s)" using rnd_ge_eighths [of 16] by simp
  then have "of_nat 10 / 8 \<le> rnd (of_nat r / of_nat s) * c"
    using c(2) mult_mono [of 2 "rnd (of_nat r / of_nat s)" "5 / 8" c] by simp
  then have "of_nat 10 / 8 \<le> ?y" by (intro rnd_ge_eighths) simp_all
  then have "2 \<le> \<lceil>?y\<rceil>" by (simp add: le_ceiling_iff)
  moreover have "\<lceil>?y\<rceil> \<le> int ((r + s - 1) div s)" using w(3) c by (simp add: ceiling_le_iff)
  ultimately have "2 \<le> nat \<lceil>?y\<rceil> \<and> nat \<lceil>?y\<rceil> \<le> (r + s - 1) div s" by linarith
  then show ?thesis using w(1) c by (simp add: Let_def)
qed

theorem expected_blocks_bounds_witness:
  "let e = calculate_expected_blocks (from_secs 60) (Some (from_secs 2))
             (active_slot_coeff (default_for_participants 4)) in 2 \<le> e \<and> e \<le> 30"
  using expected_blocks_bounds [of 2 60 4] by (simp add: Let_def)

text \<open>
  \<open>Builder::build\<close> never shortens the requested duration and always covers two slots (or ten
  seconds when no slot length is known); it initialises every workload and every expectation once,
  in the order they were added, with the generated topology and the metrics of that same duration,
  and keeps the capability.
\<close>

theorem scenario_build_initialises:
  assumes "scenario_build te W X b = Inr sc"
  shows "\<exists>m. build te (sb_topology b) = Inr (sc_topology sc)
    \<and> from_topology (sc_topology sc) (sc_duration sc) = Inr m \<and> rm_run_duration m = sc_duration sc
    \<and> list_all2 (\<lambda>w w'. w_init W (sc_topology sc) m w = Inr w') (sb_workloads b) (sc_workloads sc)
    \<and> list_all2 (\<lambda>x x'. e_init X (sc_topology sc) m x = Inr x') (sb_expectations b) (sc_expectations sc)
    \<and> sc_duration sc = max (sb_duration b)
        (case slot_duration (sc_topology sc) of None \<Rightarrow> from_secs 10 | Some slot \<Rightarrow> 2 * slot)
    \<and> sc_capabilities sc = sb_capabilities b"
proof -
  obtain t d m ws xs where t: "build te (sb_topology b) = Inr t"
    and d: "enforce_min_duration t (sb_duration b) = Inr d" and m: "from_topology t d = Inr m"
    and ws: "initialize_workloads W t m (sb_workloads b) = Inr ws"
    and xs: "initialize_expectations X t m (sb_expectations b) = Inr xs"
    and sc: "sc = \<lparr>sc_topology = t, sc_workloads = ws, sc_expectations = xs, sc_duration = d,
                   sc_capabilities = sb_capabilities b\<rparr>"
    using assms by (auto simp: scenario_build_def rbind_Inr_iff)
  have "rm_run_duration m = d" using m by (auto simp: from_topology_def Let_def rbind_Inr_iff)
  moreover have "list_all2 (\<lambda>w w'. w_init W t m w = Inr w') (sb_workloads b) ws"
    using ws unfolding initialize_workloads_def try_map_Inr_iff
    by (rule list_all2_mono) (auto split: sum.splits)
  moreover have "list_all2 (\<lambda>x x'. e_init X t m x = Inr x') (sb_expectations b) xs"
    using xs unfolding initialize_expectations_def try_map_Inr_iff
    by (rule list_all2_mono) (auto split: sum.splits)
  moreover have "d = max (sb_duration b) (case slot_duration t of None \<Rightarrow> from_secs 10 | Some slot \<Rightarrow> 2 * slot)"
    using d by (auto simp: enforce_min_duration_def rbind_Inr_iff duration_mul_def
        min_expectation_blocks_def min_expectation_fallback_secs_def split: option.splits if_splits)
  ultimately show ?thesis using t m by (auto simp: sc)
qed

text \<open>Building a scenario only panics where its parts do: a slot of whole seconds gives metrics.\<close>

lemma clamp_unit: "c \<noteq> NaN \<Longrightarrow> \<exists>x. f64_clamp c (Fin 0) (Fin 1) = Fin x \<and> 0 \<le> x \<and> x \<le> 1"
  by (cases c) (auto simp: f64_clamp_def)

lemma from_topology_total:
  assumes "active_slot_coeff (tc_consensus_params (gt_config t)) \<noteq> NaN"
    and "slot_duration t = Some (from_secs s)" and "s < 2 ^ 53"
  shows "\<exists>m. from_topology t run = Inr m \<and> (\<exists>h \<le> from_secs s. rm_block_interval_hint m = Some h)"
proof -
  obtain x where "f64_clamp (active_slot_coeff (tc_consensus_params (gt_config t))) (Fin 0) (Fin 1) = Fin x"
    "0 \<le> x" "x \<le> 1" using clamp_unit [OF assms(1)] by blast
  then show ?thesis using mul_f64_unit [OF assms(3), of x] assms(2)
    by (auto simp: from_topology_def Let_def)
qed

lemma slot_of_build:
  assumes "build te b = Inr t" and "0 < n_validators (tb_config b)"
    and "default_time_config (te_now te) (te_env te) = Inr tm"
  shows "slot_duration t = Some (tm_slot_duration tm)"
  using assms(1)
proof (cases rule: build_cases)
  case (1 ids dps bps cs das nets apis slot providers genesis ns)
  note o = build_ordered [OF 1(14)]
  have l: "0 < length ns" using o(1) assms(2) by simp
  have "gc_time (gn_general (ns ! 0)) = tm" using build_node_fields(9) [OF o(2) [OF l]] 1(10) assms(3) by simp
  moreover have "gt_validators t = take (n_validators (tb_config b)) ns" using 1(15) o(3) by simp
  moreover obtain n rest where "ns = n # rest" using l by (cases ns) auto
  moreover obtain k where "n_validators (tb_config b) = Suc k" using assms(2) by (cases "n_validators (tb_config b)") auto
  ultimately show ?thesis by (simp add: slot_duration_def)
qed

lemma scenario_build_total:
  assumes t: "build te (sb_topology b) = Inr t"
    and "active_slot_coeff (tc_consensus_params (gt_config t)) \<noteq> NaN"
    and "slot_duration t = Some (from_secs s)" and s: "s < 2 ^ 53"
    and "\<And>m w. \<exists>w'. w_init W t m w = Inr w'" and "\<And>m x. \<exists>x'. e_init X t m x = Inr x'"
  shows "\<exists>sc. scenario_build te W X b = Inr sc"
proof -
  have "from_secs s * 2 \<le> duration_max"
    using from_secs_le_max [of "s * 2"] s by (simp add: from_secs_def u64_max_def)
  then have d: "enforce_min_duration t (sb_duration b) = Inr (max (sb_duration b) (from_secs s * 2))"
    using assms(3) by (simp add: enforce_min_duration_def duration_mul_def min_expectation_blocks_def)
  obtain m where m: "from_topology t (max (sb_duration b) (from_secs s * 2)) = Inr m"
    using from_topology_total [OF assms(2,3) s] by blast
  obtain ws where ws: "initialize_workloads W t m (sb_workloads b) = Inr ws"
    unfolding initialize_workloads_def using try_map_total assms(5) by (metis (no_types, lifting) sum.case(2))
  obtain xs where xs: "initialize_expectations X t m (sb_expectations b) = Inr xs"
    unfolding initialize_expectations_def using try_map_total assms(6) by (metis (no_types, lifting) sum.case(2))
  show ?thesis by (simp add: scenario_build_def t d m ws xs)
qed

theorem scenario_build_initialises_witness:
  "\<exists>sc. scenario_build plain_topology_env
       \<lparr>w_name = (\<lambda>w. ''work''), w_expectations = (\<lambda>w. [w]), w_init = (\<lambda>_ m w. Inr (Suc w))\<rparr>
       \<lparr>e_name = (\<lambda>x. ''expect''), e_init = (\<lambda>_ m x. Inr (x + 10))\<rparr>
       \<lparr>sb_topology = plain_builder, sb_workloads = [1::nat], sb_expectations = [1, 2 :: nat],
        sb_duration = 0, sb_capabilities = NoCapability\<rparr> = Inr sc
     \<and> sc_workloads sc = [2] \<and> sc_expectations sc = [11, 12] \<and> sc_duration sc = from_secs 4"
proof -
  let ?W = "\<lparr>w_name = (\<lambda>w. ''work''), w_expectations = (\<lambda>w. [w]), w_init = (\<lambda>_ m w. Inr (Suc w))\<rparr>
    :: (nat, nat, nat) workload_ops"
  let ?X = "\<lparr>e_name = (\<lambda>x. ''expect''), e_init = (\<lambda>_ m x. Inr (x + 10))\<rparr> :: (nat, nat) expectation_ops"
  let ?b = "\<lparr>sb_topology = plain_builder, sb_workloads = [1::nat], sb_expectations = [1, 2 :: nat],
        sb_duration = 0, sb_capabilities = NoCapability\<rparr>"
  obtain t where t: "build plain_topology_env plain_builder = Inr t" using plain_build ..
  have slot: "slot_duration t = Some (from_secs 2)"
    using slot_of_build [OF t] by (simp add: default_time_config_def plain_topology_env_def)
  have "gt_config t = tb_config plain_builder" using t by (cases rule: build_cases) simp
  then have coeff: "active_slot_coeff (tc_consensus_params (gt_config t)) \<noteq> NaN"
    using default_coeff [of 2]
    by (auto simp: plain_builder_def topology_builder_new_def validator_and_executor_def)
  obtain sc where sc: "scenario_build plain_topology_env ?W ?X ?b = Inr sc"
    using scenario_build_total [of plain_topology_env ?b t 2 ?W ?X] t coeff slot by auto
  from scenario_build_initialises [OF sc] t slot sc show ?thesis
    by (auto simp: list_all2_Cons1 from_secs_def)
qed

end
