(* ===== verification/Runner.thy ===== *)
theory Runner
  imports Scenario
begin

text \<open>
  The runner: \<open>core/src/scenario/runtime/runner.rs\<close>, with the run context, run handle and cleanup
  guard of \<open>context.rs\<close> and the error type of \<open>deployer.rs\<close>.

  Time is the number of nanoseconds since the workloads were spawned. A workload task is described by
  what joining it yields and when it finishes (tasks that never finish are counted); the join set
  keeps finishing tasks in completion order, as \<open>join_next\<close> yields them. \<open>timeout\<close> polls the inner
  future before the timer, so a task that finishes at the deadline is still joined. Aborting a task
  that has not finished yields a cancellation.

  Every effect the lifecycle contract speaks about (capture, start and end of the workloads,
  evaluation, cleanup) is an event in a log.
\<close>

section \<open>Run context\<close>

record 'p run_context =
  rc_descriptors :: "'p generated_topology"
  rc_metrics :: run_metrics
  rc_node_control :: bool

definition run_context_new :: "'p generated_topology \<Rightarrow> duration \<Rightarrow> bool \<Rightarrow> 'p run_context rust" where
  "run_context_new descriptors run_duration node_control =
     rbind (from_topology descriptors run_duration) (\<lambda>m.
       Inr \<lparr>rc_descriptors = descriptors, rc_metrics = m, rc_node_control = node_control\<rparr>)"

datatype scenario_error = WorkloadError string | ExpectationCapture string | ExpectationsError string

record ('p, 'x) runtime_expectation_ops = "('p, 'x) expectation_ops" +
  e_start_capture :: "'p run_context \<Rightarrow> 'x \<Rightarrow> string + 'x"
  e_evaluate :: "'p run_context \<Rightarrow> 'x \<Rightarrow> (string + unit) \<times> 'x"

section \<open>Workload tasks\<close>

datatype panic_payload = PanicString string | PanicStr string | PanicOther

definition panic_message :: "panic_payload \<Rightarrow> string" where
  "panic_message p = (case p of PanicString s \<Rightarrow> s | PanicStr s \<Rightarrow> s | PanicOther \<Rightarrow> ''unknown panic'')"

datatype start_outcome = StartOk | StartErr string | StartPanic panic_payload

datatype join_result = Joined "string + unit" | JoinCancelled | JoinFailed string

definition workload_task :: "start_outcome \<Rightarrow> join_result" where
  "workload_task out = (case out of
       StartOk \<Rightarrow> Joined (Inr ())
     | StartErr e \<Rightarrow> Joined (Inl e)
     | StartPanic p \<Rightarrow> Joined (Inl (''workload panicked: '' @ panic_message p)))"

definition map_join_result :: "join_result \<Rightarrow> scenario_error + unit" where
  "map_join_result r = (case r of
       Joined (Inr u) \<Rightarrow> Inr ()
     | Joined (Inl e) \<Rightarrow> Inl (WorkloadError e)
     | JoinCancelled \<Rightarrow> Inr ()
     | JoinFailed e \<Rightarrow> Inl (WorkloadError (''workload task failed: '' @ e)))"

record join_set =
  js_finishing :: "(duration \<times> join_result) list"
  js_endless :: nat

text \<open>How a workload behaves when started: the time it takes (\<open>None\<close>: for ever) and its outcome.\<close>

type_synonym behaviour = "duration option \<times> start_outcome"

definition spawn_workloads :: "behaviour list \<Rightarrow> join_set" where
  "spawn_workloads bs = \<lparr>
     js_finishing = sort_key fst (filter_map (\<lambda>(t, out). map_option (\<lambda>d. (d, workload_task out)) t) bs),
     js_endless = length (filter (\<lambda>(t, out). t = None) bs)\<rparr>"

definition js_is_empty :: "join_set \<Rightarrow> bool" where
  "js_is_empty js = (js_finishing js = [] \<and> js_endless js = 0)"

text \<open>Result, time of return, and what is left in the set.\<close>

fun drive_loop ::
  "duration \<Rightarrow> duration \<Rightarrow> nat \<Rightarrow> (duration \<times> join_result) list
   \<Rightarrow> (scenario_error + bool) \<times> duration \<times> (duration \<times> join_result) list" where
  "drive_loop deadline now endless [] =
     (if endless = 0 then (Inr False, now, []) else (Inr True, deadline, []))"
| "drive_loop deadline now endless ((t, r) # ts) =
     (if t \<le> deadline then
        (case map_join_result r of
           Inl e \<Rightarrow> (Inl e, max now t, ts)
         | Inr u \<Rightarrow> drive_loop deadline (max now t) endless ts)
      else (Inr True, deadline, (t, r) # ts))"

definition drive_until_timer ::
  "join_set \<Rightarrow> duration \<Rightarrow> duration \<Rightarrow> (scenario_error + bool) \<times> duration \<times> join_set" where
  "drive_until_timer js now duration =
     (case drive_loop (now + duration) now (js_endless js) (js_finishing js) of
        (res, now', rest) \<Rightarrow> (res, now', js\<lparr>js_finishing := rest\<rparr>))"

definition abort_result :: "duration \<Rightarrow> duration \<times> join_result \<Rightarrow> join_result" where
  "abort_result now tr = (if fst tr \<le> now then snd tr else JoinCancelled)"

fun join_all :: "join_result list \<Rightarrow> scenario_error + unit" where
  "join_all [] = Inr ()"
| "join_all (r # rs) = (case map_join_result r of Inl e \<Rightarrow> Inl e | Inr u \<Rightarrow> join_all rs)"

definition drain_workloads :: "join_set \<Rightarrow> duration \<Rightarrow> scenario_error + unit" where
  "drain_workloads js now =
     join_all (map (abort_result now) (js_finishing js) @ replicate (js_endless js) JoinCancelled)"

definition cooldown_duration :: "'p run_context \<Rightarrow> duration option rust" where
  "cooldown_duration ctx =
     (case rm_block_interval_hint (rc_metrics ctx) of
        Some interval \<Rightarrow>
          if interval = 0 then Inr None
          else rbind (mul_f64 interval (Fin 5)) (\<lambda>wait.
               rbind (mul_f64 interval (f64_of_nat (security_param (tc_consensus_params (gt_config (rc_descriptors ctx)))))) (\<lambda>k.
               let wait' = max wait k in
               Inr (Some (if rc_node_control ctx then max wait' (from_secs 30) else wait'))))
      | None \<Rightarrow> if rc_node_control ctx then Inr (Some (from_secs 30)) else Inr None)"

text \<open>
  The outer sum is a panic; otherwise the result with the time at which it is returned. The cooldown
  is computed after the first phase, so an error there comes before its panic. Returning an error
  drops the join set, which aborts what is left in it.
\<close>

definition run_workloads ::
  "duration option rust \<Rightarrow> duration \<Rightarrow> behaviour list \<Rightarrow> ((scenario_error + unit) \<times> duration) rust" where
  "run_workloads cooldown duration bs =
     (case drive_until_timer (spawn_workloads bs) 0 duration of
        (Inl e, now, js) \<Rightarrow> Inr (Inl e, now)
      | (Inr timed_out, now, js) \<Rightarrow>
          rbind cooldown (\<lambda>cooldown. Inr (case cooldown of
             None \<Rightarrow> (drain_workloads js now, now)
           | Some c \<Rightarrow>
               if c = 0 then (drain_workloads js now, now)
               else if js_is_empty js then (drain_workloads js (now + c), now + c)
               else (case drive_until_timer js now c of
                       (Inl e, now', js') \<Rightarrow> (Inl e, now')
                     | (Inr t', now', js') \<Rightarrow> (drain_workloads js' now', now')))))"

definition settle_before_expectations :: "'p run_context \<Rightarrow> duration option" where
  "settle_before_expectations ctx =
     (if \<not> rc_node_control ctx \<and> rm_block_interval_hint (rc_metrics ctx) = None then None
      else let wait = (case rm_block_interval_hint (rc_metrics ctx) of
                         Some h \<Rightarrow> h | None \<Rightarrow> from_secs 1)
           in Some (max wait (from_secs 2)))"

section \<open>Expectations\<close>

datatype run_event = Captured string | CaptureFailed string | WorkloadsStarted nat
  | WorkloadsEnded bool | Evaluated string bool | CleanedUp

fun prepare_expectations ::
  "('p, 'x) runtime_expectation_ops \<Rightarrow> 'p run_context \<Rightarrow> 'x list
   \<Rightarrow> (scenario_error + 'x list) \<times> run_event list" where
  "prepare_expectations X ctx [] = (Inr [], [])"
| "prepare_expectations X ctx (x # xs) =
     (case e_start_capture X ctx x of
        Inl e \<Rightarrow> (Inl (ExpectationCapture e), [CaptureFailed (e_name X x)])
      | Inr x' \<Rightarrow> (case prepare_expectations X ctx xs of
            (Inl e, ev) \<Rightarrow> (Inl e, Captured (e_name X x) # ev)
          | (Inr xs', ev) \<Rightarrow> (Inr (x' # xs'), Captured (e_name X x) # ev)))"

text \<open>The name is read after the evaluation, as in the source.\<close>

fun evaluate_loop ::
  "('p, 'x) runtime_expectation_ops \<Rightarrow> 'p run_context \<Rightarrow> 'x list
   \<Rightarrow> (string \<times> string) list \<times> run_event list" where
  "evaluate_loop X ctx [] = ([], [])"
| "evaluate_loop X ctx (x # xs) =
     (let (res, x') = e_evaluate X ctx x; (failures, ev) = evaluate_loop X ctx xs in
      case res of
        Inl err \<Rightarrow> ((e_name X x', err) # failures, Evaluated (e_name X x') False # ev)
      | Inr u \<Rightarrow> (failures, Evaluated (e_name X x') True # ev))"

definition run_expectations ::
  "('p, 'x) runtime_expectation_ops \<Rightarrow> 'p run_context \<Rightarrow> 'x list
   \<Rightarrow> (scenario_error + unit) \<times> run_event list" where
  "run_expectations X ctx xs =
     (let (failures, ev) = evaluate_loop X ctx xs in
      (if failures = [] then Inr ()
       else Inl (ExpectationsError (join_with ''\<newline>''
              (map (\<lambda>(name, err). name @ '': '' @ err) failures))), ev))"

section \<open>Lifecycle\<close>

record runner =
  rn_guard :: bool
  rn_log :: "run_event list"

record run_handle =
  rh_guard :: bool
  rh_log :: "run_event list"

definition cleanup :: "runner \<Rightarrow> runner" where
  "cleanup r = (if rn_guard r then r\<lparr>rn_guard := False, rn_log := rn_log r @ [CleanedUp]\<rparr> else r)"

definition log_events :: "run_event list \<Rightarrow> runner \<Rightarrow> runner" where
  "log_events ev r = r\<lparr>rn_log := rn_log r @ ev\<rparr>"

definition into_run_handle :: "runner \<Rightarrow> run_handle \<times> runner" where
  "into_run_handle r = (\<lparr>rh_guard = rn_guard r, rh_log = rn_log r\<rparr>, r\<lparr>rn_guard := False\<rparr>)"

definition drop_runner :: "runner \<Rightarrow> runner" where "drop_runner r = cleanup r"

definition drop_handle :: "run_handle \<Rightarrow> run_handle" where
  "drop_handle h = (if rh_guard h then h\<lparr>rh_guard := False, rh_log := rh_log h @ [CleanedUp]\<rparr> else h)"

datatype run_outcome = RunOk run_handle | RunErr scenario_error | RunPanic string

text \<open>
  \<open>run\<close> consumes the runner: on every way out the runner is dropped, on a panic by unwinding. The
  second component is the dropped runner.
\<close>

definition runner_run ::
  "('p, 'x) runtime_expectation_ops \<Rightarrow> 'p run_context \<Rightarrow> behaviour list
   \<Rightarrow> ('p, 'w, 'x) scenario \<Rightarrow> runner \<Rightarrow> run_outcome \<times> runner" where
  "runner_run X ctx bs sc r =
     (case prepare_expectations X ctx (sc_expectations sc) of
        (Inl e, ev) \<Rightarrow> (RunErr e, drop_runner (cleanup (log_events ev r)))
      | (Inr xs, ev) \<Rightarrow>
          (let r1 = log_events (ev @ [WorkloadsStarted (length bs)]) r in
           case run_workloads (cooldown_duration ctx) (sc_duration sc) bs of
             Inl msg \<Rightarrow> (RunPanic msg, drop_runner r1)
           | Inr (Inl e, now) \<Rightarrow> (RunErr e, drop_runner (cleanup (log_events [WorkloadsEnded False] r1)))
           | Inr (Inr u, now) \<Rightarrow>
               (let r2 = log_events [WorkloadsEnded True] r1 in
                case run_expectations X ctx xs of
                  (Inl e, ev') \<Rightarrow> (RunErr e, drop_runner (cleanup (log_events ev' r2)))
                | (Inr u', ev') \<Rightarrow>
                    (let (h, r3) = into_run_handle (log_events ev' r2)
                     in (RunOk h, drop_runner r3)))))"

section \<open>Workload phase: properties\<close>

lemma join_all_append:
  "join_all (rs @ rs') = (case join_all rs of Inl e \<Rightarrow> Inl e | Inr u \<Rightarrow> join_all rs')"
  by (induction rs) (auto split: sum.splits)

lemma join_all_Inr_iff: "join_all rs = Inr () \<longleftrightarrow> (\<forall>r \<in> set rs. map_join_result r = Inr ())"
  by (induction rs) (auto split: sum.splits)

lemma join_all_Inl:
  "join_all rs = Inl e \<Longrightarrow> \<exists>i < length rs. map_join_result (rs ! i) = Inl e
     \<and> (\<forall>j < i. map_join_result (rs ! j) = Inr ())"
proof (induction rs)
  case (Cons r rs)
  show ?case
  proof (cases "map_join_result r")
    case (Inl e')
    with Cons.prems show ?thesis by (intro exI [of _ 0]) simp
  next
    case (Inr u)
    with Cons obtain i where "i < length rs" "map_join_result (rs ! i) = Inl e"
      "\<forall>j < i. map_join_result (rs ! j) = Inr ()" by auto
    with Inr show ?thesis by (intro exI [of _ "Suc i"]) (auto simp: less_Suc_eq_0_disj)
  qed
qed simp

definition ready :: "duration \<Rightarrow> (duration \<times> join_result) list \<Rightarrow> (duration \<times> join_result) list" where
  "ready deadline ts = takeWhile (\<lambda>p. fst p \<le> deadline) ts"

definition late :: "duration \<Rightarrow> (duration \<times> join_result) list \<Rightarrow> (duration \<times> join_result) list" where
  "late deadline ts = dropWhile (\<lambda>p. fst p \<le> deadline) ts"

lemma drive_loop_result:
  "fst (drive_loop dl now n ts) = (case join_all (map snd (ready dl ts)) of
       Inl e \<Rightarrow> Inl e | Inr u \<Rightarrow> Inr (late dl ts \<noteq> [] \<or> n \<noteq> 0))"
  by (induction ts arbitrary: now) (auto simp: ready_def late_def split: sum.splits)

lemma drive_loop_rest:
  "join_all (map snd (ready dl ts)) = Inr u \<Longrightarrow> snd (snd (drive_loop dl now n ts)) = late dl ts"
  by (induction ts arbitrary: now) (auto simp: ready_def late_def split: sum.splits)

lemma drive_loop_time:
  "now \<le> dl \<Longrightarrow> fst (snd (drive_loop dl now n ts)) \<le> dl"
  "join_all (map snd (ready dl ts)) = Inr u \<Longrightarrow> late dl ts \<noteq> [] \<or> n \<noteq> 0 \<Longrightarrow>
     fst (snd (drive_loop dl now n ts)) = dl"
  by (induction ts arbitrary: now) (auto simp: ready_def late_def split: sum.splits)

lemma ready_split: "d \<le> h \<Longrightarrow> ready h ts = ready d ts @ ready h (late d ts)"
  by (induction ts) (auto simp: ready_def late_def)

lemma ready_late [simp]: "ready d (late d ts) = []"
  by (induction ts) (auto simp: ready_def late_def)

lemma late_later:
  assumes "sorted (map fst ts)" and "p \<in> set (late d ts)" shows "d < fst p"
  using assms by (induction ts) (auto simp: late_def split: if_splits)

lemma sorted_late: "sorted (map fst ts) \<Longrightarrow> sorted (map fst (late d ts))"
  unfolding late_def by (induction ts) auto

lemma late_late: "d \<le> h \<Longrightarrow> late h (late d ts) = late h ts"
  by (induction ts) (auto simp: late_def)

text \<open>After a deadline has passed, draining only cancels.\<close>

lemma drain_late:
  assumes "sorted (map fst ts)" and "now \<le> d"
  shows "drain_workloads \<lparr>js_finishing = late d ts, js_endless = n\<rparr> now = Inr ()"
proof -
  have "map_join_result r = Inr ()"
    if "r \<in> set (map (abort_result now) (late d ts) @ replicate n JoinCancelled)" for r
    using that late_later [OF assms(1)] assms(2)
    by (fastforce simp: abort_result_def map_join_result_def)
  then show ?thesis by (simp add: drain_workloads_def join_all_Inr_iff)
qed

definition horizon :: "duration \<Rightarrow> duration option \<Rightarrow> duration" where
  "horizon d cooldown = d + (case cooldown of None \<Rightarrow> 0 | Some c \<Rightarrow> c)"

lemma run_workloads_result:
  defines "ts \<equiv> \<lambda>bs. js_finishing (spawn_workloads bs)"
  shows "\<exists>now \<le> horizon d cd. run_workloads (Inr cd) d bs
           = Inr (join_all (map snd (ready (horizon d cd) (ts bs))), now)"
proof -
  let ?js = "spawn_workloads bs" and ?ts = "js_finishing (spawn_workloads bs)"
  let ?n = "js_endless (spawn_workloads bs)"
  have sorted: "sorted (map fst ?ts)" by (simp add: spawn_workloads_def)
  obtain res now rest where d1: "drive_loop d 0 ?n ?ts = (res, now, rest)"
    by (cases "drive_loop d 0 ?n ?ts") auto
  note r1 = drive_loop_result [where dl = d and now = 0 and n = ?n and ts = ?ts]
    drive_loop_rest [where dl = d and now = 0 and n = ?n and ts = ?ts]
    drive_loop_time(1) [where dl = d and now = 0 and n = ?n and ts = ?ts]
    drive_loop_time(2) [where dl = d and now = 0 and n = ?n and ts = ?ts]
  have now1: "now \<le> d" using r1(3) d1 by simp
  have hd: "d \<le> horizon d cd" by (simp add: horizon_def)
  show ?thesis
  proof (cases "join_all (map snd (ready d ?ts))")
    case (Inl e)
    then have "res = Inl e" using r1(1) d1 by simp
    moreover have "join_all (map snd (ready (horizon d cd) ?ts)) = Inl e"
      using ready_split [OF hd, of ?ts] Inl by (simp add: join_all_append)
    ultimately show ?thesis using d1 now1 hd
      by (auto simp: run_workloads_def drive_until_timer_def ts_def)
  next
    case (Inr u)
    have js1: "(?js\<lparr>js_finishing := rest\<rparr>) = \<lparr>js_finishing = late d ?ts, js_endless = ?n\<rparr>"
      using r1(2) [OF Inr] d1 by simp
    obtain b where res: "res = Inr b" using r1(1) d1 Inr by simp
    have all: "join_all (map snd (ready (horizon d cd) ?ts)) = join_all (map snd (ready (horizon d cd) (late d ?ts)))"
      using ready_split [OF hd, of ?ts] Inr by (simp add: join_all_append)
    have drive: "drive_until_timer ?js 0 d = (Inr b, now, \<lparr>js_finishing = late d ?ts, js_endless = ?n\<rparr>)"
      using d1 res js1 by (simp add: drive_until_timer_def)
    show ?thesis
    proof (cases "cd = None \<or> cd = Some 0")
      case True
      then have h: "horizon d cd = d" by (auto simp: horizon_def)
      then have "join_all (map snd (ready (horizon d cd) ?ts)) = Inr ()" using all h by simp
      with True h drain_late [OF sorted now1] show ?thesis using now1
        by (auto simp: run_workloads_def drive ts_def)
    next
      case False
      then obtain c where c: "cd = Some c" "c \<noteq> 0" by (cases cd) auto
      then have h: "horizon d cd = d + c" by (simp add: horizon_def)
      show ?thesis
      proof (cases "late d ?ts = [] \<and> ?n = 0")
        case True
        then have "join_all (map snd (ready (horizon d cd) ?ts)) = Inr ()"
          using all by (simp add: ready_def)
        with True c h now1 show ?thesis
          by (auto simp: run_workloads_def drive ts_def js_is_empty_def drain_workloads_def)
      next
        case False
        then have now: "now = d" using r1(4) [OF Inr] d1 by auto
        note r2 = drive_loop_result [where dl = "d + c" and now = d and n = ?n and ts = "late d ?ts"]
          drive_loop_time(1) [where dl = "d + c" and now = d and n = ?n and ts = "late d ?ts"]
          drive_loop_rest [where dl = "d + c" and now = d and n = ?n and ts = "late d ?ts"]
        obtain res2 now2 rest2 where d2: "drive_loop (d + c) d ?n (late d ?ts) = (res2, now2, rest2)"
          by (cases "drive_loop (d + c) d ?n (late d ?ts)") auto
        have n2: "now2 \<le> d + c" using r2(2) d2 by simp
        have ne: "\<not> js_is_empty \<lparr>js_finishing = late d ?ts, js_endless = ?n\<rparr>" using False by (simp add: js_is_empty_def)
        show ?thesis
        proof (cases "join_all (map snd (ready (d + c) (late d ?ts)))")
          case (Inl e)
          then have "res2 = Inl e" using r2(1) d2 by simp
          then show ?thesis using d2 n2 ne c h all Inl now
            unfolding run_workloads_def drive ts_def by (auto simp: drive_until_timer_def)
        next
          case (Inr u2)
          then obtain b2 where "res2 = Inr b2" using r2(1) d2 by simp
          moreover have "rest2 = late (d + c) (late d ?ts)" using r2(3) [OF Inr] d2 by simp
          ultimately show ?thesis
            using d2 n2 ne c h all Inr now drain_late [OF sorted_late [OF sorted, of d] n2, of ?n]
            unfolding run_workloads_def drive ts_def by (auto simp: drive_until_timer_def)
        qed
      qed
    qed
  qed
qed

lemma spawn_set:
  "set (js_finishing (spawn_workloads bs)) = {(f, workload_task out) | f out. (Some f, out) \<in> set bs}"
  by (auto simp: spawn_workloads_def set_filter_map) force

lemma ready_set: "sorted (map fst ts) \<Longrightarrow> set (ready h ts) = {p \<in> set ts. fst p \<le> h}"
proof (induction ts)
  case (Cons p ts)
  show ?case
  proof (cases "fst p \<le> h")
    case True
    with Cons show ?thesis by (auto simp: ready_def)
  next
    case False
    with Cons.prems show ?thesis by (auto simp: ready_def)
  qed
qed (simp add: ready_def)

lemma workload_task_ok: "map_join_result (workload_task out) = Inr u \<longleftrightarrow> out = StartOk"
  by (cases out) (auto simp: workload_task_def map_join_result_def)

lemma nth_ready: "i < length (ready h ts) \<Longrightarrow> ready h ts ! i = ts ! i \<and> i < length ts"
  unfolding ready_def using length_takeWhile_le [of "\<lambda>p. fst p \<le> h" ts] by (auto simp: takeWhile_nth)

text \<open>
  C10. The workload phase succeeds exactly when no workload that finishes within the run duration
  plus the cooldown fails or panics; workloads still running then are cancelled without an error.
  A reported error is that of a workload which failed within this window, and no workload failed
  earlier. The phase always returns, within that window, even if workloads never finish.
\<close>

theorem run_workloads_outcome:
  "\<exists>res now. run_workloads (Inr cooldown) d bs = Inr (res, now) \<and> now \<le> horizon d cooldown
     \<and> (res = Inr () \<longleftrightarrow> (\<forall>f out. (Some f, out) \<in> set bs \<longrightarrow> f \<le> horizon d cooldown \<longrightarrow> out = StartOk))
     \<and> (\<forall>e. res = Inl e \<longrightarrow> (\<exists>f out. (Some f, out) \<in> set bs \<and> f \<le> horizon d cooldown
            \<and> map_join_result (workload_task out) = Inl e
            \<and> (\<forall>f' out'. (Some f', out') \<in> set bs \<longrightarrow> f' < f \<longrightarrow> out' = StartOk)))"
proof -
  let ?ts = "js_finishing (spawn_workloads bs)" and ?h = "horizon d cooldown"
  have sorted: "sorted (map fst ?ts)" by (simp add: spawn_workloads_def)
  have rset: "set (ready ?h ?ts) = {(f, workload_task out) | f out. (Some f, out) \<in> set bs \<and> f \<le> ?h}"
    using ready_set [OF sorted, of ?h] spawn_set [of bs] by auto
  obtain now where now: "now \<le> ?h" "run_workloads (Inr cooldown) d bs = Inr (join_all (map snd (ready ?h ?ts)), now)"
    using run_workloads_result by blast
  have ok: "join_all (map snd (ready ?h ?ts)) = Inr () \<longleftrightarrow>
      (\<forall>f out. (Some f, out) \<in> set bs \<longrightarrow> f \<le> ?h \<longrightarrow> out = StartOk)"
    unfolding join_all_Inr_iff set_map rset by (auto simp: workload_task_ok) (metis snd_conv workload_task_ok)
  have err: "\<exists>f out. (Some f, out) \<in> set bs \<and> f \<le> ?h \<and> map_join_result (workload_task out) = Inl e
      \<and> (\<forall>f' out'. (Some f', out') \<in> set bs \<longrightarrow> f' < f \<longrightarrow> out' = StartOk)"
    if e: "join_all (map snd (ready ?h ?ts)) = Inl e" for e
  proof -
    obtain i where i: "i < length (ready ?h ?ts)" "map_join_result (snd (ready ?h ?ts ! i)) = Inl e"
      "\<forall>j < i. map_join_result (snd (ready ?h ?ts ! j)) = Inr ()"
      using join_all_Inl [OF e] by auto
    have "ready ?h ?ts ! i \<in> set (ready ?h ?ts)" using i(1) by (rule nth_mem)
    then obtain f out where f: "ready ?h ?ts ! i = (f, workload_task out)" "(Some f, out) \<in> set bs" "f \<le> ?h"
      unfolding rset by auto
    have "out' = StartOk" if "(Some f', out') \<in> set bs" "f' < f" for f' out'
    proof -
      have "(f', workload_task out') \<in> set (ready ?h ?ts)" unfolding rset using that f(3) by force
      then obtain j where j: "j < length (ready ?h ?ts)" "ready ?h ?ts ! j = (f', workload_task out')"
        by (auto simp: in_set_conv_nth)
      have "j < i"
      proof (rule ccontr)
        assume "\<not> j < i"
        then have "map fst ?ts ! i \<le> map fst ?ts ! j"
          using sorted nth_ready [OF j(1)] by (intro sorted_nth_mono) auto
        then have "fst (?ts ! i) \<le> fst (?ts ! j)" using nth_ready [OF i(1)] nth_ready [OF j(1)] by simp
        then show False using nth_ready [OF i(1)] nth_ready [OF j(1)] f(1) j(2) that(2)
          by (metis fst_conv leD)
      qed
      then show ?thesis using i(3) j(2) workload_task_ok by force
    qed
    then show ?thesis using f i(2) by auto
  qed
  show ?thesis using now ok err by blast
qed

theorem run_workloads_outcome_witness:
  "\<exists>now. run_workloads (Inr (Some 3)) 5 [(None, StartOk), (Some 7, StartErr ''late''), (Some 9, StartErr ''gone'')]
     = Inr (Inl (WorkloadError ''late''), now) \<and> now \<le> 8"
proof -
  let ?bs = "[(None, StartOk), (Some 7, StartErr ''late''), (Some 9, StartErr ''gone'')]"
  obtain res now where r: "run_workloads (Inr (Some 3)) 5 ?bs = Inr (res, now)" "now \<le> horizon 5 (Some 3)"
    "(res = Inr ()) = (\<forall>f out. (Some f, out) \<in> set ?bs \<longrightarrow> f \<le> horizon 5 (Some 3) \<longrightarrow> out = StartOk)"
    "\<forall>e. res = Inl e \<longrightarrow> (\<exists>f out. (Some f, out) \<in> set ?bs \<and> f \<le> horizon 5 (Some 3)
            \<and> map_join_result (workload_task out) = Inl e
            \<and> (\<forall>f' out'. (Some f', out') \<in> set ?bs \<longrightarrow> f' < f \<longrightarrow> out' = StartOk))"
    using run_workloads_outcome [where cooldown = "Some 3" and d = 5 and bs = ?bs] by blast
  have h: "horizon 5 (Some 3) = 8" by (simp add: horizon_def)
  have "res \<noteq> Inr ()" using r(3) by (auto simp: h)
  then obtain e where "res = Inl e" by (cases res) auto
  with r h show ?thesis by (auto simp: map_join_result_def workload_task_def)
qed

lemma run_workloads_error:
  assumes "run_workloads cd d bs = Inr (Inl e, now)" shows "\<exists>e'. e = WorkloadError e'"
proof -
  have "\<exists>c. run_workloads (Inr c) d bs = Inr (Inl e, now)"
  proof (cases cd)
    case (Inl m)
    with assms have "run_workloads (Inr None) d bs = Inr (Inl e, now)"
      by (auto simp: run_workloads_def split: prod.splits sum.splits)
    then show ?thesis ..
  qed (use assms in auto)
  then obtain c where "join_all (map snd (ready (horizon d c) (js_finishing (spawn_workloads bs)))) = Inl e"
    using run_workloads_result by (metis Inr_inject fst_conv)
  then obtain r where "map_join_result r = Inl e" using join_all_Inl by blast
  then show ?thesis by (auto simp: map_join_result_def split: join_result.splits sum.splits)
qed

section \<open>Expectations: properties\<close>

lemma evaluate_loop_fst:
  "fst (evaluate_loop X ctx xs) = filter_map (\<lambda>x. case e_evaluate X ctx x of
     (Inl err, x') \<Rightarrow> Some (e_name X x', err) | (Inr u, x') \<Rightarrow> None) xs"
  by (induction xs) (auto split: sum.splits prod.splits)

lemma evaluate_loop_events:
  "snd (evaluate_loop X ctx xs) = map (\<lambda>x. case e_evaluate X ctx x of
     (res, x') \<Rightarrow> Evaluated (e_name X x') (res = Inr ())) xs"
  by (induction xs) (auto split: sum.splits prod.splits)

lemma prepare_expectations_shape:
  "prepare_expectations X ctx xs = (res, ev) \<Longrightarrow> CleanedUp \<notin> set ev
     \<and> (\<forall>n b. Evaluated n b \<notin> set ev) \<and> (\<forall>n. WorkloadsStarted n \<notin> set ev)
     \<and> (\<forall>xs'. res = Inr xs' \<longrightarrow> list_all2 (\<lambda>x x'. e_start_capture X ctx x = Inr x') xs xs'
            \<and> ev = map (\<lambda>x. Captured (e_name X x)) xs)"
  by (induction xs arbitrary: res ev) (fastforce split: sum.splits prod.splits)+

text \<open>
  Every expectation is evaluated, in order, whatever the others report; the phase succeeds
  exactly when all of them do, and otherwise the error lists exactly the failing ones, in order, each
  as its name and reason on a line of its own.
\<close>

theorem run_expectations_reports_all:
  "let (res, ev) = run_expectations X ctx xs;
       failing = filter_map (\<lambda>x. case e_evaluate X ctx x of
                   (Inl err, x') \<Rightarrow> Some (e_name X x' @ '': '' @ err) | (Inr u, x') \<Rightarrow> None) xs in
     length ev = length xs
     \<and> (res = Inr () \<longleftrightarrow> (\<forall>x \<in> set xs. fst (e_evaluate X ctx x) = Inr ()))
     \<and> (res = Inr () \<or> res = Inl (ExpectationsError (join_with ''\<newline>'' failing)))"
proof -
  let ?f = "\<lambda>x. case e_evaluate X ctx x of (Inl err, x') \<Rightarrow> Some (e_name X x', err) | (Inr u, x') \<Rightarrow> None"
  let ?g = "\<lambda>x. case e_evaluate X ctx x of
      (Inl err, x') \<Rightarrow> Some (e_name X x' @ '': '' @ err) | (Inr u, x') \<Rightarrow> None"
  have m: "map (\<lambda>(name, err). name @ '': '' @ err) (filter_map ?f xs) = filter_map ?g xs"
    by (induction xs) (auto split: sum.splits prod.splits)
  have e: "filter_map ?f xs = [] \<longleftrightarrow> (\<forall>x \<in> set xs. fst (e_evaluate X ctx x) = Inr ())"
    by (induction xs) (auto split: sum.splits prod.splits)
  have ev: "length (snd (evaluate_loop X ctx xs)) = length xs" by (simp add: evaluate_loop_events)
  obtain fs evs where l: "evaluate_loop X ctx xs = (fs, evs)" by (cases "evaluate_loop X ctx xs") auto
  then have fs: "fs = filter_map ?f xs" using evaluate_loop_fst [of X ctx xs] by simp
  have "length evs = length xs" using ev l by simp
  then show ?thesis using m e unfolding run_expectations_def Let_def l fs by simp
qed

section \<open>Lifecycle: the cleanup guard\<close>

text \<open>
  The contract of a value that owns a cleanup guard, as \<open>Runner\<close> and \<open>RunHandle\<close> do: firing runs
  the cleanup if the guard is still there and takes it.
\<close>

locale cleanup_guard =
  fixes armed :: "'s \<Rightarrow> bool" and fire :: "'s \<Rightarrow> 's" and trace :: "'s \<Rightarrow> run_event list"
  assumes fire_disarms: "\<not> armed (fire s)"
    and fire_armed: "armed s \<Longrightarrow> trace (fire s) = trace s @ [CleanedUp]"
    and fire_idle: "\<not> armed s \<Longrightarrow> fire s = s"
begin

lemma fire_idem: "fire (fire s) = fire s"
  by (rule fire_idle) (rule fire_disarms)

lemma fire_trace: "trace (fire s) = trace s @ (if armed s then [CleanedUp] else [])"
  using fire_armed fire_idle by (cases "armed s") auto

lemma fire_once:
  "CleanedUp \<notin> set (trace s) \<Longrightarrow> count_list (trace (fire s)) CleanedUp = (if armed s then 1 else 0)"
  by (simp add: fire_trace count_list_0_iff)

end

interpretation runner_guard: cleanup_guard rn_guard cleanup rn_log
  by unfold_locales (auto simp: cleanup_def)

interpretation handle_guard: cleanup_guard rh_guard drop_handle rh_log
  by unfold_locales (auto simp: drop_handle_def)

lemma log_events_simps [simp]:
  "rn_guard (log_events ev r) = rn_guard r" "rn_log (log_events ev r) = rn_log r @ ev"
  by (simp_all add: log_events_def)

lemma run_expectations_clean:
  "run_expectations X ctx xs = (res, ev) \<Longrightarrow> CleanedUp \<notin> set ev \<and> (\<forall>n. WorkloadsStarted n \<notin> set ev)
     \<and> length ev = length xs \<and> (res = Inr () \<longrightarrow> (\<forall>e \<in> set ev. \<exists>n. e = Evaluated n True))
     \<and> (\<forall>e. res \<noteq> Inl (WorkloadError e) \<and> res \<noteq> Inl (ExpectationCapture e))"
proof (induction xs arbitrary: res ev)
  case Nil
  then show ?case by (auto simp: run_expectations_def)
next
  case (Cons x xs)
  let ?r = "run_expectations X ctx xs"
  have IH: "CleanedUp \<notin> set (snd ?r) \<and> (\<forall>n. WorkloadsStarted n \<notin> set (snd ?r))
     \<and> length (snd ?r) = length xs \<and> (fst ?r = Inr () \<longrightarrow> (\<forall>e \<in> set (snd ?r). \<exists>n. e = Evaluated n True))"
    using Cons.IH [of "fst ?r" "snd ?r"] by simp
  show ?case using Cons.prems IH
    by (auto simp: run_expectations_def Let_def split: sum.splits prod.splits if_splits)
qed

text \<open>What a run leaves behind, before the handle is dropped: the four ways out of \<open>run\<close>.\<close>

lemma runner_run_cases:
  obtains (capture) e ev where "prepare_expectations X ctx (sc_expectations sc) = (Inl e, ev)"
      "runner_run X ctx bs sc r = (RunErr e, cleanup (log_events ev r))"
  | (panic) xs ev msg where "prepare_expectations X ctx (sc_expectations sc) = (Inr xs, ev)"
      "run_workloads (cooldown_duration ctx) (sc_duration sc) bs = Inl msg"
      "runner_run X ctx bs sc r = (RunPanic msg, cleanup (log_events (ev @ [WorkloadsStarted (length bs)]) r))"
  | (workload) xs ev e now where "prepare_expectations X ctx (sc_expectations sc) = (Inr xs, ev)"
      "run_workloads (cooldown_duration ctx) (sc_duration sc) bs = Inr (Inl e, now)"
      "runner_run X ctx bs sc r
        = (RunErr e, cleanup (log_events (ev @ [WorkloadsStarted (length bs), WorkloadsEnded False]) r))"
  | (expectation) xs ev e ev' where "prepare_expectations X ctx (sc_expectations sc) = (Inr xs, ev)"
      "run_expectations X ctx xs = (Inl e, ev')"
      "runner_run X ctx bs sc r
        = (RunErr e, cleanup (log_events (ev @ [WorkloadsStarted (length bs), WorkloadsEnded True] @ ev') r))"
  | (ok) xs ev ev' where "prepare_expectations X ctx (sc_expectations sc) = (Inr xs, ev)"
      "run_expectations X ctx xs = (Inr (), ev')"
      "runner_run X ctx bs sc r
        = (RunOk \<lparr>rh_guard = rn_guard r,
                  rh_log = rn_log r @ ev @ [WorkloadsStarted (length bs), WorkloadsEnded True] @ ev'\<rparr>,
           (log_events (ev @ [WorkloadsStarted (length bs), WorkloadsEnded True] @ ev') r)\<lparr>rn_guard := False\<rparr>)"
proof -
  obtain p ev where p: "prepare_expectations X ctx (sc_expectations sc) = (p, ev)"
    by (cases "prepare_expectations X ctx (sc_expectations sc)") auto
  have two: "log_events b (log_events a q) = log_events (a @ b) q" for a b q by (simp add: log_events_def)
  show thesis
  proof (cases p)
    case (Inl e)
    show ?thesis by (rule capture [of e ev]) (simp_all add: runner_run_def p Inl drop_runner_def runner_guard.fire_idem)
  next
    case (Inr xs)
    show ?thesis
    proof (cases "run_workloads (cooldown_duration ctx) (sc_duration sc) bs")
      case w: (Inl msg)
      show ?thesis by (rule panic [of xs ev msg]) (simp_all add: runner_run_def p Inr w drop_runner_def)
    next
      case w: (Inr rn)
      obtain res now where rn: "rn = (res, now)" by (cases rn)
      show ?thesis
      proof (cases res)
        case r: (Inl e)
        show ?thesis by (rule workload [of xs ev e now])
            (simp_all add: runner_run_def p Inr w rn r drop_runner_def runner_guard.fire_idem two)
      next
        case r: (Inr u)
        obtain q ev' where q: "run_expectations X ctx xs = (q, ev')" by (cases "run_expectations X ctx xs") auto
        show ?thesis
        proof (cases q)
          case e: (Inl e)
          show ?thesis by (rule expectation [of xs ev e ev'])
              (simp_all add: runner_run_def p Inr w rn r q e drop_runner_def runner_guard.fire_idem two)
        next
          case e: (Inr u')
          show ?thesis by (rule ok [of xs ev ev'])
              (simp_all add: runner_run_def p Inr w rn r q e drop_runner_def into_run_handle_def
                runner_guard.fire_idle two)
        qed
      qed
    qed
  qed
qed

text \<open>
  C8. Cleanup happens exactly once per run that was given a guard, and never without one: whichever
  way \<open>run\<close> ends (capture failure, panic, workload failure, failed expectations or success), after
  the runner and, on success, the returned handle have been dropped, the log holds exactly one
  cleanup, as its last event; on success nothing is cleaned up before the handle is dropped.
\<close>

theorem runner_cleanup_exactly_once:
  assumes "CleanedUp \<notin> set (rn_log r)"
  shows "case runner_run X ctx bs sc r of (out, r') \<Rightarrow>
    let final = (case out of RunOk h \<Rightarrow> rh_log (drop_handle h) | _ \<Rightarrow> rn_log r') in
      count_list final CleanedUp = (if rn_guard r then 1 else 0)
      \<and> (rn_guard r \<longrightarrow> last final = CleanedUp) \<and> \<not> rn_guard r'
      \<and> (\<forall>h. out = RunOk h \<longrightarrow> CleanedUp \<notin> set (rn_log r') \<and> \<not> rh_guard (drop_handle h))"
proof (cases rule: runner_run_cases [of X ctx sc bs r])
  case (capture e ev)
  note shape = prepare_expectations_shape [OF capture(1), THEN conjunct1]
  show ?thesis using assms shape runner_guard.fire_once [of "log_events ev r"]
    by (simp add: capture(2) runner_guard.fire_disarms runner_guard.fire_trace count_list_0_iff)
next
  case (panic xs ev msg)
  let ?r = "log_events (ev @ [WorkloadsStarted (length bs)]) r"
  note shape = prepare_expectations_shape [OF panic(1), THEN conjunct1]
  show ?thesis using assms shape runner_guard.fire_once [of ?r]
    by (simp add: panic(3) runner_guard.fire_disarms runner_guard.fire_trace count_list_0_iff)
next
  case (workload xs ev e now)
  let ?r = "log_events (ev @ [WorkloadsStarted (length bs), WorkloadsEnded False]) r"
  note shape = prepare_expectations_shape [OF workload(1), THEN conjunct1]
  show ?thesis using assms shape runner_guard.fire_once [of ?r]
    by (simp add: workload(3) runner_guard.fire_disarms runner_guard.fire_trace count_list_0_iff)
next
  case (expectation xs ev e ev')
  let ?r = "log_events (ev @ [WorkloadsStarted (length bs), WorkloadsEnded True] @ ev') r"
  note shape = prepare_expectations_shape [OF expectation(1), THEN conjunct1]
    run_expectations_clean [OF expectation(2), THEN conjunct1]
  show ?thesis using assms shape runner_guard.fire_once [of ?r]
    by (simp add: expectation(3) runner_guard.fire_disarms runner_guard.fire_trace count_list_0_iff)
next
  case (ok xs ev ev')
  let ?h = "\<lparr>rh_guard = rn_guard r, rh_log = rn_log r @ ev @ [WorkloadsStarted (length bs), WorkloadsEnded True] @ ev'\<rparr>"
  note shape = prepare_expectations_shape [OF ok(1), THEN conjunct1]
    run_expectations_clean [OF ok(2), THEN conjunct1]
  show ?thesis using assms shape handle_guard.fire_once [of ?h]
    by (simp add: ok(3) handle_guard.fire_disarms handle_guard.fire_trace count_list_0_iff)
qed


section \<open>Witnesses\<close>

definition sample_ops :: "(nat, nat) runtime_expectation_ops" where
  "sample_ops = \<lparr>e_name = (\<lambda>x. ''e''), e_init = (\<lambda>_ _ x. Inr x), e_start_capture = (\<lambda>_ x. Inr x),
     e_evaluate = (\<lambda>_ x. (if x = 0 then Inl ''bad'' else Inr (), x))\<rparr>"

definition sample_topology :: "nat generated_topology" where
  "sample_topology = \<lparr>gt_config = topology_config_empty ''kzg'', gt_validators = [], gt_executors = []\<rparr>"

definition sample_context :: "nat run_context" where
  "sample_context = \<lparr>rc_descriptors = sample_topology, rc_metrics = \<lparr>rm_run_duration = 5,
     rm_expected_blocks = 0, rm_block_interval_hint = None\<rparr>, rc_node_control = False\<rparr>"

definition sample_scenario :: "nat list \<Rightarrow> (nat, nat, nat) scenario" where
  "sample_scenario xs = \<lparr>sc_topology = sample_topology, sc_workloads = [], sc_expectations = xs,
     sc_duration = 5, sc_capabilities = NoCapability\<rparr>"

lemmas sample_defs = sample_ops_def sample_context_def sample_scenario_def

theorem run_expectations_reports_all_witness:
  "run_expectations sample_ops sample_context [1, 0]
     = (Inl (ExpectationsError ''e: bad''), [Evaluated ''e'' True, Evaluated ''e'' False])"
  using run_expectations_reports_all [of sample_ops sample_context "[1, 0]"]
  by (simp add: sample_defs run_expectations_def)

theorem runner_cleanup_exactly_once_witness:
  "\<exists>e r'. runner_run sample_ops sample_context [(None, StartOk)] (sample_scenario [0])
        \<lparr>rn_guard = True, rn_log = []\<rparr> = (RunErr e, r') \<and> count_list (rn_log r') CleanedUp = 1"
proof -
  let ?run = "runner_run sample_ops sample_context [(None, StartOk)] (sample_scenario [0])
        \<lparr>rn_guard = True, rn_log = []\<rparr>"
  have "\<exists>e r'. ?run = (RunErr e, r')"
    by (simp add: runner_run_def sample_defs cooldown_duration_def run_workloads_def drive_until_timer_def
        spawn_workloads_def drain_workloads_def map_join_result_def run_expectations_def)
  then show ?thesis
    using runner_cleanup_exactly_once [of "\<lparr>rn_guard = True, rn_log = []\<rparr>" sample_ops sample_context
        "[(None, StartOk)]" "sample_scenario [0]"] by (auto simp: Let_def)
qed


end
