(* ===== verification/Block_Feed.thy ===== *)
theory Block_Feed
  imports Chain_Types
begin

text \<open>
  The block feed: \<open>core/src/scenario/runtime/block_feed.rs\<close>. A scanner polls one node, walks from
  the reported tip back to a block it has seen (or for as many blocks as the reported height) and
  then broadcasts the new blocks, oldest first.

  The node's answers are parameters of one poll: \<open>info\<close> for \<open>consensus_info\<close> (tip and height) and
  \<open>storage\<close> for \<open>storage_block\<close> (a block, nothing, or a request error). \<open>bs_sent\<close> is the sequence of
  records given to the broadcast sender; the sender's error without receivers is ignored by the
  source.
\<close>

record scanner =
  bs_seen :: "header_id set"
  bs_sent :: "(header_id \<times> block) list"
  bs_total_transactions :: nat

definition scanner_new :: scanner where
  "scanner_new = \<lparr>bs_seen = {}, bs_sent = [], bs_total_transactions = 0\<rparr>"

text \<open>\<open>fetch_add\<close> on an atomic wraps around.\<close>

definition record_block :: "block \<Rightarrow> nat \<Rightarrow> nat" where
  "record_block b n = (n + length (block_transactions b)) mod 2 ^ 64"

definition ingest :: "header_id \<times> block \<Rightarrow> scanner \<Rightarrow> scanner" where
  "ingest hb sc = sc\<lparr>bs_total_transactions := record_block (snd hb) (bs_total_transactions sc),
                     bs_sent := bs_sent sc @ [hb]\<rparr>"

type_synonym storage = "header_id \<Rightarrow> string + block option"

text \<open>
  The collecting loop: the stack (its top first) and the seen set, or the error it returns with.
\<close>

fun walk :: "storage \<Rightarrow> header_id set \<Rightarrow> nat \<Rightarrow> header_id \<Rightarrow> (header_id \<times> block) list
    \<Rightarrow> string + (header_id \<times> block) list \<times> header_id set" where
  "walk st seen 0 cursor stack =
     (if cursor \<in> seen then Inr (stack, seen) else Inr (stack, insert cursor seen))"
| "walk st seen (Suc remaining) cursor stack =
     (if cursor \<in> seen then Inr (stack, seen)
      else (case st cursor of
              Inl e \<Rightarrow> Inl e
            | Inr None \<Rightarrow> Inl ''missing block while catching up''
            | Inr (Some b) \<Rightarrow>
                if block_parent b \<in> seen \<or> block_parent b = cursor then Inr ((cursor, b) # stack, seen)
                else walk st seen remaining (block_parent b) ((cursor, b) # stack)))"

fun process :: "(header_id \<times> block) list \<Rightarrow> scanner \<Rightarrow> scanner" where
  "process [] sc = sc"
| "process (hb # stack) sc =
     process stack ((ingest hb sc)\<lparr>bs_seen := insert (fst hb) (bs_seen sc)\<rparr>)"

definition catch_up ::
  "string + header_id \<times> nat \<Rightarrow> storage \<Rightarrow> scanner \<Rightarrow> (string + nat) \<times> scanner" where
  "catch_up info st sc =
     (case info of
        Inl e \<Rightarrow> (Inl e, sc)
      | Inr (tip, height) \<Rightarrow>
          (case walk st (bs_seen sc) height tip [] of
             Inl e \<Rightarrow> (Inl e, sc)
           | Inr (stack, seen) \<Rightarrow> (Inr (length stack), process stack (sc\<lparr>bs_seen := seen\<rparr>))))"

text \<open>\<open>run\<close> for a finite number of polls: errors are logged and the next poll is made.\<close>

fun scanner_run :: "((string + header_id \<times> nat) \<times> storage) list \<Rightarrow> scanner \<Rightarrow> scanner" where
  "scanner_run [] sc = sc"
| "scanner_run ((info, st) # polls) sc = scanner_run polls (snd (catch_up info st sc))"

text \<open>\<open>spawn_block_feed\<close>: the first catch-up must succeed before the feed is handed out.\<close>

definition spawn_block_feed :: "string + header_id \<times> nat \<Rightarrow> storage \<Rightarrow> string + scanner" where
  "spawn_block_feed info st =
     (case catch_up info st scanner_new of (Inl e, sc) \<Rightarrow> Inl e | (Inr n, sc) \<Rightarrow> Inr sc)"

section \<open>Invariant\<close>

text \<open>
  Headers that were marked as seen without a block are where a walk used up its height: the roots
  of what the feed follows.
\<close>

definition feed_roots :: "scanner \<Rightarrow> header_id set" where
  "feed_roots sc = bs_seen sc - fst ` set (bs_sent sc)"

definition parents_first :: "header_id set \<Rightarrow> (header_id \<times> block) list \<Rightarrow> bool" where
  "parents_first roots sent \<longleftrightarrow> (\<forall>i < length sent.
     block_parent (snd (sent ! i)) \<in> roots \<union> fst ` set (take i sent) \<union> {fst (sent ! i)})"

definition feed_inv :: "scanner \<Rightarrow> bool" where
  "feed_inv sc \<longleftrightarrow> distinct (map fst (bs_sent sc)) \<and> fst ` set (bs_sent sc) \<subseteq> bs_seen sc
     \<and> parents_first (feed_roots sc) (bs_sent sc)
     \<and> bs_total_transactions sc
         = sum_list (map (\<lambda>hb. length (block_transactions (snd hb))) (bs_sent sc)) mod 2 ^ 64"

text \<open>
  Block headers are hashes, so a chain has no cycle but a self-parent: there is a rank that decreases
  towards the parent.
\<close>

definition ranked :: "(header_id \<Rightarrow> nat) \<Rightarrow> storage \<Rightarrow> bool" where
  "ranked rank st \<longleftrightarrow> (\<forall>h b. st h = Inr (Some b) \<longrightarrow> block_parent b \<noteq> h \<longrightarrow> rank (block_parent b) < rank h)"

section \<open>The walk\<close>

text \<open>A stack under construction: a path of new blocks, each the parent of the next.\<close>

definition path :: "(header_id \<Rightarrow> nat) \<Rightarrow> storage \<Rightarrow> header_id set \<Rightarrow> header_id \<Rightarrow> (header_id \<times> block) list \<Rightarrow> bool" where
  "path rank st seen cursor stack \<longleftrightarrow>
     (\<forall>hb \<in> set stack. fst hb \<notin> seen \<and> st (fst hb) = Inr (Some (snd hb)) \<and> rank cursor < rank (fst hb))
     \<and> distinct (map fst stack)
     \<and> (\<forall>i < length stack. block_parent (snd (stack ! i)) = (if i = 0 then cursor else fst (stack ! (i - 1))))"

lemma path_push:
  assumes p: "path rank st seen cursor stack" and "cursor \<notin> seen" and b: "st cursor = Inr (Some b)"
    and lt: "rank (block_parent b) < rank cursor"
  shows "path rank st seen (block_parent b) ((cursor, b) # stack)"
proof -
  have "cursor \<notin> fst ` set stack" using p by (auto simp: path_def)
  moreover have "\<forall>i < length stack. block_parent (snd (stack ! i))
      = (if i = 0 then cursor else fst (stack ! (i - 1)))" using p by (simp add: path_def)
  then have "block_parent (snd (((cursor, b) # stack) ! i))
      = (if i = 0 then block_parent b else fst (((cursor, b) # stack) ! (i - 1)))"
    if "i < Suc (length stack)" for i
    using that by (cases i) (auto simp: nth_Cons split: nat.splits)
  ultimately show ?thesis using assms unfolding path_def by (auto intro: less_trans)
qed

text \<open>What the walk returns: a new path hanging off something that is seen, with the cursor covered.\<close>

lemma walk_result:
  assumes "walk st seen n cursor stack = Inr (stack', seen')" and "path rank st seen cursor stack"
    and "ranked rank st"
  shows "\<exists>new. stack' = new @ stack \<and> seen \<subseteq> seen' \<and> (\<forall>h \<in> seen' - seen. h \<notin> fst ` set stack')
     \<and> distinct (map fst stack') \<and> (\<forall>hb \<in> set stack'. fst hb \<notin> seen)
     \<and> cursor \<in> seen' \<union> fst ` set stack'
     \<and> (\<forall>i < length stack'. block_parent (snd (stack' ! i))
          \<in> (if i = 0 then seen' \<union> {fst (stack' ! 0)} else {fst (stack' ! (i - 1))}))"
  using assms
proof (induction n arbitrary: cursor stack)
  case 0
  have "cursor \<notin> fst ` set stack" using 0(2) by (auto simp: path_def)
  then show ?case using 0 by (auto simp: path_def split: if_splits)
next
  case (Suc n)
  show ?case
  proof (cases "cursor \<in> seen")
    case True
    with Suc.prems show ?thesis by (auto simp: path_def)
  next
    case False
    with Suc.prems(1) obtain b where b: "st cursor = Inr (Some b)"
      by (auto split: sum.splits option.splits)
    show ?thesis
    proof (cases "block_parent b \<in> seen \<or> block_parent b = cursor")
      case True
      then have s: "stack' = (cursor, b) # stack" "seen' = seen" using Suc.prems(1) False b by auto
      have "cursor \<notin> fst ` set stack" using Suc.prems(2) by (auto simp: path_def)
      moreover have "\<forall>i < length stack. block_parent (snd (stack ! i))
          = (if i = 0 then cursor else fst (stack ! (i - 1)))" using Suc.prems(2) by (simp add: path_def)
      then have "block_parent (snd (stack' ! i))
          \<in> (if i = 0 then seen' \<union> {fst (stack' ! 0)} else {fst (stack' ! (i - 1))})"
        if "i < length stack'" for i
        using that True unfolding s by (cases i) (auto simp: nth_Cons split: nat.splits)
      ultimately show ?thesis using Suc.prems(2) False s by (auto simp: path_def)
    next
      case other: False
      then have "rank (block_parent b) < rank cursor" using Suc.prems(3) b by (auto simp: ranked_def)
      from path_push [OF Suc.prems(2) False b this]
      have p: "path rank st seen (block_parent b) ((cursor, b) # stack)" .
      have w: "walk st seen n (block_parent b) ((cursor, b) # stack) = Inr (stack', seen')"
        using Suc.prems(1) False b other by simp
      obtain new where new: "stack' = new @ (cursor, b) # stack" "seen \<subseteq> seen'"
        "\<forall>h \<in> seen' - seen. h \<notin> fst ` set stack'" "distinct (map fst stack')"
        "\<forall>hb \<in> set stack'. fst hb \<notin> seen"
        "\<forall>i < length stack'. block_parent (snd (stack' ! i))
          \<in> (if i = 0 then seen' \<union> {fst (stack' ! 0)} else {fst (stack' ! (i - 1))})"
        using Suc.IH [OF w p Suc.prems(3)] by blast
      then show ?thesis by (intro exI [of _ "new @ [(cursor, b)]"]) auto
    qed
  qed
qed

section \<open>Preservation\<close>

lemma process_fields:
  "bs_sent (process stack sc) = bs_sent sc @ stack"
  "bs_seen (process stack sc) = bs_seen sc \<union> fst ` set stack"
  by (induction stack sc rule: process.induct) (auto simp: ingest_def)

lemma process_total:
  "bs_total_transactions (process stack sc) mod 2 ^ 64
     = (bs_total_transactions sc + sum_list (map (\<lambda>hb. length (block_transactions (snd hb))) stack)) mod 2 ^ 64"
proof (induction stack sc rule: process.induct)
  case (2 hb stack sc)
  have "(record_block (snd hb) m + x) mod 2 ^ 64 = (m + (length (block_transactions (snd hb)) + x)) mod 2 ^ 64"
    for m x :: nat
    unfolding record_block_def by (simp only: mod_add_left_eq add.assoc)
  then show ?case using 2 by (simp add: ingest_def)
qed simp

lemma process_total_bound:
  "bs_total_transactions sc < 2 ^ 64 \<Longrightarrow> bs_total_transactions (process stack sc) < 2 ^ 64"
  by (induction stack sc rule: process.induct) (auto simp: ingest_def record_block_def)

lemma catch_up_ok:
  assumes "catch_up info st sc = (Inr n, sc')"
  obtains tip height stack seen where "info = Inr (tip, height)"
    "walk st (bs_seen sc) height tip [] = Inr (stack, seen)" "n = length stack"
    "sc' = process stack (sc\<lparr>bs_seen := seen\<rparr>)"
  using assms by (auto simp: catch_up_def split: sum.splits prod.splits)

lemma catch_up_error: "catch_up info st sc = (Inl e, sc') \<Longrightarrow> sc' = sc"
  by (auto simp: catch_up_def split: sum.splits prod.splits)

lemma path_empty [simp]: "path rank st seen cursor []"
  by (simp add: path_def)

lemma parents_first_append:
  assumes old: "parents_first roots sent" and roots: "roots \<subseteq> roots'"
    and new: "\<And>j. j < length stack \<Longrightarrow> block_parent (snd (stack ! j))
      \<in> (if j = 0 then roots' \<union> fst ` set sent \<union> {fst (stack ! 0)} else {fst (stack ! (j - 1))})"
  shows "parents_first roots' (sent @ stack)"
  unfolding parents_first_def
proof (intro allI impI)
  fix i assume i: "i < length (sent @ stack)"
  show "block_parent (snd ((sent @ stack) ! i))
      \<in> roots' \<union> fst ` set (take i (sent @ stack)) \<union> {fst ((sent @ stack) ! i)}"
  proof (cases "i < length sent")
    case True
    with old roots show ?thesis by (auto simp: parents_first_def nth_append)
  next
    case False
    then obtain j where j: "i = length sent + j" "j < length stack" using i by (metis le_add_diff_inverse length_append nat_add_left_cancel_less not_less)
    show ?thesis
    proof (cases j)
      case 0
      with new [OF j(2)] j show ?thesis by (auto simp: nth_append)
    next
      case (Suc k)
      then have "stack ! k \<in> set (take j stack)" using j(2) by (auto simp: in_set_conv_nth)
      with new [OF j(2)] j Suc show ?thesis by (auto simp: nth_append)
    qed
  qed
qed

lemma catch_up_preserves:
  assumes inv: "feed_inv sc" and rank: "ranked rank st"
  shows "feed_inv (snd (catch_up info st sc))"
proof (cases "catch_up info st sc")
  case (Pair res sc')
  show ?thesis
  proof (cases res)
    case (Inl e)
    with Pair inv catch_up_error [of info st sc e sc'] show ?thesis by simp
  next
    case (Inr n)
    with Pair obtain tip height stack seen where
      w: "walk st (bs_seen sc) height tip [] = Inr (stack, seen)"
      and sc': "sc' = process stack (sc\<lparr>bs_seen := seen\<rparr>)"
      by (auto elim: catch_up_ok)
    obtain new where n: "bs_seen sc \<subseteq> seen" "\<forall>h \<in> seen - bs_seen sc. h \<notin> fst ` set stack"
      "distinct (map fst stack)" "\<forall>hb \<in> set stack. fst hb \<notin> bs_seen sc"
      "\<forall>i < length stack. block_parent (snd (stack ! i))
          \<in> (if i = 0 then seen \<union> {fst (stack ! 0)} else {fst (stack ! (i - 1))})"
      using walk_result [OF w path_empty rank] by blast
    have fields: "bs_sent sc' = bs_sent sc @ stack" "bs_seen sc' = seen \<union> fst ` set stack"
      by (simp_all add: sc' process_fields)
    have sub: "fst ` set (bs_sent sc) \<subseteq> bs_seen sc" and dist: "distinct (map fst (bs_sent sc))"
      and pf: "parents_first (feed_roots sc) (bs_sent sc)" using inv by (simp_all add: feed_inv_def)
    have disj: "fst ` set stack \<inter> bs_seen sc = {}" using n(4) by auto
    have r1: "feed_roots sc \<subseteq> feed_roots sc'" using disj n(1) by (auto simp: feed_roots_def fields)
    have r2: "seen \<subseteq> feed_roots sc' \<union> fst ` set (bs_sent sc)" using n(2) disj by (auto simp: feed_roots_def fields)
    have new: "block_parent (snd (stack ! j)) \<in> (if j = 0
        then feed_roots sc' \<union> fst ` set (bs_sent sc) \<union> {fst (stack ! 0)} else {fst (stack ! (j - 1))})"
      if j: "j < length stack" for j
    proof (cases "j = 0")
      case True
      then have "block_parent (snd (stack ! j)) \<in> seen \<union> {fst (stack ! 0)}" using n(5) j by auto
      with r2 True show ?thesis by auto
    next
      case False
      then show ?thesis using n(5) j by auto
    qed
    have "parents_first (feed_roots sc') (bs_sent sc')"
      unfolding fields(1) by (rule parents_first_append [OF pf r1 new])
    moreover have "distinct (map fst (bs_sent sc'))" using dist n(3) sub disj by (auto simp: fields)
    moreover have "fst ` set (bs_sent sc') \<subseteq> bs_seen sc'" using sub n(1) by (auto simp: fields)
    moreover have "bs_total_transactions sc'
        = sum_list (map (\<lambda>hb. length (block_transactions (snd hb))) (bs_sent sc')) mod 2 ^ 64"
    proof -
      have "bs_total_transactions sc' < 2 ^ 64"
        unfolding sc' using inv by (intro process_total_bound) (simp add: feed_inv_def)
      then have "bs_total_transactions sc' = bs_total_transactions sc' mod 2 ^ 64" by simp
      also have "\<dots> = (bs_total_transactions sc
          + sum_list (map (\<lambda>hb. length (block_transactions (snd hb))) stack)) mod 2 ^ 64"
        unfolding sc' process_total by simp
      also have "\<dots> = sum_list (map (\<lambda>hb. length (block_transactions (snd hb))) (bs_sent sc')) mod 2 ^ 64"
        using inv by (simp only: feed_inv_def fields(1) map_append sum_list_append mod_add_left_eq)
      finally show ?thesis .
    qed
    ultimately show ?thesis using Pair by (simp add: feed_inv_def)
  qed
qed

lemma feed_inv_new: "feed_inv scanner_new"
  by (simp add: feed_inv_def scanner_new_def parents_first_def)

text \<open>
  C11. Over any number of polls of a node that serves an acyclic chain, with failing polls among them,
  the feed broadcasts no block twice, broadcasts every block after its parent (unless the parent is
  itself or one of the roots where a walk used up its height), has seen every block it broadcasts, and
  counts exactly the transactions of the broadcast blocks, modulo the width of the counter.
\<close>

theorem block_feed_invariant:
  assumes "\<forall>(info, st) \<in> set polls. ranked rank st"
  shows "feed_inv (scanner_run polls scanner_new)"
proof -
  have "feed_inv sc \<Longrightarrow> \<forall>(info, st) \<in> set polls. ranked rank st \<Longrightarrow> feed_inv (scanner_run polls sc)" for sc
  proof (induction polls sc rule: scanner_run.induct)
    case (2 info st polls sc)
    then show ?case using catch_up_preserves [of sc rank st info] by simp
  qed simp
  then show ?thesis using assms feed_inv_new by blast
qed


section \<open>Witnesses\<close>

definition sample_chain :: storage where
  "sample_chain h =
     (if h = [1] then Inr (Some \<lparr>block_parent = [0], block_transactions = []\<rparr>)
      else if h = [2] then Inr (Some \<lparr>block_parent = [1], block_transactions = []\<rparr>) else Inr None)"

lemma sample_chain_ranked: "ranked (\<lambda>h. unat (hd h)) sample_chain"
  by (auto simp: ranked_def sample_chain_def)

theorem block_feed_invariant_witness:
  "feed_inv (scanner_run [(Inr ([1], 1), sample_chain), (Inl ''down'', sample_chain),
       (Inr ([2], 2), sample_chain)] scanner_new)"
  by (rule block_feed_invariant [of _ "\<lambda>h. unat (hd h)"]) (simp add: sample_chain_ranked)


end
