(* ===== verification/Readiness.thy ===== *)
theory Readiness
  imports Topology_Config
begin

text \<open>
  Readiness: the polling loop of \<open>core/src/topology/readiness/mod.rs\<close> and its checks
  (\<open>network.rs\<close>, \<open>membership.rs\<close>, \<open>balancer.rs\<close>), the remote readiness of
  \<open>core/src/topology/generation.rs\<close>, the deployed topology of \<open>core/src/topology/deployment.rs\<close>,
  \<open>adjust_timeout\<close> of \<open>core/src/lib.rs\<close> and the HTTP probe of \<open>core/src/scenario/http_probe.rs\<close>.

  What the nodes answer is a parameter: \<open>data k\<close> is the result of the \<open>k\<close>-th \<open>collect\<close> and \<open>lat k\<close>
  the time it takes. The first sample is taken before the timer starts. The loop could run for ever
  for a poll interval of zero, so it is a partial function whose value \<open>None\<close> is not returning.
\<close>

section \<open>The polling loop\<close>

definition adjust_timeout :: "environment \<Rightarrow> duration \<Rightarrow> duration rust" where
  "adjust_timeout env d = (if env ''SLOW_TEST_ENV'' = Some ''true'' then duration_mul d 2 else Inr d)"

datatype wait_result = WaitReady | WaitTimedOut nat | WaitPanic string

partial_function (option) wait_loop ::
  "('d \<Rightarrow> bool rust) \<Rightarrow> duration \<Rightarrow> (nat \<Rightarrow> 'd) \<Rightarrow> (nat \<Rightarrow> duration) \<Rightarrow> duration \<Rightarrow> duration \<Rightarrow> nat
   \<Rightarrow> wait_result option" where
  "wait_loop is_ready poll data lat deadline now k =
     (case is_ready (data k) of
        Inl msg \<Rightarrow> Some (WaitPanic msg)
      | Inr b \<Rightarrow>
          if b then Some WaitReady
          else if deadline < now + poll + lat (Suc k) then Some (WaitTimedOut k)
          else wait_loop is_ready poll data lat deadline (now + poll + lat (Suc k)) (Suc k))"

text \<open>\<open>wait\<close>: the outer sum is a panic, the inner one the \<open>ReadinessError\<close> with its message.\<close>

definition wait ::
  "('d \<Rightarrow> bool rust) \<Rightarrow> ('d \<Rightarrow> string) \<Rightarrow> duration \<Rightarrow> environment \<Rightarrow> (nat \<Rightarrow> 'd) \<Rightarrow> (nat \<Rightarrow> duration)
   \<Rightarrow> (string + unit) rust option" where
  "wait is_ready timeout_message poll env data lat =
     (case adjust_timeout env (from_secs 60) of
        Inl msg \<Rightarrow> Some (Inl msg)
      | Inr timeout \<Rightarrow>
          map_option (\<lambda>r. case r of
              WaitReady \<Rightarrow> Inr (Inr ())
            | WaitTimedOut k \<Rightarrow> Inr (Inl (timeout_message (data k)))
            | WaitPanic msg \<Rightarrow> Inl msg)
            (wait_loop is_ready poll data lat timeout 0 0))"

fun sample_time :: "duration \<Rightarrow> (nat \<Rightarrow> duration) \<Rightarrow> nat \<Rightarrow> duration" where
  "sample_time poll lat 0 = 0"
| "sample_time poll lat (Suc k) = sample_time poll lat k + poll + lat (Suc k)"

definition readiness_timeout :: "environment \<Rightarrow> duration" where
  "readiness_timeout env = (if env ''SLOW_TEST_ENV'' = Some ''true'' then from_secs 120 else from_secs 60)"

lemma adjust_timeout_60: "adjust_timeout env (from_secs 60) = Inr (readiness_timeout env)"
  by (simp add: adjust_timeout_def readiness_timeout_def duration_mul_def from_secs_def
      duration_max_def nanos_per_sec_def u64_max_def)

lemma sample_time_ge: "k * poll \<le> sample_time poll lat k"
  by (induction k) auto

lemma sample_time_mono: "j \<le> k \<Longrightarrow> sample_time poll lat j \<le> sample_time poll lat k"
  by (induction k) (auto simp: le_Suc_eq)

text \<open>With a positive poll interval the loop returns, and what it returns is determined by the samples.\<close>

lemma wait_loop_result:
  assumes poll: "0 < poll" and valid: "\<And>k. is_ready (data k) = Inr (ok k)"
    and now: "t0 + sample_time poll lat k \<le> deadline" and before: "\<forall>j < k. \<not> ok j"
  shows "\<exists>r. wait_loop is_ready poll data lat deadline (t0 + sample_time poll lat k) k = Some r
    \<and> (r = WaitReady \<and> (\<exists>j. t0 + sample_time poll lat j \<le> deadline \<and> ok j)
       \<or> (\<exists>j. r = WaitTimedOut j \<and> t0 + sample_time poll lat j \<le> deadline
              \<and> deadline < t0 + sample_time poll lat (Suc j) \<and> (\<forall>i \<le> j. \<not> ok i)))"
  using now before
proof (induction "deadline - (t0 + sample_time poll lat k)" arbitrary: k rule: less_induct)
  case less
  note step = wait_loop.simps [of is_ready poll data lat deadline "t0 + sample_time poll lat k" k]
  show ?case
  proof (cases "ok k")
    case True
    then show ?thesis using less.prems valid [of k] by (auto simp: step)
  next
    case False
    show ?thesis
    proof (cases "deadline < t0 + sample_time poll lat (Suc k)")
      case True
      moreover have "\<forall>i \<le> k. \<not> ok i" using less.prems(2) False by (auto simp: le_less)
      ultimately show ?thesis using False valid [of k] less.prems by (auto simp: step add.assoc)
    next
      case le: False
      have "deadline - (t0 + sample_time poll lat (Suc k)) < deadline - (t0 + sample_time poll lat k)"
        using le poll by simp
      moreover have "\<forall>j < Suc k. \<not> ok j" using less.prems(2) False by (auto simp: less_Suc_eq)
      ultimately have "\<exists>r. wait_loop is_ready poll data lat deadline (t0 + sample_time poll lat (Suc k)) (Suc k) = Some r
        \<and> (r = WaitReady \<and> (\<exists>j. t0 + sample_time poll lat j \<le> deadline \<and> ok j)
           \<or> (\<exists>j. r = WaitTimedOut j \<and> t0 + sample_time poll lat j \<le> deadline
                \<and> deadline < t0 + sample_time poll lat (Suc j) \<and> (\<forall>i \<le> j. \<not> ok i)))"
        using le by (intro less.hyps) auto
      then show ?thesis using False le valid [of k] by (simp add: step add.assoc)
    qed
  qed
qed

text \<open>No sample within the deadline is good when the loop timed out.\<close>

lemma timed_out_none_ok:
  assumes "deadline < t0 + sample_time poll lat (Suc j)" and "\<forall>i \<le> j. \<not> ok i"
    and "t0 + sample_time poll lat i \<le> deadline"
  shows "\<not> ok i"
proof
  assume "ok i"
  then have "Suc j \<le> i" using assms(2) by (meson not_less_eq_eq)
  then show False using sample_time_mono [of "Suc j" i poll lat] assms(1,3) by simp
qed

text \<open>
  The contract of a readiness check: a positive poll interval and, on samples of the right shape, an
  \<open>is_ready\<close> that does not panic and decides \<open>ok\<close>.
\<close>

locale readiness_check =
  fixes is_ready :: "'d \<Rightarrow> bool rust" and timeout_message :: "'d \<Rightarrow> string" and poll :: duration
    and valid :: "'d \<Rightarrow> bool" and ok :: "'d \<Rightarrow> bool"
  assumes poll_pos: "0 < poll" and ready_spec: "valid d \<Longrightarrow> is_ready d = Inr (ok d)"
begin

lemma wait_result:
  assumes "\<And>k. valid (data k)"
  shows "\<exists>r. wait is_ready timeout_message poll env data lat = Some (Inr r)
    \<and> (r = Inr () \<longleftrightarrow> (\<exists>k. sample_time poll lat k \<le> readiness_timeout env \<and> ok (data k)))
    \<and> (\<forall>m. r = Inl m \<longrightarrow> (\<exists>k. m = timeout_message (data k)
            \<and> sample_time poll lat k \<le> readiness_timeout env
            \<and> readiness_timeout env < sample_time poll lat (Suc k)))"
proof -
  let ?T = "readiness_timeout env"
  obtain r where r: "wait_loop is_ready poll data lat ?T 0 0 = Some r"
    "r = WaitReady \<and> (\<exists>j. sample_time poll lat j \<le> ?T \<and> ok (data j))
       \<or> (\<exists>j. r = WaitTimedOut j \<and> sample_time poll lat j \<le> ?T
              \<and> ?T < sample_time poll lat (Suc j) \<and> (\<forall>i \<le> j. \<not> ok (data i)))"
    using wait_loop_result [OF poll_pos, of is_ready data "\<lambda>k. ok (data k)" 0 lat 0 ?T] ready_spec assms
    by auto
  from r(2) show ?thesis
  proof (elim disjE exE conjE)
    fix j assume "r = WaitReady" "sample_time poll lat j \<le> ?T" "ok (data j)"
    then show ?thesis using r(1) by (auto simp: wait_def adjust_timeout_60)
  next
    fix j assume j: "r = WaitTimedOut j" "sample_time poll lat j \<le> ?T" "?T < sample_time poll lat (Suc j)"
      "\<forall>i \<le> j. \<not> ok (data i)"
    have "\<not> ok (data i)" if "sample_time poll lat i \<le> ?T" for i
      using timed_out_none_ok [of ?T 0 poll lat j "\<lambda>k. ok (data k)" i] j(3,4) that by simp
    then show ?thesis using r(1) j by (auto simp: wait_def adjust_timeout_60)
  qed
qed

end

section \<open>The checks\<close>

definition default_poll_interval :: duration where "default_poll_interval = from_millis 200"
definition balancer_poll_interval :: duration where "balancer_poll_interval = from_secs 1"

text \<open>
  Network: the peer count of every node against its expected one; \<open>all\<close> stops at the first node
  that has too few, and indexing past the expected counts panics.
\<close>

fun network_ready_from :: "nat list \<Rightarrow> nat \<Rightarrow> nat list \<Rightarrow> bool rust" where
  "network_ready_from expected idx [] = Inr True"
| "network_ready_from expected idx (n_peers # infos) =
     rbind (index_checked expected idx) (\<lambda>e.
       if e \<le> n_peers then network_ready_from expected (Suc idx) infos else Inr False)"

definition network_is_ready :: "nat list \<Rightarrow> nat list \<Rightarrow> bool rust" where
  "network_is_ready expected infos = network_ready_from expected 0 infos"

definition build_timeout_summary :: "string list \<Rightarrow> nat list \<Rightarrow> nat list \<Rightarrow> string" where
  "build_timeout_summary labels infos expected = join_with '', ''
     (map (\<lambda>((n_peers, e), lbl). lbl @ '': peers='' @ show_nat n_peers @ '', expected='' @ show_nat e)
        (zip (zip infos expected) labels))"

definition network_timeout_message :: "string list \<Rightarrow> nat list \<Rightarrow> nat list \<Rightarrow> string" where
  "network_timeout_message labels expected infos =
     ''timed out waiting for network readiness: '' @ build_timeout_summary labels infos expected"

text \<open>\<open>fetch_network_info\<close>: any failure counts as a node without peers.\<close>

definition fetch_network_info :: "string + nat \<Rightarrow> nat" where
  "fetch_network_info response = (case response of Inl e \<Rightarrow> 0 | Inr n_peers \<Rightarrow> n_peers)"

text \<open>Membership: a response is an error or the number of assignations.\<close>

definition assignation_statuses :: "bool \<Rightarrow> (string + nat) list \<Rightarrow> bool list" where
  "assignation_statuses expect_non_empty responses = map (\<lambda>res. case res of
       Inl e \<Rightarrow> False
     | Inr n \<Rightarrow> let is_non_empty = (n \<noteq> 0) in if expect_non_empty then is_non_empty else \<not> is_non_empty) responses"

definition membership_is_ready :: "bool \<Rightarrow> (string + nat) list \<Rightarrow> bool rust" where
  "membership_is_ready expect_non_empty responses =
     Inr (list_all (\<lambda>r. r) (assignation_statuses expect_non_empty responses))"

definition build_membership_summary :: "string list \<Rightarrow> bool list \<Rightarrow> string \<Rightarrow> string" where
  "build_membership_summary labels statuses description = join_with '', ''
     (map (\<lambda>(rdy, lbl). lbl @ '': status='' @ (if rdy then ''ready'' else ''waiting'')
             @ '', expected '' @ description) (zip statuses labels))"

definition membership_timeout_message :: "string list \<Rightarrow> bool \<Rightarrow> (string + nat) list \<Rightarrow> string" where
  "membership_timeout_message labels expect_non_empty responses =
     (let description = (if expect_non_empty then ''non-empty assignations'' else ''empty assignations'')
      in ''timed out waiting for DA membership readiness ('' @ description @ ''): ''
         @ build_membership_summary labels (assignation_statuses expect_non_empty responses) description)"

text \<open>Balancer: per subnetwork the inbound and outbound connections of a node, in iteration order.\<close>

type_synonym balancer_stats = "(nat \<times> nat \<times> nat) list"

definition connected_subnetworks :: "balancer_stats \<Rightarrow> nat" where
  "connected_subnetworks stats = length (filter (\<lambda>(_, inbound, outbound). 0 < inbound \<or> 0 < outbound) stats)"

definition format_balancer_stats :: "balancer_stats \<Rightarrow> string" where
  "format_balancer_stats stats = (if stats = [] then ''empty'' else join_with '';''
     (map (\<lambda>(subnet, inbound, outbound). show_nat subnet @ '':in='' @ show_nat inbound
             @ '',out='' @ show_nat outbound) stats))"

definition balancer_is_ready :: "(string \<times> nat \<times> balancer_stats) list \<Rightarrow> bool rust" where
  "balancer_is_ready data = Inr (list_all (\<lambda>(_, threshold, stats).
     if threshold = 0 then True else threshold \<le> connected_subnetworks stats) data)"

definition balancer_timeout_message :: "(string \<times> nat \<times> balancer_stats) list \<Rightarrow> string" where
  "balancer_timeout_message data = ''timed out waiting for DA balancer readiness: ''
     @ join_with '', '' (map (\<lambda>(lbl, threshold, stats). lbl @ '': connected=''
         @ show_nat (connected_subnetworks stats) @ '', required='' @ show_nat threshold
         @ '', stats='' @ format_balancer_stats stats) data)"

section \<open>Deployed topologies\<close>

record running_node =
  rn_port :: nat
  rn_initial_peers :: "multiaddr list"
  rn_subnet_threshold :: nat

record deployed_topology =
  dt_validators :: "running_node list"
  dt_executors :: "running_node list"

text \<open>Starting a node from its configuration is a parameter; the lists are read by index.\<close>

definition spawn_validators_executors ::
  "('p general_config \<Rightarrow> running_node rust) \<Rightarrow> ('p general_config \<Rightarrow> running_node rust)
   \<Rightarrow> 'p general_config list \<Rightarrow> nat \<Rightarrow> nat \<Rightarrow> deployed_topology rust" where
  "spawn_validators_executors spawn_validator spawn_executor configs n_val n_exec =
     rbind (try_map (\<lambda>i. rbind (index_checked configs i) spawn_validator) [0..<n_val]) (\<lambda>vs.
     rbind (try_map (\<lambda>i. rbind (index_checked configs (n_val + i)) spawn_executor) [0..<n_exec]) (\<lambda>es.
       Inr \<lparr>dt_validators = vs, dt_executors = es\<rparr>))"

definition topology_spawn ::
  "'p::linorder topology_env \<Rightarrow> ('p general_config \<Rightarrow> running_node rust)
   \<Rightarrow> ('p general_config \<Rightarrow> running_node rust) \<Rightarrow> topology_config \<Rightarrow> deployed_topology rust" where
  "topology_spawn te sv se config =
     rbind (build te (topology_builder_new config)) (\<lambda>t.
       spawn_validators_executors sv se (map gn_general (nodes t)) (n_validators config) (n_executors config))"

definition spawn_with_empty_membership ::
  "'p::linorder topology_env \<Rightarrow> ('p general_config \<Rightarrow> running_node rust)
   \<Rightarrow> ('p general_config \<Rightarrow> running_node rust) \<Rightarrow> topology_config \<Rightarrow> node_id list \<Rightarrow> nat list
   \<Rightarrow> nat list \<Rightarrow> deployed_topology rust" where
  "spawn_with_empty_membership te sv se config ids da_ports blend_ports =
     rbind (build te (with_blend_ports (with_da_ports (with_ids (topology_builder_new config) ids) da_ports) blend_ports)) (\<lambda>t.
       spawn_validators_executors sv se (map gn_general (nodes t)) (n_validators config) (n_executors config))"

definition spawn_local ::
  "('p general_config \<Rightarrow> running_node rust) \<Rightarrow> ('p general_config \<Rightarrow> running_node rust)
   \<Rightarrow> 'p generated_topology \<Rightarrow> deployed_topology rust" where
  "spawn_local sv se t = spawn_validators_executors sv se (map gn_general (nodes t))
     (n_validators (gt_config t)) (n_executors (gt_config t))"

definition role_labels :: "string \<Rightarrow> nat list \<Rightarrow> string list" where
  "role_labels role ports = map (\<lambda>(idx, port). role @ ''#'' @ show_nat idx @ ''@'' @ show_nat port)
     (enumerate 0 ports)"

definition node_listen_ports :: "deployed_topology \<Rightarrow> nat list" where
  "node_listen_ports d = map rn_port (dt_validators d) @ map rn_port (dt_executors d)"

definition node_initial_peer_ports :: "deployed_topology \<Rightarrow> nat list list" where
  "node_initial_peer_ports d = map (\<lambda>n. peer_ports (rn_initial_peers n)) (dt_validators d)
     @ map (\<lambda>n. peer_ports (rn_initial_peers n)) (dt_executors d)"

definition node_labels :: "deployed_topology \<Rightarrow> string list" where
  "node_labels d = role_labels ''validator'' (map rn_port (dt_validators d))
     @ role_labels ''executor'' (map rn_port (dt_executors d))"

type_synonym 'd samples = "(nat \<Rightarrow> 'd) \<times> (nat \<Rightarrow> duration)"

definition wait_network_ready ::
  "deployed_topology \<Rightarrow> environment \<Rightarrow> nat list samples \<Rightarrow> (string + unit) rust option" where
  "wait_network_ready d env infos =
     (let listen_ports = node_listen_ports d in
      if length listen_ports \<le> 1 then Some (Inr (Inr ()))
      else case find_expected_peer_counts listen_ports (node_initial_peer_ports d) of
             Inl msg \<Rightarrow> Some (Inl msg)
           | Inr expected \<Rightarrow> wait (network_is_ready expected) (network_timeout_message (node_labels d) expected)
               default_poll_interval env (fst infos) (snd infos))"

text \<open>A node whose balancer statistics cannot be fetched panics, so samples hold the statistics.\<close>

definition balancer_data :: "deployed_topology \<Rightarrow> balancer_stats list \<Rightarrow> (string \<times> nat \<times> balancer_stats) list" where
  "balancer_data d stats = zip (node_labels d)
     (zip (map rn_subnet_threshold (dt_validators d @ dt_executors d)) stats)"

definition wait_da_balancer_ready ::
  "deployed_topology \<Rightarrow> environment \<Rightarrow> balancer_stats list samples \<Rightarrow> (string + unit) rust option" where
  "wait_da_balancer_ready d env stats =
     (if dt_validators d = [] \<and> dt_executors d = [] then Some (Inr (Inr ()))
      else wait balancer_is_ready balancer_timeout_message balancer_poll_interval env
             (\<lambda>k. balancer_data d (fst stats k)) (snd stats))"

definition wait_membership_assignations ::
  "deployed_topology \<Rightarrow> environment \<Rightarrow> bool \<Rightarrow> (string + nat) list samples \<Rightarrow> (string + unit) rust option" where
  "wait_membership_assignations d env expect_non_empty responses =
     (if length (dt_validators d) + length (dt_executors d) = 0 then Some (Inr (Inr ()))
      else wait (membership_is_ready expect_non_empty)
             (membership_timeout_message (node_labels d) expect_non_empty)
             default_poll_interval env (fst responses) (snd responses))"

definition wait_membership_ready_for_session ::
  "deployed_topology \<Rightarrow> environment \<Rightarrow> (string + nat) list samples \<Rightarrow> (string + unit) rust option" where
  "wait_membership_ready_for_session d env responses = wait_membership_assignations d env True responses"

definition wait_membership_empty_for_session ::
  "deployed_topology \<Rightarrow> environment \<Rightarrow> (string + nat) list samples \<Rightarrow> (string + unit) rust option" where
  "wait_membership_empty_for_session d env responses = wait_membership_assignations d env False responses"

section \<open>Remote readiness\<close>

definition listen_ports :: "'p generated_topology \<Rightarrow> nat list" where
  "listen_ports t = map network_port (gt_validators t) @ map network_port (gt_executors t)"

definition initial_peer_ports :: "'p generated_topology \<Rightarrow> nat list list" where
  "initial_peer_ports t =
     map (\<lambda>n. peer_ports (nc_initial_peers (gc_network (gn_general n)))) (gt_validators t)
     @ map (\<lambda>n. peer_ports (nc_initial_peers (gc_network (gn_general n)))) (gt_executors t)"

definition topology_labels :: "'p generated_topology \<Rightarrow> string list" where
  "topology_labels t = role_labels ''validator'' (map network_port (gt_validators t))
     @ role_labels ''executor'' (map network_port (gt_executors t))"

definition make_testing_base_url :: "nat \<Rightarrow> string" where
  "make_testing_base_url port = ''http://127.0.0.1:'' @ show_nat port @ ''/''"

definition membership_urls ::
  "'p generated_node list \<Rightarrow> string list option \<Rightarrow> string \<Rightarrow> string list rust" where
  "membership_urls ns urls msg =
     (case urls of
        Some us \<Rightarrow> rbind (rust_assert (length ns = length us) msg) (\<lambda>_. Inr us)
      | None \<Rightarrow> Inr (map (\<lambda>n. make_testing_base_url (ac_testing_http_port (gc_api (gn_general n)))) ns))"

text \<open>
  \<open>infos\<close> and \<open>members\<close> answer for the list of endpoints asked, \<open>infos\<close> before the failures are
  turned into empty answers.
\<close>

definition wait_remote_network ::
  "'p generated_topology \<Rightarrow> environment \<Rightarrow> string list \<Rightarrow> (string list \<Rightarrow> (string + nat) list samples)
   \<Rightarrow> (string + unit) rust option" where
  "wait_remote_network t env endpoints infos =
     (if length endpoints \<le> 1 then Some (Inr (Inr ()))
      else case find_expected_peer_counts (listen_ports t) (initial_peer_ports t) of
             Inl msg \<Rightarrow> Some (Inl msg)
           | Inr expected \<Rightarrow>
               wait (network_is_ready expected) (network_timeout_message (topology_labels t) expected)
                 default_poll_interval env
                 (\<lambda>k. map fetch_network_info (fst (infos endpoints) k)) (snd (infos endpoints)))"

definition wait_remote_readiness ::
  "'p generated_topology \<Rightarrow> environment \<Rightarrow> string list \<Rightarrow> string list \<Rightarrow> string list option
   \<Rightarrow> string list option \<Rightarrow> (string list \<Rightarrow> (string + nat) list samples)
   \<Rightarrow> (string list \<Rightarrow> (string + nat) list samples) \<Rightarrow> (string + unit) rust option" where
  "wait_remote_readiness t env validator_endpoints executor_endpoints validator_membership executor_membership infos members =
     (if length (gt_validators t) + length (gt_executors t) = 0 then Some (Inr (Inr ()))
      else if length (gt_validators t) \<noteq> length validator_endpoints
           then Some (Inl ''validator endpoints must match topology'')
      else if length (gt_executors t) \<noteq> length executor_endpoints
           then Some (Inl ''executor endpoints must match topology'')
      else case wait_remote_network t env (validator_endpoints @ executor_endpoints) infos of
             None \<Rightarrow> None
           | Some (Inl msg) \<Rightarrow> Some (Inl msg)
           | Some (Inr (Inl e)) \<Rightarrow> Some (Inr (Inl e))
           | Some (Inr (Inr u)) \<Rightarrow>
               (case rbind (membership_urls (gt_validators t) validator_membership
                              ''validator membership endpoints must match topology'') (\<lambda>vs.
                     rbind (membership_urls (gt_executors t) executor_membership
                              ''executor membership endpoints must match topology'') (\<lambda>es. Inr (vs @ es))) of
                  Inl msg \<Rightarrow> Some (Inl msg)
                | Inr endpoints \<Rightarrow>
                    wait (membership_is_ready True) (membership_timeout_message (topology_labels t) True)
                      default_poll_interval env (fst (members endpoints)) (snd (members endpoints))))"

section \<open>HTTP probes\<close>

record http_readiness_error =
  hre_role :: node_role
  hre_port :: nat
  hre_timeout :: duration

text \<open>
  \<open>answers port k\<close> is whether the \<open>k\<close>-th request to a port succeeds and \<open>lat port k\<close> how long it takes;
  here the first request is made under the timer.
\<close>

definition wait_for_single_port ::
  "(nat \<Rightarrow> nat \<Rightarrow> bool) \<Rightarrow> (nat \<Rightarrow> nat \<Rightarrow> duration) \<Rightarrow> node_role \<Rightarrow> duration \<Rightarrow> duration \<Rightarrow> nat
   \<Rightarrow> (http_readiness_error + unit) option" where
  "wait_for_single_port answers lat role timeout poll port =
     (if timeout < lat port 0 then Some (Inl \<lparr>hre_role = role, hre_port = port, hre_timeout = timeout\<rparr>)
      else map_option (\<lambda>r. case r of
               WaitReady \<Rightarrow> Inr ()
             | _ \<Rightarrow> Inl \<lparr>hre_role = role, hre_port = port, hre_timeout = timeout\<rparr>)
             (wait_loop Inr poll (answers port) (lat port) timeout (lat port 0) 0))"

text \<open>\<open>try_join_all\<close> over probes that all fail at the same instant: the first failing port is reported.\<close>

fun join_probes :: "('a \<Rightarrow> ('e + unit) option) \<Rightarrow> 'a list \<Rightarrow> ('e + unit) option" where
  "join_probes probe [] = Some (Inr ())"
| "join_probes probe (p # ps) =
     (case probe p of
        None \<Rightarrow> None
      | Some (Inl e) \<Rightarrow> Some (Inl e)
      | Some (Inr u) \<Rightarrow> join_probes probe ps)"

definition wait_for_http_ports_with_host ::
  "(nat \<Rightarrow> nat \<Rightarrow> bool) \<Rightarrow> (nat \<Rightarrow> nat \<Rightarrow> duration) \<Rightarrow> node_role \<Rightarrow> duration \<Rightarrow> duration \<Rightarrow> nat list
   \<Rightarrow> (http_readiness_error + unit) option" where
  "wait_for_http_ports_with_host answers lat role timeout poll ports =
     (if ports = [] then Some (Inr ())
      else join_probes (wait_for_single_port answers lat role timeout poll) ports)"

section \<open>Properties\<close>

lemma network_ready_from_eq:
  "idx + length infos \<le> length expected \<Longrightarrow>
     network_ready_from expected idx infos = Inr (\<forall>i < length infos. expected ! (idx + i) \<le> infos ! i)"
proof (induction infos arbitrary: idx)
  case (Cons n infos)
  have "(\<forall>i < length (n # infos). expected ! (idx + i) \<le> (n # infos) ! i)
      \<longleftrightarrow> expected ! idx \<le> n \<and> (\<forall>i < length infos. expected ! (Suc idx + i) \<le> infos ! i)"
    by (auto simp: less_Suc_eq_0_disj)
  with Cons show ?case by (auto simp: index_checked_def)
qed simp

lemma poll_intervals_pos: "0 < default_poll_interval" "0 < balancer_poll_interval"
  by (simp_all add: default_poll_interval_def balancer_poll_interval_def from_millis_def from_secs_def
      nanos_per_sec_def)

interpretation network_check: readiness_check "network_is_ready expected"
  "network_timeout_message labels expected" default_poll_interval
  "\<lambda>infos. length infos \<le> length expected" "\<lambda>infos. \<forall>i < length infos. expected ! i \<le> infos ! i"
  for expected labels
  by unfold_locales (simp_all add: poll_intervals_pos network_is_ready_def network_ready_from_eq)

lemma membership_is_ready_eq:
  "membership_is_ready non_empty responses
     = Inr (\<forall>res \<in> set responses. \<exists>n. res = Inr n \<and> (n \<noteq> 0 \<longleftrightarrow> non_empty))"
proof -
  have "(case res of Inl e \<Rightarrow> False | Inr n \<Rightarrow> let is_non_empty = (n \<noteq> 0) in
      if non_empty then is_non_empty else \<not> is_non_empty)
    \<longleftrightarrow> (\<exists>n. res = Inr n \<and> (n \<noteq> 0 \<longleftrightarrow> non_empty))" for res :: "string + nat"
    by (cases res) auto
  then show ?thesis by (simp only: membership_is_ready_def assignation_statuses_def list_all_iff set_map ball_simps)
qed

interpretation membership_check: readiness_check "membership_is_ready non_empty"
  "membership_timeout_message labels non_empty" default_poll_interval
  "\<lambda>responses. True" "\<lambda>responses. \<forall>res \<in> set responses. \<exists>n. res = Inr n \<and> (n \<noteq> 0 \<longleftrightarrow> non_empty)"
  for non_empty labels
  by unfold_locales (simp_all add: poll_intervals_pos membership_is_ready_eq)

interpretation balancer_check: readiness_check balancer_is_ready balancer_timeout_message
  balancer_poll_interval "\<lambda>data. True"
  "\<lambda>data. \<forall>(lbl, threshold, stats) \<in> set data. threshold \<le> connected_subnetworks stats"
  by unfold_locales (auto simp: poll_intervals_pos balancer_is_ready_def list_all_iff)

lemma length_listen_ports [simp]: "length (listen_ports t) = length (nodes t)"
  by (simp add: listen_ports_def nodes_def)

lemma length_initial_peer_ports [simp]: "length (initial_peer_ports t) = length (nodes t)"
  by (simp add: initial_peer_ports_def nodes_def)

definition required_peers :: "'p generated_topology \<Rightarrow> nat \<Rightarrow> nat" where
  "required_peers t i = card (peer_set (listen_ports t) (initial_peer_ports t) i)"

lemma remote_expected:
  "find_expected_peer_counts (listen_ports t) (initial_peer_ports t)
     = Inr (map (required_peers t) [0..<length (nodes t)])"
  using find_expected_peer_counts_eq [of "listen_ports t" "initial_peer_ports t"]
  by (simp add: required_peers_def [abs_def])


lemma single_port_result:
  assumes "0 < poll"
  shows "\<exists>r. wait_for_single_port answers lat role timeout poll port = Some r
    \<and> (r = Inr () \<longleftrightarrow> (\<exists>k. lat port 0 + sample_time poll (lat port) k \<le> timeout \<and> answers port k))
    \<and> (r \<noteq> Inr () \<longrightarrow> r = Inl \<lparr>hre_role = role, hre_port = port, hre_timeout = timeout\<rparr>)"
proof (cases "timeout < lat port 0")
  case True
  then show ?thesis by (auto simp: wait_for_single_port_def)
next
  case False
  obtain r where r: "wait_loop Inr poll (answers port) (lat port) timeout (lat port 0) 0 = Some r"
    "r = WaitReady \<and> (\<exists>j. lat port 0 + sample_time poll (lat port) j \<le> timeout \<and> answers port j)
       \<or> (\<exists>j. r = WaitTimedOut j \<and> lat port 0 + sample_time poll (lat port) j \<le> timeout
              \<and> timeout < lat port 0 + sample_time poll (lat port) (Suc j) \<and> (\<forall>i \<le> j. \<not> answers port i))"
    using wait_loop_result [OF assms, of Inr "answers port" "answers port" "lat port 0" "lat port" 0 timeout] False
    by auto
  from r(2) show ?thesis
  proof (elim disjE exE conjE)
    fix j assume "r = WaitReady" "lat port 0 + sample_time poll (lat port) j \<le> timeout" "answers port j"
    then show ?thesis using r(1) False by (auto simp: wait_for_single_port_def)
  next
    fix j assume j: "r = WaitTimedOut j" "timeout < lat port 0 + sample_time poll (lat port) (Suc j)"
      "\<forall>i \<le> j. \<not> answers port i"
    then show ?thesis
      using r(1) False timed_out_none_ok [of timeout "lat port 0" poll "lat port" j "answers port"]
      by (auto simp: wait_for_single_port_def)
  qed
qed

definition port_up :: "(nat \<Rightarrow> nat \<Rightarrow> bool) \<Rightarrow> (nat \<Rightarrow> nat \<Rightarrow> duration) \<Rightarrow> duration \<Rightarrow> duration \<Rightarrow> nat \<Rightarrow> bool" where
  "port_up answers lat timeout poll port \<longleftrightarrow>
     (\<exists>k. lat port 0 + sample_time poll (lat port) k \<le> timeout \<and> answers port k)"

lemma join_probes_outcome:
  assumes "0 < poll"
  shows "\<exists>r. join_probes (wait_for_single_port answers lat role timeout poll) ports = Some r
      \<and> (r = Inr () \<longleftrightarrow> (\<forall>p \<in> set ports. port_up answers lat timeout poll p))
      \<and> (\<forall>e. r = Inl e \<longrightarrow> (\<exists>before port rest. ports = before @ port # rest \<and> (\<forall>p \<in> set before. port_up answers lat timeout poll p)
            \<and> \<not> port_up answers lat timeout poll port \<and> e = \<lparr>hre_role = role, hre_port = port, hre_timeout = timeout\<rparr>))"
proof (induction ports)
  case (Cons p ps)
  obtain r where r: "wait_for_single_port answers lat role timeout poll p = Some r" "r = Inr () \<longleftrightarrow> port_up answers lat timeout poll p"
    "r \<noteq> Inr () \<longrightarrow> r = Inl \<lparr>hre_role = role, hre_port = p, hre_timeout = timeout\<rparr>"
    using single_port_result [OF assms(1)] unfolding port_up_def [symmetric] by blast
  show ?case
  proof (cases "port_up answers lat timeout poll p")
    case True
    then have ok: "wait_for_single_port answers lat role timeout poll p = Some (Inr ())" using r by simp
    from Cons.IH obtain q where q: "join_probes (wait_for_single_port answers lat role timeout poll) ps = Some q"
      "q = Inr () \<longleftrightarrow> (\<forall>p \<in> set ps. port_up answers lat timeout poll p)"
      "\<forall>e. q = Inl e \<longrightarrow> (\<exists>before port rest. ps = before @ port # rest \<and> (\<forall>p \<in> set before. port_up answers lat timeout poll p)
        \<and> \<not> port_up answers lat timeout poll port \<and> e = \<lparr>hre_role = role, hre_port = port, hre_timeout = timeout\<rparr>)" by blast
    have "\<exists>before port rest. p # ps = before @ port # rest \<and> (\<forall>p \<in> set before. port_up answers lat timeout poll p)
        \<and> \<not> port_up answers lat timeout poll port \<and> e = \<lparr>hre_role = role, hre_port = port, hre_timeout = timeout\<rparr>" if eq: "q = Inl e" for e
    proof -
      obtain before port rest where "ps = before @ port # rest" "\<forall>p \<in> set before. port_up answers lat timeout poll p"
        "\<not> port_up answers lat timeout poll port" "e = \<lparr>hre_role = role, hre_port = port, hre_timeout = timeout\<rparr>" using q(3) eq by blast
      then show ?thesis using True by (intro exI [of _ "p # before"]) auto
    qed
    then show ?thesis using ok q(1,2) True by simp
  next
    case False
    then have err: "wait_for_single_port answers lat role timeout poll p
        = Some (Inl \<lparr>hre_role = role, hre_port = p, hre_timeout = timeout\<rparr>)" using r by simp
    show ?thesis using err False by (auto intro: exI [of _ "[]"])
  qed
qed simp

text \<open>
  Waiting for HTTP ports with a positive poll interval always returns. It succeeds exactly when
  every port gave a successful answer within the timeout; otherwise the error names the role, the
  timeout and a port of the list that gave none, while all ports listed before it did.
\<close>

theorem http_ports_outcome:
  assumes "0 < poll"
  shows "\<exists>r. wait_for_http_ports_with_host answers lat role timeout poll ports = Some r
    \<and> (r = Inr () \<longleftrightarrow> (\<forall>p \<in> set ports. port_up answers lat timeout poll p))
    \<and> (\<forall>e. r = Inl e \<longrightarrow> (\<exists>before port rest. ports = before @ port # rest \<and> (\<forall>p \<in> set before. port_up answers lat timeout poll p)
          \<and> \<not> port_up answers lat timeout poll port \<and> e = \<lparr>hre_role = role, hre_port = port, hre_timeout = timeout\<rparr>))"
  using join_probes_outcome [OF assms, of answers lat role timeout ports] by (auto simp: wait_for_http_ports_with_host_def)

theorem http_ports_outcome_witness:
  "wait_for_http_ports_with_host (\<lambda>p k. p = 80 \<and> 2 \<le> k) (\<lambda>p k. 1) Validator 20 3 [80] = Some (Inr ())"
proof -
  have "port_up (\<lambda>p k. p = 80 \<and> 2 \<le> k) (\<lambda>p k. 1) 20 3 80"
    unfolding port_up_def by (rule exI [of _ 2]) (simp add: numeral_2_eq_2)
  then show ?thesis
    using http_ports_outcome [where poll = 3 and lat = "\<lambda>p k. 1" and timeout = 20
        and answers = "\<lambda>p k. p = 80 \<and> 2 \<le> k" and role = Validator and ports = "[80]"] by auto
qed


section \<open>Waiting ends\<close>

text \<open>With a positive poll interval the loop ends, whatever the samples are.\<close>

lemma wait_loop_ends: "0 < poll \<Longrightarrow> wait_loop is_ready poll data lat deadline now k \<noteq> None"
proof (induction "Suc deadline - now" arbitrary: now k rule: less_induct)
  case less
  show ?case
  proof (cases "deadline < now + poll + lat (Suc k)")
    case True
    then show ?thesis by (subst wait_loop.simps) (auto split: sum.splits)
  next
    case False
    then have "wait_loop is_ready poll data lat deadline (now + poll + lat (Suc k)) (Suc k) \<noteq> None"
      using less.prems by (intro less.hyps) auto
    then show ?thesis by (subst wait_loop.simps) (auto split: sum.splits)
  qed
qed

lemma wait_ends: "0 < poll \<Longrightarrow> \<exists>r. wait is_ready message poll env data lat = Some r"
  using wait_loop_ends [of poll is_ready data lat "readiness_timeout env" 0 0] by (simp add: wait_def adjust_timeout_60)

lemma ports_wait_ends: "0 < poll \<Longrightarrow> \<exists>r. wait_for_http_ports_with_host answers lat role timeout poll ports = Some r"
proof -
  assume "0 < poll"
  then have "wait_for_single_port answers lat role timeout poll p \<noteq> None" for p
    using single_port_result [of poll answers lat role timeout p] by auto
  then have "join_probes (wait_for_single_port answers lat role timeout poll) ports \<noteq> None"
    by (induction ports) (auto split: option.splits sum.splits)
  then show ?thesis by (simp add: wait_for_http_ports_with_host_def)
qed

lemma remote_wait_ends: "wait_remote_readiness t env ve ee vm em infos members \<noteq> None"
proof -
  note w = wait_ends [OF poll_intervals_pos(1)]
  have "\<exists>r. wait_remote_network t env (ve @ ee) infos = Some r"
    unfolding wait_remote_network_def by (simp add: w split: sum.split)
  then obtain r where "wait_remote_network t env (ve @ ee) infos = Some r" ..
  then show ?thesis unfolding wait_remote_readiness_def by (simp add: w split: sum.split)
qed

lemma ports_up_ready:
  assumes "0 < poll" and "\<And>p. p \<in> set ports \<Longrightarrow> port_up answers lat timeout poll p"
  shows "wait_for_http_ports_with_host answers lat role timeout poll ports = Some (Inr ())"
  using join_probes_outcome [OF assms(1), of answers lat role timeout ports] assms(2) by (auto simp: wait_for_http_ports_with_host_def)

end
