(* ===== verification/Runtime_Clients.thy ===== *)
theory Runtime_Clients
  imports F64 Prelude
begin

text \<open>
  The clients a run queries: \<open>core/src/scenario/runtime/node_clients.rs\<close> (random choice of a node and
  the fan-out over all nodes) and \<open>core/src/scenario/runtime/metrics.rs\<close> (Prometheus queries).

  Randomness is a parameter: the number \<open>gen_range\<close> draws and the order \<open>shuffle\<close> produces. What a
  Prometheus server answers to a query is a parameter too.
\<close>

section \<open>Node clients\<close>

record 'c node_clients =
  nc_validators :: "'c list"
  nc_executors :: "'c list"

definition all_clients :: "'c node_clients \<Rightarrow> 'c list" where
  "all_clients n = nc_validators n @ nc_executors n"

text \<open>\<open>Vec::get\<close>.\<close>

definition get_at :: "'a list \<Rightarrow> nat \<Rightarrow> 'a option" where
  "get_at xs i = (if i < length xs then Some (xs ! i) else None)"

definition random_validator :: "nat \<Rightarrow> 'c node_clients \<Rightarrow> 'c option" where
  "random_validator idx n = (if nc_validators n = [] then None else get_at (nc_validators n) idx)"

definition random_executor :: "nat \<Rightarrow> 'c node_clients \<Rightarrow> 'c option" where
  "random_executor idx n = (if nc_executors n = [] then None else get_at (nc_executors n) idx)"

definition any_client :: "nat \<Rightarrow> 'c node_clients \<Rightarrow> 'c option" where
  "any_client choice n =
     (let validator_count = length (nc_validators n); executor_count = length (nc_executors n) in
      if validator_count + executor_count = 0 then None
      else if choice < validator_count then get_at (nc_validators n) choice
      else get_at (nc_executors n) (choice - validator_count))"

text \<open>The loop over the shuffled clients, with \<open>last_err\<close>.\<close>

fun try_clients :: "('c \<Rightarrow> string + 'a) \<Rightarrow> string option \<Rightarrow> 'c list \<Rightarrow> string + 'a" where
  "try_clients f last_err [] =
     Inl (case last_err of Some e \<Rightarrow> e | None \<Rightarrow> ''cluster client exhausted all nodes'')"
| "try_clients f last_err (c # cs) =
     (case f c of Inr v \<Rightarrow> Inr v | Inl e \<Rightarrow> try_clients f (Some e) cs)"

definition try_all_clients :: "('c list \<Rightarrow> 'c list) \<Rightarrow> 'c node_clients \<Rightarrow> ('c \<Rightarrow> string + 'a) \<Rightarrow> string + 'a" where
  "try_all_clients shuffle n f =
     (if all_clients n = [] then Inl ''cluster client has no api clients''
      else try_clients f None (shuffle (all_clients n)))"

text \<open>Every draw in range picks a client, and every client can be picked.\<close>

lemma any_client_iff:
  "(\<exists>choice < length (all_clients n). any_client choice n = Some c) \<longleftrightarrow> c \<in> set (all_clients n)"
proof -
  have "any_client choice n = Some (all_clients n ! choice)" if "choice < length (all_clients n)" for choice
    using that by (auto simp: any_client_def all_clients_def get_at_def Let_def nth_append)
  then show ?thesis by (auto simp: in_set_conv_nth)
qed

lemma try_clients_ok: "try_clients f e cs = Inr v \<Longrightarrow> \<exists>c \<in> set cs. f c = Inr v"
  by (induction cs arbitrary: e) (auto split: sum.splits)

lemma try_clients_err:
  "try_clients f e cs = Inl m \<Longrightarrow> (\<forall>c \<in> set cs. \<exists>m'. f c = Inl m') \<and> (cs \<noteq> [] \<longrightarrow> f (last cs) = Inl m)"
  by (induction cs arbitrary: e) (auto split: sum.splits)

text \<open>
  A cluster query succeeds exactly when some node answers it, whatever order the nodes are tried
  in: the value is one a node gave, and an error is reported only if every node failed, in which case
  it is the error of a node; without nodes it says so.
\<close>

theorem cluster_query_outcome:
  assumes "\<And>cs. mset (shuffle cs) = mset cs"
  shows "case try_all_clients shuffle n f of
      Inr v \<Rightarrow> \<exists>c \<in> set (all_clients n). f c = Inr v
    | Inl m \<Rightarrow> (\<forall>c \<in> set (all_clients n). \<exists>m'. f c = Inl m')
        \<and> (if all_clients n = [] then m = ''cluster client has no api clients''
           else \<exists>c \<in> set (all_clients n). f c = Inl m)"
proof -
  let ?cs = "shuffle (all_clients n)"
  have set: "set ?cs = set (all_clients n)" using assms by (metis set_mset_mset)
  show ?thesis
  proof (cases "all_clients n = []")
    case True
    then show ?thesis by (simp add: try_all_clients_def)
  next
    case False
    then have ne: "?cs \<noteq> []" using set by auto
    show ?thesis
    proof (cases "try_clients f None ?cs")
      case (Inl m)
      note err = try_clients_err [OF Inl]
      have "f (last ?cs) = Inl m" "last ?cs \<in> set (all_clients n)" using err ne set last_in_set [OF ne] by auto
      then show ?thesis using Inl False err set by (auto simp: try_all_clients_def)
    next
      case (Inr v)
      then show ?thesis using False try_clients_ok [OF Inr] set by (auto simp: try_all_clients_def)
    qed
  qed
qed

theorem cluster_query_outcome_witness:
  "\<exists>v. try_all_clients rev \<lparr>nc_validators = [1, 2], nc_executors = [3 :: nat]\<rparr>
        (\<lambda>c. if c = 2 then Inr c else Inl ''down'') = Inr v \<and> v = 2"
proof -
  let ?n = "\<lparr>nc_validators = [1, 2], nc_executors = [3 :: nat]\<rparr>"
  let ?f = "\<lambda>c. if c = 2 then Inr c else Inl ''down''"
  have "case try_all_clients rev ?n ?f of
      Inr v \<Rightarrow> \<exists>c \<in> set (all_clients ?n). ?f c = Inr v
    | Inl m \<Rightarrow> (\<forall>c \<in> set (all_clients ?n). \<exists>m'. ?f c = Inl m')
        \<and> (if all_clients ?n = [] then m = ''cluster client has no api clients''
           else \<exists>c \<in> set (all_clients ?n). ?f c = Inl m)"
    by (rule cluster_query_outcome) simp
  then show ?thesis by (auto simp: all_clients_def split: sum.splits if_splits)
qed

section \<open>Metrics\<close>

record instant_sample =
  is_labels :: "(string \<times> string) list"
  is_timestamp :: f64
  is_value :: f64

type_synonym point = "f64 \<times> f64"

datatype prometheus_data = Vector "((string \<times> string) list \<times> point) list"
  | Matrix "((string \<times> string) list \<times> point list) list" | Scalar point

definition flatten_samples :: "prometheus_data \<Rightarrow> instant_sample list" where
  "flatten_samples d = (case d of
       Vector vs \<Rightarrow> map (\<lambda>(ls, ts, v). \<lparr>is_labels = ls, is_timestamp = ts, is_value = v\<rparr>) vs
     | Matrix rs \<Rightarrow> concat (map (\<lambda>(ls, ps). map (\<lambda>(ts, v). \<lparr>is_labels = ls, is_timestamp = ts, is_value = v\<rparr>) ps) rs)
     | Scalar (ts, v) \<Rightarrow> [\<lparr>is_labels = [], is_timestamp = ts, is_value = v\<rparr>])"

text \<open>What running the query on its own thread yields: an error message, or the answer.\<close>

type_synonym prometheus = "string \<Rightarrow> string + prometheus_data"

definition instant_samples :: "prometheus \<Rightarrow> string \<Rightarrow> string + instant_sample list" where
  "instant_samples p query = rbind (p query) (\<lambda>d. Inr (flatten_samples d))"

definition sum_f64 :: "f64 list \<Rightarrow> f64" where
  "sum_f64 vs = foldl f64_add (Fin 0) vs"

definition endpoint_instant_values :: "prometheus \<Rightarrow> string \<Rightarrow> string + f64 list" where
  "endpoint_instant_values p query = rbind (instant_samples p query) (\<lambda>ss. Inr (map is_value ss))"

definition endpoint_counter_value :: "prometheus \<Rightarrow> string \<Rightarrow> string + f64" where
  "endpoint_counter_value p query = rbind (endpoint_instant_values p query) (\<lambda>vs. Inr (sum_f64 vs))"

definition with_endpoint :: "prometheus option \<Rightarrow> (prometheus \<Rightarrow> string + 'a) \<Rightarrow> string + 'a" where
  "with_endpoint m f = (case m of None \<Rightarrow> Inl ''prometheus endpoint unavailable'' | Some p \<Rightarrow> f p)"

definition instant_values :: "prometheus option \<Rightarrow> string \<Rightarrow> string + f64 list" where
  "instant_values m query = with_endpoint m (\<lambda>p. endpoint_instant_values p query)"

definition counter_value :: "prometheus option \<Rightarrow> string \<Rightarrow> string + f64" where
  "counter_value m query = with_endpoint m (\<lambda>p. endpoint_counter_value p query)"

definition consensus_processed_blocks :: "prometheus option \<Rightarrow> string + f64" where
  "consensus_processed_blocks m = counter_value m ''consensus_processed_blocks''"

definition validator_query :: string where
  "validator_query = ''sum(consensus_transactions_total{job=~'' @ [CHR 0x22] @ ''validator-.*'' @ [CHR 0x22] @ ''})''"

definition consensus_transactions_total :: "prometheus option \<Rightarrow> string + f64" where
  "consensus_transactions_total m = with_endpoint m (\<lambda>p.
     case instant_samples p validator_query of
       Inr (s # ss) \<Rightarrow> Inr (sum_f64 (map is_value (s # ss)))
     | _ \<Rightarrow> endpoint_counter_value p ''consensus_transactions_total'')"

text \<open>The fallback is used exactly when the validator query gives no sample.\<close>

lemma consensus_transactions_cases:
  "consensus_transactions_total (Some p) =
     (if \<exists>s ss. instant_samples p validator_query = Inr (s # ss)
      then endpoint_counter_value p validator_query
      else endpoint_counter_value p ''consensus_transactions_total'')"
  by (auto simp: consensus_transactions_total_def with_endpoint_def endpoint_counter_value_def
      endpoint_instant_values_def split: sum.splits list.splits)

end
