(* ===== verification/Consensus_Liveness.thy ===== *)
theory Consensus_Liveness
  imports Runner
begin

text \<open>
  The consensus liveness expectation: \<open>workflows/src/expectations/consensus_liveness.rs\<close>. Every node is
  asked for its height, up to five times; the report compares the heights with the number of blocks
  expected for the run.

  \<open>answers idx attempt\<close> is what node \<open>idx\<close> answers to an attempt: an error, or its height and tip.
\<close>

record consensus_liveness =
  lag_allowance :: nat

definition consensus_liveness_default :: consensus_liveness where
  "consensus_liveness_default = \<lparr>lag_allowance = 2\<rparr>"

definition with_lag_allowance :: "nat \<Rightarrow> consensus_liveness \<Rightarrow> consensus_liveness" where
  "with_lag_allowance n c = c\<lparr>lag_allowance := n\<rparr>"

definition min_progress_blocks :: nat where "min_progress_blocks = 5"
definition request_retries :: nat where "request_retries = 5"
definition max_lag_allowance :: nat where "max_lag_allowance = 5"

record node_sample =
  ns_label :: string
  ns_height :: nat
  ns_tip :: "byte list"

datatype liveness_issue = HeightBelowTarget string nat nat | RequestFailed string string

record liveness_check =
  lk_samples :: "node_sample list"
  lk_issues :: "liveness_issue list"

text \<open>The attempts of one node, from attempt \<open>k\<close> with \<open>n + 1\<close> left: the last error is kept.\<close>

fun fetch_with_retries :: "(nat \<Rightarrow> string + nat \<times> byte list) \<Rightarrow> nat \<Rightarrow> nat \<Rightarrow> string + nat \<times> byte list" where
  "fetch_with_retries answers k 0 = answers k"
| "fetch_with_retries answers k (Suc n) =
     (case answers k of Inr x \<Rightarrow> Inr x | Inl e \<Rightarrow> fetch_with_retries answers (Suc k) n)"

definition node_label :: "nat \<Rightarrow> string" where "node_label idx = ''node-'' @ show_nat idx"

fun collect_results :: "(nat \<Rightarrow> nat \<Rightarrow> string + nat \<times> byte list) \<Rightarrow> nat \<Rightarrow> nat \<Rightarrow> liveness_check" where
  "collect_results answers idx 0 = \<lparr>lk_samples = [], lk_issues = []\<rparr>"
| "collect_results answers idx (Suc n) =
     (let rest = collect_results answers (Suc idx) n in
      case fetch_with_retries (answers idx) 0 (request_retries - 1) of
        Inr (height, tip) \<Rightarrow> rest\<lparr>lk_samples :=
            \<lparr>ns_label = node_label idx, ns_height = height, ns_tip = tip\<rparr> # lk_samples rest\<rparr>
      | Inl e \<Rightarrow> rest\<lparr>lk_issues := RequestFailed (node_label idx) e # lk_issues rest\<rparr>)"

text \<open>\<open>clamp\<close> panics when its bounds are out of order.\<close>

definition clamp_nat :: "nat \<Rightarrow> nat \<Rightarrow> nat \<Rightarrow> nat rust" where
  "clamp_nat x lo hi = rbind (rust_assert (lo \<le> hi) ''assertion failed: min <= max'') (\<lambda>_.
     Inr (if x < lo then lo else if hi < x then hi else x))"

definition effective_lag_allowance :: "consensus_liveness \<Rightarrow> nat \<Rightarrow> nat rust" where
  "effective_lag_allowance c target = clamp_nat (target div 10) (lag_allowance c) max_lag_allowance"

definition issue_string :: "liveness_issue \<Rightarrow> string" where
  "issue_string i = (case i of
       HeightBelowTarget node height target \<Rightarrow>
         node @ '' height '' @ show_nat height @ '' below target '' @ show_nat target
     | RequestFailed node e \<Rightarrow> node @ '' consensus_info failed: '' @ e)"

definition violation_message :: "liveness_issue list \<Rightarrow> string" where
  "violation_message issues = join_with ''\<newline>'' (map (\<lambda>i. ''- '' @ issue_string i) issues)"

datatype liveness_error = MissingParticipants | Violations nat "liveness_issue list"

definition liveness_error_string :: "liveness_error \<Rightarrow> string" where
  "liveness_error_string e = (case e of
       MissingParticipants \<Rightarrow> ''consensus liveness requires at least one validator or executor''
     | Violations target issues \<Rightarrow> ''consensus liveness violated (target='' @ show_nat target @ ''):''
         @ ''\<newline>'' @ violation_message issues)"

fun lag_issues :: "nat \<Rightarrow> nat \<Rightarrow> node_sample list \<Rightarrow> liveness_issue list rust" where
  "lag_issues lag target [] = Inr []"
| "lag_issues lag target (s # ss) =
     rbind (u64_add (ns_height s) lag) (\<lambda>h.
     rbind (lag_issues lag target ss) (\<lambda>rest.
       Inr (if h < target then HeightBelowTarget (ns_label s) (ns_height s) target # rest else rest)))"

definition liveness_target :: "nat \<Rightarrow> nat \<Rightarrow> nat" where
  "liveness_target hint max_height = (if hint = 0 \<or> max_height < hint then max_height else hint)"

definition report :: "consensus_liveness \<Rightarrow> nat \<Rightarrow> liveness_check \<Rightarrow> (liveness_error + unit) rust" where
  "report c target_hint check =
     (if lk_samples check = [] then Inr (Inl MissingParticipants)
      else let max_height = Max (ns_height ` set (lk_samples check));
               target = liveness_target target_hint max_height in
        rbind (effective_lag_allowance c target) (\<lambda>lag.
        let progress = (if max_height < min_progress_blocks
                        then [HeightBelowTarget ''network'' max_height min_progress_blocks] else []) in
        rbind (lag_issues lag target (lk_samples check)) (\<lambda>lagging.
        let issues = lk_issues check @ progress @ lagging in
          Inr (if issues = [] then Inr () else Inl (Violations target issues)))))"

definition liveness_evaluate ::
  "(nat \<Rightarrow> nat \<Rightarrow> string + nat \<times> byte list) \<Rightarrow> nat \<Rightarrow> 'p run_context \<Rightarrow> consensus_liveness
   \<Rightarrow> (liveness_error + unit) rust" where
  "liveness_evaluate answers n_clients ctx c =
     (if n_clients = 0 then Inr (Inl MissingParticipants)
      else report c (rm_expected_blocks (rc_metrics ctx)) (collect_results answers 0 n_clients))"

section \<open>Properties\<close>

lemma fetch_with_retries_ok:
  "(\<exists>x. fetch_with_retries answers k n = Inr x) \<longleftrightarrow> (\<exists>j \<le> n. \<exists>x. answers (k + j) = Inr x)"
proof (induction n arbitrary: k)
  case (Suc n)
  show ?case
  proof (cases "answers k")
    case (Inl e)
    have "(\<exists>j \<le> Suc n. \<exists>x. answers (k + j) = Inr x) \<longleftrightarrow> (\<exists>j \<le> n. \<exists>x. answers (Suc k + j) = Inr x)"
    proof
      assume "\<exists>j \<le> Suc n. \<exists>x. answers (k + j) = Inr x"
      then obtain j x where j: "j \<le> Suc n" "answers (k + j) = Inr x" by blast
      then have "j \<noteq> 0" using Inl by (intro notI) simp
      then show "\<exists>j \<le> n. \<exists>x. answers (Suc k + j) = Inr x" using j by (intro exI [of _ "j - 1"]) auto
    next
      assume "\<exists>j \<le> n. \<exists>x. answers (Suc k + j) = Inr x"
      then show "\<exists>j \<le> Suc n. \<exists>x. answers (k + j) = Inr x" by (metis add_Suc_right add_Suc Suc_le_mono)
    qed
    with Inl Suc.IH [of "Suc k"] show ?thesis by simp
  next
    case (Inr x)
    then show ?thesis by (auto intro: exI [of _ 0])
  qed
qed simp

lemma collect_results_counts:
  "length (lk_samples (collect_results answers idx n)) + length (lk_issues (collect_results answers idx n)) = n"
  by (induction answers idx n rule: collect_results.induct) (auto simp: Let_def split: sum.splits)

lemma collect_results_samples:
  "map ns_label (lk_samples (collect_results answers idx n))
     = map node_label (filter (\<lambda>i. \<exists>a < request_retries. \<exists>x. answers i a = Inr x) [idx..<idx + n])"
proof (induction answers idx n rule: collect_results.induct)
  case (2 answers idx n)
  have ok: "(\<exists>x. fetch_with_retries (answers idx) 0 (request_retries - 1) = Inr x)
      \<longleftrightarrow> (\<exists>a < request_retries. \<exists>x. answers idx a = Inr x)"
  proof -
    have "j \<le> request_retries - 1 \<longleftrightarrow> j < request_retries" for j by (auto simp: request_retries_def)
    then show ?thesis using fetch_with_retries_ok [of "answers idx" 0 "request_retries - 1"] by simp
  qed
  have upt: "[idx..<idx + Suc n] = idx # [Suc idx..<Suc idx + n]" by (simp add: upt_conv_Cons)
  show ?case
  proof (cases "fetch_with_retries (answers idx) 0 (request_retries - 1)")
    case (Inl e)
    then have "\<not> (\<exists>a < request_retries. \<exists>x. answers idx a = Inr x)" using ok by simp
    with Inl 2 show ?thesis unfolding upt by (simp add: Let_def)
  next
    case (Inr p)
    then have "\<exists>a < request_retries. \<exists>x. answers idx a = Inr x" using ok by blast
    with Inr 2 show ?thesis unfolding upt by (cases p) (simp add: Let_def)
  qed
qed simp

lemma lag_issues_eq:
  assumes "\<forall>s \<in> set ss. ns_height s + lag \<le> u64_max"
  shows "lag_issues lag target ss = Inr (map (\<lambda>s. HeightBelowTarget (ns_label s) (ns_height s) target)
           (filter (\<lambda>s. ns_height s + lag < target) ss))"
  using assms by (induction ss) (auto simp: u64_add_def)

lemma effective_lag:
  assumes "lag_allowance c \<le> max_lag_allowance"
  shows "\<exists>lag. effective_lag_allowance c target = Inr lag \<and> lag_allowance c \<le> lag \<and> lag \<le> max_lag_allowance"
  using assms by (auto simp: effective_lag_allowance_def clamp_nat_def)

text \<open>A lag allowance above the maximum makes every report of a reachable network panic.\<close>

lemma large_lag_allowance_panics:
  "max_lag_allowance < lag_allowance c \<Longrightarrow> lk_samples check \<noteq> [] \<Longrightarrow>
     report c hint check = Inl ''assertion failed: min <= max''"
  by (simp add: report_def Let_def effective_lag_allowance_def clamp_nat_def)



text \<open>
  Collecting the heights asks every node and loses none: each node contributes either one
  sample or one failed request, and it contributes a sample exactly when one of its first five
  attempts is answered; samples are in the order of the nodes.
\<close>

theorem liveness_collects_every_node:
  "map ns_label (lk_samples (collect_results answers 0 n))
     = map node_label (filter (\<lambda>i. \<exists>a < 5. \<exists>x. answers i a = Inr x) [0..<n])
   \<and> length (lk_samples (collect_results answers 0 n)) + length (lk_issues (collect_results answers 0 n)) = n"
  using collect_results_samples [of answers 0 n] collect_results_counts [of answers 0 n]
  by (simp add: request_retries_def)

end
