(* ===== verification/Chaos.thy ===== *)
theory Chaos
  imports Durations
begin

text \<open>
  The random restart workload: \<open>workflows/src/workloads/chaos.rs\<close>. The workload never ends by itself,
  so its loop is a step relation: one step is one turn of the loop (a random delay, waiting for the
  cooldowns, one restart). The random draws and the time a restart takes are choices of the step;
  time is in nanoseconds.
\<close>

record chaos_config =
  ch_min_delay :: duration
  ch_max_delay :: duration
  ch_target_cooldown :: duration
  ch_include_validators :: bool
  ch_include_executors :: bool

datatype target = ChaosValidator nat | ChaosExecutor nat

definition chaos_targets :: "chaos_config \<Rightarrow> nat \<Rightarrow> nat \<Rightarrow> target list" where
  "chaos_targets c validators executors =
     (if ch_include_validators c \<and> 1 < validators then map ChaosValidator [0..<validators] else [])
     @ (if ch_include_executors c then map ChaosExecutor [0..<executors] else [])"

text \<open>\<open>offset\<close> is the drawn number of seconds; \<open>checked_add\<close> falls back to the maximal delay.\<close>

definition random_delay :: "chaos_config \<Rightarrow> f64 \<Rightarrow> duration rust" where
  "random_delay c offset =
     (if ch_max_delay c \<le> ch_min_delay c then Inr (ch_min_delay c)
      else rbind (from_secs_f64 offset) (\<lambda>d.
        Inr (if ch_min_delay c + d \<le> duration_max then ch_min_delay c + d else ch_max_delay c)))"

definition initialize_cooldowns :: "chaos_config \<Rightarrow> duration \<Rightarrow> target list \<Rightarrow> (target \<rightharpoonup> duration)" where
  "initialize_cooldowns c now targets =
     (let rdy = (if ch_target_cooldown c \<le> now then now - ch_target_cooldown c else now)
      in map_of (map (\<lambda>t. (t, rdy)) targets))"

text \<open>
  The waiting loop of \<open>pick_target\<close>, on the values of the cooldown map: while some cooldown is in the
  future it sleeps until the earliest of them.
\<close>

function wait_cooldowns :: "duration list \<Rightarrow> duration \<Rightarrow> duration" where
  "wait_cooldowns vals now =
     (case filter (\<lambda>r. now < r) vals of
        [] \<Rightarrow> now
      | r # rs \<Rightarrow> wait_cooldowns vals (fold min rs r))"
  by pat_completeness auto

lemma fold_min_in: "fold min rs (r::nat) \<in> set (r # rs)"
proof (induction rs arbitrary: r)
  case (Cons x xs)
  from Cons [of "min x r"] show ?case by (auto simp: min_def split: if_splits)
qed simp

lemma filter_shrinks:
  fixes x :: nat
  shows "x \<in> set vals \<Longrightarrow> now < x \<Longrightarrow> length (filter (\<lambda>r. x < r) vals) < length (filter (\<lambda>r. now < r) vals)"
proof (induction vals)
  case (Cons v vs)
  have le: "length (filter (\<lambda>r. x < r) vs) \<le> length (filter (\<lambda>r. now < r) vs)"
    using Cons.prems(2) by (induction vs) auto
  show ?case
  proof (cases "x \<in> set vs")
    case True
    with Cons show ?thesis by auto
  next
    case False
    with Cons.prems le show ?thesis by auto
  qed
qed simp

termination wait_cooldowns
proof (relation "measure (\<lambda>(vals, now). length (filter (\<lambda>r. now < r) vals))")
  fix now r :: duration and vals rs :: "duration list"
  assume "filter (\<lambda>r. now < r) vals = r # rs"
  then have "set (r # rs) = {x \<in> set vals. now < x}" by (metis set_filter)
  then have "fold min rs r \<in> {x \<in> set vals. now < x}" using fold_min_in [of rs r] by blast
  then show "((vals, fold min rs r), vals, now)
      \<in> measure (\<lambda>(vals, now). length (filter (\<lambda>r. now < r) vals))"
    using filter_shrinks by simp
qed simp

declare wait_cooldowns.simps [simp del]

definition available :: "target list \<Rightarrow> (target \<rightharpoonup> duration) \<Rightarrow> duration \<Rightarrow> target list" where
  "available targets cooldowns now =
     filter (\<lambda>t. case cooldowns t of None \<Rightarrow> True | Some r \<Rightarrow> r \<le> now) targets"

text \<open>
  \<open>pick_target\<close>: the time at which it returns and the target at position \<open>choice\<close> of the available
  ones (or of all targets when none is available).
\<close>

definition pick_target ::
  "target list \<Rightarrow> (target \<rightharpoonup> duration) \<Rightarrow> nat \<Rightarrow> duration \<Rightarrow> (target \<times> duration) rust" where
  "pick_target targets cooldowns choice now =
     (let now' = wait_cooldowns (filter_map cooldowns targets) now;
          avail = available targets cooldowns now' in
      if avail \<noteq> [] then Inr (avail ! (choice mod length avail), now')
      else if targets \<noteq> [] then Inr (targets ! (choice mod length targets), now')
      else Inl ''chaos restart workload has targets'')"

record chaos_state =
  cs_now :: duration
  cs_cooldowns :: "target \<rightharpoonup> duration"
  cs_restarts :: "(target \<times> duration \<times> duration) list"

definition chaos_start ::
  "chaos_config \<Rightarrow> bool \<Rightarrow> nat \<Rightarrow> nat \<Rightarrow> duration \<Rightarrow> string + target list \<times> chaos_state" where
  "chaos_start c node_control validators executors now =
     (if \<not> node_control then Inl ''chaos restart workload requires node control''
      else let targets = chaos_targets c validators executors in
        if targets = [] then Inl ''chaos restart workload has no eligible targets''
        else Inr (targets, \<lparr>cs_now = now, cs_cooldowns = initialize_cooldowns c now targets, cs_restarts = []\<rparr>))"

text \<open>One turn: delay, pick, a restart that takes \<open>took\<close> and succeeds, and the new cooldown.\<close>

inductive chaos_step :: "chaos_config \<Rightarrow> target list \<Rightarrow> chaos_state \<Rightarrow> chaos_state \<Rightarrow> bool"
  for c targets where
  turn: "random_delay c offset = Inr delay \<Longrightarrow>
     pick_target targets (cs_cooldowns s) choice (cs_now s + delay) = Inr (t, picked) \<Longrightarrow>
     chaos_step c targets s \<lparr>cs_now = picked + took,
        cs_cooldowns = (cs_cooldowns s)(t \<mapsto> picked + took + ch_target_cooldown c),
        cs_restarts = cs_restarts s @ [(t, picked, picked + took)]\<rparr>"

inductive_cases chaos_stepE: "chaos_step c targets s s'"

inductive chaos_reachable :: "chaos_config \<Rightarrow> target list \<Rightarrow> chaos_state \<Rightarrow> chaos_state \<Rightarrow> bool"
  for c targets s0 where
  start: "chaos_reachable c targets s0 s0"
| step: "chaos_reachable c targets s0 s \<Longrightarrow> chaos_step c targets s s' \<Longrightarrow> chaos_reachable c targets s0 s'"

section \<open>Properties\<close>

text \<open>The waiting loop returns only once no cooldown is in the future, and waits no longer than the last.\<close>

lemma wait_cooldowns_max: "wait_cooldowns vals now = Max (insert now (set vals))"
proof (induction vals now rule: wait_cooldowns.induct)
  case (1 vals now)
  show ?case
  proof (cases "filter (\<lambda>r. now < r) vals")
    case Nil
    then have "\<forall>x \<in> set vals. x \<le> now" by (auto simp: filter_empty_conv not_less)
    then have "Max (insert now (set vals)) = now" by (intro Max_eqI) auto
    with Nil show ?thesis by (simp add: wait_cooldowns.simps [of vals now])
  next
    case (Cons r rs)
    then have "set (r # rs) = {x \<in> set vals. now < x}" by (metis set_filter)
    then have m: "fold min rs r \<in> set vals" "now < fold min rs r" using fold_min_in [of rs r] by auto
    have "wait_cooldowns vals now = Max (insert (fold min rs r) (set vals))"
      using 1 Cons by (simp add: wait_cooldowns.simps [of vals now])
    also have "insert (fold min rs r) (set vals) = set vals" using m(1) by auto
    also have "Max (set vals) = Max (insert now (set vals))"
    proof -
      have "now \<le> Max (set vals)" using m Max_ge [OF finite_set m(1)] by linarith
      moreover have "set vals \<noteq> {}" using m(1) by auto
      ultimately show ?thesis by (simp add: Max_insert)
    qed
    finally show ?thesis .
  qed
qed

lemma pick_target_ready:
  assumes "pick_target targets cooldowns choice now = Inr (t, picked)"
  shows "t \<in> set targets \<and> now \<le> picked \<and> (\<forall>x \<in> set targets. \<forall>r. cooldowns x = Some r \<longrightarrow> r \<le> picked)"
proof -
  let ?vals = "filter_map cooldowns targets"
  let ?now' = "wait_cooldowns ?vals now"
  have ge: "now \<le> ?now'" "\<forall>r \<in> set ?vals. r \<le> ?now'" by (auto simp: wait_cooldowns_max)
  then have rdy: "\<forall>x \<in> set targets. \<forall>r. cooldowns x = Some r \<longrightarrow> r \<le> ?now'" by (auto simp: set_filter_map)
  let ?av = "available targets cooldowns ?now'"
  have "?av ! (choice mod length ?av) \<in> set targets" if "?av \<noteq> []"
  proof -
    have "?av ! (choice mod length ?av) \<in> set ?av" using that by (intro nth_mem) simp
    then show ?thesis by (simp add: available_def)
  qed
  moreover have "targets ! (choice mod length targets) \<in> set targets" if "targets \<noteq> []"
    using that by (intro nth_mem) simp
  ultimately show ?thesis using assms rdy ge(1) by (auto simp: pick_target_def Let_def split: if_splits)
qed

definition spaced :: "duration \<Rightarrow> (target \<times> duration \<times> duration) list \<Rightarrow> bool" where
  "spaced gap rs \<longleftrightarrow> (\<forall>i j. i < j \<longrightarrow> j < length rs \<longrightarrow> snd (snd (rs ! i)) + gap \<le> fst (snd (rs ! j)))"

definition chaos_inv :: "chaos_config \<Rightarrow> target list \<Rightarrow> chaos_state \<Rightarrow> bool" where
  "chaos_inv c targets s \<longleftrightarrow> spaced (ch_target_cooldown c) (cs_restarts s)
     \<and> (\<forall>t b e. (t, b, e) \<in> set (cs_restarts s) \<longrightarrow> t \<in> set targets \<and> b \<le> e \<and> e \<le> cs_now s
          \<and> (\<exists>x \<in> set targets. \<exists>r. cs_cooldowns s x = Some r \<and> e + ch_target_cooldown c \<le> r))"

lemma chaos_step_inv:
  assumes "chaos_step c targets s s'" and inv: "chaos_inv c targets s"
  shows "chaos_inv c targets s'"
  using assms(1)
proof (elim chaos_stepE)
  fix offset delay choice t picked took
  assume s': "s' = \<lparr>cs_now = picked + took,
        cs_cooldowns = (cs_cooldowns s)(t \<mapsto> picked + took + ch_target_cooldown c),
        cs_restarts = cs_restarts s @ [(t, picked, picked + took)]\<rparr>"
    and pick: "pick_target targets (cs_cooldowns s) choice (cs_now s + delay) = Inr (t, picked)"
  let ?cd = "ch_target_cooldown c" and ?rs = "cs_restarts s"
  note p = pick_target_ready [OF pick]
  have late: "e + ?cd \<le> picked" if mem: "(x, b, e) \<in> set ?rs" for x b e
  proof -
    obtain y r where "y \<in> set targets" "cs_cooldowns s y = Some r" "e + ?cd \<le> r"
      using inv mem unfolding chaos_inv_def by blast
    moreover from this p have "r \<le> picked" by blast
    ultimately show ?thesis by simp
  qed
  have "spaced ?cd (?rs @ [(t, picked, picked + took)])"
    unfolding spaced_def
  proof (intro allI impI)
    fix i j assume ij: "i < j" "j < length (?rs @ [(t, picked, picked + took)])"
    show "snd (snd ((?rs @ [(t, picked, picked + took)]) ! i)) + ?cd
        \<le> fst (snd ((?rs @ [(t, picked, picked + took)]) ! j))"
    proof (cases "j < length ?rs")
      case True
      then show ?thesis using inv ij by (auto simp: chaos_inv_def spaced_def nth_append)
    next
      case False
      then have i: "i < length ?rs" "j = length ?rs" using ij by auto
      obtain x b e where "?rs ! i = (x, b, e)" by (cases "?rs ! i") auto
      moreover then have "(x, b, e) \<in> set ?rs" using i(1) by (metis nth_mem)
      ultimately show ?thesis using i late by (auto simp: nth_append)
    qed
  qed
  moreover have "\<exists>y \<in> set targets. \<exists>r. ((cs_cooldowns s)(t \<mapsto> picked + took + ?cd)) y = Some r \<and> e + ?cd \<le> r"
    if "(x, b, e) \<in> set (?rs @ [(t, picked, picked + took)])" for x b e
  proof -
    have "e + ?cd \<le> picked + took + ?cd" using that late by fastforce
    then show ?thesis using p by (intro bexI [of _ t]) auto
  qed
  moreover have "x \<in> set targets \<and> b \<le> e \<and> e \<le> picked + took"
    if "(x, b, e) \<in> set (?rs @ [(t, picked, picked + took)])" for x b e
  proof (cases "(x, b, e) \<in> set ?rs")
    case True
    then have "x \<in> set targets" "b \<le> e" using inv unfolding chaos_inv_def by blast+
    with late [OF True] show ?thesis by simp
  next
    case False
    with that p show ?thesis by simp
  qed
  ultimately show ?thesis unfolding s' chaos_inv_def by (simp only: chaos_state.simps) blast
qed

text \<open>
  C15. In every run of the restart workload, restarts only hit eligible targets (never the only
  validator), and a restart begins only after the cooldown since the end of every earlier restart has
  passed, of whichever target: no node is restarted twice within its cooldown, and the cooldown of one
  target also holds back all the others.
\<close>

theorem chaos_restarts_spaced:
  assumes "chaos_start c True validators executors now = Inr (targets, s0)"
    and "chaos_reachable c targets s0 s"
  shows "(\<forall>i j. i < j \<longrightarrow> j < length (cs_restarts s) \<longrightarrow>
        snd (snd (cs_restarts s ! i)) + ch_target_cooldown c \<le> fst (snd (cs_restarts s ! j)))
    \<and> (\<forall>(t, b, e) \<in> set (cs_restarts s). t \<in> set (chaos_targets c validators executors)
        \<and> (\<forall>k. t = ChaosValidator k \<longrightarrow> k < validators \<and> 1 < validators)
        \<and> (\<forall>k. t = ChaosExecutor k \<longrightarrow> k < executors))"
proof -
  have t: "targets = chaos_targets c validators executors" and "cs_restarts s0 = []"
    using assms(1) by (auto simp: chaos_start_def Let_def split: if_splits)
  then have "chaos_inv c targets s0" by (simp add: chaos_inv_def spaced_def)
  with assms(2) have inv: "chaos_inv c targets s"
    by (induction rule: chaos_reachable.induct) (auto intro: chaos_step_inv)
  have "t \<in> set (chaos_targets c validators executors) \<Longrightarrow>
      (\<forall>k. t = ChaosValidator k \<longrightarrow> k < validators \<and> 1 < validators) \<and> (\<forall>k. t = ChaosExecutor k \<longrightarrow> k < executors)" for t
    by (auto simp: chaos_targets_def split: if_splits)
  with inv show ?thesis unfolding chaos_inv_def spaced_def t by fast
qed

theorem chaos_restarts_spaced_witness:
  "\<exists>s. chaos_reachable \<lparr>ch_min_delay = 1, ch_max_delay = 1, ch_target_cooldown = 10,
       ch_include_validators = True, ch_include_executors = False\<rparr> [ChaosValidator 0, ChaosValidator 1]
       \<lparr>cs_now = 0, cs_cooldowns = initialize_cooldowns \<lparr>ch_min_delay = 1, ch_max_delay = 1, ch_target_cooldown = 10,
       ch_include_validators = True, ch_include_executors = False\<rparr> 0 [ChaosValidator 0, ChaosValidator 1], cs_restarts = []\<rparr> s
     \<and> length (cs_restarts s) = 1
     \<and> (\<forall>(t, b, e) \<in> set (cs_restarts s). t \<in> {ChaosValidator 0, ChaosValidator 1})"
proof -
  let ?c = "\<lparr>ch_min_delay = 1, ch_max_delay = 1, ch_target_cooldown = 10,
       ch_include_validators = True, ch_include_executors = False\<rparr>"
  let ?ts = "[ChaosValidator 0, ChaosValidator 1]"
  let ?s0 = "\<lparr>cs_now = 0, cs_cooldowns = initialize_cooldowns ?c 0 ?ts, cs_restarts = []\<rparr>"
  have start: "chaos_start ?c True 2 0 0 = Inr (?ts, ?s0)"
    by (simp add: chaos_start_def chaos_targets_def Let_def upt_rec numeral_2_eq_2)
  have pick: "pick_target ?ts (cs_cooldowns ?s0) 0 (cs_now ?s0 + 1) = Inr (ChaosValidator 0, 1)"
    by (simp add: pick_target_def Let_def wait_cooldowns_max initialize_cooldowns_def available_def)
  have "random_delay ?c (Fin 0) = Inr 1" by (simp add: random_delay_def)
  from chaos_step.turn [OF this pick, of 5]
  obtain s where s: "chaos_step ?c ?ts ?s0 s" "length (cs_restarts s) = 1" by auto
  then have r: "chaos_reachable ?c ?ts ?s0 s" by (blast intro: chaos_reachable.intros)
  from chaos_restarts_spaced [OF start r] r s(2) show ?thesis
    by (auto simp: chaos_targets_def upt_rec numeral_2_eq_2)
qed

end
