(* ===== verification/Tx_Workload.thy ===== *)
theory Tx_Workload
  imports Runner Runtime_Clients
begin

text \<open>
  The transaction workload and its inclusion expectation:
  \<open>workflows/src/workloads/transaction/workload.rs\<close> and \<open>expectation.rs\<close>, with the submission helper of
  \<open>workflows/src/workloads/util.rs\<close> and the inscription builder of \<open>workflows/src/util/tx.rs\<close>.

  Non-zero integers of the source are numbers here; the constructors check them. Building and
  validating transactions is done by other crates: \<open>tx_builder\<close> (\<open>MantleTxBuilder\<close>) and \<open>tx_valid\<close>
  (\<open>SignedMantleTx::new\<close>) are parameters, as is the text of a signing error. What a node answers to a submission is a parameter too.
\<close>

section \<open>The workload\<close>

record wallet_input =
  wi_account :: wallet_account
  wi_utxo :: utxo

record tx_workload =
  tw_txs_per_block :: nat
  tw_user_limit :: "nat option"
  tw_accounts :: "wallet_input list"

definition tx_workload_new :: "nat \<Rightarrow> tx_workload" where
  "tx_workload_new rate = \<lparr>tw_txs_per_block = rate, tw_user_limit = None, tw_accounts = []\<rparr>"

definition tx_with_rate :: "nat \<Rightarrow> tx_workload option" where
  "tx_with_rate rate = (if rate = 0 then None else Some (tx_workload_new rate))"

definition with_user_limit :: "nat option \<Rightarrow> tx_workload \<Rightarrow> tx_workload" where
  "with_user_limit limit w = w\<lparr>tw_user_limit := limit\<rparr>"

text \<open>\<open>collect\<close> into a hash map: a later output with the same key replaces an earlier one.\<close>

definition wallet_utxo_map :: "crypto \<Rightarrow> 'p generated_node \<Rightarrow> (zk_public_key \<rightharpoonup> utxo)" where
  "wallet_utxo_map cr node =
     (let ledger = tx_ledger (signed_tx (cc_genesis_tx (gc_consensus (gn_general node)))) in
      map_of (rev (map (\<lambda>(idx, n). (note_pk n, \<lparr>utxo_tx_hash = ledger_hash cr ledger,
        utxo_output_index = idx, utxo_note = n\<rparr>)) (enumerate 0 (ledger_outputs ledger)))))"

definition apply_user_limit :: "nat option \<Rightarrow> 'a list \<Rightarrow> 'a list" where
  "apply_user_limit limit items = (case limit of None \<Rightarrow> items | Some l \<Rightarrow> take (min l (length items)) items)"

definition limited_user_count :: "nat option \<Rightarrow> nat \<Rightarrow> nat" where
  "limited_user_count limit n_available = (case limit of None \<Rightarrow> n_available | Some l \<Rightarrow> min l n_available)"

definition reference_node :: "'p generated_topology \<Rightarrow> 'p generated_node option" where
  "reference_node t = (case gt_validators t of n # _ \<Rightarrow> Some n
     | [] \<Rightarrow> (case gt_executors t of n # _ \<Rightarrow> Some n | [] \<Rightarrow> None))"

definition tx_init :: "crypto \<Rightarrow> 'p generated_topology \<Rightarrow> run_metrics \<Rightarrow> tx_workload \<Rightarrow> string + tx_workload" where
  "tx_init cr t m w =
     (if wallet_accounts_of t = [] then Inl ''transaction workload requires seeded accounts''
      else case reference_node t of
             None \<Rightarrow> Inl ''transaction workload requires at least one node in the topology''
           | Some node \<Rightarrow>
               (let utxos = wallet_utxo_map cr node;
                    as = apply_user_limit (tw_user_limit w) (filter_map (\<lambda>a.
                      map_option (\<lambda>u. \<lparr>wi_account = a, wi_utxo = u\<rparr>) (utxos (zk_public cr (secret_key a))))
                      (wallet_accounts_of t)) in
                if as = [] then Inl ''transaction workload could not match any accounts to genesis UTXOs''
                else Inr (w\<lparr>tw_accounts := as\<rparr>)))"

text \<open>The number of transactions and the interval between them; the outer sum is a panic.\<close>

definition submission_plan :: "nat \<Rightarrow> run_metrics \<Rightarrow> nat \<Rightarrow> (string + nat \<times> duration) rust" where
  "submission_plan rate m n_available =
     (if n_available = 0 then Inr (Inl ''transaction workload scheduled zero transactions'')
      else let run_secs = as_secs_f64 (rm_run_duration m);
               block_secs = as_secs_f64 (case rm_block_interval_hint m of Some h \<Rightarrow> h | None \<Rightarrow> rm_run_duration m);
               expected_blocks = f64_div run_secs block_secs;
               requested = f64_to_u64 (f64_clamp (f64_floor (f64_mul expected_blocks (f64_of_nat rate)))
                                         (Fin 0) (f64_of_nat u64_max));
               planned = min requested n_available in
        if planned = 0 then Inr (Inl ''transaction workload scheduled zero transactions'')
        else rbind (from_secs_f64 (f64_div run_secs (f64_of_nat planned))) (\<lambda>interval.
          Inr (Inr (planned, interval))))"

record submission =
  su_plan :: "wallet_input list"
  su_interval :: duration

definition submission_new :: "run_metrics \<Rightarrow> tx_workload \<Rightarrow> (string + submission) rust" where
  "submission_new m w =
     (if tw_accounts w = [] then Inr (Inl ''transaction workload has no available accounts'')
      else rbind (submission_plan (tw_txs_per_block w) m (length (tw_accounts w))) (\<lambda>r.
        Inr (rbind r (\<lambda>(planned, interval). Inr \<lparr>su_plan = take planned (tw_accounts w), su_interval = interval\<rparr>))))"

definition build_wallet_transaction ::
  "crypto \<Rightarrow> (utxo list \<Rightarrow> zk_note list \<Rightarrow> mantle_tx) \<Rightarrow> (signed_mantle_tx \<Rightarrow> string option) \<Rightarrow> string
   \<Rightarrow> wallet_input \<Rightarrow> string + signed_mantle_tx" where
  "build_wallet_transaction cr tx_builder tx_valid sign_error input =
     (let tx = tx_builder [wi_utxo input] [\<lparr>note_value = note_value (utxo_note (wi_utxo input)),
                 note_pk = zk_public cr (secret_key (wi_account input))\<rparr>] in
      case multi_sign cr [secret_key (wi_account input)] (mantle_hash cr tx) of
        None \<Rightarrow> Inl (''transaction workload could not sign transaction: '' @ sign_error)
      | Some sig \<Rightarrow>
          (let stx = \<lparr>signed_tx = tx, signed_ops_proofs = [], signed_ledger_proof = sig\<rparr> in
           case tx_valid stx of
             Some err \<Rightarrow> Inl (''transaction workload constructed invalid transaction: '' @ err)
           | None \<Rightarrow> Inr stx))"

text \<open>Validators first, each group in the order its shuffle produced.\<close>

definition submit_transaction_via_cluster ::
  "('c list \<Rightarrow> 'c list) \<Rightarrow> 'c node_clients \<Rightarrow> ('c \<Rightarrow> signed_mantle_tx \<Rightarrow> string + unit)
   \<Rightarrow> signed_mantle_tx \<Rightarrow> string + unit" where
  "submit_transaction_via_cluster shuffle n submit tx =
     try_clients (\<lambda>c. submit c tx) None (shuffle (nc_validators n) @ shuffle (nc_executors n))"

definition submit_wallet_transaction ::
  "(wallet_input \<Rightarrow> string + signed_mantle_tx) \<Rightarrow> (signed_mantle_tx \<Rightarrow> string + unit) \<Rightarrow> wallet_input \<Rightarrow> string + unit" where
  "submit_wallet_transaction build_tx submit_tx input = rbind (build_tx input) submit_tx"

text \<open>
  \<open>execute\<close>: the submitted inputs, the result, and the time spent sleeping. A failed submission ends the
  workload with an error.
\<close>

fun tx_execute :: "(wallet_input \<Rightarrow> string + unit) \<Rightarrow> duration \<Rightarrow> wallet_input list
    \<Rightarrow> (string + unit) \<times> wallet_input list \<times> duration" where
  "tx_execute submit interval [] = (Inr (), [], 0)"
| "tx_execute submit interval (input # plan) =
     (case submit input of
        Inl e \<Rightarrow> (Inl e, [], 0)
      | Inr u \<Rightarrow> (case tx_execute submit interval plan of
            (res, done, slept) \<Rightarrow> (res, input # done, interval + slept)))"

text \<open>\<open>start\<close>: the submission is planned, then executed.\<close>

definition tx_start :: "run_metrics \<Rightarrow> tx_workload \<Rightarrow> (wallet_input \<Rightarrow> string + unit)
    \<Rightarrow> ((string + unit) \<times> wallet_input list \<times> duration) rust" where
  "tx_start m w submit =
     rbind (submission_new m w) (\<lambda>r. Inr (case r of
        Inl e \<Rightarrow> (Inl e, [], 0)
      | Inr s \<Rightarrow> tx_execute submit (su_interval s) (su_plan s)))"

text \<open>The deterministic inscription used by the DA workload.\<close>

definition create_inscription_transaction_with_id ::
  "crypto \<Rightarrow> (channel_id \<Rightarrow> string) \<Rightarrow> (signed_mantle_tx \<Rightarrow> string option) \<Rightarrow> channel_id \<Rightarrow> signed_mantle_tx rust" where
  "create_inscription_transaction_with_id cr show_id tx_valid channel =
     (let ins = \<lparr>ins_channel_id = channel,
            ins_inscription = map of_char (''Test channel inscription '' @ show_id channel),
            ins_parent = root_msg cr, ins_signer = ed_public_key cr zero_id\<rparr>;
          tx = \<lparr>tx_ops = [ChannelInscribe ins], tx_ledger = \<lparr>ledger_inputs = [], ledger_outputs = []\<rparr>,
                tx_execution_gas_price = 0, tx_storage_gas_price = 0\<rparr> in
      case multi_sign cr [ZkKey 0] (mantle_hash cr tx) of
        None \<Rightarrow> Inl ''zk signature generation''
      | Some sig \<Rightarrow>
          (let stx = \<lparr>signed_tx = tx,
                 signed_ops_proofs = [Ed25519Sig (sign_payload cr zero_id (mantle_hash cr tx))],
                 signed_ledger_proof = sig\<rparr> in
           case tx_valid stx of Some err \<Rightarrow> Inl ''valid transaction'' | None \<Rightarrow> Inr stx))"

section \<open>The expectation\<close>

record tx_capture =
  tc_tracked :: "zk_public_key set"
  tc_observed :: nat
  tc_expected :: nat

record tx_inclusion =
  ti_txs_per_block :: nat
  ti_user_limit :: "nat option"
  ti_capture :: "tx_capture option"

definition tx_inclusion_new :: "nat \<Rightarrow> nat option \<Rightarrow> tx_inclusion" where
  "tx_inclusion_new rate limit = \<lparr>ti_txs_per_block = rate, ti_user_limit = limit, ti_capture = None\<rparr>"

definition tx_expectations :: "tx_workload \<Rightarrow> tx_inclusion list" where
  "tx_expectations w = [tx_inclusion_new (tw_txs_per_block w) (tw_user_limit w)]"

definition tx_start_capture :: "crypto \<Rightarrow> 'p run_context \<Rightarrow> tx_inclusion \<Rightarrow> (string + tx_inclusion) rust" where
  "tx_start_capture cr ctx x =
     (if ti_capture x \<noteq> None then Inr (Inr x)
      else let as = wallet_accounts_of (rc_descriptors ctx) in
        if as = [] then Inr (Inl ''transaction workload requires seeded accounts'')
        else rbind (submission_plan (ti_txs_per_block x) (rc_metrics ctx)
                      (limited_user_count (ti_user_limit x) (length as))) (\<lambda>r.
          Inr (rbind r (\<lambda>(planned, _).
            if planned = 0 then Inl ''transaction workload planned zero transactions''
            else Inr (x\<lparr>ti_capture := Some \<lparr>
                   tc_tracked = set (map (\<lambda>a. zk_public cr (secret_key a)) (take planned as)),
                   tc_observed = 0, tc_expected = planned\<rparr>\<rparr>)))))"

text \<open>What a subscriber of the block feed receives.\<close>

datatype feed_event = FeedBlock block | FeedLagged nat | FeedClosed

definition tx_is_tracked :: "zk_public_key set \<Rightarrow> signed_mantle_tx \<Rightarrow> bool" where
  "tx_is_tracked tracked tx \<longleftrightarrow> list_ex (\<lambda>n. note_pk n \<in> tracked) (ledger_outputs (tx_ledger (signed_tx tx)))"

fun count_tracked :: "zk_public_key set \<Rightarrow> signed_mantle_tx list \<Rightarrow> nat \<Rightarrow> nat" where
  "count_tracked tracked [] n = n"
| "count_tracked tracked (tx # txs) n =
     count_tracked tracked txs (if tx_is_tracked tracked tx then (n + 1) mod 2 ^ 64 else n)"

fun tx_capture_loop :: "zk_public_key set \<Rightarrow> feed_event list \<Rightarrow> nat \<Rightarrow> nat" where
  "tx_capture_loop tracked [] n = n"
| "tx_capture_loop tracked (FeedBlock b # evs) n =
     (if block_parent b = zero_id then tx_capture_loop tracked evs n
      else tx_capture_loop tracked evs (count_tracked tracked (block_transactions b) n))"
| "tx_capture_loop tracked (FeedLagged k # evs) n = tx_capture_loop tracked evs n"
| "tx_capture_loop tracked (FeedClosed # evs) n = n"

definition tx_observe :: "feed_event list \<Rightarrow> tx_inclusion \<Rightarrow> tx_inclusion" where
  "tx_observe evs x = x\<lparr>ti_capture := map_option (\<lambda>c.
     c\<lparr>tc_observed := tx_capture_loop (tc_tracked c) evs (tc_observed c)\<rparr>) (ti_capture x)\<rparr>"

definition tx_evaluate :: "tx_inclusion \<Rightarrow> string + unit" where
  "tx_evaluate x =
     (case ti_capture x of
        None \<Rightarrow> Inl ''transaction inclusion expectation not captured''
      | Some c \<Rightarrow>
          (let required = required_share ratio_0_5 (tc_expected c) in
           if required \<le> tc_observed c then Inr ()
           else Inl (''transaction inclusion observed '' @ show_nat (tc_observed c)
                     @ '' below required '' @ show_nat required)))"

section \<open>Initialisation\<close>

lemma apply_user_limit_take: "apply_user_limit limit xs = take (limited_user_count limit (length xs)) xs"
  by (auto simp: apply_user_limit_def limited_user_count_def split: option.splits)

lemma limited_user_count_le: "limited_user_count limit n \<le> n"
  by (auto simp: limited_user_count_def split: option.splits)

lemma limited_user_count_pos: "0 < n \<Longrightarrow> limit \<noteq> Some 0 \<Longrightarrow> 0 < limited_user_count limit n"
  by (auto simp: limited_user_count_def split: option.splits)

lemma filter_map_all: "(\<And>x. x \<in> set xs \<Longrightarrow> f x \<noteq> None) \<Longrightarrow> filter_map f xs = map (\<lambda>x. the (f x)) xs"
  by (induction xs) (auto split: option.splits)

lemma reference_node_in: "nodes t \<noteq> [] \<Longrightarrow> \<exists>n. reference_node t = Some n \<and> n \<in> set (nodes t)"
  by (cases "gt_validators t"; cases "gt_executors t") (auto simp: reference_node_def nodes_def)

lemma utxo_map_lookup:
  assumes "distinct (map note_pk (ledger_outputs ledger))" and "i < length (ledger_outputs ledger)"
    and "ledger = tx_ledger (signed_tx (cc_genesis_tx (gc_consensus (gn_general node))))"
  shows "wallet_utxo_map cr node (note_pk (ledger_outputs ledger ! i))
    = Some \<lparr>utxo_tx_hash = ledger_hash cr ledger, utxo_output_index = i, utxo_note = ledger_outputs ledger ! i\<rparr>"
proof -
  let ?xs = "map (\<lambda>(idx, n). (note_pk n, \<lparr>utxo_tx_hash = ledger_hash cr ledger,
        utxo_output_index = idx, utxo_note = n\<rparr>)) (enumerate 0 (ledger_outputs ledger))"
  have fst: "map fst ?xs = map note_pk (ledger_outputs ledger)"
    by (intro nth_equalityI) (auto simp: nth_enumerate_eq)
  then have "distinct (map fst (rev ?xs))" using assms(1) by (metis distinct_rev rev_map)
  moreover have "(note_pk (ledger_outputs ledger ! i), \<lparr>utxo_tx_hash = ledger_hash cr ledger,
      utxo_output_index = i, utxo_note = ledger_outputs ledger ! i\<rparr>) \<in> set (rev ?xs)"
    using assms(2) by (auto simp: in_set_enumerate_eq image_iff intro!: bexI [of _ "(i, ledger_outputs ledger ! i)"])
  ultimately show ?thesis unfolding wallet_utxo_map_def assms(3) [symmetric] Let_def by (rule map_of_is_SomeI)
qed

definition genesis_ledger :: "'p generated_topology \<Rightarrow> ledger_tx" where
  "genesis_ledger t = tx_ledger (signed_tx (cc_genesis_tx (gc_consensus (gn_general (nodes t ! 0)))))"

lemma genesis_ledger_node:
  assumes "build te b = Inr t" and "\<forall>n \<in> set (nodes t). length (gn_id n) = 32" and "n \<in> set (nodes t)"
  shows "tx_ledger (signed_tx (cc_genesis_tx (gc_consensus (gn_general n)))) = genesis_ledger t"
  using assms(1)
proof (cases rule: build_cases)
  case (1 ids dps bps cs das nets apis slot providers genesis ns)
  note o = build_ordered [OF 1(14)]
  note f = build_node_fields [OF o(2)]
  have t: "nodes t = ns" using 1(15) o(3,4) by (simp add: nodes_def)
  have g: "cc_genesis_tx (gc_consensus (gn_general (ns ! k))) = genesis" if "k < length ns" for k
    using f(6,7) [OF that] by simp
  obtain k where "k < length ns" "n = ns ! k" using assms(3) t by (auto simp: in_set_conv_nth)
  moreover from this have "0 < length ns" by linarith
  ultimately show ?thesis using g t by (simp add: genesis_ledger_def)
qed

lemma wallet_outputs:
  assumes "build te b = Inr t" and "\<forall>n \<in> set (nodes t). length (gn_id n) = 32" and "node \<in> set (nodes t)"
    and "i < length (wallet_accounts_of t)"
  shows "ledger_outputs (genesis_ledger t) ! (3 * length (nodes t) + i)
      = \<lparr>note_value = funds (wallet_accounts_of t ! i),
         note_pk = zk_public (te_crypto te) (secret_key (wallet_accounts_of t ! i))\<rparr>"
    and "3 * length (nodes t) + i < length (ledger_outputs (genesis_ledger t))"
proof -
  define xs where "xs = concat (map (notes_of (te_crypto te)) (map gn_id (nodes t)))"
  have len: "length xs = 3 * length (nodes t)"
    using length_concat_notes [of "te_crypto te" "map gn_id (nodes t)"] by (simp add: xs_def)
  have O: "ledger_outputs (genesis_ledger t) = xs @ map (\<lambda>a. \<lparr>note_value = funds a,
      note_pk = zk_public (te_crypto te) (secret_key a)\<rparr>) (wallet_accounts_of t)"
    using build_ledger [OF assms(1-3)] genesis_ledger_node [OF assms(1-3)] by (simp add: xs_def)
  show "3 * length (nodes t) + i < length (ledger_outputs (genesis_ledger t))"
    using assms(4) by (simp add: O len)
  show "ledger_outputs (genesis_ledger t) ! (3 * length (nodes t) + i)
      = \<lparr>note_value = funds (wallet_accounts_of t ! i),
         note_pk = zk_public (te_crypto te) (secret_key (wallet_accounts_of t ! i))\<rparr>"
    unfolding O len [symmetric] using assms(4) by simp
qed

text \<open>Every wallet account of a generated topology finds the output that funds it.\<close>

lemma tx_init_inputs:
  assumes b: "build te b = Inr t" and ids: "\<forall>n \<in> set (nodes t). length (gn_id n) = 32"
    and dist: "distinct (map note_pk (ledger_outputs (genesis_ledger t)))" and node: "node \<in> set (nodes t)"
  defines "utxo_at \<equiv> \<lambda>i. \<lparr>utxo_tx_hash = ledger_hash (te_crypto te) (genesis_ledger t),
     utxo_output_index = 3 * length (nodes t) + i,
     utxo_note = \<lparr>note_value = funds (wallet_accounts_of t ! i),
       note_pk = zk_public (te_crypto te) (secret_key (wallet_accounts_of t ! i))\<rparr>\<rparr>"
  shows "filter_map (\<lambda>a. map_option (\<lambda>u. \<lparr>wi_account = a, wi_utxo = u\<rparr>)
      (wallet_utxo_map (te_crypto te) node (zk_public (te_crypto te) (secret_key a)))) (wallet_accounts_of t)
    = map (\<lambda>i. \<lparr>wi_account = wallet_accounts_of t ! i, wi_utxo = utxo_at i\<rparr>) [0..<length (wallet_accounts_of t)]"
proof -
  let ?cr = "te_crypto te" and ?as = "wallet_accounts_of t" and ?O = "ledger_outputs (genesis_ledger t)"
  let ?f = "\<lambda>a. map_option (\<lambda>u. \<lparr>wi_account = a, wi_utxo = u\<rparr>)
      (wallet_utxo_map ?cr node (zk_public ?cr (secret_key a)))"
  have led: "tx_ledger (signed_tx (cc_genesis_tx (gc_consensus (gn_general node)))) = genesis_ledger t"
    using genesis_ledger_node [OF b ids node] .
  have f: "?f (?as ! i) = Some \<lparr>wi_account = ?as ! i, wi_utxo = utxo_at i\<rparr>" if i: "i < length ?as" for i
  proof -
    note n = wallet_outputs [OF b ids node i]
    from utxo_map_lookup [OF dist n(2) led [symmetric], of ?cr]
    show ?thesis by (simp add: n(1) utxo_at_def)
  qed
  have "?f a \<noteq> None" if "a \<in> set ?as" for a using f that by (metis in_set_conv_nth option.distinct(1))
  then have "filter_map ?f ?as = map (\<lambda>a. the (?f a)) ?as" by (rule filter_map_all)
  also have "\<dots> = map (\<lambda>i. \<lparr>wi_account = ?as ! i, wi_utxo = utxo_at i\<rparr>) [0..<length ?as]"
    using f by (intro nth_equalityI) simp_all
  finally show ?thesis .
qed

definition genesis_input :: "'p topology_env \<Rightarrow> 'p generated_topology \<Rightarrow> nat \<Rightarrow> wallet_input" where
  "genesis_input te t i = \<lparr>wi_account = wallet_accounts_of t ! i,
     wi_utxo = \<lparr>utxo_tx_hash = ledger_hash (te_crypto te) (genesis_ledger t),
       utxo_output_index = 3 * length (nodes t) + i,
       utxo_note = \<lparr>note_value = funds (wallet_accounts_of t ! i),
         note_pk = zk_public (te_crypto te) (secret_key (wallet_accounts_of t ! i))\<rparr>\<rparr>\<rparr>"

lemma tx_init_ok:
  assumes "build te b = Inr t" and "\<forall>n \<in> set (nodes t). length (gn_id n) = 32" and "nodes t \<noteq> []"
    and "distinct (map note_pk (ledger_outputs (genesis_ledger t)))"
    and "wallet_accounts_of t \<noteq> []" and "tw_user_limit w \<noteq> Some 0"
  shows "tx_init (te_crypto te) t m w = Inr (w\<lparr>tw_accounts := map (genesis_input te t)
    [0..<limited_user_count (tw_user_limit w) (length (wallet_accounts_of t))]\<rparr>)"
proof -
  let ?as = "wallet_accounts_of t"
  let ?l = "limited_user_count (tw_user_limit w) (length ?as)"
  obtain node where node: "reference_node t = Some node" "node \<in> set (nodes t)"
    using reference_node_in [OF assms(3)] by blast
  have l: "0 < ?l" "?l \<le> length ?as" using limited_user_count_pos limited_user_count_le assms(5,6) by auto
  have inputs: "filter_map (\<lambda>a. map_option (\<lambda>u. \<lparr>wi_account = a, wi_utxo = u\<rparr>)
      (wallet_utxo_map (te_crypto te) node (zk_public (te_crypto te) (secret_key a)))) ?as
    = map (genesis_input te t) [0..<length ?as]"
    using tx_init_inputs [OF assms(1,2,4) node(2)] by (simp add: genesis_input_def [abs_def])
  have "take ?l (map (genesis_input te t) [0..<length ?as]) = map (genesis_input te t) [0..<?l]"
    using l by (simp add: take_map)
  then show ?thesis
    using assms(5) node(1) l by (simp add: tx_init_def inputs Let_def apply_user_limit_take)
qed

text \<open>
  On a generated topology with wallets, whose genesis outputs have pairwise different keys,
  initialising the transaction workload succeeds: it selects the first accounts up to the user limit,
  and pairs each of them with the genesis output that funds it, by the hash of the genesis ledger
  transaction, the index of the output and the account's own key and amount.
\<close>

theorem tx_init_matches_genesis:
  assumes "build te b = Inr t" and "\<forall>n \<in> set (nodes t). length (gn_id n) = 32" and "nodes t \<noteq> []"
    and "distinct (map note_pk (ledger_outputs (genesis_ledger t)))"
    and "wallet_accounts_of t \<noteq> []" and "tw_user_limit w \<noteq> Some 0"
  shows "\<exists>w'. tx_init (te_crypto te) t m w = Inr w'
    \<and> length (tw_accounts w') = limited_user_count (tw_user_limit w) (length (wallet_accounts_of t))
    \<and> (\<forall>i < length (tw_accounts w'). let a = wallet_accounts_of t ! i; input = tw_accounts w' ! i in
         wi_account input = a
         \<and> utxo_note (wi_utxo input) = \<lparr>note_value = funds a, note_pk = zk_public (te_crypto te) (secret_key a)\<rparr>
         \<and> utxo_tx_hash (wi_utxo input) = ledger_hash (te_crypto te) (genesis_ledger t)
         \<and> ledger_outputs (genesis_ledger t) ! utxo_output_index (wi_utxo input) = utxo_note (wi_utxo input))"
proof -
  obtain node where node: "node \<in> set (nodes t)" using assms(3) by (cases "nodes t") auto
  have "limited_user_count (tw_user_limit w) (length (wallet_accounts_of t)) \<le> length (wallet_accounts_of t)"
    by (rule limited_user_count_le)
  then show ?thesis using tx_init_ok [OF assms] wallet_outputs(1) [OF assms(1,2) node]
    by (auto simp: Let_def genesis_input_def)
qed

text \<open>A two-node topology with two wallet accounts.\<close>

definition wallet_builder :: topology_builder where
  "wallet_builder = with_wallet_config plain_builder \<lparr>accounts =
     [\<lparr>label = ''alice'', secret_key = ZkKey 1, funds = 10\<rparr>, \<lparr>label = ''bob'', secret_key = ZkKey 2, funds = 20\<rparr>]\<rparr>"

lemma wallet_two_node_builder: "two_node_builder wallet_builder"
  by (simp add: wallet_builder_def with_wallet_config_def two_node_builder_def)

lemma le_bytes_0: "le_bytes k 0 = replicate k 0"
  by (induction k) simp_all

lemma key_of_small:
  assumes "n < 256"
  shows "key_of [a, b] (le_bytes 32 n) = ZkKey (unat a + 256 * unat b + 65536 * n)"
proof -
  have "le_bytes 32 n = of_nat n # replicate 31 0"
    using assms le_bytes.simps(2) [of 31 n] by (simp add: le_bytes_0)
  moreover have "from_bytes_le (replicate k 0) = 0" for k by (induction k) simp_all
  ultimately show ?thesis using assms by (simp add: key_of_def take_Cons' unat_of_nat)
qed

lemma wallet_output_keys: "distinct (map note_pk (concat (map (notes_of plain_crypto) [le_bytes 32 0, le_bytes 32 1])
    @ map (\<lambda>a. \<lparr>note_value = funds a, note_pk = zk_public plain_crypto (secret_key a)\<rparr>)
        (accounts (tc_wallet_config (tb_config wallet_builder)))))"
  by (simp add: notes_of_def key_of_small plain_crypto_def wallet_builder_def with_wallet_config_def)

lemma wallet_build:
  obtains t where "build plain_topology_env wallet_builder = Inr t" "length (nodes t) = 2"
    "\<forall>n \<in> set (nodes t). length (gn_id n) = 32"
    "wallet_accounts_of t = accounts (tc_wallet_config (tb_config wallet_builder))"
    "distinct (map note_pk (ledger_outputs (genesis_ledger t)))"
proof -
  obtain t where t: "build plain_topology_env wallet_builder = Inr t"
    using two_node_build [OF wallet_two_node_builder] ..
  have m: "map gn_id (nodes t) = [le_bytes 32 0, le_bytes 32 1]"
    using two_node_build_ids [OF wallet_two_node_builder t] .
  then have len: "length (nodes t) = 2" by (metis length_map length_Cons list.size(3) numeral_2_eq_2)
  have "\<forall>x \<in> set (map gn_id (nodes t)). length x = 32" unfolding m by simp
  then have ids: "\<forall>n \<in> set (nodes t). length (gn_id n) = 32" by simp
  have acc: "wallet_accounts_of t = accounts (tc_wallet_config (tb_config wallet_builder))"
    using t by (cases rule: build_cases) (simp add: wallet_accounts_of_def)
  have node: "nodes t ! 0 \<in> set (nodes t)" using len by (intro nth_mem) simp
  have "distinct (map note_pk (ledger_outputs (genesis_ledger t)))"
    unfolding genesis_ledger_def build_ledger [OF t ids node] m acc
    using wallet_output_keys by (simp add: plain_topology_env_def)
  then show ?thesis using t len ids acc that by blast
qed

lemma wallet_builder_accounts: "length (accounts (tc_wallet_config (tb_config wallet_builder))) = 2"
  by (simp add: wallet_builder_def with_wallet_config_def)

lemma plain_env_crypto: "te_crypto plain_topology_env = plain_crypto"
  by (simp add: plain_topology_env_def)

theorem tx_init_matches_genesis_witness:
  "\<exists>t w'. build plain_topology_env wallet_builder = Inr t
     \<and> tx_init plain_crypto t \<lparr>rm_run_duration = 60, rm_expected_blocks = 0, rm_block_interval_hint = None\<rparr>
         (tx_workload_new 5) = Inr w' \<and> length (tw_accounts w') = 2"
proof -
  obtain t where t: "build plain_topology_env wallet_builder = Inr t" "length (nodes t) = 2"
    "\<forall>n \<in> set (nodes t). length (gn_id n) = 32"
    "wallet_accounts_of t = accounts (tc_wallet_config (tb_config wallet_builder))"
    "distinct (map note_pk (ledger_outputs (genesis_ledger t)))" by (rule wallet_build)
  have ne: "nodes t \<noteq> []" "wallet_accounts_of t \<noteq> []" using t(2,4) wallet_builder_accounts by auto
  from tx_init_matches_genesis [OF t(1,3) ne(1) t(5) ne(2), of "tx_workload_new 5"
      "\<lparr>rm_run_duration = 60, rm_expected_blocks = 0, rm_block_interval_hint = None\<rparr>"]
  show ?thesis using t(1,4) wallet_builder_accounts
    by (auto simp: tx_workload_new_def limited_user_count_def plain_env_crypto)
qed

section \<open>The plan\<close>

text \<open>
  The plan of a run of whole seconds never panics; when it schedules anything it schedules at
  least one transaction and at most one per account, with an interval no longer than the run; an
  error is only reported when nothing can be scheduled.
\<close>

theorem submission_plan_bounds:
  assumes "rm_run_duration m = from_secs r" and "r < 2 ^ 50" and "n_available < 2 ^ 53"
  shows "\<exists>res. submission_plan rate m n_available = Inr res
    \<and> (case res of Inr (planned, interval) \<Rightarrow> 1 \<le> planned \<and> planned \<le> n_available \<and> interval \<le> from_secs r
       | Inl e \<Rightarrow> e = ''transaction workload scheduled zero transactions'')"
proof -
  define requested where "requested = f64_to_u64 (f64_clamp (f64_floor (f64_mul (f64_div
      (as_secs_f64 (rm_run_duration m))
      (as_secs_f64 (case rm_block_interval_hint m of Some h \<Rightarrow> h | None \<Rightarrow> rm_run_duration m)))
      (f64_of_nat rate))) (Fin 0) (f64_of_nat u64_max))"
  define planned where "planned = min requested n_available"
  show ?thesis
  proof (cases "n_available = 0 \<or> planned = 0")
    case True
    then show ?thesis
      by (auto simp: submission_plan_def Let_def planned_def requested_def)
  next
    case False
    then have p: "0 < planned" "planned < 2 ^ 53" using assms(3) by (auto simp: planned_def)
    have r53: "r < 2 ^ 53" using assms(2) by simp
    let ?q = "of_nat r / of_nat planned :: rat"
    have q: "0 \<le> ?q" "?q \<le> of_nat r"
    proof -
      have "of_nat r * (1::rat) \<le> of_nat r * of_nat planned" using p(1) by (intro mult_left_mono) simp_all
      then show "?q \<le> of_nat r" using p(1) by (simp add: field_simps)
    qed simp
    have qb: "?q < 2 ^ 1000" using q(2) small_lt [of r] r53 by simp
    have div: "f64_div (as_secs_f64 (rm_run_duration m)) (f64_of_nat planned) = Fin (rnd ?q)"
      using f64_of_rat_finite [OF q(1) qb] p f64_of_nat_small [OF p(2)]
      by (simp add: assms(1) as_secs_f64_whole [OF r53])
    have x: "0 \<le> rnd ?q" "rnd ?q \<le> of_nat r" using q r53 by (auto intro: rnd_nonneg rnd_le_nat)
    have "round_half_even (rnd ?q * of_nat nanos_per_sec) \<le> int (from_secs r)"
      using x(2) by (intro rhe_ge) (simp add: from_secs_def nanos_per_sec_def)
    then have le: "nat (round_half_even (rnd ?q * of_nat nanos_per_sec)) \<le> from_secs r" by simp
    moreover have "from_secs r \<le> duration_max" using assms(2) by (intro from_secs_le_max) (simp add: u64_max_def)
    ultimately have "from_secs_f64 (Fin (rnd ?q)) = Inr (nat (round_half_even (rnd ?q * of_nat nanos_per_sec)))"
      using x(1) by (simp add: Let_def)
    then have "submission_plan rate m n_available
        = Inr (Inr (planned, nat (round_half_even (rnd ?q * of_nat nanos_per_sec))))"
      using False div unfolding submission_plan_def Let_def requested_def [symmetric] planned_def [symmetric]
      by simp
    then show ?thesis using le p(1) by (simp add: planned_def)
  qed
qed

theorem submission_plan_bounds_witness:
  "\<exists>res. submission_plan 5 \<lparr>rm_run_duration = from_secs 60, rm_expected_blocks = 0, rm_block_interval_hint = None\<rparr> 10 = Inr res
     \<and> (case res of Inr (planned, interval) \<Rightarrow> 1 \<le> planned \<and> planned \<le> 10 \<and> interval \<le> from_secs 60
        | Inl e \<Rightarrow> e = ''transaction workload scheduled zero transactions'')"
  by (rule submission_plan_bounds) simp_all

text \<open>
  C16. The expectation checks what the workload submits. On a generated topology whose genesis outputs
  have pairwise different keys, if the initialised workload can start its submission, the expectation
  created with it starts its capture with the same number of planned transactions, and tracks exactly
  the keys of the accounts in the workload's plan.
\<close>

theorem tx_expectation_tracks_plan:
  assumes "build te b = Inr t" and "\<forall>n \<in> set (nodes t). length (gn_id n) = 32" and "nodes t \<noteq> []"
    and "distinct (map note_pk (ledger_outputs (genesis_ledger t)))"
    and "wallet_accounts_of t \<noteq> []" and "tw_user_limit w \<noteq> Some 0"
    and "tx_init (te_crypto te) t m w = Inr w'" and "submission_new m w' = Inr (Inr s)"
    and "rc_descriptors ctx = t" and "rc_metrics ctx = m"
  shows "\<exists>x c. tx_start_capture (te_crypto te) ctx (hd (tx_expectations w)) = Inr (Inr x)
    \<and> ti_capture x = Some c \<and> tc_observed c = 0 \<and> tc_expected c = length (su_plan s)
    \<and> tc_tracked c = set (map (\<lambda>i. zk_public (te_crypto te) (secret_key (wi_account i))) (su_plan s))"
proof -
  let ?as = "wallet_accounts_of t"
  let ?l = "limited_user_count (tw_user_limit w) (length ?as)"
  have w': "w' = w\<lparr>tw_accounts := map (genesis_input te t) [0..<?l]\<rparr>"
    using tx_init_ok [OF assms(1-6), of m] assms(7) by simp
  obtain planned interval where plan: "submission_plan (tw_txs_per_block w) m ?l = Inr (Inr (planned, interval))"
    and s: "s = \<lparr>su_plan = take planned (map (genesis_input te t) [0..<?l]), su_interval = interval\<rparr>"
    using assms(8) by (auto simp: w' submission_new_def rbind_Inr_iff split: if_splits)
  have p: "0 < planned" "planned \<le> ?l"
    using plan by (auto simp: submission_plan_def Let_def rbind_Inr_iff split: if_splits)
  have le: "?l \<le> length ?as" by (rule limited_user_count_le)
  have accounts: "map wi_account (su_plan s) = take planned ?as"
    using p le by (intro nth_equalityI) (auto simp: s genesis_input_def)
  let ?pk = "\<lambda>a. zk_public (te_crypto te) (secret_key a)"
  have keys: "map ?pk (take planned ?as) = map (\<lambda>i. ?pk (wi_account i)) (su_plan s)"
    by (simp add: accounts [symmetric])
  have len: "length (su_plan s) = planned" using p(2) by (simp add: s)
  have "tx_start_capture (te_crypto te) ctx (hd (tx_expectations w))
    = Inr (Inr ((hd (tx_expectations w))\<lparr>ti_capture := Some \<lparr>tc_tracked = set (map ?pk (take planned ?as)),
        tc_observed = 0, tc_expected = planned\<rparr>\<rparr>))"
    using plan p(1) assms(5,9,10)
    by (simp add: tx_start_capture_def tx_expectations_def tx_inclusion_new_def Let_def)
  then show ?thesis unfolding keys len by simp
qed

definition minute_metrics :: run_metrics where
  "minute_metrics = \<lparr>rm_run_duration = from_secs 60, rm_expected_blocks = 27, rm_block_interval_hint = None\<rparr>"

lemma f64_of_rat_nat: "n < 2 ^ 53 \<Longrightarrow> f64_of_rat (of_nat n) = Fin (of_nat n)"
  using f64_of_nat_small [of n] by (simp add: f64_of_nat_def)

lemma clamp_to_u64_small:
  assumes "n < 2 ^ 53" shows "f64_clamp (Fin (of_nat n)) (Fin 0) (f64_of_nat u64_max) = Fin (of_nat n)"
proof -
  have "u64_max < 2 ^ 64" by (simp add: u64_max_def)
  then have u: "f64_of_nat u64_max = Fin (rnd (of_nat u64_max))"
    unfolding f64_of_nat_def by (intro f64_of_rat_finite small_lt) simp_all
  have "n \<le> u64_max" using assms by (simp add: u64_max_def)
  then have "rnd (of_nat n) \<le> rnd (of_nat u64_max)" by (intro rnd_mono) simp_all
  then show ?thesis using rnd_nat_exact [OF assms] by (simp add: u f64_clamp_def)
qed

lemma minute_plan: "\<exists>d. submission_plan 5 minute_metrics 2 = Inr (Inr (2, d))"
proof -
  have a: "as_secs_f64 (from_secs 60) = Fin 60" using as_secs_f64_whole [of 60] by simp
  have r: "f64_of_rat 1 = Fin 1" "f64_of_rat 5 = Fin 5" "f64_of_rat 30 = Fin 30" "f64_of_nat 2 = Fin 2" "f64_of_nat 5 = Fin 5"
    using f64_of_rat_nat [of 1] f64_of_rat_nat [of 5] f64_of_rat_nat [of 30] f64_of_nat_small [of 2]
      f64_of_nat_small [of 5] by simp_all
  have "f64_clamp (Fin 5) (Fin 0) (f64_of_nat u64_max) = Fin 5" using clamp_to_u64_small [of 5] by simp
  moreover obtain d where "from_secs_f64 (Fin 30) = Inr d"
    using rhe_of_int [of 30000000000] by (simp add: Let_def nanos_per_sec_def duration_max_def u64_max_def)
  ultimately have "submission_plan 5 minute_metrics 2 = Inr (Inr (2, d))"
    by (simp add: submission_plan_def minute_metrics_def a r Let_def u64_max_def del: from_secs_f64.simps)
  then show ?thesis ..
qed

theorem tx_expectation_tracks_plan_witness:
  "\<exists>t x c. build plain_topology_env wallet_builder = Inr t
     \<and> tx_start_capture plain_crypto \<lparr>rc_descriptors = t, rc_metrics = minute_metrics,
          rc_node_control = False\<rparr> (hd (tx_expectations (tx_workload_new 5))) = Inr (Inr x)
     \<and> ti_capture x = Some c \<and> tc_expected c = 2"
proof -
  let ?w = "tx_workload_new 5"
  obtain t where t: "build plain_topology_env wallet_builder = Inr t" "length (nodes t) = 2"
    "\<forall>n \<in> set (nodes t). length (gn_id n) = 32"
    "wallet_accounts_of t = accounts (tc_wallet_config (tb_config wallet_builder))"
    "distinct (map note_pk (ledger_outputs (genesis_ledger t)))" by (rule wallet_build)
  have ne: "nodes t \<noteq> []" "wallet_accounts_of t \<noteq> []" "tw_user_limit ?w \<noteq> Some 0"
    using t(2,4) wallet_builder_accounts by (auto simp: tx_workload_new_def)
  note ok = tx_init_ok [OF t(1,3) ne(1) t(5) ne(2,3), of minute_metrics]
  obtain s where "submission_new minute_metrics (?w\<lparr>tw_accounts := map (genesis_input plain_topology_env t)
      [0..<limited_user_count (tw_user_limit ?w) (length (wallet_accounts_of t))]\<rparr>) = Inr (Inr s)" "length (su_plan s) = 2"
    using t(4) wallet_builder_accounts minute_plan
    by (auto simp: submission_new_def tx_workload_new_def limited_user_count_def)
  then show ?thesis
    using tx_expectation_tracks_plan [OF t(1,3) ne(1) t(5) ne(2,3) ok, where s = s
        and ctx = "\<lparr>rc_descriptors = t, rc_metrics = minute_metrics, rc_node_control = False\<rparr>"] t(1)
    by (auto simp: plain_env_crypto)
qed

text \<open>
  The workload submits its plan in order, once each: started on planned accounts, it hands every one of
  them to the cluster when all submissions are accepted, having slept one interval per submission; at the
  first refusal it stops with that error, having submitted exactly the accounts before it.
\<close>

theorem tx_execute_outcome:
  "tx_execute submit interval plan =
     (let accepted = takeWhile (\<lambda>i. submit i = Inr ()) plan; rest = dropWhile (\<lambda>i. submit i = Inr ()) plan in
      (case rest of [] \<Rightarrow> Inr () | i # _ \<Rightarrow> submit i, accepted, length accepted * interval))"
  by (induction plan) (auto simp: Let_def split: sum.splits list.splits)

lemma count_tracked_eq:
  "n + length (filter (tx_is_tracked tracked) txs) < 2 ^ 64 \<Longrightarrow>
     count_tracked tracked txs n = n + length (filter (tx_is_tracked tracked) txs)"
  by (induction txs arbitrary: n) auto

text \<open>The blocks a capture task sees: everything received before the feed closes.\<close>

fun feed_blocks :: "feed_event list \<Rightarrow> block list" where
  "feed_blocks [] = []"
| "feed_blocks (FeedBlock b # evs) = b # feed_blocks evs"
| "feed_blocks (FeedLagged k # evs) = feed_blocks evs"
| "feed_blocks (FeedClosed # evs) = []"

definition included_txs :: "zk_public_key set \<Rightarrow> feed_event list \<Rightarrow> signed_mantle_tx list" where
  "included_txs tracked evs = filter (tx_is_tracked tracked)
     (concat (map block_transactions (filter (\<lambda>b. block_parent b \<noteq> zero_id) (feed_blocks evs))))"

lemma tx_capture_loop_eq:
  "n + length (included_txs tracked evs) < 2 ^ 64 \<Longrightarrow>
     tx_capture_loop tracked evs n = n + length (included_txs tracked evs)"
proof (induction tracked evs n rule: tx_capture_loop.induct)
  case (2 tracked b evs n)
  show ?case
  proof (cases "block_parent b = zero_id")
    case True then show ?thesis using 2 by (simp add: included_txs_def)
  next
    case False
    have c: "count_tracked tracked (block_transactions b) n
        = n + length (filter (tx_is_tracked tracked) (block_transactions b))"
      using 2(3) False by (intro count_tracked_eq) (simp add: included_txs_def)
    have "tx_capture_loop tracked evs (count_tracked tracked (block_transactions b) n)
        = count_tracked tracked (block_transactions b) n + length (included_txs tracked evs)"
      using 2(3) False by (intro 2(2) [OF False]) (simp add: c included_txs_def)
    then show ?thesis using False by (simp add: c included_txs_def)
  qed
qed (simp_all add: included_txs_def)

text \<open>
  C17. The inclusion expectation, started on \<open>expected\<close> planned transactions, is satisfied exactly when at
  least half of them (rounded up) were seen: the transactions counted are those of the received blocks,
  other than children of the genesis parent, that pay one of the tracked keys, each at most once.
\<close>

theorem tx_inclusion_threshold:
  assumes "ti_capture x = Some c" and "tc_observed c = 0" and "tc_expected c < 2 ^ 50"
    and "length (included_txs (tc_tracked c) evs) < 2 ^ 64"
  shows "tx_evaluate (tx_observe evs x) = Inr () \<longleftrightarrow>
    (tc_expected c + 1) div 2 \<le> length (included_txs (tc_tracked c) evs)"
  using assms tx_capture_loop_eq [of 0 "tc_tracked c" evs]
  by (simp add: tx_evaluate_def tx_observe_def Let_def required_share_half)

definition pay_tx :: "zk_public_key \<Rightarrow> signed_mantle_tx" where
  "pay_tx pk = \<lparr>signed_tx = \<lparr>tx_ops = [], tx_ledger = \<lparr>ledger_inputs = [], ledger_outputs = [\<lparr>note_value = 1, note_pk = pk\<rparr>]\<rparr>,
     tx_execution_gas_price = 0, tx_storage_gas_price = 0\<rparr>, signed_ops_proofs = [], signed_ledger_proof = 0\<rparr>"

lemma short_not_zero_id: "[b] \<noteq> zero_id"
proof
  assume "[b] = zero_id"
  then have "length [b] = length zero_id" by simp
  then show False by (simp add: zero_id_def)
qed

theorem tx_inclusion_threshold_witness:
  "tx_evaluate (tx_observe [FeedBlock \<lparr>block_parent = [2], block_transactions = [pay_tx 1, pay_tx 7]\<rparr>, FeedClosed]
     ((tx_inclusion_new 5 None)\<lparr>ti_capture := Some \<lparr>tc_tracked = {1, 2}, tc_observed = 0, tc_expected = 2\<rparr>\<rparr>)) = Inr ()"
  by (subst tx_inclusion_threshold [where c = "\<lparr>tc_tracked = {1, 2}, tc_observed = 0, tc_expected = 2\<rparr>"])
    (simp_all add: included_txs_def tx_is_tracked_def pay_tx_def short_not_zero_id)

end
