(* ===== verification/Da_Workload.thy ===== *)
theory Da_Workload
  imports Tx_Workload "HOL-Library.Sublist"
begin

text \<open>
  The data-availability workload and its expectation: \<open>workflows/src/workloads/da/workload.rs\<close> and
  \<open>expectation.rs\<close>, with \<open>find_channel_op\<close> of \<open>workflows/src/workloads/util.rs\<close>.

  A broadcast receiver is the list of what it delivers from its subscription on; a task whose receiver
  has nothing more to deliver is still waiting, and the result \<open>None\<close> says so. The identifiers of
  operations (\<open>inscribe.id()\<close>, \<open>blob_op.id()\<close>), the answers of the executors and the random choices are
  parameters. Counters of observed operations are numbers, below the 64 bits of the source.
\<close>

section \<open>The workload\<close>

record da_workload =
  dw_blob_rate :: nat
  dw_channel_rate :: nat
  dw_headroom_percent :: nat

definition default_headroom_percent :: nat where "default_headroom_percent = 20"

definition da_with_rate :: "nat \<Rightarrow> nat \<Rightarrow> nat \<Rightarrow> da_workload" where
  "da_with_rate blob_rate channel_rate headroom =
     \<lparr>dw_blob_rate = blob_rate, dw_channel_rate = channel_rate, dw_headroom_percent = headroom\<rparr>"

definition da_workload_default :: da_workload where
  "da_workload_default = da_with_rate 1 1 default_headroom_percent"

definition blob_chunk_options :: "nat list" where "blob_chunk_options = [1, 2, 4, 8]"
definition publish_retries :: nat where "publish_retries = 5"
definition publish_retry_delay :: duration where "publish_retry_delay = from_secs 2"

text \<open>The checked sum after the saturating product is a panic when the product saturates.\<close>

definition planned_channel_count :: "nat \<Rightarrow> nat \<Rightarrow> nat rust" where
  "planned_channel_count channel_rate headroom =
     rbind (usize_add (saturating_mul channel_rate headroom) 99) (\<lambda>x.
       Inr (max (saturating_add channel_rate (x div 100)) 1))"

definition deterministic_channel_id :: "nat \<Rightarrow> channel_id" where
  "deterministic_channel_id index = map of_char ''chn_wrkd'' @ replicate 16 0 @ be_bytes 8 index"

definition planned_channel_ids :: "nat \<Rightarrow> channel_id list" where
  "planned_channel_ids n_total = map deterministic_channel_id [0..<n_total]"

definition planned_blob_count :: "nat \<Rightarrow> run_metrics \<Rightarrow> nat" where
  "planned_blob_count blob_rate m = saturating_mul blob_rate (max (rm_expected_blocks m) 1)"

definition per_channel_blob_target :: "nat \<Rightarrow> nat \<Rightarrow> nat rust" where
  "per_channel_blob_target total_blobs channel_count =
     (if channel_count = 0 then Inr (max total_blobs 1)
      else rbind (u64_add total_blobs channel_count) (\<lambda>x.
        Inr (max ((x - 1) div channel_count) 1)))"

text \<open>The payload: 31 random bytes per chunk.\<close>

definition random_blob_payload :: "nat \<Rightarrow> (nat \<Rightarrow> byte) \<Rightarrow> byte list" where
  "random_blob_payload choice fill = map fill [0..<31 * (blob_chunk_options ! (choice mod length blob_chunk_options))]"

text \<open>
  Publishing: every round tries the executors in a fresh order and stops at the first acceptance; after
  each failed round but the last there is a delay. The total delay is returned with the result.
\<close>

fun publish_round :: "('c \<Rightarrow> string + blob_id) \<Rightarrow> string option \<Rightarrow> 'c list \<Rightarrow> string option + blob_id" where
  "publish_round publish last_err [] = Inl last_err"
| "publish_round publish last_err (c # cs) =
     (case publish c of Inr b \<Rightarrow> Inr b | Inl e \<Rightarrow> publish_round publish (Some e) cs)"

fun publish_attempts :: "(nat \<Rightarrow> 'c list \<Rightarrow> 'c list) \<Rightarrow> (nat \<Rightarrow> 'c \<Rightarrow> string + blob_id) \<Rightarrow> nat list \<Rightarrow> 'c list
    \<Rightarrow> string option \<Rightarrow> (string + blob_id) \<times> duration" where
  "publish_attempts shuffle publish [] cands last_err =
     (Inl (case last_err of Some e \<Rightarrow> e | None \<Rightarrow> ''da workload could not publish blob''), 0)"
| "publish_attempts shuffle publish (attempt # rest) cands last_err =
     (let cands = shuffle attempt cands in
      case publish_round (publish attempt) last_err cands of
        Inr b \<Rightarrow> (Inr b, 0)
      | Inl e \<Rightarrow> (case publish_attempts shuffle publish rest cands e of
            (r, slept) \<Rightarrow> (r, (if attempt < publish_retries then publish_retry_delay else 0) + slept)))"

definition publish_blob :: "(nat \<Rightarrow> 'c list \<Rightarrow> 'c list) \<Rightarrow> (nat \<Rightarrow> 'c \<Rightarrow> string + blob_id) \<Rightarrow> 'c node_clients
    \<Rightarrow> (string + blob_id) \<times> duration" where
  "publish_blob shuffle publish n =
     (if nc_executors n = [] then (Inl ''da workload requires at least one executor'', 0)
      else publish_attempts shuffle publish [1..<publish_retries + 1] (nc_executors n) None)"

section \<open>Waiting for channel operations\<close>

definition find_channel_op :: "block \<Rightarrow> (op \<Rightarrow> msg_id option) \<Rightarrow> msg_id option" where
  "find_channel_op b matcher = find_map (\<lambda>tx. find_map matcher (tx_ops (signed_tx tx))) (block_transactions b)"

fun wait_for_channel_op :: "(op \<Rightarrow> msg_id option) \<Rightarrow> feed_event list \<Rightarrow> (string + msg_id \<times> feed_event list) option" where
  "wait_for_channel_op matcher [] = None"
| "wait_for_channel_op matcher (FeedBlock b # evs) =
     (case find_channel_op b matcher of Some m \<Rightarrow> Some (Inr (m, evs)) | None \<Rightarrow> wait_for_channel_op matcher evs)"
| "wait_for_channel_op matcher (FeedLagged k # evs) = wait_for_channel_op matcher evs"
| "wait_for_channel_op matcher (FeedClosed # evs) =
     Some (Inl ''block feed closed while waiting for channel operations'')"

definition inscription_matcher :: "(inscription_op \<Rightarrow> msg_id) \<Rightarrow> channel_id \<Rightarrow> op \<Rightarrow> msg_id option" where
  "inscription_matcher ins_id channel o1 = (case o1 of
     ChannelInscribe i \<Rightarrow> (if ins_channel_id i = channel then Some (ins_id i) else None) | _ \<Rightarrow> None)"

definition wait_for_inscription :: "(inscription_op \<Rightarrow> msg_id) \<Rightarrow> channel_id \<Rightarrow> feed_event list
    \<Rightarrow> (string + msg_id \<times> feed_event list) option" where
  "wait_for_inscription ins_id channel = wait_for_channel_op (inscription_matcher ins_id channel)"

definition blob_matcher :: "channel_id \<Rightarrow> msg_id \<Rightarrow> op \<Rightarrow> blob_op option" where
  "blob_matcher channel parent o1 = (case o1 of
     ChannelBlob b \<Rightarrow> (if blob_channel b = channel \<and> blob_parent b = parent then Some b else None) | _ \<Rightarrow> None)"

fun wait_for_blob_with_parent :: "channel_id \<Rightarrow> msg_id \<Rightarrow> feed_event list
    \<Rightarrow> (string + blob_op \<times> feed_event list) option" where
  "wait_for_blob_with_parent channel parent [] = None"
| "wait_for_blob_with_parent channel parent (FeedBlock b # evs) =
     (case find_map (\<lambda>tx. find_map (blob_matcher channel parent) (tx_ops (signed_tx tx))) (block_transactions b) of
        Some o1 \<Rightarrow> Some (Inr (o1, evs)) | None \<Rightarrow> wait_for_blob_with_parent channel parent evs)"
| "wait_for_blob_with_parent channel parent (FeedLagged k # evs) = wait_for_blob_with_parent channel parent evs"
| "wait_for_blob_with_parent channel parent (FeedClosed # evs) =
     Some (Inl ''block feed closed while waiting for channel operations'')"

text \<open>
  The loop of a channel flow: publish on the current parent, then wait for a blob on that parent, which
  becomes the next parent. The result is the chain of included blob operations.
\<close>

fun blob_chain :: "(blob_op \<Rightarrow> msg_id) \<Rightarrow> (nat \<Rightarrow> msg_id \<Rightarrow> string + blob_id) \<Rightarrow> channel_id \<Rightarrow> nat \<Rightarrow> nat \<Rightarrow> msg_id
    \<Rightarrow> feed_event list \<Rightarrow> (string + blob_op list) option" where
  "blob_chain op_id publish channel 0 idx parent evs = Some (Inr [])"
| "blob_chain op_id publish channel (Suc k) idx parent evs =
     (case publish idx parent of
        Inl e \<Rightarrow> Some (Inl e)
      | Inr b \<Rightarrow> (case wait_for_blob_with_parent channel parent evs of
            None \<Rightarrow> None
          | Some (Inl e) \<Rightarrow> Some (Inl e)
          | Some (Inr (o1, evs')) \<Rightarrow> map_option (map_sum id (Cons o1))
              (blob_chain op_id publish channel k (Suc idx) (op_id o1) evs')))"

definition run_channel_flow :: "(inscription_op \<Rightarrow> msg_id) \<Rightarrow> (blob_op \<Rightarrow> msg_id) \<Rightarrow> (channel_id \<Rightarrow> string + unit)
    \<Rightarrow> (nat \<Rightarrow> msg_id \<Rightarrow> string + blob_id) \<Rightarrow> feed_event list \<Rightarrow> channel_id \<Rightarrow> nat \<Rightarrow> (string + blob_op list) option" where
  "run_channel_flow ins_id op_id inscribe publish evs channel target_blobs =
     (case inscribe channel of
        Inl e \<Rightarrow> Some (Inl e)
      | Inr u \<Rightarrow> (case wait_for_inscription ins_id channel evs of
            None \<Rightarrow> None
          | Some (Inl e) \<Rightarrow> Some (Inl e)
          | Some (Inr (m, evs')) \<Rightarrow> blob_chain op_id publish channel target_blobs 0 m evs'))"

text \<open>\<open>try_join_all\<close>: the first flow to fail, in the order they finish, fails the workload.\<close>

definition try_join_all :: "(string + 'a) option list \<Rightarrow> (string + unit) option" where
  "try_join_all rs =
     (case filter_map (\<lambda>r. case r of Some (Inl e) \<Rightarrow> Some e | _ \<Rightarrow> None) rs of
        e # _ \<Rightarrow> Some (Inl e)
      | [] \<Rightarrow> if None \<in> set rs then None else Some (Inr ()))"

definition da_start :: "run_metrics \<Rightarrow> (channel_id \<Rightarrow> nat \<Rightarrow> (string + blob_op list) option)
    \<Rightarrow> ((string + blob_op list) option list \<Rightarrow> (string + blob_op list) option list) \<Rightarrow> da_workload
    \<Rightarrow> (string + unit) option rust" where
  "da_start m flow finish_order w =
     rbind (planned_channel_count (dw_channel_rate w) (dw_headroom_percent w)) (\<lambda>n.
       let channels = planned_channel_ids n;
           expected_blobs = planned_blob_count (dw_blob_rate w) m in
       rbind (per_channel_blob_target expected_blobs (max (length channels) 1)) (\<lambda>target.
         Inr (try_join_all (finish_order (map (\<lambda>c. flow c target) channels)))))"

section \<open>The expectation\<close>

record da_capture =
  dc_planned :: "channel_id set"
  dc_inscriptions :: "channel_id set"
  dc_blobs :: "(channel_id \<times> nat) list"
  dc_run_blocks :: nat
  dc_run_duration :: duration

record da_expectation =
  dx_blob_rate :: nat
  dx_channel_rate :: nat
  dx_headroom_percent :: nat
  dx_capture :: "da_capture option"

datatype da_error =
  DaNotCaptured
| MissingInscriptions nat nat nat "channel_id set"
| MissingBlobs nat nat nat nat nat "channel_id set"

definition da_expectation_new :: "nat \<Rightarrow> nat \<Rightarrow> nat \<Rightarrow> da_expectation" where
  "da_expectation_new blob_rate channel_rate headroom = \<lparr>dx_blob_rate = blob_rate,
     dx_channel_rate = channel_rate, dx_headroom_percent = headroom, dx_capture = None\<rparr>"

definition da_expectations :: "da_workload \<Rightarrow> da_expectation list" where
  "da_expectations w = [da_expectation_new (dw_blob_rate w) (dw_channel_rate w) (dw_headroom_percent w)]"

definition da_start_capture :: "run_metrics \<Rightarrow> da_expectation \<Rightarrow> da_expectation rust" where
  "da_start_capture m x =
     (if dx_capture x \<noteq> None then Inr x
      else rbind (planned_channel_count (dx_channel_rate x) (dx_headroom_percent x)) (\<lambda>n.
        Inr (x\<lparr>dx_capture := Some \<lparr>dc_planned = set (planned_channel_ids n), dc_inscriptions = {},
          dc_blobs = [], dc_run_blocks = 0, dc_run_duration = rm_run_duration m\<rparr>\<rparr>)))"

text \<open>The task that counts the blocks of the run: \<open>evs\<close> is what it receives before its timer fires.\<close>

fun count_run_blocks :: "feed_event list \<Rightarrow> nat \<Rightarrow> nat" where
  "count_run_blocks [] n = n"
| "count_run_blocks (FeedBlock b # evs) n = count_run_blocks evs ((n + 1) mod 2 ^ 64)"
| "count_run_blocks (FeedLagged k # evs) n = count_run_blocks evs n"
| "count_run_blocks (FeedClosed # evs) n = n"

text \<open>\<open>entry(channel).or_insert(0)\<close> followed by the increment.\<close>

fun bump_entry :: "channel_id \<Rightarrow> (channel_id \<times> nat) list \<Rightarrow> (channel_id \<times> nat) list" where
  "bump_entry c [] = [(c, 1)]"
| "bump_entry c ((k, n) # m) = (if k = c then (k, n + 1) # m else (k, n) # bump_entry c m)"

definition new_inscriptions :: "channel_id set \<Rightarrow> block \<Rightarrow> channel_id list" where
  "new_inscriptions planned b = filter_map (\<lambda>o1. case o1 of
     ChannelInscribe i \<Rightarrow> (if ins_channel_id i \<in> planned then Some (ins_channel_id i) else None) | _ \<Rightarrow> None) (block_ops b)"

definition new_blobs :: "channel_id set \<Rightarrow> block \<Rightarrow> channel_id list" where
  "new_blobs planned b = filter_map (\<lambda>o1. case o1 of
     ChannelBlob o2 \<Rightarrow> (if blob_channel o2 \<in> planned then Some (blob_channel o2) else None) | _ \<Rightarrow> None) (block_ops b)"

definition capture_block :: "block \<Rightarrow> da_capture \<Rightarrow> da_capture" where
  "capture_block b c = c\<lparr>
     dc_inscriptions := dc_inscriptions c \<union> set (new_inscriptions (dc_planned c) b),
     dc_blobs := fold bump_entry (new_blobs (dc_planned c) b) (dc_blobs c)\<rparr>"

fun da_capture_loop :: "feed_event list \<Rightarrow> da_capture \<Rightarrow> da_capture" where
  "da_capture_loop [] c = c"
| "da_capture_loop (FeedBlock b # evs) c = da_capture_loop evs (capture_block b c)"
| "da_capture_loop (FeedLagged k # evs) c = da_capture_loop evs c"
| "da_capture_loop (FeedClosed # evs) c = c"

definition da_observe :: "feed_event list \<Rightarrow> feed_event list \<Rightarrow> da_expectation \<Rightarrow> da_expectation" where
  "da_observe run_evs evs x = x\<lparr>dx_capture := map_option (\<lambda>c.
     (da_capture_loop evs c)\<lparr>dc_run_blocks := count_run_blocks run_evs (dc_run_blocks c)\<rparr>) (dx_capture x)\<rparr>"

definition missing_channels :: "channel_id set \<Rightarrow> channel_id set \<Rightarrow> channel_id set" where
  "missing_channels planned observed = planned - observed"

text \<open>\<open>minimum_required\<close> and \<open>minimum_required_u64\<close> are \<^const>\<open>required_share\<close> at 0.8.\<close>

definition da_evaluate :: "da_expectation \<Rightarrow> da_error + unit" where
  "da_evaluate x =
     (case dx_capture x of
        None \<Rightarrow> Inl DaNotCaptured
      | Some c \<Rightarrow>
          (let planned_total = card (dc_planned c);
               missing_ins = missing_channels (dc_planned c) (dc_inscriptions c);
               required_ins = required_share ratio_0_8 planned_total;
               observed_ins = planned_total - card missing_ins in
           if observed_ins < required_ins then Inl (MissingInscriptions planned_total observed_ins required_ins missing_ins)
           else
             let observed_blobs = sum_list (map snd (dc_blobs c));
                 with_blobs = set (map fst (filter (\<lambda>(_, n). 0 < n) (dc_blobs c)));
                 observed_blocks = max (dc_run_blocks c) 1;
                 expected_blobs = saturating_mul (dx_blob_rate x) observed_blocks;
                 missing_blobs = missing_channels (dc_planned c) with_blobs;
                 required_blobs = required_share ratio_0_8 expected_blobs in
             if observed_blobs < required_blobs
             then Inl (MissingBlobs expected_blobs observed_blobs required_blobs planned_total (card with_blobs) missing_blobs)
             else Inr ()))"

section \<open>The plan\<close>

lemma deterministic_channel_id_length: "length (deterministic_channel_id i) = 32"
  by (simp add: deterministic_channel_id_def)

lemma deterministic_channel_id_inj:
  "i < 2 ^ 64 \<Longrightarrow> j < 2 ^ 64 \<Longrightarrow> deterministic_channel_id i = deterministic_channel_id j \<Longrightarrow> i = j"
  using be_bytes_inj [of i 8 j] by (simp add: deterministic_channel_id_def)

lemma planned_channel_ids_distinct: "n \<le> 2 ^ 64 \<Longrightarrow> distinct (planned_channel_ids n)"
  unfolding planned_channel_ids_def distinct_map
  by (auto intro!: inj_onI deterministic_channel_id_inj)

lemma card_planned_channels: "n \<le> 2 ^ 64 \<Longrightarrow> card (set (planned_channel_ids n)) = n"
  using distinct_card [OF planned_channel_ids_distinct] by (simp add: planned_channel_ids_def)

lemma planned_channel_count_ok:
  assumes "0 < rate" and "rate * headroom + rate + 99 \<le> u64_max"
  shows "planned_channel_count rate headroom = Inr (rate + (rate * headroom + 99) div 100)"
proof -
  have "(rate * headroom + 99) div 100 \<le> rate * headroom + 1" by (cases "rate * headroom = 0") simp_all
  then have "rate + (rate * headroom + 99) div 100 \<le> u64_max" using assms(2) by linarith
  then show ?thesis using assms
    by (simp add: planned_channel_count_def usize_add_def saturating_mul_def saturating_add_def usize_max_def u64_max_def)
qed

text \<open>
  C18. The plan of the data-availability workload: for positive rates whose products fit in 64 bits the
  planned channels are pairwise different 32-byte ids, at least the channel rate plus the headroom
  percentage of it; the target per channel is the least positive number of blobs with which these
  channels together reach the blob rate times the expected number of blocks.
\<close>

theorem da_plan_sufficient:
  assumes "0 < dw_blob_rate w" and "0 < dw_channel_rate w"
    and "dw_channel_rate w * dw_headroom_percent w + dw_channel_rate w + 99 \<le> u64_max"
    and "planned_channel_count (dw_channel_rate w) (dw_headroom_percent w) = Inr n"
    and "dw_blob_rate w * max (rm_expected_blocks m) 1 + n \<le> u64_max"
  shows "\<exists>target. per_channel_blob_target (planned_blob_count (dw_blob_rate w) m) (max (length (planned_channel_ids n)) 1) = Inr target
    \<and> distinct (planned_channel_ids n) \<and> length (planned_channel_ids n) = n
    \<and> (\<forall>c \<in> set (planned_channel_ids n). length c = 32)
    \<and> dw_channel_rate w * (100 + dw_headroom_percent w) \<le> 100 * n
    \<and> 1 \<le> target \<and> dw_blob_rate w * max (rm_expected_blocks m) 1 \<le> n * target
    \<and> (\<forall>t < target. n * t < dw_blob_rate w * max (rm_expected_blocks m) 1)"
proof -
  let ?total = "dw_blob_rate w * max (rm_expected_blocks m) 1"
  let ?r = "dw_channel_rate w" and ?h = "dw_headroom_percent w"
  have n: "n = ?r + (?r * ?h + 99) div 100" using planned_channel_count_ok [OF assms(2,3)] assms(4) by simp
  then have n0: "0 < n" "n \<le> u64_max" using assms(2,5) by simp_all
  have planned: "planned_blob_count (dw_blob_rate w) m = ?total"
    using assms(5) by (simp add: planned_blob_count_def saturating_mul_def)
  have t0: "0 < ?total" using assms(1) by simp
  define target where "target = (?total + n - 1) div n"
  have ge: "?total \<le> n * target"
  proof -
    have "?total + n - 1 < n * Suc target"
      unfolding target_def using n0(1) by (metis dividend_less_times_div mult.commute mult_Suc_right add.commute)
    then show ?thesis by simp
  qed
  have pos: "1 \<le> target" using ge t0 by (cases target) simp_all
  have least: "n * t < ?total" if "t < target" for t
  proof -
    have "n * (t + 1) \<le> n * target" using that by (intro mult_le_mono2) simp
    also have "\<dots> \<le> ?total + n - 1" unfolding target_def by simp
    finally show ?thesis using n0(1) by (simp add: algebra_simps)
  qed
  have ok: "per_channel_blob_target ?total (max (length (planned_channel_ids n)) 1) = Inr target"
    using assms(5) n0 pos
    by (simp add: per_channel_blob_target_def planned_channel_ids_def u64_add_def target_def)
  have head: "?r * (100 + ?h) \<le> 100 * n" unfolding n by (simp add: algebra_simps)
  have dist: "distinct (planned_channel_ids n)"
    using n0(2) by (intro planned_channel_ids_distinct) (simp add: u64_max_def)
  show ?thesis unfolding planned
    using ok head dist pos ge least
    by (intro exI [of _ target]) (auto simp: planned_channel_ids_def deterministic_channel_id_length)
qed

theorem da_plan_sufficient_witness:
  "\<exists>target. per_channel_blob_target (planned_blob_count 3 \<lparr>rm_run_duration = from_secs 60, rm_expected_blocks = 27,
       rm_block_interval_hint = None\<rparr>) (max (length (planned_channel_ids 3)) 1) = Inr target \<and> 81 \<le> 3 * target"
  using da_plan_sufficient [of "da_with_rate 3 2 20" 3 "\<lparr>rm_run_duration = from_secs 60, rm_expected_blocks = 27,
       rm_block_interval_hint = None\<rparr>"]
  by (auto simp: da_with_rate_def planned_channel_count_def usize_add_def saturating_mul_def saturating_add_def
      usize_max_def u64_max_def)

section \<open>The channel flow\<close>

definition feed_ops :: "feed_event list \<Rightarrow> op list" where
  "feed_ops evs = concat (map block_ops (feed_blocks evs))"

lemma feed_ops_simps [simp]:
  "feed_ops (FeedBlock b # evs) = block_ops b @ feed_ops evs"
  "feed_ops (FeedLagged k # evs) = feed_ops evs"
  by (simp_all add: feed_ops_def)

lemma find_in_block:
  "find_map (\<lambda>tx. find_map f (tx_ops (signed_tx tx))) (block_transactions b) = Some y \<Longrightarrow>
     \<exists>o1 \<in> set (block_ops b). f o1 = Some y"
  by (fastforce simp: block_ops_def dest!: find_map_Some)

lemma wait_for_channel_op_found:
  "wait_for_channel_op f evs = Some (Inr (m, evs')) \<Longrightarrow>
     \<exists>xs o1. feed_ops evs = xs @ feed_ops evs' \<and> o1 \<in> set xs \<and> f o1 = Some m"
proof (induction f evs rule: wait_for_channel_op.induct)
  case (2 f b evs)
  show ?case
  proof (cases "find_channel_op b f")
    case None
    with 2 obtain xs o1 where "feed_ops evs = xs @ feed_ops evs'" "o1 \<in> set xs" "f o1 = Some m" by auto
    then show ?thesis by (intro exI [of _ "block_ops b @ xs"] exI [of _ o1]) simp
  next
    case (Some y)
    with 2(2) find_in_block [of f b y] show ?thesis by (auto simp: find_channel_op_def)
  qed
qed simp_all

lemma wait_for_blob_found:
  "wait_for_blob_with_parent c p evs = Some (Inr (o1, evs')) \<Longrightarrow>
     blob_channel o1 = c \<and> blob_parent o1 = p \<and> (\<exists>xs. feed_ops evs = xs @ feed_ops evs' \<and> ChannelBlob o1 \<in> set xs)"
proof (induction c p evs rule: wait_for_blob_with_parent.induct)
  case (2 c p b evs)
  show ?case
  proof (cases "find_map (\<lambda>tx. find_map (blob_matcher c p) (tx_ops (signed_tx tx))) (block_transactions b)")
    case None
    with 2 obtain xs where "blob_channel o1 = c" "blob_parent o1 = p" "feed_ops evs = xs @ feed_ops evs'"
      "ChannelBlob o1 \<in> set xs" by auto
    then show ?thesis by (auto intro!: exI [of _ "block_ops b @ xs"])
  next
    case (Some y)
    with 2(2) have y: "y = o1" "evs = evs'" by auto
    from find_in_block [OF Some] obtain o2 where "o2 \<in> set (block_ops b)" "blob_matcher c p o2 = Some y" by blast
    then show ?thesis using y by (auto simp: blob_matcher_def split: op.splits if_splits)
  qed
qed simp_all

fun chained :: "(blob_op \<Rightarrow> msg_id) \<Rightarrow> channel_id \<Rightarrow> msg_id \<Rightarrow> blob_op list \<Rightarrow> bool" where
  "chained op_id c parent [] \<longleftrightarrow> True"
| "chained op_id c parent (o1 # os) \<longleftrightarrow> blob_channel o1 = c \<and> blob_parent o1 = parent \<and> chained op_id c (op_id o1) os"

lemma subseq_found: "x \<in> set xs \<Longrightarrow> subseq ys zs \<Longrightarrow> subseq (x # ys) (xs @ zs)"
  using list_emb_append_mono [of "(=)" "[x]" xs ys zs] by (simp add: subseq_singleton_left)

lemma map_sum_Inr_iff: "map_sum id f r = Inr y \<longleftrightarrow> (\<exists>v. r = Inr v \<and> y = f v)"
  by (cases r) auto

lemma blob_chain_ok:
  "blob_chain op_id publish c k idx parent evs = Some (Inr os) \<Longrightarrow>
     length os = k \<and> chained op_id c parent os \<and> subseq (map ChannelBlob os) (feed_ops evs)"
proof (induction op_id publish c k idx parent evs arbitrary: os rule: blob_chain.induct)
  case (2 op_id publish c k idx parent evs)
  from 2(2) obtain b o1 evs' os' where
    p: "publish idx parent = Inr b" "wait_for_blob_with_parent c parent evs = Some (Inr (o1, evs'))"
    and r: "blob_chain op_id publish c k (Suc idx) (op_id o1) evs' = Some (Inr os')" "os = o1 # os'"
    by (auto split: sum.splits option.splits prod.splits simp: map_sum_Inr_iff)
  from wait_for_blob_found [OF p(2)] obtain xs where w: "blob_channel o1 = c" "blob_parent o1 = parent"
    "feed_ops evs = xs @ feed_ops evs'" "ChannelBlob o1 \<in> set xs" by blast
  have "length os' = k \<and> chained op_id c (op_id o1) os' \<and> subseq (map ChannelBlob os') (feed_ops evs')"
    using 2(1) [OF p(1) p(2) refl refl r(1)] .
  then show ?case using w subseq_found [OF w(4), of "map ChannelBlob os'" "feed_ops evs'"] r(2) by simp
qed simp

text \<open>
  C19. A channel flow that finishes without error has its target number of blobs on the chain: the feed
  delivered, in this order, an inscription of the channel and then one blob operation after the other,
  all on that channel, the first with the inscription as parent and each next one with the blob before
  it as parent.
\<close>

theorem channel_flow_chain:
  assumes "run_channel_flow ins_id op_id inscribe publish evs channel target_blobs = Some (Inr os)"
  shows "\<exists>ins. ins_channel_id ins = channel \<and> length os = target_blobs
    \<and> chained op_id channel (ins_id ins) os
    \<and> subseq (ChannelInscribe ins # map ChannelBlob os) (feed_ops evs)"
proof -
  from assms obtain m evs' where
    w: "wait_for_inscription ins_id channel evs = Some (Inr (m, evs'))"
    and b: "blob_chain op_id publish channel target_blobs 0 m evs' = Some (Inr os)"
    by (auto simp: run_channel_flow_def split: sum.splits option.splits)
  from wait_for_channel_op_found [OF w [unfolded wait_for_inscription_def]] obtain xs o1 where
    o1: "feed_ops evs = xs @ feed_ops evs'" "o1 \<in> set xs" "inscription_matcher ins_id channel o1 = Some m" by blast
  then obtain ins where ins: "o1 = ChannelInscribe ins" "ins_channel_id ins = channel" "ins_id ins = m"
    by (auto simp: inscription_matcher_def split: op.splits if_splits)
  from blob_chain_ok [OF b] subseq_found [OF o1(2), of "map ChannelBlob os" "feed_ops evs'"] o1(1) ins
  show ?thesis by (intro exI [of _ ins]) simp
qed

section \<open>The expectation's verdict\<close>

lemma bump_entry_sum: "sum_list (map snd (bump_entry c m)) = sum_list (map snd m) + 1"
  by (induction c m rule: bump_entry.induct) auto

lemma bump_entries_sum: "sum_list (map snd (fold bump_entry cs m)) = sum_list (map snd m) + length cs"
  by (induction cs arbitrary: m) (auto simp: bump_entry_sum)

definition inscribed :: "channel_id set \<Rightarrow> op list \<Rightarrow> channel_id set" where
  "inscribed planned os = {c \<in> planned. \<exists>i. ChannelInscribe i \<in> set os \<and> ins_channel_id i = c}"

definition planned_blobs :: "channel_id set \<Rightarrow> op list \<Rightarrow> op list" where
  "planned_blobs planned os = filter (\<lambda>o1. case o1 of ChannelBlob b \<Rightarrow> blob_channel b \<in> planned | _ \<Rightarrow> False) os"

lemma new_inscriptions_set: "set (new_inscriptions planned b) = inscribed planned (block_ops b)"
proof -
  have "set (filter_map (\<lambda>o1. case o1 of
     ChannelInscribe i \<Rightarrow> (if ins_channel_id i \<in> planned then Some (ins_channel_id i) else None) | _ \<Rightarrow> None) os)
    = inscribed planned os" for os
    by (induction os) (auto simp: inscribed_def split: op.splits)
  then show ?thesis by (simp add: new_inscriptions_def)
qed

lemma new_blobs_length: "length (new_blobs planned b) = length (planned_blobs planned (block_ops b))"
proof -
  have "length (filter_map (\<lambda>o1. case o1 of
     ChannelBlob o2 \<Rightarrow> (if blob_channel o2 \<in> planned then Some (blob_channel o2) else None) | _ \<Rightarrow> None) os)
    = length (planned_blobs planned os)" for os
    by (induction os) (auto simp: planned_blobs_def split: op.splits)
  then show ?thesis by (simp add: new_blobs_def)
qed

lemma da_capture_loop_eq:
  "dc_planned (da_capture_loop evs c) = dc_planned c
   \<and> dc_inscriptions (da_capture_loop evs c) = dc_inscriptions c \<union> inscribed (dc_planned c) (feed_ops evs)
   \<and> sum_list (map snd (dc_blobs (da_capture_loop evs c)))
       = sum_list (map snd (dc_blobs c)) + length (planned_blobs (dc_planned c) (feed_ops evs))"
proof (induction evs c rule: da_capture_loop.induct)
  case (2 b evs c)
  then show ?case
    by (auto simp: capture_block_def new_inscriptions_set bump_entries_sum new_blobs_length
        inscribed_def planned_blobs_def)
qed (simp_all add: inscribed_def planned_blobs_def feed_ops_def)

lemma count_run_blocks_eq:
  "n + length (feed_blocks evs) < 2 ^ 64 \<Longrightarrow> count_run_blocks evs n = n + length (feed_blocks evs)"
  by (induction evs n rule: count_run_blocks.induct) simp_all

text \<open>
  C20. The data-availability expectation accepts exactly when four fifths (rounded up) of the planned
  channels were inscribed and the blobs on planned channels are at least four fifths (rounded up) of
  the blob rate times the number of blocks received during the run, at least one.
\<close>

theorem da_expectation_accepts_iff:
  assumes "da_start_capture m (da_expectation_new blob_rate channel_rate headroom) = Inr x"
    and "planned_channel_count channel_rate headroom = Inr n" and "n < 2 ^ 50"
    and "length (feed_blocks run_evs) < 2 ^ 64" and "blob_rate * max (length (feed_blocks run_evs)) 1 < 2 ^ 50"
  shows "da_evaluate (da_observe run_evs evs x) = Inr () \<longleftrightarrow>
    (let planned = set (planned_channel_ids n) in
     (4 * n + 4) div 5 \<le> card (inscribed planned (feed_ops evs))
     \<and> (4 * (blob_rate * max (length (feed_blocks run_evs)) 1) + 4) div 5
         \<le> length (planned_blobs planned (feed_ops evs)))"
proof -
  let ?P = "set (planned_channel_ids n)"
  define c where "c = \<lparr>dc_planned = ?P, dc_inscriptions = {}, dc_blobs = [], dc_run_blocks = 0,
    dc_run_duration = rm_run_duration m\<rparr>"
  have x: "dx_capture x = Some c" "dx_blob_rate x = blob_rate"
    using assms(1,2) by (auto simp: da_start_capture_def da_expectation_new_def c_def)
  have loop: "dc_planned (da_capture_loop evs c) = ?P"
    "dc_inscriptions (da_capture_loop evs c) = inscribed ?P (feed_ops evs)"
    "sum_list (map snd (dc_blobs (da_capture_loop evs c))) = length (planned_blobs ?P (feed_ops evs))"
    using da_capture_loop_eq [of evs c] by (simp_all add: c_def)
  have blocks: "count_run_blocks run_evs 0 = length (feed_blocks run_evs)"
    using count_run_blocks_eq [of 0 run_evs] assms(4) by simp
  have card: "card ?P = n" using assms(3) by (intro card_planned_channels) simp
  have sub: "inscribed ?P (feed_ops evs) \<subseteq> ?P" by (auto simp: inscribed_def)
  then have "card (?P - inscribed ?P (feed_ops evs)) = n - card (inscribed ?P (feed_ops evs))"
    "card (inscribed ?P (feed_ops evs)) \<le> n"
    using card by (simp_all add: card_Diff_subset finite_subset) (metis List.finite_set card_mono)
  then have obs: "n - card (?P - inscribed ?P (feed_ops evs)) = card (inscribed ?P (feed_ops evs))" by simp
  have sat: "saturating_mul blob_rate (max (length (feed_blocks run_evs)) 1)
      = blob_rate * max (length (feed_blocks run_evs)) 1"
    using assms(5) by (simp add: saturating_mul_def u64_max_def)
  obtain c' where c': "dx_capture (da_observe run_evs evs x) = Some c'" "dc_planned c' = ?P"
    "dc_inscriptions c' = inscribed ?P (feed_ops evs)" "dc_run_blocks c' = length (feed_blocks run_evs)"
    "sum_list (map snd (dc_blobs c')) = length (planned_blobs ?P (feed_ops evs))"
    using x(1) blocks loop by (simp add: da_observe_def) (simp add: c_def)
  have "dx_blob_rate (da_observe run_evs evs x) = blob_rate" using x(2) by (simp add: da_observe_def)
  then show ?thesis using assms(3,5)
    by (simp add: da_evaluate_def c' card obs sat missing_channels_def required_share_four_fifths Let_def not_less
        sat [unfolded One_nat_def])
qed

definition channel_tx :: "op list \<Rightarrow> signed_mantle_tx" where
  "channel_tx os = \<lparr>signed_tx = \<lparr>tx_ops = os, tx_ledger = \<lparr>ledger_inputs = [], ledger_outputs = []\<rparr>,
     tx_execution_gas_price = 0, tx_storage_gas_price = 0\<rparr>, signed_ops_proofs = [], signed_ledger_proof = 0\<rparr>"

definition sample_feed :: "channel_id \<Rightarrow> feed_event list" where
  "sample_feed c =
     [FeedBlock \<lparr>block_parent = [1], block_transactions = [channel_tx [OtherOp, ChannelInscribe
        \<lparr>ins_channel_id = c, ins_inscription = [], ins_parent = [], ins_signer = []\<rparr>]]\<rparr>, FeedLagged 1,
      FeedBlock \<lparr>block_parent = [2], block_transactions = [channel_tx [ChannelBlob
        \<lparr>blob_channel = c, blob_parent = c, blob_blob = [9]\<rparr>]]\<rparr>]"

theorem channel_flow_chain_witness:
  "\<exists>os. run_channel_flow ins_channel_id blob_blob (\<lambda>c. Inr ()) (\<lambda>i p. Inr [9]) (sample_feed [7]) [7] 1 = Some (Inr os)
     \<and> length os = 1 \<and> chained blob_blob [7] [7] os"
proof -
  have r: "run_channel_flow ins_channel_id blob_blob (\<lambda>c. Inr ()) (\<lambda>i p. Inr [9]) (sample_feed [7]) [7] 1
    = Some (Inr [\<lparr>blob_channel = [7], blob_parent = [7], blob_blob = [9]\<rparr>])"
    by (simp add: run_channel_flow_def sample_feed_def channel_tx_def wait_for_inscription_def
        inscription_matcher_def find_channel_op_def blob_matcher_def)
  from channel_flow_chain [OF r] r show ?thesis by auto
qed

theorem da_expectation_accepts_iff_witness:
  "\<exists>x. da_start_capture minute_metrics (da_expectation_new 1 1 0) = Inr x
     \<and> da_evaluate (da_observe [] (sample_feed (deterministic_channel_id 0)) x) = Inr ()"
proof -
  let ?d = "deterministic_channel_id 0"
  obtain x where x: "da_start_capture minute_metrics (da_expectation_new 1 1 0) = Inr x"
    by (simp add: da_start_capture_def da_expectation_new_def planned_channel_count_def usize_add_def
        saturating_mul_def saturating_add_def usize_max_def u64_max_def)
  have n: "planned_channel_count 1 0 = Inr 1"
    by (simp add: planned_channel_count_def usize_add_def saturating_mul_def saturating_add_def usize_max_def u64_max_def)
  have "inscribed {?d} (feed_ops (sample_feed ?d)) = {?d}" "length (planned_blobs {?d} (feed_ops (sample_feed ?d))) = 1"
    by (auto simp: inscribed_def planned_blobs_def sample_feed_def channel_tx_def feed_ops_def block_ops_def)
  then show ?thesis
    using x da_expectation_accepts_iff [OF x n, of "[]" "sample_feed ?d"]
    by (auto simp: Let_def planned_channel_ids_def)
qed

end
