(* ===== verification/Cfgsync_Config.thy ===== *)
theory Cfgsync_Config
  imports Topology_Config "HOL-Library.Product_Lexorder"
begin

text \<open>
  The configurations a cfgsync server hands out: \<open>tools/cfgsync/src/host.rs\<close>,
  \<open>config/validation.rs\<close>, \<open>config/providers.rs\<close>, \<open>config/kms.rs\<close>, \<open>config/builder.rs\<close>,
  \<open>network/address.rs\<close>, \<open>network/peers.rs\<close> and the parameter conversions of \<open>server.rs\<close>.

  An \<open>Ipv4Addr\<close> is its dotted form. How a \<open>PeerId\<close> is displayed is the parameter \<open>show_peer\<close>. The
  hosts come out of a hash map: their order is arbitrary and they are pairwise different.
\<close>

section \<open>Hosts\<close>

datatype host_kind = HostValidator | HostExecutor

record host =
  h_kind :: host_kind
  h_ip :: string
  h_identifier :: string
  h_network_port :: nat
  h_da_network_port :: nat
  h_blend_port :: nat
  h_api_port :: nat
  h_testing_http_port :: nat

record port_overrides =
  po_network_port :: "nat option"
  po_da_network_port :: "nat option"
  po_blend_port :: "nat option"
  po_api_port :: "nat option"
  po_testing_http_port :: "nat option"

definition default_libp2p_network_port :: nat where "default_libp2p_network_port = 3000"
definition default_da_network_port :: nat where "default_da_network_port = 3300"
definition default_blend_port :: nat where "default_blend_port = 3400"
definition default_api_port :: nat where "default_api_port = 18080"

definition from_parts :: "host_kind \<Rightarrow> string \<Rightarrow> string \<Rightarrow> port_overrides \<Rightarrow> host" where
  "from_parts kind ip identifier ports = \<lparr>h_kind = kind, h_ip = ip, h_identifier = identifier,
     h_network_port = unwrap_or default_libp2p_network_port (po_network_port ports),
     h_da_network_port = unwrap_or default_da_network_port (po_da_network_port ports),
     h_blend_port = unwrap_or default_blend_port (po_blend_port ports),
     h_api_port = unwrap_or default_api_port (po_api_port ports),
     h_testing_http_port = unwrap_or (default_api_port + 1) (po_testing_http_port ports)\<rparr>"

definition validator_from_ip :: "string \<Rightarrow> string \<Rightarrow> port_overrides \<Rightarrow> host" where
  "validator_from_ip = from_parts HostValidator"

definition executor_from_ip :: "string \<Rightarrow> string \<Rightarrow> port_overrides \<Rightarrow> host" where
  "executor_from_ip = from_parts HostExecutor"

text \<open>Kinds are ordered by the rank the sort key gives them.\<close>

fun kind_rank :: "host_kind \<Rightarrow> nat" where
  "kind_rank HostValidator = 0"
| "kind_rank HostExecutor = 1"

instantiation host_kind :: linorder
begin

definition less_eq_host_kind :: "host_kind \<Rightarrow> host_kind \<Rightarrow> bool" where
  "less_eq_host_kind a b \<longleftrightarrow> kind_rank a \<le> kind_rank b"

definition less_host_kind :: "host_kind \<Rightarrow> host_kind \<Rightarrow> bool" where
  "less_host_kind a b \<longleftrightarrow> kind_rank a < kind_rank b"

instance
proof
  fix a b :: host_kind
  show "a \<le> b \<Longrightarrow> b \<le> a \<Longrightarrow> a = b" by (cases a; cases b) (auto simp: less_eq_host_kind_def)
qed (auto simp: less_eq_host_kind_def less_host_kind_def)

end

text \<open>\<open>rsplit('-').next()\<close>: what follows the last dash, the whole name if there is none.\<close>

definition after_last_dash :: "string \<Rightarrow> string" where
  "after_last_dash s = rev (takeWhile (\<lambda>c. c \<noteq> CHR ''-'') (rev s))"

definition host_index :: "host \<Rightarrow> nat" where
  "host_index h = unwrap_or 0 (parse_usize (after_last_dash (h_identifier h)))"

text \<open>\<open>sort_by_key\<close> is stable, as \<^const>\<open>sort_key\<close> is.\<close>

definition sort_hosts :: "host list \<Rightarrow> host list" where
  "sort_hosts hosts = sort_key (\<lambda>h. (h_kind h, host_index h)) hosts"

section \<open>Validation\<close>

datatype validation_error =
  HostCountMismatch nat nat | IdCountMismatch nat nat | DaPortCountMismatch nat nat | BlendPortCountMismatch nat nat

definition check_count :: "(nat \<Rightarrow> nat \<Rightarrow> validation_error) \<Rightarrow> 'a list option \<Rightarrow> nat \<Rightarrow> validation_error + unit" where
  "check_count err xs expected = (case xs of
     Some ys \<Rightarrow> if length ys \<noteq> expected then Inl (err (length ys) expected) else Inr () | None \<Rightarrow> Inr ())"

definition validate_inputs :: "host list \<Rightarrow> consensus_params \<Rightarrow> node_id list option \<Rightarrow> nat list option
    \<Rightarrow> nat list option \<Rightarrow> validation_error + unit" where
  "validate_inputs hosts params ids da_ports blend_ports =
     (let expected = n_participants params in
      if length hosts \<noteq> expected then Inl (HostCountMismatch (length hosts) expected)
      else case check_count IdCountMismatch ids expected of Inl e \<Rightarrow> Inl e
      | Inr _ \<Rightarrow> (case check_count DaPortCountMismatch da_ports expected of Inl e \<Rightarrow> Inl e
      | Inr _ \<Rightarrow> check_count BlendPortCountMismatch blend_ports expected))"

section \<open>Initial peers\<close>

definition extract_udp_port :: "multiaddr \<Rightarrow> nat option" where
  "extract_udp_port addr = find_map (\<lambda>p. case p of Udp port \<Rightarrow> Some port | _ \<Rightarrow> None) addr"

definition find_matching_host :: "multiaddr \<Rightarrow> nat list \<Rightarrow> nat option" where
  "find_matching_host addr original_ports =
     Option.bind (extract_udp_port addr) (\<lambda>port. position (\<lambda>c. c = port) original_ports)"

definition peer_addr :: "('p \<Rightarrow> string) \<Rightarrow> host \<Rightarrow> 'p \<Rightarrow> multiaddr" where
  "peer_addr show_peer h p = [Ip4 (h_ip h), Udp (h_network_port h), QuicV1, P2p (show_peer p)]"

definition rewrite_initial_peers :: "('p \<Rightarrow> string) \<Rightarrow> multiaddr list list \<Rightarrow> nat list \<Rightarrow> host list \<Rightarrow> 'p list
    \<Rightarrow> multiaddr list list rust" where
  "rewrite_initial_peers show_peer templates original_ports hosts peer_ids =
     try_map (\<lambda>(node_idx, peers).
       try_map (\<lambda>j. rbind (index_checked hosts j) (\<lambda>h. rbind (index_checked peer_ids j) (\<lambda>p.
                  Inr (peer_addr show_peer h p))))
         (filter (\<lambda>j. j \<noteq> node_idx) (filter_map (\<lambda>a. find_matching_host a original_ports) peers)))
       (enumerate 0 templates)"

section \<open>Providers and keys\<close>

definition cfgsync_da_provider :: "host \<Rightarrow> 'p general_da_config \<Rightarrow> service_note \<Rightarrow> provider_info" where
  "cfgsync_da_provider h da n = \<lparr>pi_service_type = DataAvailability, pi_provider_sk = dc_signer da,
     pi_zk_sk = dc_secret_zk_key da, pi_locator = quic_addr (h_ip h) (h_da_network_port h), pi_note = n\<rparr>"

definition cfgsync_blend_provider :: "host \<Rightarrow> blend_config \<Rightarrow> service_note \<Rightarrow> provider_info" where
  "cfgsync_blend_provider h b n = \<lparr>pi_service_type = BlendNetwork, pi_provider_sk = bc_signer b,
     pi_zk_sk = bc_secret_zk_key b, pi_locator = quic_addr (h_ip h) (h_blend_port h), pi_note = n\<rparr>"

definition create_providers :: "host list \<Rightarrow> general_consensus_config list \<Rightarrow> blend_config list
    \<Rightarrow> 'p general_da_config list \<Rightarrow> provider_info list rust" where
  "create_providers hosts cs blends das =
     rbind (try_map (\<lambda>(i, da). rbind (index_checked hosts i) (\<lambda>h. rbind (index_checked cs 0) (\<lambda>c0.
              rbind (index_checked (cc_da_notes c0) i) (\<lambda>n. Inr (cfgsync_da_provider h da n))))) (enumerate 0 das)) (\<lambda>ps.
     rbind (try_map (\<lambda>(i, b). rbind (index_checked hosts i) (\<lambda>h. rbind (index_checked cs 0) (\<lambda>c0.
              rbind (index_checked (cc_blend_notes c0) i) (\<lambda>n. Inr (cfgsync_blend_provider h b n))))) (enumerate 0 blends)) (\<lambda>qs.
       Inr (ps @ qs)))"

text \<open>The four service keys of a node, without wallet keys.\<close>

definition cfgsync_kms_configs :: "'p topology_env \<Rightarrow> blend_config list \<Rightarrow> 'p general_da_config list
    \<Rightarrow> (string \<rightharpoonup> kms_key) list" where
  "cfgsync_kms_configs te blends das = map (\<lambda>(da, blend).
     let cr = te_crypto te in
     [te_ed_key_id te (ed_public_key cr (bc_signer blend)) \<mapsto> KeyEd25519 (bc_signer blend),
      te_zk_key_id te (zk_public cr (bc_secret_zk_key blend)) \<mapsto> KeyZk (bc_secret_zk_key blend),
      te_ed_key_id te (ed_public_key cr (dc_signer da)) \<mapsto> KeyEd25519 (dc_signer da),
      te_zk_key_id te (zk_public cr (dc_secret_zk_key da)) \<mapsto> KeyZk (dc_secret_zk_key da)]) (zip das blends)"

section \<open>The builder\<close>

definition generate_ids :: "'p topology_env \<Rightarrow> nat \<Rightarrow> node_id list option \<Rightarrow> node_id list" where
  "generate_ids te n ids = (case ids of Some xs \<Rightarrow> xs | None \<Rightarrow> map (te_random_id te) [0..<n])"

definition resolve_da_ports :: "'p topology_env \<Rightarrow> nat \<Rightarrow> nat list option \<Rightarrow> nat list rust" where
  "resolve_da_ports te n ports = (case ports of Some ps \<Rightarrow> Inr ps
     | None \<Rightarrow> try_map (\<lambda>i. unwrap_port (te_da_port te i)) [0..<n])"

definition resolve_blend_ports :: "host list \<Rightarrow> nat list option \<Rightarrow> nat list" where
  "resolve_blend_ports hosts ports = (case ports of Some ps \<Rightarrow> ps | None \<Rightarrow> map h_blend_port hosts)"

definition build_api_configs :: "host list \<Rightarrow> api_config list" where
  "build_api_configs hosts = map (\<lambda>h. \<lparr>ac_address_port = h_api_port h, ac_testing_http_port = h_testing_http_port h\<rparr>) hosts"

definition build_peer_ids :: "'p topology_env \<Rightarrow> node_id list \<Rightarrow> 'p list" where
  "build_peer_ids te ids = map (peer_of (te_da te)) ids"

record 'p base_configs =
  bb_consensus :: "general_consensus_config list"
  bb_bootstrap :: "duration list"
  bb_da :: "'p general_da_config list"
  bb_network :: "network_config list"
  bb_blend :: "blend_config list"

definition build_base_configs :: "'p::linorder topology_env \<Rightarrow> consensus_params \<Rightarrow> da_params \<Rightarrow> wallet_config
    \<Rightarrow> node_id list \<Rightarrow> nat list \<Rightarrow> nat list \<Rightarrow> 'p base_configs rust" where
  "build_base_configs te params da wallet ids da_ports blend_ports =
     rbind (create_consensus_configs (te_crypto te) ids params wallet) (\<lambda>cs.
     rbind (create_da_configs (te_da te) ids da da_ports) (\<lambda>das.
     rbind (create_network_configs te ids network_params_default) (\<lambda>nets.
       Inr \<lparr>bb_consensus = cs, bb_bootstrap = create_bootstrap_configs ids short_prolonged_bootstrap_period,
            bb_da = das, bb_network = nets, bb_blend = create_blend_configs (te_crypto te) ids blend_ports\<rparr>)))"

text \<open>One host of the final loop.\<close>

definition host_config :: "'p topology_env \<Rightarrow> tracing_settings \<Rightarrow> 'p base_configs \<Rightarrow> api_config list
    \<Rightarrow> multiaddr list list \<Rightarrow> (string \<rightharpoonup> kms_key) list \<Rightarrow> nat \<times> host \<Rightarrow> (host \<times> 'p general_config) rust" where
  "host_config te tracing base apis init_peers kms = (\<lambda>(i, h).
     rbind (index_checked (bb_consensus base) i) (\<lambda>c. rbind (index_checked apis i) (\<lambda>api.
     rbind (index_checked (bb_da base) i) (\<lambda>da. rbind (index_checked (bb_network base) i) (\<lambda>net.
     rbind (index_checked init_peers i) (\<lambda>peers. rbind (index_checked (bb_blend base) i) (\<lambda>blend.
     rbind (default_time_config (te_now te) (te_env te)) (\<lambda>time.
     rbind (index_checked (bb_bootstrap base) i) (\<lambda>b. rbind (index_checked kms i) (\<lambda>k.
     let da1 = da\<lparr>dc_listening_address := quic_addr ''0.0.0.0'' (h_da_network_port h)\<rparr>;
         da2 = (if h_kind h = HostValidator
                then da1\<lparr>dc_policy_settings := (dc_policy_settings da1)\<lparr>min_dispersal_peers := 0\<rparr>\<rparr> else da1);
         net1 = net\<lparr>nc_host := ''0.0.0.0'', nc_port := h_network_port h, nc_initial_peers := peers,
                    nc_nat_external := Some (quic_addr (h_ip h) (h_network_port h))\<rparr>;
         blend1 = blend\<lparr>bc_listening_address := quic_addr ''0.0.0.0'' (h_blend_port h)\<rparr> in
       Inr (h, \<lparr>gc_consensus = c, gc_bootstrap = b, gc_da = da2, gc_network = net1, gc_blend = blend1,
            gc_api = api, gc_tracing = update_tracing_identifier tracing (h_identifier h),
            gc_time = time, gc_kms = k\<rparr>)))))))))))"

definition create_node_configs ::
  "'p::linorder topology_env \<Rightarrow> ('p \<Rightarrow> string) \<Rightarrow> consensus_params \<Rightarrow> da_params \<Rightarrow> tracing_settings \<Rightarrow> wallet_config
   \<Rightarrow> node_id list option \<Rightarrow> nat list option \<Rightarrow> nat list option \<Rightarrow> host list \<Rightarrow> (host \<rightharpoonup> 'p general_config) rust" where
  "create_node_configs te show_peer params da tracing wallet ids da_ports blend_ports hosts0 =
    (let hosts = sort_hosts hosts0 in
     case validate_inputs hosts params ids da_ports blend_ports of
       Inl e \<Rightarrow> Inl ''invalid cfgsync inputs''
     | Inr _ \<Rightarrow>
       (let ids = generate_ids te (n_participants params) ids in
        rbind (resolve_da_ports te (n_participants params) da_ports) (\<lambda>ports.
        let blend_ports = resolve_blend_ports hosts blend_ports in
        rbind (build_base_configs te params da wallet ids ports blend_ports) (\<lambda>base.
        let apis = build_api_configs hosts;
            templates = map nc_initial_peers (bb_network base);
            original_ports = map nc_port (bb_network base) in
        rbind (rewrite_initial_peers show_peer templates original_ports hosts (build_peer_ids te ids)) (\<lambda>init_peers.
        rbind (create_providers hosts (bb_consensus base) (bb_blend base) (bb_da base)) (\<lambda>providers.
        rbind (index_checked (bb_consensus base) 0) (\<lambda>c0.
        rbind (create_genesis_tx_with_declarations (te_crypto te) (tx_ledger (signed_tx (cc_genesis_tx c0))) providers) (\<lambda>genesis.
        let base1 = base\<lparr>bb_consensus := map (\<lambda>c. c\<lparr>cc_genesis_tx := genesis\<rparr>) (bb_consensus base)\<rparr>;
            kms = cfgsync_kms_configs te (bb_blend base) (bb_da base) in
        rbind (try_map (host_config te tracing base1 apis init_peers kms) (enumerate 0 hosts)) (\<lambda>entries.
          Inr (map_of (rev entries)))))))))))"

section \<open>The order of the hosts\<close>

lemma sort_hosts_set [simp]: "set (sort_hosts hosts) = set hosts" "length (sort_hosts hosts) = length hosts"
  "mset (sort_hosts hosts) = mset hosts" "distinct (sort_hosts hosts) = distinct hosts"
  by (simp_all add: sort_hosts_def)

lemma host_index_numbered:
  assumes "n \<le> usize_max" and "h_identifier h = prefix @ ''-'' @ show_nat n"
  shows "host_index h = n"
proof -
  have "CHR ''-'' \<notin> set (show_nat n)"
  proof
    assume "CHR ''-'' \<in> set (show_nat n)"
    then obtain d where "d < 10" "CHR ''-'' = digit_char d" using set_show_nat by blast
    then show False using digit_char_neq [of d "CHR ''-''"] by simp
  qed
  then have "takeWhile (\<lambda>c. c \<noteq> CHR ''-'') (rev (show_nat n) @ CHR ''-'' # rev prefix) = rev (show_nat n)"
    by (subst takeWhile_append2) auto
  then have "after_last_dash (h_identifier h) = show_nat n" by (simp add: after_last_dash_def assms(2))
  then show ?thesis by (simp add: host_index_def parse_show_usize [OF assms(1)] unwrap_or_def)
qed

text \<open>
  The configurations do not depend on the order in which hosts announce themselves: when the hosts
  have different kinds or numbers, sorting any arrangement of them gives the same list, all validators
  before all executors and each group by increasing number, where the number of a host called
  \<open>name-k\<close> is \<open>k\<close>.
\<close>

theorem host_order_deterministic:
  assumes "mset hosts' = mset hosts" and "inj_on (\<lambda>h. (h_kind h, host_index h)) (set hosts)" and "distinct hosts"
  shows "sort_hosts hosts' = sort_hosts hosts
    \<and> (\<forall>i j. i < j \<and> j < length hosts \<longrightarrow> (let a = sort_hosts hosts ! i; b = sort_hosts hosts ! j in
         h_kind a < h_kind b \<or> (h_kind a = h_kind b \<and> host_index a < host_index b)))
    \<and> (\<forall>h \<in> set hosts. \<forall>name k. h_identifier h = name @ ''-'' @ show_nat k \<and> k \<le> usize_max \<longrightarrow> host_index h = k)"
proof (intro conjI allI impI)
  let ?f = "\<lambda>h. (h_kind h, host_index h)"
  have "set hosts' = set hosts" using assms(1) by (metis set_mset_mset)
  then show "sort_hosts hosts' = sort_hosts hosts"
    unfolding sort_hosts_def using assms(1,2) by (intro sort_key_inj_key_eq) simp_all
  fix i j assume ij: "i < j \<and> j < length hosts"
  let ?a = "sort_hosts hosts ! i" and ?b = "sort_hosts hosts ! j"
  have "sorted (map ?f (sort_hosts hosts))" by (simp add: sort_hosts_def)
  then have le: "?f ?a \<le> ?f ?b" using ij sorted_nth_mono [of "map ?f (sort_hosts hosts)" i j] by simp
  have "distinct (map ?f (sort_hosts hosts))" using assms(2,3) by (simp add: distinct_map)
  then have "?f ?a \<noteq> ?f ?b" using ij nth_eq_iff_index_eq [of "map ?f (sort_hosts hosts)" i j] by simp
  with le show "let a = ?a; b = ?b in h_kind a < h_kind b \<or> (h_kind a = h_kind b \<and> host_index a < host_index b)"
    by (auto simp: Let_def)
next
  show "\<forall>h \<in> set hosts. \<forall>name k. h_identifier h = name @ ''-'' @ show_nat k \<and> k \<le> usize_max \<longrightarrow> host_index h = k"
    using host_index_numbered by blast
qed

definition no_overrides :: port_overrides where
  "no_overrides = \<lparr>po_network_port = None, po_da_network_port = None, po_blend_port = None, po_api_port = None,
     po_testing_http_port = None\<rparr>"

definition sample_hosts :: "host list" where
  "sample_hosts = [executor_from_ip ''10.0.0.2'' ''executor-0'' no_overrides,
     validator_from_ip ''10.0.0.1'' ''validator-0'' no_overrides]"

lemma sample_hosts_facts:
  "distinct sample_hosts" "inj_on (\<lambda>h. (h_kind h, host_index h)) (set sample_hosts)" "length sample_hosts = 2"
  by (simp_all add: sample_hosts_def validator_from_ip_def executor_from_ip_def from_parts_def)

theorem host_order_deterministic_witness:
  "sort_hosts (rev sample_hosts) = sort_hosts sample_hosts"
  using host_order_deterministic [of "rev sample_hosts" sample_hosts] sample_hosts_facts by simp

section \<open>When the server can build configurations\<close>

lemma validate_inputs_ok:
  "validate_inputs hosts params ids dps bps = Inr () \<longleftrightarrow>
     length hosts = n_participants params \<and> (\<forall>xs. ids = Some xs \<longrightarrow> length xs = n_participants params)
     \<and> (\<forall>xs. dps = Some xs \<longrightarrow> length xs = n_participants params)
     \<and> (\<forall>xs. bps = Some xs \<longrightarrow> length xs = n_participants params)"
  by (auto simp: validate_inputs_def check_count_def Let_def split: option.splits)

lemma create_node_configs_cases:
  assumes "create_node_configs te show_peer params da tracing wallet ids dps bps hosts0 = Inr m"
  obtains ports cs das nets init_peers providers genesis entries where
    "validate_inputs (sort_hosts hosts0) params ids dps bps = Inr ()"
    "resolve_da_ports te (n_participants params) dps = Inr ports"
    "create_consensus_configs (te_crypto te) (generate_ids te (n_participants params) ids) params wallet = Inr cs"
    "create_da_configs (te_da te) (generate_ids te (n_participants params) ids) da ports = Inr das"
    "create_network_configs te (generate_ids te (n_participants params) ids) network_params_default = Inr nets"
    "rewrite_initial_peers show_peer (map nc_initial_peers nets) (map nc_port nets) (sort_hosts hosts0)
       (build_peer_ids te (generate_ids te (n_participants params) ids)) = Inr init_peers"
    "create_providers (sort_hosts hosts0) cs (create_blend_configs (te_crypto te)
       (generate_ids te (n_participants params) ids) (resolve_blend_ports (sort_hosts hosts0) bps)) das = Inr providers"
    "0 < length cs"
    "create_genesis_tx_with_declarations (te_crypto te) (tx_ledger (signed_tx (cc_genesis_tx (cs ! 0)))) providers = Inr genesis"
    "try_map (host_config te tracing \<lparr>bb_consensus = map (\<lambda>c. c\<lparr>cc_genesis_tx := genesis\<rparr>) cs,
        bb_bootstrap = create_bootstrap_configs (generate_ids te (n_participants params) ids) short_prolonged_bootstrap_period,
        bb_da = das, bb_network = nets, bb_blend = create_blend_configs (te_crypto te)
          (generate_ids te (n_participants params) ids) (resolve_blend_ports (sort_hosts hosts0) bps)\<rparr>
        (build_api_configs (sort_hosts hosts0)) init_peers
        (cfgsync_kms_configs te (create_blend_configs (te_crypto te)
          (generate_ids te (n_participants params) ids) (resolve_blend_ports (sort_hosts hosts0) bps)) das))
       (enumerate 0 (sort_hosts hosts0)) = Inr entries"
    "m = map_of (rev entries)"
proof -
  have v: "validate_inputs (sort_hosts hosts0) params ids dps bps = Inr ()"
    using assms by (auto simp: create_node_configs_def Let_def split: sum.splits)
  note a = assms [unfolded create_node_configs_def Let_def v sum.case rbind_Inr_iff]
  from a obtain ports base init_peers providers genesis entries c0 where
    p: "resolve_da_ports te (n_participants params) dps = Inr ports"
    and b: "build_base_configs te params da wallet (generate_ids te (n_participants params) ids) ports
       (resolve_blend_ports (sort_hosts hosts0) bps) = Inr base"
    and r: "rewrite_initial_peers show_peer (map nc_initial_peers (bb_network base)) (map nc_port (bb_network base))
       (sort_hosts hosts0) (build_peer_ids te (generate_ids te (n_participants params) ids)) = Inr init_peers"
      "create_providers (sort_hosts hosts0) (bb_consensus base) (bb_blend base) (bb_da base) = Inr providers"
      "index_checked (bb_consensus base) 0 = Inr c0"
      "create_genesis_tx_with_declarations (te_crypto te) (tx_ledger (signed_tx (cc_genesis_tx c0))) providers = Inr genesis"
      "try_map (host_config te tracing (base\<lparr>bb_consensus := map (\<lambda>c. c\<lparr>cc_genesis_tx := genesis\<rparr>) (bb_consensus base)\<rparr>)
        (build_api_configs (sort_hosts hosts0)) init_peers (cfgsync_kms_configs te (bb_blend base) (bb_da base)))
       (enumerate 0 (sort_hosts hosts0)) = Inr entries" "Inr (map_of (rev entries)) = (Inr m :: _ rust)"
    by (elim exE conjE) (rule that; assumption)
  from b obtain cs das nets where
    c: "create_consensus_configs (te_crypto te) (generate_ids te (n_participants params) ids) params wallet = Inr cs"
      "create_da_configs (te_da te) (generate_ids te (n_participants params) ids) da ports = Inr das"
      "create_network_configs te (generate_ids te (n_participants params) ids) network_params_default = Inr nets"
    and base: "base = \<lparr>bb_consensus = cs, bb_bootstrap = create_bootstrap_configs (generate_ids te (n_participants params) ids)
          short_prolonged_bootstrap_period, bb_da = das, bb_network = nets, bb_blend = create_blend_configs (te_crypto te)
          (generate_ids te (n_participants params) ids) (resolve_blend_ports (sort_hosts hosts0) bps)\<rparr>"
    by (auto simp: build_base_configs_def rbind_Inr_iff)
  have c0: "0 < length cs" "c0 = cs ! 0" using r(3) by (simp_all add: base)
  have m: "m = map_of (rev entries)" using r(6) by simp
  note r' = r(1,2,4,5) [unfolded base base_configs.simps c0(2)]
  show ?thesis by (rule that [OF v p c r'(1,2) c0(1) r'(3,4) m])
qed

section \<open>What a host is configured with\<close>

lemma host_config_fields:
  assumes "host_config te tracing base apis init_peers kms (i, h) = Inr (h', g)"
  shows "h' = h" and "i < length (bb_consensus base)" "i < length (bb_da base)" "i < length (bb_blend base)"
    and "gc_consensus g = bb_consensus base ! i" and "gc_api g = apis ! i" and "gc_kms g = kms ! i"
    and "gc_network g = (bb_network base ! i)\<lparr>nc_host := ''0.0.0.0'', nc_port := h_network_port h,
       nc_initial_peers := init_peers ! i, nc_nat_external := Some (quic_addr (h_ip h) (h_network_port h))\<rparr>"
    and "gc_blend g = (bb_blend base ! i)\<lparr>bc_listening_address := quic_addr ''0.0.0.0'' (h_blend_port h)\<rparr>"
    and "dc_listening_address (gc_da g) = quic_addr ''0.0.0.0'' (h_da_network_port h)"
    and "dc_signer (gc_da g) = dc_signer (bb_da base ! i)" and "dc_secret_zk_key (gc_da g) = dc_secret_zk_key (bb_da base ! i)"
    and "dc_membership (gc_da g) = dc_membership (bb_da base ! i)"
    and "min_dispersal_peers (dc_policy_settings (gc_da g))
       = (if h_kind h = HostValidator then 0 else min_dispersal_peers (dc_policy_settings (bb_da base ! i)))"
    and "gc_tracing g = update_tracing_identifier tracing (h_identifier h)"
proof -
  obtain time where *: "i < length (bb_consensus base)" "i < length (bb_da base)" "i < length (bb_blend base)"
    and r: "(h', g) = (h, \<lparr>gc_consensus = bb_consensus base ! i, gc_bootstrap = bb_bootstrap base ! i,
      gc_da = (let da1 = (bb_da base ! i)\<lparr>dc_listening_address := quic_addr ''0.0.0.0'' (h_da_network_port h)\<rparr> in
        if h_kind h = HostValidator
        then da1\<lparr>dc_policy_settings := (dc_policy_settings da1)\<lparr>min_dispersal_peers := 0\<rparr>\<rparr> else da1),
      gc_network = (bb_network base ! i)\<lparr>nc_host := ''0.0.0.0'', nc_port := h_network_port h,
        nc_initial_peers := init_peers ! i, nc_nat_external := Some (quic_addr (h_ip h) (h_network_port h))\<rparr>,
      gc_blend = (bb_blend base ! i)\<lparr>bc_listening_address := quic_addr ''0.0.0.0'' (h_blend_port h)\<rparr>,
      gc_api = apis ! i, gc_tracing = update_tracing_identifier tracing (h_identifier h), gc_time = time,
      gc_kms = kms ! i\<rparr>)"
    using assms unfolding host_config_def Let_def prod.case rbind_Inr_iff index_checked_Inr_iff sum.inject
    by blast
  from r show "h' = h" and "gc_consensus g = bb_consensus base ! i" and "gc_api g = apis ! i" and "gc_kms g = kms ! i"
    and "gc_network g = (bb_network base ! i)\<lparr>nc_host := ''0.0.0.0'', nc_port := h_network_port h,
       nc_initial_peers := init_peers ! i, nc_nat_external := Some (quic_addr (h_ip h) (h_network_port h))\<rparr>"
    and "gc_blend g = (bb_blend base ! i)\<lparr>bc_listening_address := quic_addr ''0.0.0.0'' (h_blend_port h)\<rparr>"
    and "dc_listening_address (gc_da g) = quic_addr ''0.0.0.0'' (h_da_network_port h)"
    and "dc_signer (gc_da g) = dc_signer (bb_da base ! i)" and "dc_secret_zk_key (gc_da g) = dc_secret_zk_key (bb_da base ! i)"
    and "dc_membership (gc_da g) = dc_membership (bb_da base ! i)"
    and "min_dispersal_peers (dc_policy_settings (gc_da g))
       = (if h_kind h = HostValidator then 0 else min_dispersal_peers (dc_policy_settings (bb_da base ! i)))"
    and "gc_tracing g = update_tracing_identifier tracing (h_identifier h)"
    by (simp_all add: Let_def)
  from * show "i < length (bb_consensus base)" "i < length (bb_da base)" "i < length (bb_blend base)" .
qed

lemma map_of_indexed:
  assumes "list_all2 (\<lambda>x y. f x = Inr y) (enumerate 0 hs) entries" and "\<forall>i h k v. f (i, h) = Inr (k, v) \<longrightarrow> k = h"
    and "distinct hs"
  shows "dom (map_of (rev entries)) = set hs"
    and "\<And>i. i < length hs \<Longrightarrow> \<exists>v. map_of (rev entries) (hs ! i) = Some v \<and> f (i, hs ! i) = Inr (hs ! i, v)"
proof -
  have len: "length entries = length hs" using list_all2_lengthD [OF assms(1)] by simp
  have nth: "f (i, hs ! i) = Inr (entries ! i)" if "i < length hs" for i
    using list_all2_nthD [OF assms(1), of i] that by (simp add: nth_enumerate_eq)
  have "fst (entries ! i) = hs ! i" if "i < length hs" for i
    using nth [OF that] assms(2) by (metis prod.collapse)
  then have keys: "map fst entries = hs" using len by (intro nth_equalityI) simp_all
  then show "dom (map_of (rev entries)) = set hs" by (metis dom_map_of_conv_image_fst list.set_map set_rev)
  have dist: "distinct (map fst (rev entries))" using keys assms(3) by (metis distinct_rev rev_map)
  fix i assume i: "i < length hs"
  have e: "(hs ! i, snd (entries ! i)) = entries ! i" using keys i len by (metis nth_map prod.collapse)
  then have "(hs ! i, snd (entries ! i)) \<in> set (rev entries)" using i len by simp
  then have "map_of (rev entries) (hs ! i) = Some (snd (entries ! i))" by (rule map_of_is_SomeI [OF dist])
  then show "\<exists>v. map_of (rev entries) (hs ! i) = Some v \<and> f (i, hs ! i) = Inr (hs ! i, v)"
    using nth [OF i] e by simp
qed

lemma provider_index_loop:
  assumes "length xs = length hosts" "0 < length cs" "length (sel (cs ! 0)) = length hosts"
  shows "try_map (\<lambda>(i, x). rbind (index_checked hosts i) (\<lambda>h. rbind (index_checked cs 0) (\<lambda>c0.
      rbind (index_checked (sel c0) i) (\<lambda>n. Inr (g h x n))))) (enumerate 0 xs)
    = Inr (map (\<lambda>i. g (hosts ! i) (xs ! i) (sel (cs ! 0) ! i)) [0..<length hosts])"
proof -
  have "try_map (\<lambda>(i, x). rbind (index_checked hosts i) (\<lambda>h. rbind (index_checked cs 0) (\<lambda>c0.
      rbind (index_checked (sel c0) i) (\<lambda>n. Inr (g h x n))))) (enumerate 0 xs)
    = Inr (map (\<lambda>(i, x). g (hosts ! i) x (sel (cs ! 0) ! i)) (enumerate 0 xs))"
    using assms by (intro try_map_all_Inr) (auto simp: in_set_enumerate_eq index_checked_def)
  also have "map (\<lambda>(i, x). g (hosts ! i) x (sel (cs ! 0) ! i)) (enumerate 0 xs)
    = map (\<lambda>i. g (hosts ! i) (xs ! i) (sel (cs ! 0) ! i)) [0..<length hosts]"
    using assms(1) by (intro nth_equalityI) (simp_all add: nth_enumerate_eq)
  finally show ?thesis .
qed

lemma providers_eq:
  assumes "length das = length hosts" "length blends = length hosts" "0 < length cs"
    "length (cc_da_notes (cs ! 0)) = length hosts" "length (cc_blend_notes (cs ! 0)) = length hosts"
  shows "create_providers hosts cs blends das
    = Inr (map (\<lambda>i. cfgsync_da_provider (hosts ! i) (das ! i) (cc_da_notes (cs ! 0) ! i)) [0..<length hosts]
         @ map (\<lambda>i. cfgsync_blend_provider (hosts ! i) (blends ! i) (cc_blend_notes (cs ! 0) ! i)) [0..<length hosts])"
  by (simp add: create_providers_def provider_index_loop [where sel = cc_da_notes, OF assms(1,3,4)]
      provider_index_loop [where sel = cc_blend_notes, OF assms(2,3,5)])

lemma generated_ids_length:
  assumes "validate_inputs hosts params ids dps bps = Inr ()"
  shows "length (generate_ids te (n_participants params) ids) = length hosts"
  using assms by (auto simp: validate_inputs_ok generate_ids_def split: option.splits)

text \<open>The configuration of the host at a position of the sorted list.\<close>

definition base_of :: "'p topology_env \<Rightarrow> node_id list \<Rightarrow> nat list \<Rightarrow> signed_mantle_tx \<Rightarrow> general_consensus_config list
    \<Rightarrow> 'p general_da_config list \<Rightarrow> network_config list \<Rightarrow> 'p base_configs" where
  "base_of te ids blend_ports genesis cs das nets = \<lparr>bb_consensus = map (\<lambda>c. c\<lparr>cc_genesis_tx := genesis\<rparr>) cs,
     bb_bootstrap = create_bootstrap_configs ids short_prolonged_bootstrap_period, bb_da = das, bb_network = nets,
     bb_blend = create_blend_configs (te_crypto te) ids blend_ports\<rparr>"

lemma cfgsync_host_at:
  assumes "create_node_configs te show_peer params da tracing wallet ids dps bps hosts = Inr m" and "distinct hosts"
  obtains nids ports bports cs das nets init_peers providers genesis where
    "nids = generate_ids te (n_participants params) ids" "bports = resolve_blend_ports (sort_hosts hosts) bps"
    "validate_inputs (sort_hosts hosts) params ids dps bps = Inr ()"
    "create_consensus_configs (te_crypto te) nids params wallet = Inr cs"
    "create_da_configs (te_da te) nids da ports = Inr das"
    "create_network_configs te nids network_params_default = Inr nets"
    "rewrite_initial_peers show_peer (map nc_initial_peers nets) (map nc_port nets) (sort_hosts hosts)
       (build_peer_ids te nids) = Inr init_peers"
    "create_providers (sort_hosts hosts) cs (create_blend_configs (te_crypto te) nids bports) das = Inr providers"
    "0 < length cs"
    "create_genesis_tx_with_declarations (te_crypto te) (tx_ledger (signed_tx (cc_genesis_tx (cs ! 0)))) providers = Inr genesis"
    "dom m = set hosts"
    "\<And>i. i < length hosts \<Longrightarrow> \<exists>g. m (sort_hosts hosts ! i) = Some g
       \<and> host_config te tracing (base_of te nids bports genesis cs das nets) (build_api_configs (sort_hosts hosts)) init_peers
           (cfgsync_kms_configs te (create_blend_configs (te_crypto te) nids bports) das) (i, sort_hosts hosts ! i)
         = Inr (sort_hosts hosts ! i, g)"
  using assms(1)
proof (cases rule: create_node_configs_cases)
  case (1 ports cs das nets init_peers providers genesis entries)
  let ?hs = "sort_hosts hosts" and ?is = "generate_ids te (n_participants params) ids"
    and ?bps = "resolve_blend_ports (sort_hosts hosts) bps"
  define hc where "hc = host_config te tracing (base_of te ?is ?bps genesis cs das nets) (build_api_configs ?hs) init_peers
           (cfgsync_kms_configs te (create_blend_configs (te_crypto te) ?is ?bps) das)"
  have same: "\<forall>i h k v. hc (i, h) = Inr (k, v) \<longrightarrow> k = h" using host_config_fields(1) by (auto simp: hc_def)
  have l: "list_all2 (\<lambda>x y. hc x = Inr y) (enumerate 0 ?hs) entries"
    using 1(10) by (simp add: try_map_Inr_iff hc_def base_of_def)
  have d: "distinct ?hs" using assms(2) by simp
  note e = map_of_indexed [OF l same d]
  have "dom m = set hosts" using e(1) 1(11) by simp
  moreover have "\<exists>g. m (?hs ! i) = Some g \<and> hc (i, ?hs ! i) = Inr (?hs ! i, g)" if "i < length hosts" for i
    using e(2) that unfolding 1(11) sort_hosts_set(2) by blast
  ultimately show ?thesis unfolding hc_def using that [OF refl refl 1(1,3-9)] by blast
qed

text \<open>
  On success every announced host, and nobody else, has a configuration, and it is the one of that
  host: it listens on the host's own network, DA, Blend, API and testing ports, announces the host's own
  address, carries its identifier, and a validator needs no dispersal peers. All configurations share one
  genesis transaction.
\<close>

theorem cfgsync_configs_match_hosts:
  assumes "create_node_configs te show_peer params da tracing wallet ids dps bps hosts = Inr m" and "distinct hosts"
  shows "dom m = set hosts \<and> length hosts = n_participants params
    \<and> (\<exists>genesis. \<forall>h \<in> set hosts. \<exists>g. m h = Some g \<and> cc_genesis_tx (gc_consensus g) = genesis
         \<and> nc_port (gc_network g) = h_network_port h
         \<and> nc_nat_external (gc_network g) = Some (quic_addr (h_ip h) (h_network_port h))
         \<and> gc_api g = \<lparr>ac_address_port = h_api_port h, ac_testing_http_port = h_testing_http_port h\<rparr>
         \<and> dc_listening_address (gc_da g) = quic_addr ''0.0.0.0'' (h_da_network_port h)
         \<and> bc_listening_address (gc_blend g) = quic_addr ''0.0.0.0'' (h_blend_port h)
         \<and> gc_tracing g = update_tracing_identifier tracing (h_identifier h)
         \<and> (h_kind h = HostValidator \<longrightarrow> min_dispersal_peers (dc_policy_settings (gc_da g)) = 0))"
proof -
  let ?hs = "sort_hosts hosts"
  obtain nids ports bports cs das nets init_peers providers genesis where
    v: "validate_inputs ?hs params ids dps bps = Inr ()" and d: "dom m = set hosts"
    and at: "\<And>i. i < length hosts \<Longrightarrow> \<exists>g. m (?hs ! i) = Some g
       \<and> host_config te tracing (base_of te nids bports genesis cs das nets) (build_api_configs ?hs) init_peers
           (cfgsync_kms_configs te (create_blend_configs (te_crypto te) nids bports) das) (i, ?hs ! i) = Inr (?hs ! i, g)"
    using cfgsync_host_at [OF assms] by metis
  show ?thesis
  proof (intro conjI exI [of _ genesis] ballI)
    fix h assume "h \<in> set hosts"
    then have "h \<in> set ?hs" by simp
    then obtain i where i: "i < length hosts" "h = ?hs ! i"
      unfolding in_set_conv_nth by (metis sort_hosts_set(2))
    then obtain g where g: "m h = Some g" and c: "host_config te tracing (base_of te nids bports genesis cs das nets)
        (build_api_configs ?hs) init_peers
        (cfgsync_kms_configs te (create_blend_configs (te_crypto te) nids bports) das) (i, h) = Inr (h, g)"
      using at by blast
    note f = host_config_fields [OF c]
    show "\<exists>g. m h = Some g \<and> cc_genesis_tx (gc_consensus g) = genesis
         \<and> nc_port (gc_network g) = h_network_port h
         \<and> nc_nat_external (gc_network g) = Some (quic_addr (h_ip h) (h_network_port h))
         \<and> gc_api g = \<lparr>ac_address_port = h_api_port h, ac_testing_http_port = h_testing_http_port h\<rparr>
         \<and> dc_listening_address (gc_da g) = quic_addr ''0.0.0.0'' (h_da_network_port h)
         \<and> bc_listening_address (gc_blend g) = quic_addr ''0.0.0.0'' (h_blend_port h)
         \<and> gc_tracing g = update_tracing_identifier tracing (h_identifier h)
         \<and> (h_kind h = HostValidator \<longrightarrow> min_dispersal_peers (dc_policy_settings (gc_da g)) = 0)"
      using g f(2,5,6,8-10,14,15) i by (intro exI [of _ g]) (simp add: build_api_configs_def base_of_def)
  qed (use v d in \<open>auto simp: validate_inputs_ok\<close>)
qed

section \<open>When the server succeeds\<close>

lemma find_matching_host_lt: "find_matching_host a ports = Some j \<Longrightarrow> j < length ports"
  by (auto simp: find_matching_host_def position_Some_iff split: bind_splits)

text \<open>Every matched position is a host: the rewritten peers of node \<open>i\<close> are the hosts its template dials.\<close>

lemma rewrite_initial_peers_eq:
  assumes "length hosts = length ports" "length peer_ids = length ports"
  shows "rewrite_initial_peers show_peer templates ports hosts peer_ids
    = Inr (map (\<lambda>i. map (\<lambda>j. peer_addr show_peer (hosts ! j) (peer_ids ! j))
        (filter (\<lambda>j. j \<noteq> i) (filter_map (\<lambda>a. find_matching_host a ports) (templates ! i)))) [0..<length templates])"
proof -
  let ?js = "\<lambda>i peers. filter (\<lambda>j. j \<noteq> i) (filter_map (\<lambda>a. find_matching_host a ports) peers)"
  let ?addr = "\<lambda>j. peer_addr show_peer (hosts ! j) (peer_ids ! j)"
  have "try_map (\<lambda>j. rbind (index_checked hosts j) (\<lambda>h. rbind (index_checked peer_ids j) (\<lambda>p.
      Inr (peer_addr show_peer h p)))) (?js i peers) = Inr (map ?addr (?js i peers))" for i peers
    using assms by (intro try_map_all_Inr) (auto simp: set_filter_map index_checked_def dest: find_matching_host_lt)
  then have "rewrite_initial_peers show_peer templates ports hosts peer_ids
      = Inr (map (\<lambda>(i, peers). map ?addr (?js i peers)) (enumerate 0 templates))"
    unfolding rewrite_initial_peers_def by (intro try_map_all_Inr) auto
  also have "map (\<lambda>(i, peers). map ?addr (?js i peers)) (enumerate 0 templates)
      = map (\<lambda>i. map ?addr (?js i (templates ! i))) [0..<length templates]"
    by (intro nth_equalityI) (simp_all add: nth_enumerate_eq)
  finally show ?thesis .
qed

lemma create_node_configs_total:
  assumes env: "env_supplies te" and i32: "\<forall>xs. ids = Some xs \<longrightarrow> (\<forall>x \<in> set xs. length x = 32)"
    and v: "validate_inputs (sort_hosts hosts) params ids dps bps = Inr ()" and n0: "0 < n_participants params"
  shows "\<exists>m. create_node_configs te show_peer params da tracing wallet ids dps bps hosts = Inr m"
proof -
  let ?hs = "sort_hosts hosts" and ?n = "n_participants params"
  define nids where "nids = generate_ids te ?n ids"
  define bports where "bports = resolve_blend_ports ?hs bps"
  have n: "length hosts = ?n" "\<forall>xs. dps = Some xs \<longrightarrow> length xs = ?n" "\<forall>xs. bps = Some xs \<longrightarrow> length xs = ?n"
    using v by (simp_all add: validate_inputs_ok)
  have i: "length nids = ?n" "nids \<noteq> []" using generated_ids_length [OF v, of te] n(1) n0 by (auto simp: nids_def)
  have ids: "\<forall>x \<in> set nids. length x = 32"
    using i32 env by (auto simp: nids_def generate_ids_def env_supplies_def split: option.splits)
  have bl: "length bports = ?n" using n by (auto simp: bports_def resolve_blend_ports_def split: option.splits)
  have "\<exists>ports. resolve_da_ports te ?n dps = Inr ports \<and> length ports = ?n"
  proof (cases dps)
    case None
    obtain ps where "try_map (\<lambda>i. unwrap_port (te_da_port te i)) [0..<?n] = Inr ps"
      using try_map_total unwrap_port_total env unfolding env_supplies_def by meson
    then show ?thesis using None try_map_length by (fastforce simp: resolve_da_ports_def)
  qed (use n in \<open>simp add: resolve_da_ports_def\<close>)
  then obtain ports where ports: "resolve_da_ports te ?n dps = Inr ports" "length ports = ?n" by blast
  note len = service_configs_lengths [OF i(1) bl]
  have "\<And>tx. genesis_valid (te_crypto te) tx" using env by (simp add: env_supplies_def)
  then obtain cs where cs: "create_consensus_configs (te_crypto te) nids params wallet = Inr cs"
    using consensus_configs_total [OF ids] by blast
  note cl = consensus_notes_lengths [OF ids cs i(2)]
  obtain das where das: "create_da_configs (te_da te) nids da ports = Inr das" using len(4) [OF ports(2)] by blast
  obtain nets where nets: "create_network_configs te nids network_params_default = Inr nets" "length nets = ?n"
    using network_configs_total [of te nids network_params_default] env i by (auto simp: env_supplies_def)
  obtain peers where peers: "rewrite_initial_peers show_peer (map nc_initial_peers nets) (map nc_port nets) ?hs
      (build_peer_ids te nids) = Inr peers" "length peers = ?n"
    using rewrite_initial_peers_eq [of ?hs "map nc_port nets" "build_peer_ids te nids" show_peer "map nc_initial_peers nets"]
      n(1) nets(2) i(1) by (simp add: build_peer_ids_def)
  let ?bl = "create_blend_configs (te_crypto te) nids bports"
  obtain ps where ps: "create_providers ?hs cs ?bl das = Inr ps"
    using providers_eq [of das ?hs ?bl cs] len(1) len(3) [OF das] cl i n(1) n0 by auto
  obtain g where g: "create_genesis_tx_with_declarations (te_crypto te) (tx_ledger (signed_tx (cc_genesis_tx (cs ! 0)))) ps = Inr g"
    using genesis_declarations_total env by (fastforce simp: env_supplies_def)
  obtain time where time: "default_time_config (te_now te) (te_env te) = Inr time"
    using env by (auto simp: env_supplies_def)
  have kl: "length (cfgsync_kms_configs te ?bl das) = ?n"
    using len(1) len(3) [OF das] by (simp add: cfgsync_kms_configs_def)
  have "\<exists>y. host_config te tracing (base_of te nids bports g cs das nets) (build_api_configs ?hs) peers
      (cfgsync_kms_configs te ?bl das) x = Inr y" if x_in: "x \<in> set (enumerate 0 ?hs)" for x
  proof -
    obtain k h where x1: "x = (k, h)" by fastforce
    then have x: "x = (k, h)" "k < ?n" using x_in n(1) by (simp_all add: in_set_enumerate_eq)
    show ?thesis using x(2) cl(1) i(1) n(1) len(1,2) len(3) [OF das] nets(2) peers(2) kl
      by (simp add: x(1) host_config_def base_of_def index_checked_def time build_api_configs_def Let_def)
  qed
  then have "\<exists>entries. try_map (host_config te tracing (base_of te nids bports g cs das nets) (build_api_configs ?hs) peers
      (cfgsync_kms_configs te ?bl das)) (enumerate 0 ?hs) = Inr entries" by (intro try_map_total)
  then obtain entries where
    e: "try_map (host_config te tracing (base_of te nids bports g cs das nets) (build_api_configs ?hs) peers
      (cfgsync_kms_configs te ?bl das)) (enumerate 0 ?hs) = Inr entries" by blast
  have base: "build_base_configs te params da wallet nids ports bports = Inr \<lparr>bb_consensus = cs,
      bb_bootstrap = create_bootstrap_configs nids short_prolonged_bootstrap_period, bb_da = das, bb_network = nets,
      bb_blend = ?bl\<rparr>" by (simp add: build_base_configs_def cs das nets(1))
  have ix: "index_checked cs 0 = Inr (cs ! 0)" using cl(1) i n0 by (simp add: index_checked_def)
  have "create_node_configs te show_peer params da tracing wallet ids dps bps hosts = Inr (map_of (rev entries))"
    unfolding create_node_configs_def Let_def v sum.case nids_def [symmetric] bports_def [symmetric] ports(1)
      rbind_simps base base_configs.simps peers(1) ps ix g using e by (simp add: base_of_def)
  then show ?thesis by blast
qed

text \<open>
  Given an environment that supplies ports, signatures and a valid slot time, and 32-byte ids, the
  cfgsync server can build configurations if and only if at least one participant is configured, exactly
  that many hosts have announced themselves and every list of ids or ports it was given has one entry
  per participant; otherwise it panics.
\<close>

theorem cfgsync_succeeds_iff:
  assumes "env_supplies te" and "\<forall>xs. ids = Some xs \<longrightarrow> (\<forall>x \<in> set xs. length x = 32)"
  shows "(\<exists>m. create_node_configs te show_peer params da tracing wallet ids dps bps hosts = Inr m) \<longleftrightarrow>
    0 < n_participants params \<and> length hosts = n_participants params
    \<and> (\<forall>xs. ids = Some xs \<longrightarrow> length xs = n_participants params)
    \<and> (\<forall>ps. dps = Some ps \<longrightarrow> length ps = n_participants params)
    \<and> (\<forall>ps. bps = Some ps \<longrightarrow> length ps = n_participants params)" (is "?L = ?R")
proof
  assume ?L
  then obtain m where "create_node_configs te show_peer params da tracing wallet ids dps bps hosts = Inr m" ..
  then show ?R
  proof (cases rule: create_node_configs_cases)
    case (1 ports cs das nets init_peers providers genesis entries)
    have "generate_ids te (n_participants params) ids \<noteq> []"
      using 1(5) by (auto simp: create_network_configs_def network_params_default_def default_layout_def)
    then have "0 < length hosts" using generated_ids_length [OF 1(1), of te] by auto
    moreover have "length hosts = n_participants params" using 1(1) by (simp add: validate_inputs_ok)
    ultimately show ?thesis using 1(1) unfolding validate_inputs_ok by metis
  qed
next
  assume ?R
  then have "validate_inputs (sort_hosts hosts) params ids dps bps = Inr ()" by (simp add: validate_inputs_ok)
  then show ?L using \<open>?R\<close> create_node_configs_total [OF assms] by blast
qed

text \<open>
  The genesis transaction a host receives declares that host itself: at the host's position there is
  a data-availability declaration with the host's public address and DA port and the keys of its own
  configuration, locking the note at output \<open>3 i + 1\<close>, and the same for Blend at output \<open>3 i + 2\<close>.
\<close>

theorem cfgsync_genesis_declares_hosts:
  assumes "create_node_configs te show_peer params da tracing wallet ids dps bps hosts = Inr m" and "distinct hosts"
    and "\<forall>x \<in> set (generate_ids te (n_participants params) ids). length x = 32" and "i < length hosts"
  shows "\<exists>g. m (sort_hosts hosts ! i) = Some g
    \<and> (let h = sort_hosts hosts ! i; tx = signed_tx (cc_genesis_tx (gc_consensus g)); ledger = tx_ledger tx; cr = te_crypto te;
           locked = (\<lambda>k. utxo_id cr \<lparr>utxo_tx_hash = ledger_hash cr ledger, utxo_output_index = k,
                                     utxo_note = ledger_outputs ledger ! k\<rparr>) in
         length (tx_ops tx) = 1 + 2 * length hosts
       \<and> tx_ops tx ! (1 + i) = SDPDeclare \<lparr>decl_service_type = DataAvailability,
           decl_locators = [quic_addr (h_ip h) (h_da_network_port h)], decl_provider_id = ed_public_key cr (dc_signer (gc_da g)),
           decl_zk_id = zk_public cr (dc_secret_zk_key (gc_da g)), decl_locked_note_id = locked (3 * i + 1)\<rparr>
       \<and> tx_ops tx ! (1 + length hosts + i) = SDPDeclare \<lparr>decl_service_type = BlendNetwork,
           decl_locators = [quic_addr (h_ip h) (h_blend_port h)], decl_provider_id = ed_public_key cr (bc_signer (gc_blend g)),
           decl_zk_id = zk_public cr (bc_secret_zk_key (gc_blend g)), decl_locked_note_id = locked (3 * i + 2)\<rparr>
       \<and> 3 * i + 2 < length (ledger_outputs ledger))"
  using assms(1,2)
proof (cases rule: cfgsync_host_at)
  case (1 nids ports bports cs das nets init_peers providers genesis)
  let ?hs = "sort_hosts hosts" and ?n = "length hosts" and ?cr = "te_crypto te"
  let ?bl = "create_blend_configs ?cr nids bports"
  have idl: "length nids = ?n" using generated_ids_length [OF 1(3), of te] by (simp add: 1(1))
  have ids: "\<forall>x \<in> set nids. length x = 32" using assms(3) by (simp add: 1(1))
  have ne: "nids \<noteq> []" using idl assms(4) by auto
  have bl: "length bports = ?n"
    using 1(3) by (auto simp: 1(2) resolve_blend_ports_def validate_inputs_ok split: option.splits)
  note len = service_configs_lengths [OF idl bl]
  note c = consensus_notes_lengths [OF ids 1(4) ne]
  have pr: "providers = map (\<lambda>i. cfgsync_da_provider (?hs ! i) (das ! i) (cc_da_notes (cs ! 0) ! i)) [0..<?n]
         @ map (\<lambda>i. cfgsync_blend_provider (?hs ! i) (?bl ! i) (cc_blend_notes (cs ! 0) ! i)) [0..<?n]"
    using providers_eq [of das ?hs ?bl cs] len(1) len(3) [OF 1(5)] c idl 1(8,9) by simp
  have p: "providers ! i = cfgsync_da_provider (?hs ! i) (das ! i) (cc_da_notes (cs ! 0) ! i)"
    "providers ! (?n + i) = cfgsync_blend_provider (?hs ! i) (?bl ! i) (cc_blend_notes (cs ! 0) ! i)"
    and pl: "length providers = 2 * ?n"
    using assms(4) by (simp_all add: pr nth_append)
  note g = genesis_with_declarations [OF 1(10)]
  have g1: "tx_ops (signed_tx genesis) ! Suc i = SDPDeclare (provider_declaration ?cr
      (ledger_hash ?cr (tx_ledger (signed_tx (cc_genesis_tx (cs ! 0))))) (providers ! i))"
    and g2: "tx_ops (signed_tx genesis) ! Suc (?n + i) = SDPDeclare (provider_declaration ?cr
      (ledger_hash ?cr (tx_ledger (signed_tx (cc_genesis_tx (cs ! 0))))) (providers ! (?n + i)))"
    using g(4) pl assms(4) by auto
  obtain gc where gc: "m (?hs ! i) = Some gc" and hc: "host_config te tracing (base_of te nids bports genesis cs das nets)
      (build_api_configs ?hs) init_peers (cfgsync_kms_configs te ?bl das) (i, ?hs ! i) = Inr (?hs ! i, gc)"
    using 1(12) [OF assms(4)] by blast
  note f = host_config_fields [OF hc]
  have gen: "cc_genesis_tx (gc_consensus gc) = genesis" using f(2,5) by (simp add: base_of_def)
  show ?thesis
    using gc declared_output [OF ids 1(4) c(2), of i] idl assms(4) g(1,2) pl g1 g2 f(9,11,12)
    by (intro exI [of _ gc])
      (simp add: gen Let_def p provider_declaration_def cfgsync_da_provider_def cfgsync_blend_provider_def
        provider_id_def zk_id_def base_of_def)
qed

section \<open>Initial peers\<close>

lemma star_network_configs:
  assumes "create_network_configs te nids network_params_default = Inr nets"
  obtains ports where "map nc_port nets = ports" "length ports = length nids" "ports \<noteq> []"
    "\<And>i. i < length nids \<Longrightarrow> te_network_port te i = Some (ports ! i)"
    "map nc_initial_peers nets = [] # map (\<lambda>_. [te_addr te (ports ! 0)]) [1..<length nids]"
proof -
  from assms obtain ports peers where p: "try_map (\<lambda>i. unwrap_port (te_network_port te i)) [0..<length nids] = Inr ports"
    and q: "initial_peers_by_network_layout (te_addr te) ports Star = Inr peers"
    and n: "nets = map (\<lambda>((i, port), peers). \<lparr>nc_host = ''0.0.0.0'', nc_port = port, nc_node_key = i,
              nc_peer_response_timeout = from_secs 60,
              nc_nat_external = nat_settings (te_env te) port, nc_initial_peers = peers\<rparr>) (zip (zip nids ports) peers)"
    by (auto simp: create_network_configs_def rbind_Inr_iff network_params_default_def default_layout_def)
  have len: "length ports = length nids" using p by (auto dest: try_map_length)
  have at: "te_network_port te i = Some (ports ! i)" if i: "i < length nids" for i
    using p i by (auto simp: try_map_Inr_iff list_all2_conv_all_nth unwrap_port_def simp del: upt_Suc split: option.splits)
  have peers: "ports \<noteq> []" "peers = [] # map (\<lambda>_. [te_addr te (ports ! 0)]) [1..<length nids]"
    using q len by (auto split: list.splits simp del: upt_Suc)
  have pl: "length peers = length nids" using peers len by (cases nids) (simp_all del: upt_Suc)
  have "map nc_port nets = ports" "map nc_initial_peers nets = peers"
    using len pl by (auto simp: n intro!: nth_equalityI)
  then show ?thesis using that [of ports] len at peers by simp
qed

text \<open>
  Hosts dial the first host of the sorted list: with free ports that differ and addresses that carry
  their port, the first host has no initial peers and every other host has exactly one, the first host's
  own address and network port together with the peer id of the first node id.
\<close>

theorem cfgsync_star_peers:
  assumes "create_node_configs te show_peer params da tracing wallet ids dps bps hosts = Inr m" and "distinct hosts"
    and "\<And>p. extract_udp_port (te_addr te p) = Some p" and "inj_on (te_network_port te) {..<length hosts}"
    and "i < length hosts"
  shows "\<exists>g. m (sort_hosts hosts ! i) = Some g \<and> nc_initial_peers (gc_network g) = (if i = 0 then []
    else [peer_addr show_peer (sort_hosts hosts ! 0) (peer_of (te_da te) (generate_ids te (n_participants params) ids ! 0))])"
  using assms(1,2)
proof (cases rule: cfgsync_host_at)
  case (1 nids ports bports cs das nets init_peers providers genesis)
  let ?hs = "sort_hosts hosts"
  have idl: "length nids = length hosts" using generated_ids_length [OF 1(3), of te] by (simp add: 1(1))
  obtain nps where nps: "map nc_port nets = nps" "length nps = length nids" "nps \<noteq> []"
    "\<And>i. i < length nids \<Longrightarrow> te_network_port te i = Some (nps ! i)"
    "map nc_initial_peers nets = [] # map (\<lambda>_. [te_addr te (nps ! 0)]) [1..<length nids]"
    using star_network_configs [OF 1(6)] by blast
  have "distinct nps"
    using nps(2,4) idl assms(4) by (auto simp: distinct_conv_nth inj_on_def)
  then have first: "find_matching_host (te_addr te (nps ! 0)) nps = Some 0"
    using nps(3) position_distinct [of nps 0] assms(3) by (simp add: find_matching_host_def)
  have pl: "length (build_peer_ids te nids) = length nps" "length ?hs = length nps"
    using nps(2) idl by (simp_all add: build_peer_ids_def)
  have ne: "nids \<noteq> []" using nps(2,3) by auto
  have init: "init_peers ! i = (if i = 0 then [] else [peer_addr show_peer (?hs ! 0) (build_peer_ids te nids ! 0)])"
    using 1(7) rewrite_initial_peers_eq [OF pl(2,1), of show_peer "map nc_initial_peers nets"] idl assms(5) nps(1,5) first
    by (cases i) (auto simp: nth_Cons' simp del: upt_Suc)
  obtain g where g: "m (?hs ! i) = Some g" and hc: "host_config te tracing (base_of te nids bports genesis cs das nets)
      (build_api_configs ?hs) init_peers (cfgsync_kms_configs te (create_blend_configs (te_crypto te) nids bports) das)
      (i, ?hs ! i) = Inr (?hs ! i, g)"
    using 1(12) [OF assms(5)] by blast
  have "nc_initial_peers (gc_network g) = init_peers ! i" using host_config_fields(8) [OF hc] by simp
  moreover have "build_peer_ids te nids ! 0 = peer_of (te_da te) (nids ! 0)" using ne by (simp add: build_peer_ids_def)
  ultimately show ?thesis using g init by (simp add: 1(1))
qed

section \<open>Witnesses\<close>

definition sample_configs :: "(host \<rightharpoonup> nat general_config) rust" where
  "sample_configs = create_node_configs plain_topology_env show_nat (default_for_participants 2) (da_params_default ''kzg'')
     (default_settings plain_tracing_env) \<lparr>accounts = []\<rparr> None None None sample_hosts"

lemma sample_configs_ok: obtains m where "sample_configs = Inr m"
proof -
  have "validate_inputs (sort_hosts sample_hosts) (default_for_participants 2) None None None = Inr ()"
    by (simp add: validate_inputs_ok sample_hosts_facts default_for_participants_def)
  then show ?thesis
    using create_node_configs_total [OF plain_env_supplies, where ids = None and hosts = sample_hosts
        and params = "default_for_participants 2" and dps = None and bps = None and show_peer = show_nat
        and da = "da_params_default ''kzg''" and tracing = "default_settings plain_tracing_env" and wallet = "\<lparr>accounts = []\<rparr>"]
      that by (auto simp: sample_configs_def default_for_participants_def)
qed

theorem cfgsync_succeeds_iff_witness:
  "(\<exists>m. sample_configs = Inr m)
   \<and> \<not> (\<exists>m. create_node_configs plain_topology_env show_nat (default_for_participants 2) (da_params_default ''kzg'')
       (default_settings plain_tracing_env) \<lparr>accounts = []\<rparr> None (Some [1]) None sample_hosts = Inr m)"
  unfolding sample_configs_def
  by (subst (1 2) cfgsync_succeeds_iff [OF plain_env_supplies])
    (simp_all add: sample_hosts_facts default_for_participants_def)

theorem cfgsync_configs_match_hosts_witness:
  "\<exists>m. sample_configs = Inr m \<and> dom m = set sample_hosts"
proof -
  obtain m where m: "sample_configs = Inr m" by (rule sample_configs_ok)
  from cfgsync_configs_match_hosts [OF m [unfolded sample_configs_def] sample_hosts_facts(1)] m show ?thesis by blast
qed

lemma sample_ids: "generate_ids plain_topology_env (n_participants (default_for_participants 2)) None
    = [le_bytes 32 0, le_bytes 32 1]"
  by (simp add: generate_ids_def plain_topology_env_def default_for_participants_def numeral_2_eq_2)

theorem cfgsync_genesis_declares_hosts_witness:
  "\<exists>m g. sample_configs = Inr m \<and> m (sort_hosts sample_hosts ! 0) = Some g
     \<and> length (tx_ops (signed_tx (cc_genesis_tx (gc_consensus g)))) = 5"
proof -
  obtain m where m: "sample_configs = Inr m" by (rule sample_configs_ok)
  have "\<forall>x \<in> set (generate_ids plain_topology_env (n_participants (default_for_participants 2)) None). length x = 32"
    unfolding sample_ids by simp
  from cfgsync_genesis_declares_hosts [OF m [unfolded sample_configs_def] sample_hosts_facts(1) this, of 0] m
  show ?thesis by (auto simp: sample_hosts_facts(3) Let_def)
qed

theorem cfgsync_star_peers_witness:
  "\<exists>m g. sample_configs = Inr m \<and> m (sort_hosts sample_hosts ! 1) = Some g
     \<and> nc_initial_peers (gc_network g) = [peer_addr show_nat (sort_hosts sample_hosts ! 0) 0]"
proof -
  obtain m where m: "sample_configs = Inr m" by (rule sample_configs_ok)
  have a: "\<And>p. extract_udp_port (te_addr plain_topology_env p) = Some p"
    by (simp add: plain_topology_env_def quic_addr_def extract_udp_port_def)
  have b: "inj_on (te_network_port plain_topology_env) {..<length sample_hosts}"
    by (simp add: plain_topology_env_def inj_on_def)
  have "peer_of (te_da plain_topology_env) (le_bytes 32 0) = 0"
    using from_le_bytes [of 0 32] by (simp add: plain_topology_env_def)
  with cfgsync_star_peers [OF m [unfolded sample_configs_def] sample_hosts_facts(1) a b, of 1] m
  show ?thesis by (auto simp: sample_hosts_facts(3) sample_ids)
qed

end
