(* ===== verification/Cfgsync_Server.thy ===== *)
theory Cfgsync_Server
  imports Cfgsync_Config
begin

text \<open>
  The cfgsync server and client: \<open>tools/cfgsync/src/server.rs\<close> (settings, handlers and the JSON
  post-processing), \<open>repo.rs\<close> (the repository that collects hosts and answers them),
  \<open>client.rs\<close> and \<open>bin/cfgsync-client.rs\<close>.

  The repository is a state machine: requests register at any time, while one task polls the number of
  waiting hosts every second under a timeout. A request is a number that identifies its reply channel.
  Serialisation of a node configuration to JSON and the text form of peer ids are parameters.
\<close>

section \<open>Settings\<close>

record cfgsync_config =
  cs_port :: nat
  cs_n_hosts :: nat
  cs_timeout :: nat
  cs_security_param :: nat
  cs_active_slot_coeff :: f64
  cs_wallet :: wallet_config
  cs_ids :: "node_id list option"
  cs_da_ports :: "nat list option"
  cs_blend_ports :: "nat list option"
  cs_subnetwork_size :: nat
  cs_dispersal_factor :: nat
  cs_num_samples :: nat
  cs_num_subnets :: nat
  cs_old_blobs_check_interval :: duration
  cs_blobs_validity_duration :: duration
  cs_global_params_path :: string
  cs_min_dispersal_peers :: nat
  cs_min_replication_peers :: nat
  cs_monitor_failure_time_window :: duration
  cs_balancer_interval :: duration
  cs_replication_settings :: replication_config
  cs_retry_shares_limit :: nat
  cs_retry_commitments_limit :: nat
  cs_tracing_settings :: tracing_settings

definition to_consensus_params :: "cfgsync_config \<Rightarrow> consensus_params" where
  "to_consensus_params c = \<lparr>n_participants = cs_n_hosts c, security_param = cs_security_param c,
     active_slot_coeff = cs_active_slot_coeff c\<rparr>"

definition to_da_params :: "cfgsync_config \<Rightarrow> da_params" where
  "to_da_params c = \<lparr>dp_subnetwork_size = cs_subnetwork_size c, dp_dispersal_factor = cs_dispersal_factor c,
     dp_num_samples = cs_num_samples c, dp_num_subnets = cs_num_subnets c,
     dp_old_blobs_check_interval = cs_old_blobs_check_interval c,
     dp_blobs_validity_duration = cs_blobs_validity_duration c, dp_global_params_path = cs_global_params_path c,
     dp_policy_settings = \<lparr>min_dispersal_peers = cs_min_dispersal_peers c,
       min_replication_peers = cs_min_replication_peers c, max_dispersal_failures = 3, max_sampling_failures = 3,
       max_replication_failures = 3, malicious_threshold = 10\<rparr>,
     dp_failure_time_window = cs_monitor_failure_time_window c, dp_balancer_interval = cs_balancer_interval c,
     dp_redial_cooldown = 0, dp_replication_settings = cs_replication_settings c,
     dp_subnets_refresh_interval = from_secs 30, dp_retry_shares_limit = cs_retry_shares_limit c,
     dp_retry_commitments_limit = cs_retry_commitments_limit c\<rparr>"

text \<open>The call of \<open>create_node_configs\<close> in \<open>run\<close>, on the fields the repository was built from.\<close>

definition repo_source :: "'p::linorder topology_env \<Rightarrow> ('p \<Rightarrow> string) \<Rightarrow> cfgsync_config \<Rightarrow> host list
    \<Rightarrow> (host \<rightharpoonup> 'p general_config) rust" where
  "repo_source te show_peer c hosts = create_node_configs te show_peer (to_consensus_params c) (to_da_params c)
     (cs_tracing_settings c) (cs_wallet c) (cs_ids c) (cs_da_ports c) (cs_blend_ports c) hosts"

section \<open>The repository\<close>

text \<open>What a request sees: a response, a closed channel, or a panic of its own handler.\<close>

datatype 'c reply = ReplyConfig 'c | ReplyTimeout | ReplyDropped | ReplyPanic

datatype repo_phase = Collecting | Finished | Crashed

record 'c repo =
  rp_waiting :: "(host \<times> nat) list"
  rp_replies :: "(nat \<times> host \<times> 'c reply) list"
  rp_phase :: repo_phase
  rp_clock :: nat

definition repo_new :: "'c repo" where
  "repo_new = \<lparr>rp_waiting = [], rp_replies = [], rp_phase = Collecting, rp_clock = 0\<rparr>"

text \<open>
  \<open>register\<close>: inserting a host that is already waiting replaces its reply channel, and the request that
  held it receives a closed channel. After a panic of the repository task under the lock, the lock is
  poisoned and the handler panics too.
\<close>

definition register :: "host \<Rightarrow> nat \<Rightarrow> 'c repo \<Rightarrow> 'c repo" where
  "register h req r =
     (if rp_phase r = Crashed then r\<lparr>rp_replies := rp_replies r @ [(req, h, ReplyPanic)]\<rparr>
      else case map_of (rp_waiting r) h of
          None \<Rightarrow> r\<lparr>rp_waiting := rp_waiting r @ [(h, req)]\<rparr>
        | Some old \<Rightarrow> r\<lparr>rp_waiting := map (\<lambda>(k, v). if k = h then (k, req) else (k, v)) (rp_waiting r),
                       rp_replies := rp_replies r @ [(old, h, ReplyDropped)]\<rparr>)"

text \<open>The drain loop: a host without configuration panics, which drops the remaining channels.\<close>

fun drain_configs :: "(host \<rightharpoonup> 'c) \<Rightarrow> (host \<times> nat) list \<Rightarrow> (nat \<times> host \<times> 'c reply) list \<times> repo_phase" where
  "drain_configs configs [] = ([], Finished)"
| "drain_configs configs ((h, req) # rest) =
     (case configs h of
        None \<Rightarrow> (map (\<lambda>(h, req). (req, h, ReplyDropped)) ((h, req) # rest), Crashed)
      | Some c \<Rightarrow> (case drain_configs configs rest of (rs, ph) \<Rightarrow> ((req, h, ReplyConfig c) # rs, ph)))"

text \<open>The first branch of \<open>run\<close>; a panic of \<open>create_node_configs\<close> leaves the channels in the map.\<close>

definition serve :: "(host list \<Rightarrow> (host \<rightharpoonup> 'c) rust) \<Rightarrow> 'c repo \<Rightarrow> 'c repo" where
  "serve mk r =
     (case mk (map fst (rp_waiting r)) of
        Inl e \<Rightarrow> r\<lparr>rp_phase := Crashed\<rparr>
      | Inr configs \<Rightarrow> (case drain_configs configs (rp_waiting r) of
            (rs, ph) \<Rightarrow> r\<lparr>rp_waiting := [], rp_replies := rp_replies r @ rs, rp_phase := ph\<rparr>))"

definition expire :: "'c repo \<Rightarrow> 'c repo" where
  "expire r = r\<lparr>rp_waiting := [], rp_phase := Finished,
     rp_replies := rp_replies r @ map (\<lambda>(h, req). (req, h, ReplyTimeout)) (rp_waiting r)\<rparr>"

text \<open>
  One poll of \<open>run\<close>: enough hosts are served; otherwise the task sleeps for a second, or the timeout,
  which is checked after the poll, fires.
\<close>

definition run_poll :: "(host list \<Rightarrow> (host \<rightharpoonup> 'c) rust) \<Rightarrow> nat \<Rightarrow> nat \<Rightarrow> 'c repo \<Rightarrow> 'c repo" where
  "run_poll mk n_hosts timeout r =
     (if n_hosts \<le> length (rp_waiting r) then serve mk r
      else if rp_clock r < timeout then r\<lparr>rp_clock := rp_clock r + 1\<rparr>
      else expire r)"

text \<open>The requests seen so far, waiting or answered.\<close>

definition requests :: "'c repo \<Rightarrow> nat list" where
  "requests r = map snd (rp_waiting r) @ map fst (rp_replies r)"

inductive repo_step :: "(host list \<Rightarrow> (host \<rightharpoonup> 'c) rust) \<Rightarrow> nat \<Rightarrow> nat \<Rightarrow> 'c repo \<Rightarrow> 'c repo \<Rightarrow> bool"
  for mk n_hosts timeout where
  Register: "req \<notin> set (requests r) \<Longrightarrow> repo_step mk n_hosts timeout r (register h req r)"
| Poll: "rp_phase r = Collecting \<Longrightarrow> repo_step mk n_hosts timeout r (run_poll mk n_hosts timeout r)"

inductive_cases repo_stepE: "repo_step mk n_hosts timeout r r'"

inductive repo_reachable :: "(host list \<Rightarrow> (host \<rightharpoonup> 'c) rust) \<Rightarrow> nat \<Rightarrow> nat \<Rightarrow> 'c repo \<Rightarrow> 'c repo \<Rightarrow> bool"
  for mk n_hosts timeout where
  Refl: "repo_reachable mk n_hosts timeout r r"
| Step: "repo_reachable mk n_hosts timeout r r' \<Longrightarrow> repo_step mk n_hosts timeout r' r'' \<Longrightarrow>
    repo_reachable mk n_hosts timeout r r''"

section \<open>Invariant of the repository\<close>

text \<open>
  Hosts wait at most once, no request is answered twice or answered while it waits, a configuration
  handed out is the one built for that host, and the clock stays within the timeout.
\<close>

definition repo_inv :: "(host list \<Rightarrow> (host \<rightharpoonup> 'c) rust) \<Rightarrow> nat \<Rightarrow> 'c repo \<Rightarrow> bool" where
  "repo_inv mk timeout r \<longleftrightarrow>
     distinct (map fst (rp_waiting r)) \<and> distinct (requests r) \<and> rp_clock r \<le> timeout
     \<and> (\<forall>req h c. (req, h, ReplyConfig c) \<in> set (rp_replies r) \<longrightarrow>
          (\<exists>hosts configs. h \<in> set hosts \<and> mk hosts = Inr configs \<and> configs h = Some c))"

lemma repo_inv_new: "repo_inv mk timeout repo_new"
  by (simp add: repo_inv_def repo_new_def requests_def)

lemma drain_configs_requests: "map fst (fst (drain_configs configs ws)) = map snd ws"
  by (induction ws) (auto split: option.splits prod.splits)

lemma drain_configs_own:
  "(req, h, ReplyConfig c) \<in> set (fst (drain_configs configs ws)) \<Longrightarrow> configs h = Some c \<and> h \<in> fst ` set ws"
  by (induction ws) (force split: option.splits prod.splits)+

lemma waiting_map_of: "map_of ws h = Some old \<Longrightarrow> (h, old) \<in> set ws"
  by (rule map_of_SomeD)

lemma replace_requests:
  assumes "distinct (map fst ws)" and "map_of ws h = Some old"
  shows "mset (old # map snd (map (\<lambda>(k, v). if k = h then (k, req) else (k, v)) ws)) = mset (req # map snd ws)"
  using assms
proof (induction ws)
  case (Cons x ws)
  obtain k v where x: "x = (k, v)" by fastforce
  show ?case
  proof (cases "k = h")
    case True
    then have "map (\<lambda>(k, v). if k = h then (k, req) else (k, v)) ws = ws"
      using Cons.prems(1) x by (intro map_idI) (auto simp: image_iff split: prod.splits)
    then show ?thesis using Cons.prems True x by simp
  next
    case False
    then show ?thesis using Cons x by (simp add: add_mset_commute)
  qed
qed simp

lemma register_inv:
  assumes "repo_inv mk timeout r" and "req \<notin> set (requests r)"
  shows "repo_inv mk timeout (register h req r)"
proof (cases "rp_phase r \<noteq> Crashed \<and> map_of (rp_waiting r) h \<noteq> None")
  case False
  then consider "rp_phase r = Crashed" | "rp_phase r \<noteq> Crashed" "map_of (rp_waiting r) h = None" by blast
  then show ?thesis
  proof cases
    case 2
    then have "h \<notin> fst ` set (rp_waiting r)" by (simp only: map_of_eq_None_iff) simp
    then show ?thesis using assms 2 by (simp add: repo_inv_def register_def requests_def)
  qed (use assms in \<open>simp add: repo_inv_def register_def requests_def\<close>)
next
  case True
  then obtain old where old: "map_of (rp_waiting r) h = Some old" "rp_phase r \<noteq> Crashed" by auto
  define ws where "ws = map (\<lambda>(k, v). if k = h then (k, req) else (k, v)) (rp_waiting r)"
  have fst: "map fst ws = map fst (rp_waiting r)" by (auto simp: ws_def)
  have d: "distinct (map fst (rp_waiting r))" using assms(1) by (simp add: repo_inv_def)
  have eq: "mset (map snd ws @ map fst (rp_replies r) @ [old]) = mset (req # requests r)"
    using replace_requests [OF d old(1), of req] by (simp add: requests_def ws_def)
  have "distinct (req # requests r)" using assms by (simp add: repo_inv_def)
  then have "distinct (map snd ws @ map fst (rp_replies r) @ [old])"
    by (simp only: mset_eq_imp_distinct_iff [OF eq])
  moreover have "register h req r = r\<lparr>rp_waiting := ws, rp_replies := rp_replies r @ [(old, h, ReplyDropped)]\<rparr>"
    using old by (simp add: register_def ws_def)
  ultimately show ?thesis using assms(1) d fst by (simp add: repo_inv_def requests_def)
qed

lemma serve_inv:
  assumes "repo_inv mk timeout r" shows "repo_inv mk timeout (serve mk r)"
proof (cases "mk (map fst (rp_waiting r))")
  case (Inr configs)
  obtain rs ph where d: "drain_configs configs (rp_waiting r) = (rs, ph)" by fastforce
  have fst: "map fst rs = map snd (rp_waiting r)" using drain_configs_requests [of configs "rp_waiting r"] d by simp
  have own: "configs h = Some c \<and> h \<in> set (map fst (rp_waiting r))" if "(req, h, ReplyConfig c) \<in> set rs" for req h c
    using drain_configs_own [of req h c configs "rp_waiting r"] that d by simp
  have eq: "mset (requests (serve mk r)) = mset (requests r)" using Inr d fst by (simp add: serve_def requests_def)
  have "distinct (requests (serve mk r))"
    using assms by (simp only: mset_eq_imp_distinct_iff [OF eq] repo_inv_def)
  moreover have "rp_waiting (serve mk r) = []" "rp_replies (serve mk r) = rp_replies r @ rs" "rp_clock (serve mk r) = rp_clock r"
    using Inr d by (simp_all add: serve_def)
  moreover have "\<exists>hosts configs. h \<in> set hosts \<and> mk hosts = Inr configs \<and> configs h = Some c"
    if "(req, h, ReplyConfig c) \<in> set rs" for req h c using own [OF that] Inr by blast
  ultimately show ?thesis using assms by (simp add: repo_inv_def)
qed (use assms in \<open>simp add: serve_def repo_inv_def requests_def\<close>)

lemma expire_inv: "repo_inv mk timeout r \<Longrightarrow> repo_inv mk timeout (expire r)"
  by (auto simp: repo_inv_def expire_def requests_def comp_def case_prod_unfold)

lemma run_poll_inv: "repo_inv mk timeout r \<Longrightarrow> repo_inv mk timeout (run_poll mk n timeout r)"
proof -
  assume r: "repo_inv mk timeout r"
  have "rp_clock r < timeout \<Longrightarrow> repo_inv mk timeout (r\<lparr>rp_clock := rp_clock r + 1\<rparr>)"
    using r by (simp add: repo_inv_def requests_def)
  then show ?thesis using r by (simp add: run_poll_def serve_inv expire_inv)
qed

lemma repo_step_inv: "repo_step mk n timeout r r' \<Longrightarrow> repo_inv mk timeout r \<Longrightarrow> repo_inv mk timeout r'"
  by (auto elim!: repo_stepE intro: register_inv run_poll_inv)

lemma reachable_inv: "repo_reachable mk n timeout repo_new r \<Longrightarrow> repo_inv mk timeout r"
  by (induction "repo_new :: 'a repo" r rule: repo_reachable.induct) (auto intro: repo_inv_new repo_step_inv)

text \<open>
  C22. In every reachable state of the repository, whatever the interleaving of announcements and polls,
  a host waits at most once, no request is answered twice or both answered and waiting, the clock is
  within the timeout, and a request that was handed a configuration got the one built for its own host.
\<close>

theorem repo_invariant:
  assumes "repo_reachable mk n timeout repo_new r"
  shows "distinct (map fst (rp_waiting r)) \<and> distinct (requests r) \<and> rp_clock r \<le> timeout
    \<and> (\<forall>req h c. (req, h, ReplyConfig c) \<in> set (rp_replies r) \<longrightarrow>
         (\<exists>hosts configs. h \<in> set hosts \<and> mk hosts = Inr configs \<and> configs h = Some c))"
  using reachable_inv [OF assms] by (simp add: repo_inv_def)

section \<open>Executions\<close>

text \<open>A schedule of announcements and polls; polls stop once the task has returned.\<close>

datatype repo_action = Announce host nat | Tick

fun repo_exec :: "(host list \<Rightarrow> (host \<rightharpoonup> 'c) rust) \<Rightarrow> nat \<Rightarrow> nat \<Rightarrow> repo_action list \<Rightarrow> 'c repo \<Rightarrow> 'c repo" where
  "repo_exec mk n timeout [] r = r"
| "repo_exec mk n timeout (Announce h req # acts) r = repo_exec mk n timeout acts (register h req r)"
| "repo_exec mk n timeout (Tick # acts) r =
     repo_exec mk n timeout acts (if rp_phase r = Collecting then run_poll mk n timeout r else r)"

definition ticks :: "repo_action list \<Rightarrow> nat" where
  "ticks acts = length (filter (\<lambda>a. a = Tick) acts)"

lemma register_fixed [simp]: "rp_phase (register h req r) = rp_phase r" "rp_clock (register h req r) = rp_clock r"
  by (simp_all add: register_def split: option.split)

lemma drain_configs_phase: "snd (drain_configs configs ws) \<noteq> Collecting"
  by (induction ws) (auto split: option.splits prod.splits)

lemma serve_ends: "rp_phase (serve mk r) \<noteq> Collecting"
  by (auto simp: serve_def split: sum.splits prod.splits) (metis drain_configs_phase snd_conv)

lemma run_poll_progress:
  "rp_phase (run_poll mk n timeout r) \<noteq> Collecting
   \<or> rp_clock r < timeout \<and> rp_clock (run_poll mk n timeout r) = Suc (rp_clock r)"
  by (simp add: run_poll_def serve_ends expire_def)

lemma repo_exec_done: "rp_phase r \<noteq> Collecting \<Longrightarrow> rp_phase (repo_exec mk n timeout acts r) \<noteq> Collecting"
  by (induction mk n timeout acts r rule: repo_exec.induct) simp_all

text \<open>
  C24. The repository does not collect for ever: a schedule that contains more polls than the timeout has
  seconds, however announcements are interleaved with them, ends with the task having returned (all hosts
  served or timed out) or panicked.
\<close>

theorem repo_run_ends:
  assumes "timeout < ticks acts"
  shows "rp_phase (repo_exec mk n timeout acts repo_new) \<noteq> Collecting"
proof -
  have "rp_phase (repo_exec mk n timeout acts r) \<noteq> Collecting"
    if "timeout < rp_clock r + ticks acts" "rp_clock r \<le> timeout" for r :: "'a repo"
    using that
  proof (induction acts arbitrary: r)
    case (Cons a acts)
    show ?case
    proof (cases a)
      case Tick
      show ?thesis
      proof (cases "rp_phase (if rp_phase r = Collecting then run_poll mk n timeout r else r) = Collecting")
        case True
        then have c: "rp_phase r = Collecting" by (simp split: if_splits)
        with True run_poll_progress [of mk n timeout r] Cons Tick show ?thesis by (simp add: ticks_def)
      qed (simp add: Tick repo_exec_done)
    qed (use Cons in \<open>simp add: ticks_def\<close>)
  qed (simp add: ticks_def)
  then show ?thesis using assms by (simp add: repo_new_def)
qed


section \<open>What the repository promises, given a source of configurations\<close>

text \<open>
  The repository relies on one property of \<open>create_node_configs\<close>: it succeeds exactly on the configured
  number of different hosts and then has a configuration for each of them.
\<close>

locale counted_source =
  fixes mk :: "host list \<Rightarrow> (host \<rightharpoonup> 'c) rust" and n :: nat
  assumes mk_other: "length hosts \<noteq> n \<Longrightarrow> \<exists>e. mk hosts = Inl e"
begin

lemma poll_crashes:
  assumes "n < length (rp_waiting r)"
  shows "run_poll mk n timeout r = r\<lparr>rp_phase := Crashed\<rparr>"
  using assms mk_other [of "map fst (rp_waiting r)"] by (auto simp: run_poll_def serve_def)

end

locale config_source = counted_source +
  assumes mk_exact: "length hosts = n \<Longrightarrow> distinct hosts \<Longrightarrow> \<exists>m. mk hosts = Inr m \<and> dom m = set hosts"
begin

lemma drain_all: "fst ` set ws \<subseteq> dom m \<Longrightarrow>
    drain_configs m ws = (map (\<lambda>(h, req). (req, h, ReplyConfig (the (m h)))) ws, Finished)"
  by (induction ws) auto

lemma poll_serves:
  assumes "distinct (map fst (rp_waiting r))" and "length (rp_waiting r) = n"
  shows "\<exists>m. mk (map fst (rp_waiting r)) = Inr m \<and> dom m = fst ` set (rp_waiting r)
    \<and> run_poll mk n timeout r = r\<lparr>rp_waiting := [], rp_phase := Finished,
         rp_replies := rp_replies r @ map (\<lambda>(h, req). (req, h, ReplyConfig (the (m h)))) (rp_waiting r)\<rparr>"
proof -
  obtain m where m: "mk (map fst (rp_waiting r)) = Inr m" "dom m = fst ` set (rp_waiting r)"
    using mk_exact [of "map fst (rp_waiting r)"] assms by auto
  then show ?thesis using assms(2) by (simp add: run_poll_def serve_def drain_all)
qed

end

text \<open>A deployment whose settings fit together, and the configuration source it gives.\<close>

definition deployment_ok :: "'p topology_env \<Rightarrow> cfgsync_config \<Rightarrow> bool" where
  "deployment_ok te c \<longleftrightarrow> env_supplies te \<and> 0 < cs_n_hosts c
     \<and> (\<forall>xs. cs_ids c = Some xs \<longrightarrow> length xs = cs_n_hosts c \<and> (\<forall>x \<in> set xs. length x = 32))
     \<and> (\<forall>ps. cs_da_ports c = Some ps \<longrightarrow> length ps = cs_n_hosts c)
     \<and> (\<forall>ps. cs_blend_ports c = Some ps \<longrightarrow> length ps = cs_n_hosts c)"

lemma repo_source_wrong_count:
  assumes "length hosts \<noteq> cs_n_hosts c" shows "\<exists>e. repo_source te show_peer c hosts = Inl e"
proof (cases "repo_source te show_peer c hosts")
  case (Inr m)
  then show ?thesis unfolding repo_source_def
    by (cases rule: create_node_configs_cases) (use assms in \<open>simp add: validate_inputs_ok to_consensus_params_def\<close>)
qed blast

interpretation repo_source: counted_source "repo_source te show_peer c" "cs_n_hosts c" for te show_peer c
  by unfold_locales (rule repo_source_wrong_count)

lemma repo_source_total:
  assumes "deployment_ok te c" and "length hosts = cs_n_hosts c" and "distinct hosts"
  shows "\<exists>m. repo_source te show_peer c hosts = Inr m \<and> dom m = set hosts"
proof -
  have v: "validate_inputs (sort_hosts hosts) (to_consensus_params c) (cs_ids c) (cs_da_ports c) (cs_blend_ports c) = Inr ()"
    using assms by (simp add: validate_inputs_ok deployment_ok_def to_consensus_params_def)
  have "env_supplies te" "\<forall>xs. cs_ids c = Some xs \<longrightarrow> (\<forall>x \<in> set xs. length x = 32)" "0 < n_participants (to_consensus_params c)"
    using assms(1) by (simp_all add: deployment_ok_def to_consensus_params_def)
  from create_node_configs_total [OF this(1,2) v this(3)]
  obtain m where m: "repo_source te show_peer c hosts = Inr m" unfolding repo_source_def by blast
  then show ?thesis using cfgsync_host_at [OF m [unfolded repo_source_def] assms(3)] by metis
qed

locale cfgsync_deployment =
  fixes te :: "'p::linorder topology_env" and show_peer :: "'p \<Rightarrow> string" and c :: cfgsync_config
  assumes ok: "deployment_ok te c"

sublocale cfgsync_deployment \<subseteq> source: config_source "repo_source te show_peer c" "cs_n_hosts c"
  by unfold_locales (use ok repo_source_total in blast)

context cfgsync_deployment
begin

lemma serves_waiting:
  assumes "repo_reachable (repo_source te show_peer c) (cs_n_hosts c) timeout repo_new r"
    and "length (rp_waiting r) = cs_n_hosts c"
  shows "\<exists>m. repo_source te show_peer c (map fst (rp_waiting r)) = Inr m \<and> dom m = fst ` set (rp_waiting r)
    \<and> run_poll (repo_source te show_peer c) (cs_n_hosts c) timeout r = r\<lparr>rp_waiting := [], rp_phase := Finished,
         rp_replies := rp_replies r @ map (\<lambda>(h, req). (req, h, ReplyConfig (the (m h)))) (rp_waiting r)\<rparr>"
  using reachable_inv [OF assms(1)] assms(2) by (intro source.poll_serves) (simp_all add: repo_inv_def)

end


text \<open>Once the task is over, hosts can only be told that their channel is closed or their handler panicked.\<close>

lemma register_phases:
  "set (rp_replies (register h req r)) \<subseteq> set (rp_replies r) \<union>
     (if rp_phase r = Crashed then {(req, h, ReplyPanic)} else {x. snd (snd x) = ReplyDropped})"
  by (auto simp: register_def split: option.split)

lemma ended_steps:
  assumes "repo_reachable mk n timeout r r'" and "rp_phase r \<noteq> Collecting"
  shows "rp_phase r' = rp_phase r
    \<and> set (rp_replies r') \<subseteq> set (rp_replies r) \<union>
        {x. snd (snd x) = (if rp_phase r = Crashed then ReplyPanic else ReplyDropped)}
    \<and> (rp_phase r = Crashed \<longrightarrow> rp_waiting r' = rp_waiting r)"
  using assms
proof (induction rule: repo_reachable.induct)
  case (Step r r' r'')
  from Step.hyps(2) show ?case
  proof (cases rule: repo_step.cases)
    case (Register req h)
    show ?thesis unfolding Register using Step.IH Step.prems register_phases [of h req r']
      by (auto simp: register_def split: if_splits option.splits)
  qed (use Step in simp)
qed simp

text \<open>
  C25. The host count is a lower bound for the poll but an exact count for the validation: when more hosts
  than configured wait at a poll, the task panics and leaves all of them waiting; from then on no request
  is ever answered, and every new one panics in its handler.
\<close>

theorem repo_overcrowded_crashes:
  assumes "cs_n_hosts c < length (rp_waiting r)"
    and "repo_reachable (repo_source te show_peer c) (cs_n_hosts c) (cs_timeout c)
           (run_poll (repo_source te show_peer c) (cs_n_hosts c) (cs_timeout c) r) r'"
  shows "rp_phase r' = Crashed \<and> rp_waiting r' = rp_waiting r
    \<and> (\<forall>x \<in> set (rp_replies r') - set (rp_replies r). snd (snd x) = ReplyPanic)"
proof -
  have "run_poll (repo_source te show_peer c) (cs_n_hosts c) (cs_timeout c) r = r\<lparr>rp_phase := Crashed\<rparr>"
    using assms(1) by (rule repo_source.poll_crashes)
  with ended_steps [OF assms(2)] show ?thesis by auto
qed

text \<open>
  A host that announces itself after the task has returned is never given a configuration: every
  reply added after that point is a closed channel, caused by a second announcement of the same host.
\<close>

theorem repo_late_hosts_unanswered:
  assumes "rp_phase r = Finished" and "repo_reachable mk n timeout r r'"
  shows "rp_phase r' = Finished \<and> (\<forall>x \<in> set (rp_replies r') - set (rp_replies r). snd (snd x) = ReplyDropped)"
  using ended_steps [OF assms(2)] assms(1) by auto


section \<open>Witnesses for the repository\<close>

definition sample_settings :: "nat \<Rightarrow> cfgsync_config" where
  "sample_settings n = \<lparr>cs_port = 4400, cs_n_hosts = n, cs_timeout = 3, cs_security_param = 10,
     cs_active_slot_coeff = active_slot_coeff (default_for_participants 2), cs_wallet = \<lparr>accounts = []\<rparr>,
     cs_ids = None, cs_da_ports = None, cs_blend_ports = None, cs_subnetwork_size = 2, cs_dispersal_factor = 2,
     cs_num_samples = 1, cs_num_subnets = 2, cs_old_blobs_check_interval = from_secs 5,
     cs_blobs_validity_duration = from_secs 60, cs_global_params_path = ''kzg'', cs_min_dispersal_peers = 1,
     cs_min_replication_peers = 1, cs_monitor_failure_time_window = from_secs 5, cs_balancer_interval = from_secs 1,
     cs_replication_settings = dp_replication_settings (da_params_default ''kzg''), cs_retry_shares_limit = 1,
     cs_retry_commitments_limit = 1, cs_tracing_settings = default_settings plain_tracing_env\<rparr>"

lemma sample_settings_simps [simp]: "cs_n_hosts (sample_settings n) = n" "cs_timeout (sample_settings n) = 3"
  by (simp_all add: sample_settings_def)

lemma sample_deployment_ok: "0 < n \<Longrightarrow> deployment_ok plain_topology_env (sample_settings n)"
  by (simp add: deployment_ok_def sample_settings_def plain_env_supplies)

interpretation sample_deployment: cfgsync_deployment plain_topology_env show_nat "sample_settings 2"
  by unfold_locales (simp add: sample_deployment_ok)

definition sample_source :: "nat \<Rightarrow> host list \<Rightarrow> (host \<rightharpoonup> nat general_config) rust" where
  "sample_source n = repo_source plain_topology_env show_nat (sample_settings n)"

definition sample_waiting :: "nat general_config repo" where
  "sample_waiting = register (sample_hosts ! 1) 8 (register (sample_hosts ! 0) 7 repo_new)"

lemma sample_waiting_eq:
  "sample_waiting = \<lparr>rp_waiting = [(sample_hosts ! 0, 7), (sample_hosts ! 1, 8)], rp_replies = [], rp_phase = Collecting, rp_clock = 0\<rparr>"
  using sample_hosts_facts by (simp add: sample_waiting_def register_def repo_new_def nth_eq_iff_index_eq)

lemma sample_reachable: "repo_reachable mk n timeout repo_new sample_waiting"
proof -
  have "repo_reachable mk n timeout repo_new (register (sample_hosts ! 0) 7 repo_new)"
    by (intro repo_reachable.Step [OF repo_reachable.Refl] repo_step.Register) (simp add: requests_def repo_new_def)
  then show ?thesis unfolding sample_waiting_def
    by (rule repo_reachable.Step) (intro repo_step.Register, simp add: requests_def repo_new_def register_def)
qed

theorem repo_invariant_witness: "distinct (requests sample_waiting)"
  using repo_invariant [OF sample_reachable [of "sample_source 2" 2 3]] by blast

theorem repo_run_ends_witness:
  "rp_phase (repo_exec (sample_source 2) 2 1 [Tick, Announce (sample_hosts ! 0) 7, Tick] repo_new) \<noteq> Collecting"
  using repo_run_ends [of 1 "[Tick, Announce (sample_hosts ! 0) 7, Tick]" "sample_source 2" 2] by (simp add: ticks_def)


theorem repo_overcrowded_crashes_witness:
  "rp_phase (run_poll (sample_source 1) 1 3 sample_waiting) = Crashed
   \<and> length (rp_waiting (run_poll (sample_source 1) 1 3 sample_waiting)) = 2"
proof -
  have "cs_n_hosts (sample_settings 1) < length (rp_waiting sample_waiting)" by (simp add: sample_waiting_eq)
  from repo_overcrowded_crashes [OF this repo_reachable.Refl, of plain_topology_env show_nat]
  show ?thesis by (simp add: sample_source_def sample_waiting_eq)
qed

theorem repo_late_hosts_unanswered_witness:
  "rp_phase (register (sample_hosts ! 1) 9 (expire sample_waiting)) = Finished
   \<and> list_all (\<lambda>x. x \<in> set (rp_replies (expire sample_waiting)) \<or> snd (snd x) = ReplyDropped)
       (rp_replies (register (sample_hosts ! 1) 9 (expire sample_waiting)))"
proof -
  have "repo_reachable (sample_source 2) 2 3 (expire sample_waiting) (register (sample_hosts ! 1) 9 (expire sample_waiting))"
    by (intro repo_reachable.Step [OF repo_reachable.Refl] repo_step.Register) (simp add: requests_def expire_def sample_waiting_eq)
  from repo_late_hosts_unanswered [OF _ this] show ?thesis by (auto simp: list_all_iff expire_def)
qed

end
