(* ===== verification/Cfgsync_Client.thy ===== *)
theory Cfgsync_Client
  imports Cfgsync_Server "HOL-Library.AList"
begin

text \<open>
  The HTTP side of cfgsync: the handlers and the JSON edits of \<open>tools/cfgsync/src/server.rs\<close>,
  \<open>client.rs\<close> and \<open>bin/cfgsync-client.rs\<close>.

  A JSON value is a datatype; an object is a list of members with different keys. Turning the node
  configuration into JSON (\<open>to_value\<close>) and reading it back (\<open>deserialize\<close>) are parameters, as are the
  text form of peer ids and its parser, the parser of IPv4 addresses and the initialiser of a membership.
\<close>

section \<open>JSON values\<close>

datatype json = JNull | JBool bool | JNum int | JStr string | JArr "json list" | JObj "(string \<times> json) list"

definition as_object :: "json \<Rightarrow> (string \<times> json) list option" where
  "as_object v = (case v of JObj kvs \<Rightarrow> Some kvs | _ \<Rightarrow> None)"

definition as_array :: "json \<Rightarrow> json list option" where
  "as_array v = (case v of JArr xs \<Rightarrow> Some xs | _ \<Rightarrow> None)"

definition as_str :: "json \<Rightarrow> string option" where
  "as_str v = (case v of JStr s \<Rightarrow> Some s | _ \<Rightarrow> None)"

text \<open>Array indices of a JSON pointer: decimal, no sign and no leading zero.\<close>

definition parse_index :: "string \<Rightarrow> nat option" where
  "parse_index s = (if s \<noteq> [] \<and> hd s = CHR ''+'' \<or> 1 < length s \<and> hd s = CHR ''0'' then None else parse_usize s)"

text \<open>\<open>pointer\<close>, with the pointer given as the list of its reference tokens.\<close>

fun pointer :: "string list \<Rightarrow> json \<Rightarrow> json option" where
  "pointer [] v = Some v"
| "pointer (t # ts) (JObj kvs) = Option.bind (map_of kvs t) (pointer ts)"
| "pointer (t # ts) (JArr xs) =
     Option.bind (parse_index t) (\<lambda>i. if i < length xs then pointer ts (xs ! i) else None)"
| "pointer (t # ts) v = None"

text \<open>\<open>pointer_mut\<close> followed by an assignment through the reference, if there is one.\<close>

definition update_member :: "string \<Rightarrow> (json \<Rightarrow> json) \<Rightarrow> (string \<times> json) list \<Rightarrow> (string \<times> json) list" where
  "update_member k f kvs = map (\<lambda>(k', v). if k' = k then (k', f v) else (k', v)) kvs"

fun pointer_update :: "string list \<Rightarrow> (json \<Rightarrow> json) \<Rightarrow> json \<Rightarrow> json" where
  "pointer_update [] f v = f v"
| "pointer_update (t # ts) f (JObj kvs) = JObj (update_member t (pointer_update ts f) kvs)"
| "pointer_update (t # ts) f (JArr xs) =
     (case parse_index t of
        Some i \<Rightarrow> if i < length xs then JArr (xs[i := pointer_update ts f (xs ! i)]) else JArr xs
      | None \<Rightarrow> JArr xs)"
| "pointer_update (t # ts) f v = v"

text \<open>\<open>Map::insert\<close> replaces or adds a member; \<open>entry(k).or_insert_with\<close> adds it only if absent.\<close>

definition obj_insert :: "string \<Rightarrow> json \<Rightarrow> (string \<times> json) list \<Rightarrow> (string \<times> json) list" where
  "obj_insert k v kvs = AList.update k v kvs"

definition or_insert :: "string \<Rightarrow> json \<Rightarrow> (string \<times> json) list \<Rightarrow> (string \<times> json) list" where
  "or_insert k v kvs = (case map_of kvs k of Some _ \<Rightarrow> kvs | None \<Rightarrow> obj_insert k v kvs)"

definition map_object :: "((string \<times> json) list \<Rightarrow> (string \<times> json) list) \<Rightarrow> json \<Rightarrow> json" where
  "map_object f v = (case v of JObj kvs \<Rightarrow> JObj (f kvs) | _ \<Rightarrow> v)"

section \<open>Server-side edits\<close>

definition inject_defaults :: "json \<Rightarrow> json" where
  "inject_defaults config = map_object (update_member ''cryptarchia'' (map_object (\<lambda>cryptarchia.
     let with_bootstrap = or_insert ''bootstrap'' (JObj []) cryptarchia;
         with_ibd = update_member ''bootstrap'' (map_object (or_insert ''ibd'' (JObj [(''peers'', JArr []),
           (''delay_before_new_download'', JObj [(''secs'', JNum 10), (''nanos'', JNum 0)])]))) with_bootstrap;
         with_adapter = or_insert ''network_adapter_settings'' (JObj [(''topic'', JStr ''/cryptarchia/proto'')]) with_ibd
     in or_insert ''sync'' (JObj [(''orphan'', JObj [(''max_orphan_cache_size'', JNum 5)])]) with_adapter))) config"

definition override_api_ports :: "port_overrides \<Rightarrow> json \<Rightarrow> json" where
  "override_api_ports ports config =
     (let bind_to = (\<lambda>port. JStr (''0.0.0.0:'' @ show_nat port));
          config1 = (case po_api_port ports of None \<Rightarrow> config
            | Some port \<Rightarrow> pointer_update [''http'', ''backend_settings'', ''address''] (\<lambda>_. bind_to port) config)
      in case po_testing_http_port ports of None \<Rightarrow> config1
         | Some port \<Rightarrow> pointer_update [''testing_http'', ''backend_settings'', ''address''] (\<lambda>_. bind_to port) config1)"

text \<open>\<open>subnetworks()\<close> of the membership, in the order its iterators give.\<close>

definition inject_da_assignations :: "('p \<Rightarrow> string) \<Rightarrow> (nat \<times> 'p list) list \<Rightarrow> json \<Rightarrow> json" where
  "inject_da_assignations show_peer subnetworks config =
     (let assignations = map (\<lambda>(subnet_id, members). (show_nat subnet_id, JArr (map (JStr \<circ> show_peer) members))) subnetworks
      in pointer_update [''da_network'', ''membership''] (map_object (obj_insert ''assignations'' (JObj assignations))) config)"

definition override_min_session_members :: "json \<Rightarrow> json" where
  "override_min_session_members config = pointer_update [''da_network'', ''min_session_members''] (\<lambda>_. JNum 1) config"

section \<open>Handlers\<close>

record client_ip =
  ci_ip :: string
  ci_identifier :: string
  ci_network_port :: "nat option"
  ci_da_port :: "nat option"
  ci_blend_port :: "nat option"
  ci_api_port :: "nat option"
  ci_testing_http_port :: "nat option"

datatype http_response = HttpOk json | HttpInternalError string | HttpTimeout | HttpAborted

definition payload_ports :: "client_ip \<Rightarrow> port_overrides" where
  "payload_ports payload = \<lparr>po_network_port = ci_network_port payload, po_da_network_port = ci_da_port payload,
     po_blend_port = ci_blend_port payload, po_api_port = ci_api_port payload,
     po_testing_http_port = ci_testing_http_port payload\<rparr>"

text \<open>The host a handler registers; the route decides its kind.\<close>

definition handler_host :: "host_kind \<Rightarrow> client_ip \<Rightarrow> host" where
  "handler_host kind payload = (case kind of
     HostValidator \<Rightarrow> validator_from_ip (ci_ip payload) (ci_identifier payload) (payload_ports payload)
   | HostExecutor \<Rightarrow> executor_from_ip (ci_ip payload) (ci_identifier payload) (payload_ports payload))"

text \<open>The handlers \<open>cfgsync_app\<close> routes to, by the kind of host they register.\<close>

definition cfgsync_app :: "string \<rightharpoonup> host_kind" where
  "cfgsync_app = [''/validator'' \<mapsto> HostValidator, ''/executor'' \<mapsto> HostExecutor]"

text \<open>
  What a handler does with the reply; \<open>to_value\<close> is the JSON of the node configuration built from the
  general one and \<open>subnetworks\<close> what its membership lists.
\<close>

definition finish_config :: "('p \<Rightarrow> string) \<Rightarrow> port_overrides \<Rightarrow> (nat \<times> 'p list) list \<Rightarrow> json \<Rightarrow> json" where
  "finish_config show_peer ports subnetworks value =
     override_min_session_members (inject_da_assignations show_peer subnetworks
       (override_api_ports ports (inject_defaults value)))"

definition handle_reply :: "('p \<Rightarrow> string) \<Rightarrow> ('c \<Rightarrow> json) \<Rightarrow> ('c \<Rightarrow> (nat \<times> 'p list) list) \<Rightarrow> client_ip \<Rightarrow> 'c reply
    \<Rightarrow> http_response" where
  "handle_reply show_peer to_value subnetworks payload r = (case r of
     ReplyConfig c \<Rightarrow> HttpOk (finish_config show_peer (payload_ports payload) (subnetworks c) (to_value c))
   | ReplyTimeout \<Rightarrow> HttpTimeout
   | ReplyDropped \<Rightarrow> HttpInternalError ''Error receiving config''
   | ReplyPanic \<Rightarrow> HttpAborted)"

section \<open>The client\<close>

definition parse_ip :: "(string \<Rightarrow> string option) \<Rightarrow> string \<Rightarrow> string" where
  "parse_ip parse_addr s = unwrap_or ''127.0.0.1'' (parse_addr s)"

definition parse_u16 :: "string \<Rightarrow> nat option" where
  "parse_u16 s = (case parse_usize s of Some n \<Rightarrow> if n \<le> u16_max then Some n else None | None \<Rightarrow> None)"

fun parse_peers :: "(string \<Rightarrow> 'p option) \<Rightarrow> json list \<Rightarrow> 'p set" where
  "parse_peers parse_peer [] = {}"
| "parse_peers parse_peer (v # vs) =
     (case Option.bind (as_str v) parse_peer of
        Some p \<Rightarrow> insert p (parse_peers parse_peer vs) | None \<Rightarrow> parse_peers parse_peer vs)"

fun parse_subnetworks :: "(string \<Rightarrow> 'p option) \<Rightarrow> (string \<times> json) list \<Rightarrow> (nat \<rightharpoonup> 'p set) \<Rightarrow> (nat \<rightharpoonup> 'p set) option" where
  "parse_subnetworks parse_peer [] result = Some result"
| "parse_subnetworks parse_peer ((subnetwork, peers) # rest) result =
     Option.bind (parse_u16 subnetwork) (\<lambda>subnetwork_id.
     Option.bind (as_array peers) (\<lambda>vs.
       parse_subnetworks parse_peer rest (result(subnetwork_id \<mapsto> parse_peers parse_peer vs))))"

definition parse_assignations :: "(string \<Rightarrow> 'p option) \<Rightarrow> json \<Rightarrow> (nat \<rightharpoonup> 'p set) option" where
  "parse_assignations parse_peer raw =
     Option.bind (pointer [''da_network'', ''membership'', ''assignations''] raw) (\<lambda>v.
     Option.bind (as_object v) (\<lambda>assignations. parse_subnetworks parse_peer assignations Map.empty))"


text \<open>
  What comes back over HTTP: a transport error, or a status with a body that is unreadable, not JSON, or
  a JSON value.
\<close>

datatype wire = SendFailed string | Response nat "string + string + json"

datatype fetch_error = SendError string | ServerError nat | ReadError string | ParseError string
  | DeserializeError string | SerializeError string | WriteError string

definition deserialize_response :: "(json \<Rightarrow> string + 'cfg) \<Rightarrow> string + string + json \<Rightarrow> fetch_error + ('cfg \<times> json)" where
  "deserialize_response deserialize body = (case body of
     Inl e \<Rightarrow> Inl (ReadError e)
   | Inr (Inl e) \<Rightarrow> Inl (ParseError e)
   | Inr (Inr raw) \<Rightarrow> (case deserialize raw of Inl e \<Rightarrow> Inl (DeserializeError e) | Inr config \<Rightarrow> Inr (config, raw)))"

definition get_config :: "(json \<Rightarrow> string + 'cfg) \<Rightarrow> (string \<Rightarrow> client_ip \<Rightarrow> wire) \<Rightarrow> client_ip \<Rightarrow> string
    \<Rightarrow> fetch_error + ('cfg \<times> json)" where
  "get_config deserialize post payload url = (case post url payload of
     SendFailed e \<Rightarrow> Inl (SendError e)
   | Response status body \<Rightarrow>
       if \<not> (200 \<le> status \<and> status < 300) then Inl (ServerError status) else deserialize_response deserialize body)"

text \<open>\<open>pull_to_file\<close>; \<open>apply_membership\<close> replaces the membership and \<open>store\<close> serialises to YAML and stores it.\<close>

definition pull_to_file :: "(json \<Rightarrow> string + 'cfg) \<Rightarrow> (string \<Rightarrow> client_ip \<Rightarrow> wire) \<Rightarrow> (string \<Rightarrow> 'p option)
    \<Rightarrow> ((nat \<rightharpoonup> 'p set) \<Rightarrow> 'cfg \<Rightarrow> 'cfg) \<Rightarrow> (string \<Rightarrow> 'cfg \<Rightarrow> fetch_error + unit) \<Rightarrow> client_ip \<Rightarrow> string \<Rightarrow> string
    \<Rightarrow> fetch_error + 'cfg" where
  "pull_to_file deserialize post parse_peer apply_membership store payload url config_file =
     (case get_config deserialize post payload url of
        Inl e \<Rightarrow> Inl e
      | Inr (config, raw) \<Rightarrow>
          let config' = (case parse_assignations parse_peer raw of
                Some assignations \<Rightarrow> apply_membership assignations config | None \<Rightarrow> config)
          in (case store config_file config' of Inl e \<Rightarrow> Inl e | Inr _ \<Rightarrow> Inr config'))"

text \<open>The settings \<open>main\<close> reads from its environment variables.\<close>

definition client_payload :: "(string \<Rightarrow> string option) \<Rightarrow> (string \<Rightarrow> string option) \<Rightarrow> client_ip" where
  "client_payload parse_addr env =
     \<lparr>ci_ip = parse_ip parse_addr (unwrap_or ''127.0.0.1'' (env ''CFG_HOST_IP'')),
      ci_identifier = unwrap_or ''unidentified-node'' (env ''CFG_HOST_IDENTIFIER''),
      ci_network_port = Option.bind (env ''CFG_NETWORK_PORT'') parse_u16,
      ci_da_port = Option.bind (env ''CFG_DA_PORT'') parse_u16,
      ci_blend_port = Option.bind (env ''CFG_BLEND_PORT'') parse_u16,
      ci_api_port = Option.bind (env ''CFG_API_PORT'') parse_u16,
      ci_testing_http_port = Option.bind (env ''CFG_TESTING_HTTP_PORT'') parse_u16\<rparr>"

definition client_host_kind :: "(string \<Rightarrow> string option) \<Rightarrow> host_kind" where
  "client_host_kind env = (if unwrap_or ''validator'' (env ''CFG_HOST_KIND'') = ''executor'' then HostExecutor else HostValidator)"

definition route :: "host_kind \<Rightarrow> string" where
  "route kind = (case kind of HostExecutor \<Rightarrow> ''/executor'' | HostValidator \<Rightarrow> ''/validator'')"

definition client_endpoint :: "nat \<Rightarrow> (string \<Rightarrow> string option) \<Rightarrow> string" where
  "client_endpoint default_port env =
     unwrap_or (''http://127.0.0.1:'' @ show_nat default_port) (env ''CFG_SERVER_ADDR'') @ route (client_host_kind env)"

text \<open>
  \<open>main\<close>: the process exits with status 1 exactly on an error. The two kinds differ in the type of the
  configuration they read, here a deserialiser per kind.
\<close>

definition client_main :: "nat \<Rightarrow> (string \<Rightarrow> string option) \<Rightarrow> (host_kind \<Rightarrow> json \<Rightarrow> string + 'cfg) \<Rightarrow> (string \<Rightarrow> client_ip \<Rightarrow> wire)
    \<Rightarrow> (string \<Rightarrow> 'p option) \<Rightarrow> ((nat \<rightharpoonup> 'p set) \<Rightarrow> 'cfg \<Rightarrow> 'cfg) \<Rightarrow> (string \<Rightarrow> 'cfg \<Rightarrow> fetch_error + unit)
    \<Rightarrow> (string \<Rightarrow> string option) \<Rightarrow> (fetch_error + 'cfg) \<times> nat" where
  "client_main default_port parse_addr deserialize post parse_peer apply_membership store env =
     (let result = pull_to_file (deserialize (client_host_kind env)) post parse_peer apply_membership store
            (client_payload parse_addr env) (client_endpoint default_port env) (unwrap_or ''config.yaml'' (env ''CFG_FILE_PATH''))
      in (result, case result of Inl _ \<Rightarrow> 1 | Inr _ \<Rightarrow> 0))"

section \<open>JSON pointers\<close>

text \<open>Pointers that part at a token which is no array index do not see each other's updates.\<close>

fun diverge :: "string list \<Rightarrow> string list \<Rightarrow> bool" where
  "diverge (a # p) (b # q) \<longleftrightarrow> (if a = b then diverge p q else parse_index a = None)"
| "diverge _ _ \<longleftrightarrow> False"

lemma map_of_update_member: "map_of (update_member k f kvs) k' = (if k' = k then map_option f (map_of kvs k) else map_of kvs k')"
  by (induction kvs) (auto simp: update_member_def)

lemma pointer_update_same: "pointer p (pointer_update p f v) = map_option f (pointer p v)"
proof (induction p f v rule: pointer_update.induct)
  case (2 t ts f kvs)
  then show ?case by (auto simp: map_of_update_member Option.map_option_case split: option.splits)
qed (auto split: option.splits)

lemma pointer_update_diverge: "diverge p q \<Longrightarrow> pointer q (pointer_update p f v) = pointer q v"
proof (induction p q arbitrary: v rule: diverge.induct)
  case (1 a p b q)
  show ?case
    by (cases v) (use 1 in \<open>auto simp: map_of_update_member bind_map_option comp_def split: if_splits option.splits\<close>)
qed simp_all

lemma pointer_append: "pointer (p @ q) v = Option.bind (pointer p v) (pointer q)"
  by (induction p v rule: pointer.induct) (auto split: option.splits bind_splits)


lemma inject_defaults_pointer:
  obtains f where "inject_defaults = pointer_update [''cryptarchia''] f"
proof -
  have [simp]: "pointer_update [] f = f" for f by (rule ext) simp
  have *: "map_object (update_member ''cryptarchia'' f) v = pointer_update [''cryptarchia''] f v" for f v
    by (cases v) (simp_all add: map_object_def update_member_def parse_index_def parse_usize_def digit_value_def)
  show ?thesis by (rule that, rule ext, subst inject_defaults_def, rule *)
qed

lemma pointer_not_index [simp]:
  "parse_index ''cryptarchia'' = None" "parse_index ''http'' = None" "parse_index ''testing_http'' = None"
  "parse_index ''da_network'' = None" "parse_index ''membership'' = None" "parse_index ''min_session_members'' = None"
  by (simp_all add: parse_index_def parse_usize_def digit_value_def)

abbreviation api_address :: "string list" where "api_address \<equiv> [''http'', ''backend_settings'', ''address'']"
abbreviation testing_address :: "string list" where "testing_address \<equiv> [''testing_http'', ''backend_settings'', ''address'']"
abbreviation membership_path :: "string list" where "membership_path \<equiv> [''da_network'', ''membership'']"
abbreviation min_members_path :: "string list" where "min_members_path \<equiv> [''da_network'', ''min_session_members'']"

text \<open>A pointer that parts from the first three edited places sees only the last edits, and so on.\<close>

lemma pointer_inject_defaults: "diverge [''cryptarchia''] q \<Longrightarrow> pointer q (inject_defaults v) = pointer q v"
  using inject_defaults_pointer pointer_update_diverge by metis

lemma pointer_override_frame:
  "diverge api_address q \<Longrightarrow> diverge testing_address q \<Longrightarrow> pointer q (override_api_ports ports v) = pointer q v"
  by (simp add: override_api_ports_def Let_def pointer_update_diverge split: option.split)

lemma pointer_override_same:
  "pointer api_address (override_api_ports ports v) = (case po_api_port ports of
     Some p \<Rightarrow> map_option (\<lambda>_. JStr (''0.0.0.0:'' @ show_nat p)) (pointer api_address v) | None \<Rightarrow> pointer api_address v)"
  "pointer testing_address (override_api_ports ports v) = (case po_testing_http_port ports of
     Some p \<Rightarrow> map_option (\<lambda>_. JStr (''0.0.0.0:'' @ show_nat p)) (pointer testing_address v) | None \<Rightarrow> pointer testing_address v)"
  by (simp_all add: override_api_ports_def Let_def pointer_update_diverge pointer_update_same del: pointer.simps pointer_update.simps
      split: option.split)

text \<open>
  What a cfgsync handler changes in the serialised configuration: a requested API or testing port
  becomes the listening port of the corresponding HTTP backend if that has an address, the minimum number
  of session members becomes one if the field exists, and everything outside the five edited places is
  what was serialised.
\<close>

theorem served_config_edits:
  assumes "\<forall>p \<in> {[''cryptarchia''], api_address, testing_address, membership_path, min_members_path}. diverge p q"
  shows "pointer api_address (finish_config show_peer ports subs v) = (case po_api_port ports of
       Some p \<Rightarrow> map_option (\<lambda>_. JStr (''0.0.0.0:'' @ show_nat p)) (pointer api_address v) | None \<Rightarrow> pointer api_address v)
   \<and> pointer testing_address (finish_config show_peer ports subs v) = (case po_testing_http_port ports of
       Some p \<Rightarrow> map_option (\<lambda>_. JStr (''0.0.0.0:'' @ show_nat p)) (pointer testing_address v) | None \<Rightarrow> pointer testing_address v)
   \<and> pointer min_members_path (finish_config show_peer ports subs v) = map_option (\<lambda>_. JNum 1) (pointer min_members_path v)
   \<and> pointer q (finish_config show_peer ports subs v) = pointer q v"
  using assms
  by (intro conjI) (simp_all add: finish_config_def override_min_session_members_def inject_da_assignations_def Let_def
      pointer_update_same pointer_update_diverge pointer_override_same pointer_override_frame pointer_inject_defaults
      del: pointer.simps pointer_update.simps split: option.split)

lemma parse_u16_show: "n \<le> u16_max \<Longrightarrow> parse_u16 (show_nat n) = Some n"
  using parse_show_usize [of n] by (simp add: parse_u16_def u16_max_def usize_max_def)

lemma parse_peers_show: "\<forall>p. parse_peer (show_peer p) = Some p \<Longrightarrow> parse_peers parse_peer (map (JStr \<circ> show_peer) ps) = set ps"
  by (induction ps) (simp_all add: as_str_def)

lemma parse_subnetworks_show:
  assumes "\<forall>p. parse_peer (show_peer p) = Some p" and "\<forall>(i, ps) \<in> set subs. i \<le> u16_max"
  shows "parse_subnetworks parse_peer (map (\<lambda>(i, ps). (show_nat i, JArr (map (JStr \<circ> show_peer) ps))) subs) m
    = Some (m ++ map_of (rev (map (\<lambda>(i, ps). (i, set ps)) subs)))"
  using assms by (induction subs arbitrary: m) (auto simp: parse_u16_show parse_peers_show as_array_def)


lemma finish_config_assignations:
  assumes "pointer membership_path v = Some (JObj kvs)"
  shows "pointer (membership_path @ [''assignations'']) (finish_config show_peer ports subs v)
    = Some (JObj (map (\<lambda>(i, ps). (show_nat i, JArr (map (JStr \<circ> show_peer) ps))) subs))"
proof -
  have "pointer membership_path (override_api_ports ports (inject_defaults v)) = Some (JObj kvs)"
    using assms by (simp add: pointer_override_frame pointer_inject_defaults del: pointer.simps)
  then have "pointer membership_path (finish_config show_peer ports subs v)
      = Some (map_object (obj_insert ''assignations'' (JObj (map (\<lambda>(i, ps). (show_nat i, JArr (map (JStr \<circ> show_peer) ps))) subs))) (JObj kvs))"
    by (simp add: finish_config_def override_min_session_members_def inject_da_assignations_def Let_def
        pointer_update_same pointer_update_diverge del: pointer.simps pointer_update.simps)
  then show ?thesis
    by (simp only: pointer_append) (simp add: map_object_def obj_insert_def update_conv)
qed

lemma served_assignations:
  assumes "\<forall>p. parse_peer (show_peer p) = Some p" and "pointer membership_path v = Some (JObj kvs)"
    and "distinct (map fst subs)" and "\<forall>(i, ps) \<in> set subs. i \<le> u16_max"
  shows "parse_assignations parse_peer (finish_config show_peer ports subs v) = Some (map_of (map (\<lambda>(i, ps). (i, set ps)) subs))"
proof -
  have "map_of (rev (map (\<lambda>(i, ps). (i, set ps)) subs)) = map_of (map (\<lambda>(i, ps). (i, set ps)) subs)"
    using assms(3) by (subst map_of_inject_set) (simp_all add: comp_def case_prod_unfold rev_map [symmetric])
  moreover have "pointer [''da_network'', ''membership'', ''assignations''] (finish_config show_peer ports subs v)
    = Some (JObj (map (\<lambda>(i, ps). (show_nat i, JArr (map (JStr \<circ> show_peer) ps))) subs))"
    using finish_config_assignations [OF assms(2), of show_peer ports subs] by simp
  ultimately show ?thesis
    by (simp add: parse_assignations_def as_object_def parse_subnetworks_show [OF assms(1,4)] del: pointer.simps)
qed

text \<open>
  C26. The assignations survive the trip: whatever the serialised node configuration is, as long as its
  DA membership is an object, the client reads out of the server's response exactly the subnetworks and
  members of the configuration the server answered with.
\<close>

theorem assignations_roundtrip:
  assumes "\<forall>p. parse_peer (show_peer p) = Some p" and "pointer membership_path (to_value c) = Some (JObj kvs)"
    and "distinct (map fst (subnetworks c))" and "\<forall>(i, ps) \<in> set (subnetworks c). i \<le> u16_max"
  shows "\<exists>v. handle_reply show_peer to_value subnetworks payload (ReplyConfig c) = HttpOk v
    \<and> parse_assignations parse_peer v = Some (map_of (map (\<lambda>(i, ps). (i, set ps)) (subnetworks c)))"
  using served_assignations [OF assms] by (simp add: handle_reply_def)


text \<open>How a response of the server reaches the client.\<close>

definition on_wire :: "http_response \<Rightarrow> wire" where
  "on_wire r = (case r of
     HttpOk v \<Rightarrow> Response 200 (Inr (Inr v))
   | HttpInternalError msg \<Rightarrow> Response 500 (Inr (Inl msg))
   | HttpTimeout \<Rightarrow> Response 408 (Inr (Inl []))
   | HttpAborted \<Rightarrow> SendFailed ''connection closed'')"

text \<open>
  The client against the server's handlers: with a configuration as reply it stores the deserialised
  configuration carrying the membership the server sent, and exits with status 0; on a
  timeout, a closed channel or a crashed handler it stores nothing and exits with status 1.
\<close>

theorem client_stores_served_config:
  fixes r :: "'c reply"
  assumes "\<forall>url payload. post url payload = on_wire (handle_reply show_peer to_value subnetworks payload r)"
    and "\<forall>p. parse_peer (show_peer p) = Some p" and "\<forall>path cfg. store path cfg = Inr ()"
    and "\<forall>c. \<exists>kvs. pointer membership_path (to_value c) = Some (JObj kvs)"
    and "\<forall>c. distinct (map fst (subnetworks c)) \<and> (\<forall>(i, ps) \<in> set (subnetworks c). i \<le> u16_max)"
  shows "(\<forall>c. r = ReplyConfig c \<longrightarrow>
      (\<forall>cfg. deserialize (client_host_kind env)
           (finish_config show_peer (payload_ports (client_payload parse_addr env)) (subnetworks c) (to_value c)) = Inr cfg \<longrightarrow>
         client_main port parse_addr deserialize post parse_peer apply_membership store env
         = (Inr (apply_membership (map_of (map (\<lambda>(i, ps). (i, set ps)) (subnetworks c))) cfg), 0)))
    \<and> ((\<forall>c. r \<noteq> ReplyConfig c) \<longrightarrow>
      (\<exists>e. client_main port parse_addr deserialize post parse_peer apply_membership store env = (Inl e, 1)))"
proof (intro conjI allI impI)
  fix c cfg
  assume r: "r = ReplyConfig c"
    and d: "deserialize (client_host_kind env) (finish_config show_peer (payload_ports (client_payload parse_addr env)) (subnetworks c) (to_value c)) = Inr cfg"
  obtain kvs where kvs: "pointer membership_path (to_value c) = Some (JObj kvs)" using assms(4) by blast
  have "parse_assignations parse_peer (finish_config show_peer (payload_ports (client_payload parse_addr env)) (subnetworks c) (to_value c))
      = Some (map_of (map (\<lambda>(i, ps). (i, set ps)) (subnetworks c)))"
    using served_assignations [OF assms(2) kvs] assms(5) by blast
  then show "client_main port parse_addr deserialize post parse_peer apply_membership store env
      = (Inr (apply_membership (map_of (map (\<lambda>(i, ps). (i, set ps)) (subnetworks c))) cfg), 0)"
    using assms(1,3) r d
    by (simp add: client_main_def pull_to_file_def get_config_def handle_reply_def on_wire_def deserialize_response_def Let_def)
next
  assume "\<forall>c. r \<noteq> ReplyConfig c"
  then show "\<exists>e. client_main port parse_addr deserialize post parse_peer apply_membership store env = (Inl e, 1)"
    using assms(1) by (cases r) (simp_all add: client_main_def pull_to_file_def get_config_def handle_reply_def on_wire_def Let_def)
qed

text \<open>
  The environment variables of a client decide what the server registers: the client posts to the
  route of its kind, and the host that route's handler builds from the payload has the kind, address and identifier announced, and a port variable that is
  missing or is not a 16-bit number gives the server's default port.
\<close>

theorem announced_host:
  "map_option (\<lambda>kind. handler_host kind (client_payload parse_addr env)) (cfgsync_app (route (client_host_kind env))) = Some
     \<lparr>h_kind = (if env ''CFG_HOST_KIND'' = Some ''executor'' then HostExecutor else HostValidator),
      h_ip = (case parse_addr (case env ''CFG_HOST_IP'' of Some s \<Rightarrow> s | None \<Rightarrow> ''127.0.0.1'') of
                Some ip \<Rightarrow> ip | None \<Rightarrow> ''127.0.0.1''),
      h_identifier = (case env ''CFG_HOST_IDENTIFIER'' of Some i \<Rightarrow> i | None \<Rightarrow> ''unidentified-node''),
      h_network_port = (case Option.bind (env ''CFG_NETWORK_PORT'') parse_u16 of Some p \<Rightarrow> p | None \<Rightarrow> 3000),
      h_da_network_port = (case Option.bind (env ''CFG_DA_PORT'') parse_u16 of Some p \<Rightarrow> p | None \<Rightarrow> 3300),
      h_blend_port = (case Option.bind (env ''CFG_BLEND_PORT'') parse_u16 of Some p \<Rightarrow> p | None \<Rightarrow> 3400),
      h_api_port = (case Option.bind (env ''CFG_API_PORT'') parse_u16 of Some p \<Rightarrow> p | None \<Rightarrow> 18080),
      h_testing_http_port = (case Option.bind (env ''CFG_TESTING_HTTP_PORT'') parse_u16 of Some p \<Rightarrow> p | None \<Rightarrow> 18081)\<rparr>"
  by (auto simp: cfgsync_app_def route_def handler_host_def client_host_kind_def client_payload_def payload_ports_def validator_from_ip_def
      executor_from_ip_def from_parts_def unwrap_or_def parse_ip_def default_libp2p_network_port_def
      default_da_network_port_def default_blend_port_def default_api_port_def split: option.splits)


section \<open>Witnesses\<close>

definition sample_value :: json where
  "sample_value = JObj [(''http'', JObj [(''backend_settings'', JObj [(''address'', JStr ''127.0.0.1:1'')])]),
     (''da_network'', JObj [(''membership'', JObj []), (''min_session_members'', JNum 4)]), (''time'', JNum 7)]"

definition sample_subnetworks :: "(nat \<times> string list) list" where
  "sample_subnetworks = [(0, [''a'', ''b'']), (1, [''b''])]"

definition sample_env :: "string \<Rightarrow> string option" where
  "sample_env = [''CFG_HOST_KIND'' \<mapsto> ''executor'', ''CFG_API_PORT'' \<mapsto> ''8080'', ''CFG_DA_PORT'' \<mapsto> ''70000'']"

lemma sample_value_membership: "pointer membership_path sample_value = Some (JObj [])"
  by (simp add: sample_value_def)

lemma sample_subnetworks_facts:
  "distinct (map fst sample_subnetworks)" "\<forall>(i, ps) \<in> set sample_subnetworks. i \<le> u16_max"
  by (simp_all add: sample_subnetworks_def u16_max_def)

theorem served_config_edits_witness:
  "pointer [''time''] (finish_config id (payload_ports (client_payload Some sample_env)) sample_subnetworks sample_value) = Some (JNum 7)
   \<and> pointer api_address (finish_config id (payload_ports (client_payload Some sample_env)) sample_subnetworks sample_value)
     = Some (JStr (''0.0.0.0:'' @ show_nat 8080))"
proof -
  have port: "po_api_port (payload_ports (client_payload Some sample_env)) = Some 8080"
    by (simp add: payload_ports_def client_payload_def sample_env_def parse_u16_def parse_usize_def digit_value_def
        usize_max_def u16_max_def)
  have "\<forall>p \<in> {[''cryptarchia''], api_address, testing_address, membership_path, min_members_path}. diverge p [''time'']"
    by simp
  from served_config_edits [OF this, of id "payload_ports (client_payload Some sample_env)" sample_subnetworks sample_value]
  show ?thesis unfolding port by (simp add: sample_value_def)
qed

theorem assignations_roundtrip_witness:
  "\<exists>v. handle_reply id (\<lambda>_. sample_value) (\<lambda>_. sample_subnetworks) (client_payload Some sample_env) (ReplyConfig ()) = HttpOk v
    \<and> parse_assignations Some v = Some [1 \<mapsto> {''b''}, 0 \<mapsto> {''a'', ''b''}]"
proof -
  have "\<forall>p. Some (id p) = Some (p :: string)" by simp
  from assignations_roundtrip [where parse_peer = Some and show_peer = id and to_value = "\<lambda>_ :: unit. sample_value" and subnetworks = "\<lambda>_. sample_subnetworks"
      and payload = "client_payload Some sample_env", OF this sample_value_membership sample_subnetworks_facts]
  show ?thesis by (simp add: sample_subnetworks_def)
qed

theorem client_stores_served_config_witness:
  "client_main 4400 Some (\<lambda>_ v. Inr (v, Map.empty)) (\<lambda>_ payload. on_wire (handle_reply id (\<lambda>_. sample_value)
       (\<lambda>_. sample_subnetworks) payload (ReplyConfig ()))) Some (\<lambda>m (v, _). (v, m)) (\<lambda>_ _. Inr ()) sample_env
   = (Inr (finish_config id (payload_ports (client_payload Some sample_env)) sample_subnetworks sample_value,
       map_of (map (\<lambda>(i, ps). (i, set ps)) sample_subnetworks)), 0)
   \<and> (\<exists>e. client_main 4400 Some (\<lambda>_ v. Inr (v, Map.empty)) (\<lambda>_ payload. on_wire (handle_reply id (\<lambda>_. sample_value)
       (\<lambda>_. sample_subnetworks) payload (ReplyTimeout :: unit reply))) Some (\<lambda>m (v, _). (v, m)) (\<lambda>_ _. Inr ()) sample_env = (Inl e, 1))"
proof -
  have h: "\<forall>p. Some (id p) = Some (p :: string)" "\<forall>(path :: string) cfg :: json \<times> (nat \<rightharpoonup> string set). (Inr () :: fetch_error + unit) = Inr ()"
    "\<forall>c :: unit. \<exists>kvs. pointer membership_path sample_value = Some (JObj kvs)"
    "\<forall>c :: unit. distinct (map fst sample_subnetworks) \<and> (\<forall>(i, ps) \<in> set sample_subnetworks. i \<le> u16_max)"
    using sample_value_membership sample_subnetworks_facts by simp_all
  let ?run = "\<lambda>r :: unit reply. \<lambda>(_ :: string) payload. on_wire (handle_reply id (\<lambda>_. sample_value) (\<lambda>_. sample_subnetworks) payload r)"
  have m: "(\<forall>c. r = ReplyConfig c \<longrightarrow> client_main 4400 Some (\<lambda>_ v. Inr (v, Map.empty)) (?run r) Some (\<lambda>m (v, _). (v, m)) (\<lambda>_ _. Inr ()) sample_env
      = (Inr (finish_config id (payload_ports (client_payload Some sample_env)) sample_subnetworks sample_value,
         map_of (map (\<lambda>(i, ps). (i, set ps)) sample_subnetworks)), 0))
    \<and> ((\<forall>c. r \<noteq> ReplyConfig c) \<longrightarrow>
      (\<exists>e. client_main 4400 Some (\<lambda>_ v. Inr (v, Map.empty)) (?run r) Some (\<lambda>m (v, _). (v, m)) (\<lambda>_ _. Inr ()) sample_env = (Inl e, 1)))" for r
    using client_stores_served_config [where post = "?run r" and r = r and show_peer = id and to_value = "\<lambda>_. sample_value"
        and subnetworks = "\<lambda>_. sample_subnetworks" and parse_peer = Some and store = "\<lambda>_ _. Inr ()" and env = sample_env
        and deserialize = "\<lambda>_ v. Inr (v, Map.empty)" and apply_membership = "\<lambda>m (v, _). (v, m)" and parse_addr = Some and port = 4400] h
    by simp
  show ?thesis using m [of "ReplyConfig ()"] m [of ReplyTimeout] by simp
qed

end
