(* ===== verification/Cfgsync_Template.thy ===== *)
theory Cfgsync_Template
  imports Cfgsync_Server
begin

text \<open>
  From a generated topology to the settings of the cfgsync server:
  \<open>core/src/scenario/cfgsync.rs\<close> and the environment constants of \<open>core/src/constants.rs\<close>, and what
  this makes the server hand out. Reading and writing the YAML file is left out; both sides use the same
  fields, so the settings are one record.
\<close>

section \<open>Constants\<close>

definition default_cfgsync_port :: nat where "default_cfgsync_port = 4400"

definition default_kzg_container_path :: string where
  "default_kzg_container_path = ''/kzgrs_test_params/kzgrs_test_params''"

definition cfgsync_port :: "environment \<Rightarrow> nat" where
  "cfgsync_port env = (case env ''NOMOS_CFGSYNC_PORT'' of
     Some s \<Rightarrow> (case parse_usize s of Some n \<Rightarrow> if n \<le> u16_max then n else default_cfgsync_port | None \<Rightarrow> default_cfgsync_port)
   | None \<Rightarrow> default_cfgsync_port)"

definition kzg_container_path :: "environment \<Rightarrow> string" where
  "kzg_container_path env = unwrap_or default_kzg_container_path (env ''NOMOS_KZG_CONTAINER_PATH'')"

section \<open>Overrides\<close>

definition apply_topology_overrides :: "environment \<Rightarrow> bool \<Rightarrow> 'p generated_topology \<Rightarrow> cfgsync_config \<Rightarrow> cfgsync_config" where
  "apply_topology_overrides env use_kzg_mount t cfg =
     (let consensus = tc_consensus_params (gt_config t); da = tc_da_params (gt_config t) in
      cfg\<lparr>cs_n_hosts := length (gt_validators t) + length (gt_executors t),
        cs_security_param := security_param consensus, cs_active_slot_coeff := active_slot_coeff consensus,
        cs_wallet := tc_wallet_config (gt_config t), cs_ids := Some (map gn_id (nodes t)),
        cs_da_ports := Some (map gn_da_port (nodes t)), cs_blend_ports := Some (map gn_blend_port (nodes t)),
        cs_subnetwork_size := dp_subnetwork_size da, cs_dispersal_factor := dp_dispersal_factor da,
        cs_num_samples := dp_num_samples da, cs_num_subnets := dp_num_subnets da,
        cs_old_blobs_check_interval := dp_old_blobs_check_interval da,
        cs_blobs_validity_duration := dp_blobs_validity_duration da,
        cs_global_params_path := (if use_kzg_mount then kzg_container_path env else dp_global_params_path da),
        cs_min_dispersal_peers := min_dispersal_peers (dp_policy_settings da),
        cs_min_replication_peers := min_replication_peers (dp_policy_settings da),
        cs_monitor_failure_time_window := dp_failure_time_window da, cs_balancer_interval := dp_balancer_interval da,
        cs_replication_settings := dp_replication_settings da, cs_retry_shares_limit := dp_retry_shares_limit da,
        cs_retry_commitments_limit := dp_retry_commitments_limit da\<rparr>)"


section \<open>The parts of a generated topology\<close>

lemma topology_parts:
  assumes "build te b = Inr t"
  obtains cs das genesis where
    "create_consensus_configs (te_crypto te) (map gn_id (nodes t)) (tc_consensus_params (gt_config t)) (tc_wallet_config (gt_config t)) = Inr cs"
    "create_da_configs (te_da te) (map gn_id (nodes t)) (tc_da_params (gt_config t)) (map gn_da_port (nodes t)) = Inr das"
    "tx_ledger (signed_tx genesis) = tx_ledger (signed_tx (cc_genesis_tx (cs ! 0)))"
    "\<And>i. i < length (nodes t) \<Longrightarrow> let g = gn_general (nodes t ! i);
         bl = create_blend_configs (te_crypto te) (map gn_id (nodes t)) (map gn_blend_port (nodes t)) in
       i < length cs \<and> gc_consensus g = (cs ! i)\<lparr>cc_genesis_tx := genesis\<rparr> \<and> gc_da g = das ! i \<and> gc_blend g = bl ! i
       \<and> cfgsync_kms_configs te bl das ! i \<subseteq>\<^sub>m gc_kms g"
    "length (nodes t) = length (gt_validators t) + length (gt_executors t)" "nodes t \<noteq> []"
  using assms
proof (cases rule: build_cases)
  case (1 ids dps bps cs das nets apis slot providers genesis ns)
  let ?n = "n_validators (tb_config b) + n_executors (tb_config b)"
  note o = build_ordered [OF 1(14)]
  have t: "nodes t = ns" using 1(15) o(3,4) by (simp add: nodes_def)
  have f: "gn_id (ns ! i) = ids ! i" "gn_da_port (ns ! i) = dps ! i" "gn_blend_port (ns ! i) = bps ! i" if "i < length ns" for i
    using build_node_fields(3-5) [OF o(2) [OF that]] by simp_all
  have idl: "length ids = ?n" using 1(3) by (auto simp: resolve_ids_Inr split: option.splits)
  have pl: "length dps = ?n" "length bps = ?n" using resolve_ports_Inr [OF 1(4)] resolve_ports_Inr [OF 1(5)] by simp_all
  have m: "map gn_id ns = ids" "map gn_da_port ns = dps" "map gn_blend_port ns = bps"
    using f idl pl o(1) by (auto intro!: nth_equalityI)
  note len = service_configs_lengths [OF idl pl(2)]
  have at: "let g = gn_general (ns ! i); bl = create_blend_configs (te_crypto te) ids bps in
       i < length cs \<and> gc_consensus g = (cs ! i)\<lparr>cc_genesis_tx := genesis\<rparr> \<and> gc_da g = das ! i \<and> gc_blend g = bl ! i
       \<and> cfgsync_kms_configs te bl das ! i \<subseteq>\<^sub>m gc_kms g" if i: "i < length ns" for i
  proof -
    note g = build_node_fields(6,7,8,10,12) [OF o(2) [OF i]]
    have "cfgsync_kms_configs te (create_blend_configs (te_crypto te) ids bps) das ! i \<subseteq>\<^sub>m gc_kms (gn_general (ns ! i))"
      using g(3) i o(1) len(1) len(3) [OF 1(7)] insert_wallet_keys_keeps
      by (fastforce simp: create_kms_configs_def cfgsync_kms_configs_def Let_def map_le_def dom_def)
    then show ?thesis using g by (simp add: Let_def)
  qed
  have gc: "gt_config t = tb_config b" by (simp add: 1(15))
  have ne: "ns \<noteq> []" using o(1) 1(2) by auto
  have ln: "length ns = length (gt_validators t) + length (gt_executors t)" using t by (metis length_append nodes_def)
  show ?thesis
    by (rule that [of cs das genesis]) (use 1(6,7) m at gc genesis_with_declarations(1) [OF 1(13)] ne ln t in \<open>simp_all\<close>)
qed


lemma consensus_configs_cong:
  "security_param p = security_param q \<Longrightarrow> active_slot_coeff p = active_slot_coeff q \<Longrightarrow>
     create_consensus_configs cr ids p w = create_consensus_configs cr ids q w"
  by (simp add: create_consensus_configs_def create_ledger_config_def)

text \<open>Two sets of DA parameters with the same subnetworks give nodes the same identities and membership.\<close>

lemma da_configs_same:
  assumes "create_da_configs env ids da ports = Inr xs" and "create_da_configs env ids da' ports' = Inr ys"
    and "dp_subnetwork_size da = dp_subnetwork_size da'" and "dp_dispersal_factor da = dp_dispersal_factor da'"
  shows "length xs = length ids" "length ys = length ids" and "i < length ids \<Longrightarrow>
    dc_signer (xs ! i) = dc_signer (ys ! i) \<and> dc_secret_zk_key (xs ! i) = dc_secret_zk_key (ys ! i)
    \<and> dc_membership (xs ! i) = dc_membership (ys ! i)"
proof -
  have "da_assignations da ps = da_assignations da' ps" for ps
    using assms(3,4) by (simp add: da_assignations_def effective_subnetwork_size_def Let_def)
  then show "length xs = length ids" "length ys = length ids" "i < length ids \<Longrightarrow>
    dc_signer (xs ! i) = dc_signer (ys ! i) \<and> dc_secret_zk_key (xs ! i) = dc_secret_zk_key (ys ! i)
    \<and> dc_membership (xs ! i) = dc_membership (ys ! i)"
    using assms(1,2) by (auto simp: create_da_configs_def Let_def split: if_splits)
qed

lemma kms_configs_same:
  assumes "length xs = length ys" and "\<And>i. i < length xs \<Longrightarrow> dc_signer (xs ! i) = dc_signer (ys ! i)
    \<and> dc_secret_zk_key (xs ! i) = dc_secret_zk_key (ys ! i)"
  shows "cfgsync_kms_configs te bl xs = cfgsync_kms_configs te bl ys"
  using assms by (intro nth_equalityI) (simp_all add: cfgsync_kms_configs_def Let_def)

text \<open>The settings derived from a topology fit together.\<close>

lemma overrides_deployment_ok:
  assumes "env_supplies te" and "build te b = Inr t" and "\<forall>n \<in> set (nodes t). length (gn_id n) = 32"
  shows "deployment_ok te (apply_topology_overrides env mount t cfg)"
    and "cs_n_hosts (apply_topology_overrides env mount t cfg) = length (nodes t)"
proof -
  have n: "length (nodes t) = length (gt_validators t) + length (gt_executors t)" "nodes t \<noteq> []"
    using topology_parts [OF assms(2)] by metis+
  then have "0 < length (gt_validators t) + length (gt_executors t)" by (metis length_greater_0_conv)
  then show "deployment_ok te (apply_topology_overrides env mount t cfg)"
    and "cs_n_hosts (apply_topology_overrides env mount t cfg) = length (nodes t)"
    using assms(1,3) n(1) by (simp_all add: deployment_ok_def apply_topology_overrides_def Let_def)
qed

definition same_identity :: "'p general_config \<Rightarrow> 'p general_config \<Rightarrow> bool" where
  "same_identity g n \<longleftrightarrow>
     (gc_consensus g)\<lparr>cc_genesis_tx := cc_genesis_tx (gc_consensus n)\<rparr> = gc_consensus n
     \<and> tx_ledger (signed_tx (cc_genesis_tx (gc_consensus g))) = tx_ledger (signed_tx (cc_genesis_tx (gc_consensus n)))
     \<and> (gc_blend g)\<lparr>bc_listening_address := bc_listening_address (gc_blend n)\<rparr> = gc_blend n
     \<and> dc_signer (gc_da g) = dc_signer (gc_da n) \<and> dc_secret_zk_key (gc_da g) = dc_secret_zk_key (gc_da n)
     \<and> dc_membership (gc_da g) = dc_membership (gc_da n) \<and> gc_kms g \<subseteq>\<^sub>m gc_kms n"

lemma host_matches_node:
  assumes "build te b = Inr t" and "distinct hosts" and "i < length hosts"
    and "repo_source te show_peer (apply_topology_overrides env mount t cfg) hosts = Inr m"
  shows "\<exists>g. m (sort_hosts hosts ! i) = Some g \<and> same_identity g (gn_general (nodes t ! i))"
  using assms(4) [unfolded repo_source_def] assms(2)
proof (cases rule: cfgsync_host_at)
  case (1 nids ports bports cs' das' nets init_peers providers genesis')
  obtain cs das genesis where t: "create_consensus_configs (te_crypto te) (map gn_id (nodes t)) (tc_consensus_params (gt_config t)) (tc_wallet_config (gt_config t)) = Inr cs"
    "create_da_configs (te_da te) (map gn_id (nodes t)) (tc_da_params (gt_config t)) (map gn_da_port (nodes t)) = Inr das"
    "tx_ledger (signed_tx genesis) = tx_ledger (signed_tx (cc_genesis_tx (cs ! 0)))"
    and at: "\<And>i. i < length (nodes t) \<Longrightarrow> let g = gn_general (nodes t ! i);
         bl = create_blend_configs (te_crypto te) (map gn_id (nodes t)) (map gn_blend_port (nodes t)) in
       i < length cs \<and> gc_consensus g = (cs ! i)\<lparr>cc_genesis_tx := genesis\<rparr> \<and> gc_da g = das ! i \<and> gc_blend g = bl ! i
       \<and> cfgsync_kms_configs te bl das ! i \<subseteq>\<^sub>m gc_kms g"
    using topology_parts [OF assms(1)] by metis
  let ?bl = "create_blend_configs (te_crypto te) nids bports"
  have nids: "nids = map gn_id (nodes t)" and bports: "bports = map gn_blend_port (nodes t)"
    by (simp_all add: 1(1,2) generate_ids_def resolve_blend_ports_def apply_topology_overrides_def Let_def)
  have len: "length (nodes t) = length hosts" using generated_ids_length [OF 1(3), of te] 1(1) nids by (metis length_map sort_hosts_set(2))
  have cs: "cs' = cs"
  proof -
    let ?c = "apply_topology_overrides env mount t cfg"
    have "security_param (to_consensus_params ?c) = security_param (tc_consensus_params (gt_config t))"
      "active_slot_coeff (to_consensus_params ?c) = active_slot_coeff (tc_consensus_params (gt_config t))"
      "cs_wallet ?c = tc_wallet_config (gt_config t)"
      by (simp_all add: apply_topology_overrides_def to_consensus_params_def Let_def)
    then have "create_consensus_configs (te_crypto te) nids (to_consensus_params ?c) (cs_wallet ?c) = Inr cs"
      using t(1) consensus_configs_cong nids by metis
    then show ?thesis using 1(4) by simp
  qed
  have d: "length das' = length das" "\<And>i. i < length das' \<Longrightarrow> dc_signer (das' ! i) = dc_signer (das ! i)
      \<and> dc_secret_zk_key (das' ! i) = dc_secret_zk_key (das ! i) \<and> dc_membership (das' ! i) = dc_membership (das ! i)"
      "length das' = length hosts"
    using da_configs_same [OF 1(5) [unfolded nids] t(2)] len
    by (simp_all add: apply_topology_overrides_def to_da_params_def Let_def)
  then have kms: "cfgsync_kms_configs te ?bl das' = cfgsync_kms_configs te ?bl das" by (intro kms_configs_same) simp_all
  obtain g where g: "m (sort_hosts hosts ! i) = Some g" and hc: "host_config te (cs_tracing_settings (apply_topology_overrides env mount t cfg))
      (base_of te nids bports genesis' cs' das' nets) (build_api_configs (sort_hosts hosts)) init_peers
      (cfgsync_kms_configs te ?bl das') (i, sort_hosts hosts ! i) = Inr (sort_hosts hosts ! i, g)"
    using 1(12) [OF assms(3)] by blast
  note f = host_config_fields [OF hc]
  have "same_identity g (gn_general (nodes t ! i))"
    using at [of i] len assms(3) f(2,5,7,9,11-13) d(2) [of i] d(3) t(3) genesis_with_declarations(1) [OF 1(10)]
    by (simp add: same_identity_def Let_def base_of_def cs nids bports kms [unfolded nids bports])
  then show ?thesis using g by blast
qed

lemma repo_source_of_topology:
  assumes "env_supplies te" and "build te b = Inr t" and "\<forall>n \<in> set (nodes t). length (gn_id n) = 32"
    and "distinct hosts" and "length hosts = length (nodes t)"
  obtains m where "repo_source te show_peer (apply_topology_overrides env mount t cfg) hosts = Inr m" "dom m = set hosts"
proof -
  note ok = overrides_deployment_ok [OF assms(1-3), of env mount cfg]
  have "length hosts = cs_n_hosts (apply_topology_overrides env mount t cfg)" using ok(2) assms(5) by simp
  then show ?thesis using repo_source_total [OF ok(1) _ assms(4)] that by blast
qed



end
