(* ===== verification/Node_Configs.thy ===== *)
theory Node_Configs
  imports Readiness
begin

text \<open>
  The configuration files of the nodes: \<open>configs/src/nodes\<close> (\<open>common.rs\<close>, \<open>blend.rs\<close>, \<open>kms.rs\<close>,
  \<open>validator.rs\<close>, \<open>executor.rs\<close>) and \<open>configs/src/timeouts.rs\<close>.

  The structures belong to the node crates; the records have the fields the code fills. Fields left at
  the defaults of those crates are not represented. \<open>is_dir\<close> tells which paths are directories.
\<close>

section \<open>Timeouts\<close>

definition env_duration :: "environment \<Rightarrow> string \<Rightarrow> nat \<Rightarrow> duration" where
  "env_duration env key dflt =
     (case Option.bind (env key) parse_usize of Some secs \<Rightarrow> from_secs secs | None \<Rightarrow> from_secs dflt)"

definition dispersal_timeout :: "environment \<Rightarrow> duration" where
  "dispersal_timeout env = env_duration env ''NOMOS_DISPERSAL_TIMEOUT_SECS'' 20"

definition retry_cooldown :: "environment \<Rightarrow> duration" where
  "retry_cooldown env = env_duration env ''NOMOS_RETRY_COOLDOWN_SECS'' 3"

definition grace_period :: "environment \<Rightarrow> duration" where
  "grace_period env = env_duration env ''NOMOS_GRACE_PERIOD_SECS'' (20 * 60)"

definition prune_duration :: "environment \<Rightarrow> duration" where
  "prune_duration env = env_duration env ''NOMOS_PRUNE_DURATION_SECS'' 30"

definition prune_interval :: "environment \<Rightarrow> duration" where
  "prune_interval env = env_duration env ''NOMOS_PRUNE_INTERVAL_SECS'' 5"

definition share_duration :: "environment \<Rightarrow> duration" where
  "share_duration env = env_duration env ''NOMOS_SHARE_DURATION_SECS'' 5"

definition commitments_wait :: "environment \<Rightarrow> duration" where
  "commitments_wait env = env_duration env ''NOMOS_COMMITMENTS_WAIT_SECS'' 1"

definition sdp_trigger_delay :: "environment \<Rightarrow> duration" where
  "sdp_trigger_delay env = env_duration env ''NOMOS_SDP_TRIGGER_DELAY_SECS'' 5"

section \<open>Blend\<close>

text \<open>\<open>key_id_for_preload_backend\<close>: the hexadecimal public key, by the encoders of the environment.\<close>

definition key_id_for_preload_backend :: "'p topology_env \<Rightarrow> kms_key \<Rightarrow> string" where
  "key_id_for_preload_backend te key = (case key of
     KeyEd25519 k \<Rightarrow> te_ed_key_id te (ed_public_key (te_crypto te) k)
   | KeyZk k \<Rightarrow> te_zk_key_id te (zk_public (te_crypto te) k))"

record blend_user_config =
  bu_signing_key :: node_id
  bu_recovery_path_prefix :: string
  bu_listening_address :: multiaddr
  bu_core_peering_degree :: "nat \<times> nat"
  bu_edge_node_connection_timeout :: duration
  bu_max_edge_node_incoming_connections :: nat
  bu_max_dial_attempts_per_peer :: nat
  bu_zk_secret_key_kms_id :: string
  bu_max_dial_attempts_per_peer_per_message :: nat
  bu_replication_factor :: nat

record blend_deployment =
  bd_num_blend_layers :: nat
  bd_minimum_network_size :: nat
  bd_round_duration :: duration
  bd_rounds_per_interval :: nat
  bd_rounds_per_session :: nat
  bd_rounds_per_observation_window :: nat
  bd_rounds_per_session_transition_period :: nat
  bd_epoch_transition_period_in_slots :: nat
  bd_protocol_name :: string
  bd_intervals_for_safety_buffer :: nat
  bd_message_frequency_per_round :: f64
  bd_maximum_release_delay_in_rounds :: nat
  bd_minimum_messages_coefficient :: nat
  bd_normalization_constant :: f64

record network_deployment =
  nd_identify_protocol_name :: string
  nd_kademlia_protocol_name :: string

definition build_blend_service_config :: "'p topology_env \<Rightarrow> blend_config \<Rightarrow> blend_user_config \<times> blend_deployment \<times> network_deployment" where
  "build_blend_service_config te c =
     (\<lparr>bu_signing_key = bc_private_key c, bu_recovery_path_prefix = ''./recovery/blend'',
       bu_listening_address = bc_listening_address c, bu_core_peering_degree = bc_core_peering_degree c,
       bu_edge_node_connection_timeout = bc_edge_node_connection_timeout c,
       bu_max_edge_node_incoming_connections = bc_max_edge_node_incoming_connections c,
       bu_max_dial_attempts_per_peer = bc_max_dial_attempts_per_peer c,
       bu_zk_secret_key_kms_id = key_id_for_preload_backend te (KeyZk (bc_secret_zk_key c)),
       bu_max_dial_attempts_per_peer_per_message = bc_max_dial_attempts_per_peer_per_message c,
       bu_replication_factor = bc_replication_factor c\<rparr>,
      \<lparr>bd_num_blend_layers = 1, bd_minimum_network_size = 1, bd_round_duration = from_secs 1,
       bd_rounds_per_interval = 30, bd_rounds_per_session = 648000, bd_rounds_per_observation_window = 30,
       bd_rounds_per_session_transition_period = 30, bd_epoch_transition_period_in_slots = 2600,
       bd_protocol_name = bc_protocol_name c, bd_intervals_for_safety_buffer = 100,
       bd_message_frequency_per_round = Fin 1, bd_maximum_release_delay_in_rounds = 3,
       bd_minimum_messages_coefficient = bc_minimum_messages_coefficient c,
       bd_normalization_constant = bc_normalization_constant c\<rparr>,
      \<lparr>nd_identify_protocol_name = ''/integration/nomos/identify/1.0.0'',
       nd_kademlia_protocol_name = ''/integration/nomos/kad/1.0.0''\<rparr>)"

section \<open>Shared sections\<close>

text \<open>The epoch, consensus and SDP parts of the ledger configuration.\<close>

record cryptarchia_deployment_settings =
  cy_epoch_config :: "nat \<times> nat \<times> nat"
  cy_security_param :: nat
  cy_active_slot_coeff :: f64
  cy_service_params :: "service_type \<Rightarrow> service_parameters"
  cy_min_stake :: "nat \<times> nat"
  cy_gossipsub_protocol :: string

definition cryptarchia_deployment :: "'p general_config \<Rightarrow> cryptarchia_deployment_settings" where
  "cryptarchia_deployment g = (let l = cc_ledger_config (gc_consensus g) in
     \<lparr>cy_epoch_config = (lc_epoch_stake_distribution_stabilization l, lc_epoch_period_nonce_buffer l,
        lc_epoch_period_nonce_stabilization l),
      cy_security_param = lc_security_param l, cy_active_slot_coeff = lc_active_slot_coeff l,
      cy_service_params = lc_service_params l, cy_min_stake = (lc_min_stake_threshold l, lc_min_stake_timestamp l),
      cy_gossipsub_protocol = ''/cryptarchia/proto''\<rparr>)"

definition time_deployment :: "'p general_config \<Rightarrow> duration" where
  "time_deployment g = tm_slot_duration (gc_time g)"

definition mempool_deployment :: string where "mempool_deployment = ''mantle''"

record cryptarchia_config =
  cx_genesis_tx :: signed_mantle_tx
  cx_recovery_file :: string
  cx_prolonged_bootstrap_period :: duration
  cx_force_bootstrap :: bool
  cx_grace_period :: duration
  cx_state_recording_interval :: duration
  cx_ibd_peers :: "string set"
  cx_delay_before_new_download :: duration
  cx_max_orphan_cache_size :: nat
  cx_leader_pk :: zk_public_key
  cx_leader_sk :: zk_key

definition cryptarchia_config_of :: "environment \<Rightarrow> 'p general_config \<Rightarrow> cryptarchia_config" where
  "cryptarchia_config_of env g = \<lparr>cx_genesis_tx = cc_genesis_tx (gc_consensus g), cx_recovery_file = [],
     cx_prolonged_bootstrap_period = gc_bootstrap g, cx_force_bootstrap = False, cx_grace_period = grace_period env,
     cx_state_recording_interval = from_secs 60, cx_ibd_peers = {}, cx_delay_before_new_download = from_secs 10,
     cx_max_orphan_cache_size = 5, cx_leader_pk = cc_leader_pk (gc_consensus g), cx_leader_sk = cc_leader_sk (gc_consensus g)\<rparr>"

definition kzg_params_path :: "(string \<Rightarrow> bool) \<Rightarrow> string \<Rightarrow> string" where
  "kzg_params_path is_dir raw = (if is_dir raw then path_join raw ''kzgrs_test_params'' else raw)"

record da_verifier_config =
  dv_global_params_path :: string
  dv_domain_size :: nat
  dv_blob_storage_directory :: string
  dv_publish_threshold :: f64
  dv_share_duration :: duration
  dv_prune_duration :: duration
  dv_prune_interval :: duration

definition da_verifier_config_of :: "(string \<Rightarrow> bool) \<Rightarrow> environment \<Rightarrow> 'p general_config \<Rightarrow> da_verifier_config" where
  "da_verifier_config_of is_dir env g = \<lparr>dv_global_params_path = kzg_params_path is_dir (dc_global_params_path (gc_da g)),
     dv_domain_size = dc_num_subnets (gc_da g), dv_blob_storage_directory = ''./'',
     dv_publish_threshold = f64_of_rat (8 / 10), dv_share_duration = share_duration env,
     dv_prune_duration = prune_duration env, dv_prune_interval = prune_interval env\<rparr>"

record da_sampling_config =
  ds_num_samples :: nat
  ds_num_subnets :: nat
  ds_old_blobs_check_interval :: duration
  ds_blobs_validity_duration :: duration
  ds_global_params_path :: string
  ds_domain_size :: nat
  ds_commitments_wait_duration :: duration
  ds_sdp_blob_trigger_sampling_delay :: duration

text \<open>Doubling the delay in a slow environment can overflow, which panics.\<close>

definition da_sampling_config_of :: "(string \<Rightarrow> bool) \<Rightarrow> environment \<Rightarrow> 'p general_config \<Rightarrow> da_sampling_config rust" where
  "da_sampling_config_of is_dir env g = rbind (adjust_timeout env (sdp_trigger_delay env)) (\<lambda>delay.
     Inr \<lparr>ds_num_samples = dc_num_samples (gc_da g), ds_num_subnets = dc_num_subnets (gc_da g),
       ds_old_blobs_check_interval = dc_old_blobs_check_interval (gc_da g),
       ds_blobs_validity_duration = dc_blobs_validity_duration (gc_da g),
       ds_global_params_path = kzg_params_path is_dir (dc_global_params_path (gc_da g)),
       ds_domain_size = dc_num_subnets (gc_da g), ds_commitments_wait_duration = commitments_wait env,
       ds_sdp_blob_trigger_sampling_delay = delay\<rparr>)"

record http_config =
  hc_port :: nat
  hc_rate_limit_per_second :: nat
  hc_rate_limit_burst :: nat
  hc_max_concurrent_requests :: nat

definition http_config_of :: "'p general_config \<Rightarrow> http_config" where
  "http_config_of g = \<lparr>hc_port = ac_address_port (gc_api g), hc_rate_limit_per_second = 10000, hc_rate_limit_burst = 10000,
     hc_max_concurrent_requests = 1000\<rparr>"

definition testing_http_config_of :: "'p general_config \<Rightarrow> http_config" where
  "testing_http_config_of g = \<lparr>hc_port = ac_testing_http_port (gc_api g), hc_rate_limit_per_second = 10000, hc_rate_limit_burst = 10000,
     hc_max_concurrent_requests = 1000\<rparr>"

text \<open>The keys the wallet service of a node knows.\<close>

definition wallet_settings :: "crypto \<Rightarrow> 'p general_config \<Rightarrow> zk_public_key set" where
  "wallet_settings cr g = insert (cc_leader_pk (gc_consensus g))
     ((\<lambda>a. zk_public cr (secret_key a)) ` set (cc_wallet_accounts (gc_consensus g)))"


section \<open>Validators and executors\<close>

record deployment_settings =
  dl_blend :: blend_deployment
  dl_network :: network_deployment
  dl_cryptarchia :: cryptarchia_deployment_settings
  dl_time :: duration
  dl_mempool :: string

record da_backend =
  db_node_key :: node_id
  db_listening_address :: multiaddr
  db_policy_settings :: da_policy
  db_failure_time_window :: duration
  db_balancer_interval :: duration
  db_redial_cooldown :: duration
  db_replication_settings :: replication_config
  db_num_of_subnets :: nat
  db_shares_retry_limit :: nat
  db_commitments_retry_limit :: nat

record 'p validator_config =
  vc_network :: network_config
  vc_blend :: blend_user_config
  vc_deployment :: deployment_settings
  vc_cryptarchia :: cryptarchia_config
  vc_da_backend :: da_backend
  vc_membership :: "nat \<rightharpoonup> 'p set"
  vc_api_port :: nat
  vc_is_secure :: bool
  vc_subnet_refresh_interval :: duration
  vc_subnet_threshold :: nat
  vc_min_session_members :: nat
  vc_da_verifier :: da_verifier_config
  vc_tracing :: tracing_settings
  vc_http :: http_config
  vc_da_sampling :: da_sampling_config
  vc_db_path :: string
  vc_db_read_only :: bool
  vc_db_column_family :: "string option"
  vc_time :: time_config
  vc_mempool_recovery_path :: string
  vc_sdp_declaration :: "nat option"
  vc_testing_http :: http_config
  vc_wallet :: "zk_public_key set"
  vc_key_management :: "string \<rightharpoonup> kms_key"

text \<open>An executor has all sections of a validator and the dispersal service.\<close>

record 'p executor_config = "'p validator_config" +
  xc_num_subnets :: nat
  xc_num_columns :: nat
  xc_with_cache :: bool
  xc_encoder_params_path :: string
  xc_dispersal_timeout :: duration
  xc_retry_cooldown :: duration
  xc_retry_limit :: nat

definition deployment_of :: "'p topology_env \<Rightarrow> 'p general_config \<Rightarrow> blend_user_config \<times> deployment_settings" where
  "deployment_of te g = (case build_blend_service_config te (gc_blend g) of (user, blend, network) \<Rightarrow>
     (user, \<lparr>dl_blend = blend, dl_network = network, dl_cryptarchia = cryptarchia_deployment g,
       dl_time = time_deployment g, dl_mempool = mempool_deployment\<rparr>))"

definition da_backend_of :: "da_policy \<Rightarrow> 'p general_da_config \<Rightarrow> da_backend" where
  "da_backend_of policy da = \<lparr>db_node_key = dc_node_key da, db_listening_address = dc_listening_address da,
     db_policy_settings = policy, db_failure_time_window = dc_failure_time_window da,
     db_balancer_interval = dc_balancer_interval da, db_redial_cooldown = dc_redial_cooldown da,
     db_replication_settings = dc_replication_settings da, db_num_of_subnets = dc_num_samples da,
     db_shares_retry_limit = dc_retry_shares_limit da, db_commitments_retry_limit = dc_retry_commitments_limit da\<rparr>"

definition create_validator_config :: "(string \<Rightarrow> bool) \<Rightarrow> 'p topology_env \<Rightarrow> 'p general_config \<Rightarrow> 'p validator_config rust" where
  "create_validator_config is_dir te g =
     (case deployment_of te g of (user, deployment) \<Rightarrow>
      rbind (da_sampling_config_of is_dir (te_env te) g) (\<lambda>sampling.
      Inr \<lparr>vc_network = gc_network g, vc_blend = user, vc_deployment = deployment,
        vc_cryptarchia = cryptarchia_config_of (te_env te) g,
        vc_da_backend = da_backend_of ((dc_policy_settings (gc_da g))\<lparr>min_dispersal_peers := 0\<rparr>) (gc_da g),
        vc_membership = dc_membership (gc_da g), vc_api_port = ac_address_port (gc_api g), vc_is_secure = False,
        vc_subnet_refresh_interval = dc_subnets_refresh_interval (gc_da g), vc_subnet_threshold = dc_num_samples (gc_da g),
        vc_min_session_members = dc_num_samples (gc_da g), vc_da_verifier = da_verifier_config_of is_dir (te_env te) g,
        vc_tracing = gc_tracing g, vc_http = http_config_of g, vc_da_sampling = sampling, vc_db_path = ''./db'',
        vc_db_read_only = False, vc_db_column_family = Some ''blocks'', vc_time = gc_time g, vc_mempool_recovery_path = [],
        vc_sdp_declaration = None, vc_testing_http = testing_http_config_of g,
        vc_wallet = wallet_settings (te_crypto te) g, vc_key_management = gc_kms g\<rparr>))"

definition create_executor_config :: "(string \<Rightarrow> bool) \<Rightarrow> 'p topology_env \<Rightarrow> 'p general_config \<Rightarrow> 'p executor_config rust" where
  "create_executor_config is_dir te g =
     (case deployment_of te g of (user, deployment) \<Rightarrow>
      rbind (da_sampling_config_of is_dir (te_env te) g) (\<lambda>sampling.
      Inr \<lparr>vc_network = gc_network g, vc_blend = user, vc_deployment = deployment,
        vc_cryptarchia = cryptarchia_config_of (te_env te) g,
        vc_da_backend = da_backend_of (dc_policy_settings (gc_da g)) (gc_da g),
        vc_membership = dc_membership (gc_da g), vc_api_port = ac_address_port (gc_api g), vc_is_secure = False,
        vc_subnet_refresh_interval = dc_subnets_refresh_interval (gc_da g), vc_subnet_threshold = dc_num_samples (gc_da g),
        vc_min_session_members = dc_num_samples (gc_da g), vc_da_verifier = da_verifier_config_of is_dir (te_env te) g,
        vc_tracing = gc_tracing g, vc_http = http_config_of g, vc_da_sampling = sampling, vc_db_path = ''./db'',
        vc_db_read_only = False, vc_db_column_family = Some ''blocks'', vc_time = gc_time g, vc_mempool_recovery_path = [],
        vc_sdp_declaration = None, vc_testing_http = testing_http_config_of g,
        vc_wallet = wallet_settings (te_crypto te) g, vc_key_management = gc_kms g,
        xc_num_subnets = dc_num_subnets (gc_da g), xc_num_columns = dc_num_subnets (gc_da g), xc_with_cache = False,
        xc_encoder_params_path = dc_global_params_path (gc_da g), xc_dispersal_timeout = dispersal_timeout (te_env te),
        xc_retry_cooldown = retry_cooldown (te_env te), xc_retry_limit = 2\<rparr>))"

section \<open>Properties\<close>

text \<open>The two kinds of configuration differ in the dispersal policy and the dispersal service only.\<close>

lemma executor_extends_validator:
  assumes "create_executor_config is_dir te g = Inr x"
  shows "create_validator_config is_dir te g = Inr (validator_config.truncate
    (x\<lparr>vc_da_backend := (vc_da_backend x)\<lparr>db_policy_settings := (db_policy_settings (vc_da_backend x))\<lparr>min_dispersal_peers := 0\<rparr>\<rparr>\<rparr>))"
  using assms by (auto simp: create_executor_config_def create_validator_config_def rbind_Inr_iff validator_config.defs
      da_backend_of_def split: prod.splits)

lemma built_consensus:
  assumes "build te b = Inr t" and "n \<in> set (nodes t)"
  shows "cc_wallet_accounts (gc_consensus (gn_general n)) = wallet_accounts_of t"
    and "cc_genesis_tx (gc_consensus (gn_general n)) = cc_genesis_tx (gc_consensus (gn_general (nodes t ! 0)))"
  using assms(1)
proof (atomize (full), cases rule: build_cases)
  case (1 ids dps bps cs das nets apis slot providers genesis ns)
  note o = build_ordered [OF 1(14)]
  have t: "nodes t = ns" using 1(15) o(3,4) by (simp add: nodes_def)
  then obtain i where i: "i < length ns" "n = ns ! i" using assms(2) by (auto simp: in_set_conv_nth)
  have z: "0 < length ns" using i(1) by linarith
  note f = build_node_fields(6,7) [OF o(2) [OF i(1)], folded i(2)] build_node_fields(6,7) [OF o(2) [OF z]]
  have "c \<in> set cs \<Longrightarrow> cc_wallet_accounts c = wallet_accounts_of t" for c
    using 1(6) by (auto simp: create_consensus_configs_def Let_def rbind_Inr_iff wallet_accounts_of_def 1(15))
  then show "cc_wallet_accounts (gc_consensus (gn_general n)) = wallet_accounts_of t
      \<and> cc_genesis_tx (gc_consensus (gn_general n)) = cc_genesis_tx (gc_consensus (gn_general (nodes t ! 0)))"
    using f by (simp add: t)
qed


lemma validator_config_total:
  "te_env te ''SLOW_TEST_ENV'' \<noteq> Some ''true'' \<Longrightarrow> \<exists>c. create_validator_config is_dir te g = Inr c"
  by (cases "deployment_of te g") (simp add: create_validator_config_def da_sampling_config_of_def adjust_timeout_def)


end
