(* ===== verification/Workflow_Builder.thy ===== *)
theory Workflow_Builder
  imports Tx_Workload Da_Workload Chaos Consensus_Liveness
begin

text \<open>
  The fluent builders of \<open>workflows/src/builder/mod.rs\<close>: transaction and data-availability flows, the
  restart chaos builder, the liveness expectation and the wallet initialiser, over the scenario builder.

  Boxed workloads and expectations are the datatypes \<open>workload\<close> and \<open>expectation\<close> with one constructor
  per implementation; their trait operations are \<open>workload_impl\<close> and \<open>expectation_impl\<close>.
\<close>

section \<open>The trait implementations\<close>

datatype workload = TxFlow tx_workload | DaFlow da_workload | RestartChaos chaos_config

datatype expectation = TxInclusion tx_inclusion | DaInclusions da_expectation | Liveness consensus_liveness

definition expectation_name :: "expectation \<Rightarrow> string" where
  "expectation_name x = (case x of TxInclusion _ \<Rightarrow> ''tx_inclusion_expectation''
     | DaInclusions _ \<Rightarrow> ''da_workload_inclusions'' | Liveness _ \<Rightarrow> ''consensus_liveness'')"

text \<open>None of the expectations overrides \<open>init\<close>.\<close>

definition expectation_impl :: "('p, expectation) expectation_ops" where
  "expectation_impl = \<lparr>e_name = expectation_name, e_init = (\<lambda>_ _ x. Inr x)\<rparr>"

definition workload_name :: "workload \<Rightarrow> string" where
  "workload_name w = (case w of TxFlow _ \<Rightarrow> ''tx_workload'' | DaFlow _ \<Rightarrow> ''channel_workload'' | RestartChaos _ \<Rightarrow> ''chaos_restart'')"

definition workload_expectations :: "workload \<Rightarrow> expectation list" where
  "workload_expectations w = (case w of TxFlow t \<Rightarrow> map TxInclusion (tx_expectations t)
     | DaFlow d \<Rightarrow> map DaInclusions (da_expectations d) | RestartChaos _ \<Rightarrow> [])"

definition workload_init :: "crypto \<Rightarrow> 'p generated_topology \<Rightarrow> run_metrics \<Rightarrow> workload \<Rightarrow> string + workload" where
  "workload_init cr t m w = (case w of TxFlow x \<Rightarrow> rbind (tx_init cr t m x) (\<lambda>x'. Inr (TxFlow x')) | _ \<Rightarrow> Inr w)"

definition workload_impl :: "crypto \<Rightarrow> ('p, workload, expectation) workload_ops" where
  "workload_impl cr = \<lparr>w_name = workload_name, w_expectations = workload_expectations, w_init = workload_init cr\<rparr>"

type_synonym builder = "(workload, expectation) scenario_builder"

section \<open>Extensions of the scenario builder\<close>

definition expect_consensus_liveness :: "builder \<Rightarrow> builder" where
  "expect_consensus_liveness b = with_expectation (Liveness consensus_liveness_default) b"

definition initialize_wallet :: "nat \<Rightarrow> nat \<Rightarrow> builder \<Rightarrow> builder rust" where
  "initialize_wallet total_funds users b =
     rbind (rust_assert (users \<noteq> 0) ''wallet user count must be non-zero'') (\<lambda>_.
     rbind (uniform total_funds users) (\<lambda>w. Inr (scenario_with_wallet_config w b)))"

definition non_zero_checked :: "string \<Rightarrow> nat \<Rightarrow> nat rust" where
  "non_zero_checked message rate = rbind (rust_assert (rate \<noteq> 0) message) (\<lambda>_. Inr rate)"

section \<open>Transaction flows\<close>

record transaction_flow =
  tf_builder :: builder
  tf_rate :: nat
  tf_users :: "nat option"

definition transactions :: "builder \<Rightarrow> transaction_flow" where
  "transactions b = \<lparr>tf_builder = b, tf_rate = 1, tf_users = None\<rparr>"

definition set_tx_rate :: "nat \<Rightarrow> transaction_flow \<Rightarrow> transaction_flow rust" where
  "set_tx_rate rate f = rbind (non_zero_checked ''transaction rate must be non-zero'' rate) (\<lambda>r. Inr (f\<lparr>tf_rate := r\<rparr>))"

text \<open>The variant whose argument is a \<open>NonZeroU64\<close>.\<close>

definition set_tx_rate_per_block :: "nat \<Rightarrow> transaction_flow \<Rightarrow> transaction_flow" where
  "set_tx_rate_per_block rate f = f\<lparr>tf_rate := rate\<rparr>"

definition set_tx_users :: "nat \<Rightarrow> transaction_flow \<Rightarrow> transaction_flow rust" where
  "set_tx_users users f = rbind (rust_assert (users \<noteq> 0) ''transaction user count must be non-zero'') (\<lambda>_.
     Inr (f\<lparr>tf_users := Some users\<rparr>))"

definition transaction_flow_apply :: "('p, workload, expectation) workload_ops \<Rightarrow> transaction_flow \<Rightarrow> builder rust" where
  "transaction_flow_apply W f = (case tx_with_rate (tf_rate f) of
     None \<Rightarrow> Inl ''transaction rate must be non-zero''
   | Some w \<Rightarrow> Inr (with_workload W (TxFlow (with_user_limit (tf_users f) w)) (tf_builder f)))"

definition transactions_with :: "('p, workload, expectation) workload_ops \<Rightarrow> (transaction_flow \<Rightarrow> transaction_flow rust) \<Rightarrow> builder
    \<Rightarrow> builder rust" where
  "transactions_with W f b = rbind (f (transactions b)) (transaction_flow_apply W)"

section \<open>Data-availability flows\<close>

record da_flow =
  df_builder :: builder
  df_channel_rate :: nat
  df_blob_rate :: nat
  df_headroom_percent :: nat

definition da_flow_new :: "builder \<Rightarrow> da_flow" where
  "da_flow_new b = \<lparr>df_builder = b, df_channel_rate = 1, df_blob_rate = 1, df_headroom_percent = default_headroom_percent\<rparr>"

definition set_channel_rate :: "nat \<Rightarrow> da_flow \<Rightarrow> da_flow rust" where
  "set_channel_rate rate f = rbind (non_zero_checked ''channel rate must be non-zero'' rate) (\<lambda>r. Inr (f\<lparr>df_channel_rate := r\<rparr>))"

definition set_channel_rate_per_block :: "nat \<Rightarrow> da_flow \<Rightarrow> da_flow" where
  "set_channel_rate_per_block rate f = f\<lparr>df_channel_rate := rate\<rparr>"

definition set_blob_rate :: "nat \<Rightarrow> da_flow \<Rightarrow> da_flow rust" where
  "set_blob_rate rate f = rbind (non_zero_checked ''blob rate must be non-zero'' rate) (\<lambda>r. Inr (f\<lparr>df_blob_rate := r\<rparr>))"

definition set_blob_rate_per_block :: "nat \<Rightarrow> da_flow \<Rightarrow> da_flow" where
  "set_blob_rate_per_block rate f = f\<lparr>df_blob_rate := rate\<rparr>"

definition set_headroom_percent :: "nat \<Rightarrow> da_flow \<Rightarrow> da_flow" where
  "set_headroom_percent percent f = f\<lparr>df_headroom_percent := percent\<rparr>"

definition da_flow_apply :: "('p, workload, expectation) workload_ops \<Rightarrow> da_flow \<Rightarrow> builder" where
  "da_flow_apply W f = with_workload W
     (DaFlow (da_with_rate (df_blob_rate f) (df_channel_rate f) (df_headroom_percent f))) (df_builder f)"

definition da_flow_with :: "('p, workload, expectation) workload_ops \<Rightarrow> (da_flow \<Rightarrow> da_flow rust) \<Rightarrow> builder \<Rightarrow> builder rust" where
  "da_flow_with W f b = rbind (f (da_flow_new b)) (\<lambda>d. Inr (da_flow_apply W d))"

section \<open>Chaos\<close>

text \<open>\<open>chaos\<close> needs a builder with node control; the type of the source makes this a static condition.\<close>

record chaos_restart =
  cr_builder :: builder
  cr_min_delay :: duration
  cr_max_delay :: duration
  cr_target_cooldown :: duration
  cr_include_validators :: bool
  cr_include_executors :: bool

definition chaos_restart_new :: "builder \<Rightarrow> chaos_restart" where
  "chaos_restart_new b = \<lparr>cr_builder = b, cr_min_delay = from_secs 10, cr_max_delay = from_secs 30,
     cr_target_cooldown = from_secs 60, cr_include_validators = True, cr_include_executors = True\<rparr>"

definition set_min_delay :: "duration \<Rightarrow> chaos_restart \<Rightarrow> chaos_restart rust" where
  "set_min_delay delay c = rbind (rust_assert (delay \<noteq> 0) ''chaos restart min delay must be non-zero'') (\<lambda>_.
     Inr (c\<lparr>cr_min_delay := delay\<rparr>))"

definition set_max_delay :: "duration \<Rightarrow> chaos_restart \<Rightarrow> chaos_restart rust" where
  "set_max_delay delay c = rbind (rust_assert (delay \<noteq> 0) ''chaos restart max delay must be non-zero'') (\<lambda>_.
     Inr (c\<lparr>cr_max_delay := delay\<rparr>))"

definition set_target_cooldown :: "duration \<Rightarrow> chaos_restart \<Rightarrow> chaos_restart rust" where
  "set_target_cooldown cooldown c = rbind (rust_assert (cooldown \<noteq> 0) ''chaos restart target cooldown must be non-zero'') (\<lambda>_.
     Inr (c\<lparr>cr_target_cooldown := cooldown\<rparr>))"

definition set_include_validators :: "bool \<Rightarrow> chaos_restart \<Rightarrow> chaos_restart" where
  "set_include_validators enabled c = c\<lparr>cr_include_validators := enabled\<rparr>"

definition set_include_executors :: "bool \<Rightarrow> chaos_restart \<Rightarrow> chaos_restart" where
  "set_include_executors enabled c = c\<lparr>cr_include_executors := enabled\<rparr>"

definition chaos_restart_apply :: "('p, workload, expectation) workload_ops \<Rightarrow> chaos_restart \<Rightarrow> builder rust" where
  "chaos_restart_apply W c =
     rbind (rust_assert (cr_min_delay c \<le> cr_max_delay c) ''chaos restart min delay must not exceed max delay'') (\<lambda>_.
     rbind (rust_assert (cr_min_delay c \<le> cr_target_cooldown c) ''chaos restart target cooldown must be >= min delay'') (\<lambda>_.
     rbind (rust_assert (cr_include_validators c \<or> cr_include_executors c) ''chaos restart requires at least one node group'') (\<lambda>_.
       Inr (with_workload W (RestartChaos \<lparr>ch_min_delay = cr_min_delay c, ch_max_delay = cr_max_delay c,
         ch_target_cooldown = cr_target_cooldown c, ch_include_validators = cr_include_validators c,
         ch_include_executors = cr_include_executors c\<rparr>) (cr_builder c)))))"

text \<open>The setters a caller chains, in any order, before \<open>apply\<close>.\<close>

datatype chaos_setting = MinDelay duration | MaxDelay duration | Cooldown duration | Validators bool | Executors bool

fun chaos_set :: "chaos_setting \<Rightarrow> chaos_restart \<Rightarrow> chaos_restart rust" where
  "chaos_set (MinDelay d) c = set_min_delay d c"
| "chaos_set (MaxDelay d) c = set_max_delay d c"
| "chaos_set (Cooldown d) c = set_target_cooldown d c"
| "chaos_set (Validators e) c = Inr (set_include_validators e c)"
| "chaos_set (Executors e) c = Inr (set_include_executors e c)"

fun chaos_chain :: "chaos_setting list \<Rightarrow> chaos_restart \<Rightarrow> chaos_restart rust" where
  "chaos_chain [] c = Inr c"
| "chaos_chain (s # ss) c = rbind (chaos_set s c) (chaos_chain ss)"

definition chaos_restart_with :: "('p, workload, expectation) workload_ops \<Rightarrow> chaos_setting list \<Rightarrow> builder \<Rightarrow> builder rust" where
  "chaos_restart_with W settings b = rbind (chaos_chain settings (chaos_restart_new b)) (chaos_restart_apply W)"


section \<open>Chaos settings\<close>

definition chaos_builder_inv :: "builder \<Rightarrow> chaos_restart \<Rightarrow> bool" where
  "chaos_builder_inv b c \<longleftrightarrow> cr_builder c = b \<and> 0 < cr_min_delay c \<and> 0 < cr_max_delay c \<and> 0 < cr_target_cooldown c"

lemma chaos_new_inv: "chaos_builder_inv b (chaos_restart_new b)"
  by (simp add: chaos_builder_inv_def chaos_restart_new_def from_secs_def nanos_per_sec_def)

lemma chaos_set_inv: "chaos_set s c = Inr c' \<Longrightarrow> chaos_builder_inv b c \<Longrightarrow> chaos_builder_inv b c'"
  by (cases s) (auto simp: chaos_builder_inv_def set_min_delay_def set_max_delay_def set_target_cooldown_def
      set_include_validators_def set_include_executors_def rbind_Inr_iff)

lemma chaos_chain_inv: "chaos_chain ss c = Inr c' \<Longrightarrow> chaos_builder_inv b c \<Longrightarrow> chaos_builder_inv b c'"
  by (induction ss arbitrary: c) (auto simp: rbind_Inr_iff dest: chaos_set_inv)

text \<open>
  Whatever settings a caller chains, in whatever order, a restart workload that the chaos builder
  attaches has a positive minimum delay that is at most the maximum delay and at most the cooldown, has
  some group of nodes to restart, and therefore never draws a zero delay between two restarts; it is
  added after the workloads that were there and brings no expectation.
\<close>

theorem chaos_builder_settings:
  assumes "chaos_restart_with (workload_impl cr :: ('p, workload, expectation) workload_ops) settings b = Inr b'"
  shows "\<exists>c. sb_workloads b' = sb_workloads b @ [RestartChaos c] \<and> sb_expectations b' = sb_expectations b
    \<and> 0 < ch_min_delay c \<and> ch_min_delay c \<le> ch_max_delay c \<and> ch_min_delay c \<le> ch_target_cooldown c
    \<and> (ch_include_validators c \<or> ch_include_executors c)
    \<and> (\<forall>offset d. random_delay c offset = Inr d \<longrightarrow> 0 < d)"
proof -
  obtain c where c: "chaos_chain settings (chaos_restart_new b) = Inr c" "chaos_restart_apply (workload_impl cr :: ('p, workload, expectation) workload_ops) c = Inr b'"
    using assms by (auto simp: chaos_restart_with_def rbind_Inr_iff)
  have inv: "chaos_builder_inv b c" by (rule chaos_chain_inv [OF c(1) chaos_new_inv])
  have d: "ch_min_delay k \<le> d \<or> ch_max_delay k \<le> d" if "random_delay k offset = Inr d" for k offset d
    using that by (auto simp: random_delay_def rbind_Inr_iff split: if_splits)
  show ?thesis using c(2) inv d
    by (fastforce simp: chaos_restart_apply_def rbind_Inr_iff with_workload_def workload_impl_def workload_expectations_def
        chaos_builder_inv_def)
qed

theorem chaos_builder_settings_witness:
  "\<exists>b' c. chaos_restart_with (workload_impl plain_crypto :: (nat, workload, expectation) workload_ops) [MinDelay (from_secs 5), Executors False]
       (scenario_builder_new plain_builder) = Inr b' \<and> sb_workloads b' = [RestartChaos c] \<and> 0 < ch_min_delay c"
proof -
  obtain b' where b': "chaos_restart_with (workload_impl plain_crypto :: (nat, workload, expectation) workload_ops) [MinDelay (from_secs 5), Executors False]
      (scenario_builder_new plain_builder) = Inr b'"
    by (simp add: chaos_restart_with_def chaos_restart_new_def set_min_delay_def set_include_executors_def
        chaos_restart_apply_def from_secs_def nanos_per_sec_def)
  from chaos_builder_settings [OF b'] b' show ?thesis by (auto simp: scenario_builder_new_def)
qed

section \<open>A funded scenario\<close>

text \<open>The usual chain of calls: topology, wallets, a transaction flow and the liveness expectation.\<close>

definition funded_builder :: "crypto \<Rightarrow> string \<Rightarrow> nat \<Rightarrow> nat \<Rightarrow> nat \<Rightarrow> nat \<Rightarrow> nat \<Rightarrow> nat \<Rightarrow> builder rust" where
  "funded_builder cr path v e amount users rate limit =
     rbind (topology_with path (\<lambda>c. cf_set_executors e (cf_set_validators v c))) (\<lambda>b0.
     rbind (initialize_wallet amount users b0) (\<lambda>b1.
     rbind (transactions_with (workload_impl cr :: (unit, workload, expectation) workload_ops)
              (\<lambda>f. rbind (set_tx_rate rate f) (set_tx_users limit)) b1) (\<lambda>b2.
       Inr (expect_consensus_liveness b2))))"

lemma funded_builder_ok:
  assumes "0 < v" and "v + e \<le> usize_max" and "0 < users" "users \<le> amount" and "0 < rate" "0 < limit"
  obtains b w where "funded_builder cr path v e amount users rate limit = Inr b" "uniform amount users = Inr w"
    "tc_wallet_config (tb_config (sb_topology b)) = w" "n_validators (tb_config (sb_topology b)) = v"
    "n_executors (tb_config (sb_topology b)) = e" "tb_ids (sb_topology b) = None" "tb_da_ports (sb_topology b) = None"
    "tb_blend_ports (sb_topology b) = None"
    "tc_consensus_params (tb_config (sb_topology b)) = default_for_participants (v + e)"
    "sb_workloads b = [TxFlow \<lparr>tw_txs_per_block = rate, tw_user_limit = Some limit, tw_accounts = []\<rparr>]"
    "sb_expectations b = [TxInclusion (tx_inclusion_new rate (Some limit)), Liveness consensus_liveness_default]"
    "sb_duration b = 0"
proof -
  obtain w where w: "uniform amount users = Inr w" using uniform_ok_iff [of amount users] assms by auto
  obtain c where c: "with_node_numbers path v e = Inr c" "n_validators c = v" "n_executors c = e"
      "tc_consensus_params c = default_for_participants (v + e)"
    using assms(1,2) by (auto simp: with_node_numbers_def Let_def usize_add_def)
  define b where "b = \<lparr>sb_topology = \<lparr>tb_config = c\<lparr>tc_wallet_config := w\<rparr>, tb_ids = None, tb_da_ports = None, tb_blend_ports = None\<rparr>,
    sb_workloads = [TxFlow \<lparr>tw_txs_per_block = rate, tw_user_limit = Some limit, tw_accounts = []\<rparr>],
    sb_expectations = [TxInclusion (tx_inclusion_new rate (Some limit)), Liveness consensus_liveness_default],
    sb_duration = 0, sb_capabilities = NoCapability\<rparr>"
  have "funded_builder cr path v e amount users rate limit = Inr b"
    using assms c w by (simp add: b_def funded_builder_def topology_with_def topology_def configurator_new_def
      cf_set_validators_def cf_set_executors_def configurator_apply_def usize_add_def initialize_wallet_def transactions_with_def
      transactions_def set_tx_rate_def set_tx_users_def non_zero_checked_def transaction_flow_apply_def tx_with_rate_def
      tx_workload_new_def with_user_limit_def with_workload_def workload_impl_def workload_expectations_def tx_expectations_def
      expect_consensus_liveness_def with_expectation_def scenario_with_wallet_config_def with_wallet_config_def
      topology_builder_new_def scenario_builder_new_def Let_def)
  from that [OF this w] show ?thesis using c by (simp add: b_def)
qed


lemma random_ids_build:
  assumes "env_supplies te" and "tb_ids b = None" "tb_da_ports b = None" "tb_blend_ports b = None"
    and "0 < n_validators (tb_config b) + n_executors (tb_config b)"
    and "n_validators (tb_config b) + n_executors (tb_config b) \<le> usize_max"
  obtains t where "build te b = Inr t" "\<forall>n \<in> set (nodes t). length (gn_id n) = 32" "nodes t \<noteq> []"
    "gt_config t = tb_config b"
    "map gn_id (nodes t) = map (te_random_id te) [0..<n_validators (tb_config b) + n_executors (tb_config b)]"
proof -
  let ?n = "n_validators (tb_config b) + n_executors (tb_config b)"
  have free: "\<And>i. te_da_port te i \<noteq> None" "\<And>i. te_blend_port te i \<noteq> None" using assms(1) by (simp_all add: env_supplies_def)
  obtain ids dps bps where "resolve_ids (te_random_id te) (tb_ids b) ?n = Inr ids"
    "resolve_ports (te_da_port te) (tb_da_ports b) ?n ''DA'' = Inr dps"
    "resolve_ports (te_blend_port te) (tb_blend_ports b) ?n ''Blend'' = Inr bps"
    using resolve_ids_iff [of "te_random_id te" "tb_ids b" ?n] resolve_ports_iff [of "te_da_port te" "tb_da_ports b" ?n "''DA''"]
      resolve_ports_iff [of "te_blend_port te" "tb_blend_ports b" ?n "''Blend''"] free assms(2-4) by auto
  moreover have b32: "\<forall>xs. tb_ids b = Some xs \<longrightarrow> (\<forall>x \<in> set xs. length x = 32)" using assms(2) by simp
  ultimately obtain t where t: "build te b = Inr t" using build_total [OF assms(1) b32 refl assms(5,6)] by blast
  from t have "(\<forall>n \<in> set (nodes t). length (gn_id n) = 32) \<and> nodes t \<noteq> [] \<and> gt_config t = tb_config b
      \<and> map gn_id (nodes t) = map (te_random_id te) [0..<?n]"
  proof (cases rule: build_cases)
    case (1 ids dps bps cs das nets apis slot providers genesis ns)
    note o = build_ordered [OF 1(14)]
    have ns: "nodes t = ns" using o(3,4) by (simp add: nodes_def 1(15))
    have ids: "length ids = ?n" "\<forall>x \<in> set ids. length x = 32" using ids_resolved [OF assms(1) _ 1(3)] assms(2) by auto
    have r: "ids = map (te_random_id te) [0..<?n]" using 1(3) assms(2) by (simp add: resolve_ids_Inr)
    have "gn_id (ns ! i) = ids ! i" if "i < length ns" for i by (rule build_node_fields(3) [OF o(2) [OF that]])
    then have m: "map gn_id ns = ids" using o(1) ids(1) by (intro nth_equalityI) simp_all
    have "ns \<noteq> []" using o(1) assms(5) by auto
    moreover have "\<forall>n \<in> set ns. length (gn_id n) = 32" using ids(2) unfolding m [symmetric] by simp
    moreover have "gt_config t = tb_config b" by (simp add: 1(15))
    ultimately show ?thesis using m r unfolding ns by simp
  qed
  with t that show ?thesis by blast
qed

text \<open>
  The keys on the genesis outputs differ when node ids differ in their first 14 bytes: the tags of leader,
  service and wallet keys are all different.
\<close>

lemma key_of_inj:
  assumes "key_of p x = key_of q y" and "length x = 32" "length y = 32" "length p = 2" "length q = 2"
  shows "p = q \<and> take 14 x = take 14 y"
proof -
  have "p @ take 14 x = q @ take 14 y"
    using assms by (intro from_bytes_le_inj) (simp_all add: key_of_def)
  then show ?thesis using assms(4,5) by simp
qed

lemma key_of_not_wallet:
  assumes "p \<in> {[108, 100], [100, 97], [98, 110]}"
  shows "key_of p x \<noteq> ZkKey (from_bytes_le (wallet_seed i))"
proof -
  have "from_bytes_le (a # b # xs) mod 65536 = unat a + 256 * unat b" for a b :: byte and xs
  proof -
    have "unat a < 256" "unat b < 256" using from_bytes_le_bound [of "[a]"] from_bytes_le_bound [of "[b]"] by simp_all
    then have "unat a + 256 * unat b < 65536" by linarith
    moreover have "from_bytes_le (a # b # xs) = (unat a + 256 * unat b) + 65536 * from_bytes_le xs" by simp
    ultimately show ?thesis by (metis mod_less mod_mult_self2)
  qed
  note m = this
  show ?thesis
  proof
    assume "key_of p x = ZkKey (from_bytes_le (wallet_seed i))"
    then have "from_bytes_le (p @ take (16 - length p) x) mod 65536 = from_bytes_le (119 # 108 # le_bytes 8 i @ replicate 22 0) mod 65536"
      by (simp add: key_of_def wallet_seed_def)
    then show False using assms unfolding m by (auto simp: m)
  qed
qed

lemma node_keys_distinct:
  assumes "\<forall>x \<in> set ids. length x = 32" and "distinct (map (take 14) ids)" and "inj (zk_public cr)"
  shows "distinct (map note_pk (concat (map (notes_of cr) ids)))"
  using assms(1,2)
proof (induction ids)
  case (Cons x ids)
  have new: "zk_public cr (key_of p x) \<noteq> zk_public cr (key_of q y)"
    if "y \<in> set ids" "length p = 2" "length q = 2" for p q y
  proof
    assume "zk_public cr (key_of p x) = zk_public cr (key_of q y)"
    then have "key_of p x = key_of q y" using assms(3) by (simp add: inj_eq)
    then have "take 14 x = take 14 y" using key_of_inj [of p x q y] Cons.prems(1) that by simp
    then show False using Cons.prems(2) that(1) by (auto simp: image_iff)
  qed
  have "zk_public cr (key_of p x) \<noteq> zk_public cr (key_of q x)" if "p \<noteq> q" "length p = 2" "length q = 2" for p q
    using key_of_inj [of p x q x] Cons.prems(1) that assms(3) by (auto simp: inj_eq)
  then have "distinct (map note_pk (notes_of cr x))" by (simp add: notes_of_def)
  moreover have "note_pk ` set (notes_of cr x) \<inter> note_pk ` set (concat (map (notes_of cr) ids)) = {}"
    using new by (auto simp: notes_of_def)
  moreover have "distinct (map note_pk (concat (map (notes_of cr) ids)))" using Cons by simp
  ultimately show ?case by auto
qed simp

lemma genesis_keys_distinct:
  assumes "\<forall>x \<in> set ids. length x = 32" and "distinct (map (take 14) ids)" and "inj (zk_public cr)"
    and "uniform amount users = Inr w" and "users \<le> u64_max"
  shows "distinct (map note_pk (concat (map (notes_of cr) ids)
    @ map (\<lambda>a. \<lparr>note_value = funds a, note_pk = zk_public cr (secret_key a)\<rparr>) (accounts w)))"
proof -
  have u: "0 < users" "users \<le> amount" using assms(4) uniform_ok_iff [of amount users] by auto
  have "secret_key ` set (accounts w) \<subseteq> range (\<lambda>i. ZkKey (from_bytes_le (wallet_seed i)))"
    using uniform_ok [OF u] assms(4) by auto
  then have "zk_public cr (key_of p x) \<noteq> zk_public cr (secret_key a)"
    if "a \<in> set (accounts w)" "p \<in> {[108, 100], [100, 97], [98, 110]}" for p x a
    using key_of_not_wallet [OF that(2), of x] that(1) assms(3) by (auto simp: inj_eq)
  then have "note_pk ` set (concat (map (notes_of cr) ids)) \<inter> (zk_public cr \<circ> secret_key) ` set (accounts w) = {}"
    by (auto simp: notes_of_def)
  moreover have "distinct (map (zk_public cr \<circ> secret_key) (accounts w))"
    using uniform_distinct_keys [OF assms(4,5)] assms(3) by (simp add: distinct_map comp_inj_on inj_on_subset)
  ultimately show ?thesis using node_keys_distinct [OF assms(1-3)] by (simp add: comp_def image_image)
qed




end
