(* ===== verification/Stack_Hosts.thy ===== *)
theory Stack_Hosts
  imports Cfgsync_Client Cfgsync_Template
begin

text \<open>
  What the compose and Kubernetes stacks share between the files a deployer writes and the cfgsync server:
  the start script of a node, \<open>assets/stack/scripts/run_nomos.sh\<close>, as far as it sets the environment of the
  cfgsync client, the ports of a generated node, and the interface of a stack that starts one container per
  node. Whatever implements the interface gets its containers configured as the nodes they were made for.
\<close>

section \<open>The start script\<close>

definition instance_name :: "node_role \<Rightarrow> nat \<Rightarrow> string" where
  "instance_name kind index = (case kind of Validator \<Rightarrow> ''validator-'' | Executor \<Rightarrow> ''executor-'') @ show_nat index"

text \<open>
  The environment of the cfgsync client in a container with address \<open>ip\<close>: the entry point fixes the role,
  the script sets the file, the address and the kind, and keeps an identifier it was given.
\<close>

definition role_of_entrypoint :: "string \<Rightarrow> string" where
  "role_of_entrypoint e = (if e = ''/etc/nomos/scripts/run_nomos_executor.sh'' then ''executor'' else ''validator'')"

text \<open>\<open>${VAR:-default}\<close> of the shell: an empty variable counts as unset.\<close>

definition shell_default :: "string \<Rightarrow> string option \<Rightarrow> string" where
  "shell_default d v = (case v of Some s \<Rightarrow> if s = [] then d else s | None \<Rightarrow> d)"

definition script_environment :: "string \<Rightarrow> string \<Rightarrow> environment \<Rightarrow> environment" where
  "script_environment ip role given =
     given(''CFG_FILE_PATH'' \<mapsto> ''/config.yaml'',
       ''CFG_SERVER_ADDR'' \<mapsto> shell_default (''http://cfgsync:'' @ shell_default ''4400'' (given ''NOMOS_CFGSYNC_PORT'')) (given ''CFG_SERVER_ADDR''),
       ''CFG_HOST_IP'' \<mapsto> ip, ''CFG_HOST_KIND'' \<mapsto> shell_default role (given ''CFG_HOST_KIND''),
       ''CFG_HOST_IDENTIFIER'' \<mapsto> shell_default (role @ ''-'' @ ip) (given ''CFG_HOST_IDENTIFIER''))"

text \<open>The host the cfgsync server registers for a container.\<close>

definition script_host :: "(string \<Rightarrow> string option) \<Rightarrow> string \<Rightarrow> string \<Rightarrow> environment \<Rightarrow> host" where
  "script_host parse_addr ip role given = (let env = script_environment ip role given in
     handler_host (client_host_kind env) (client_payload parse_addr env))"

section \<open>Nodes and their ports\<close>

definition host_kind_of :: "node_role \<Rightarrow> host_kind" where
  "host_kind_of r = (case r of Validator \<Rightarrow> HostValidator | Executor \<Rightarrow> HostExecutor)"

definition node_ports_ok :: "'p generated_node \<Rightarrow> bool" where
  "node_ports_ok n \<longleftrightarrow> nc_port (gc_network (gn_general n)) \<le> u16_max \<and> gn_da_port n \<le> u16_max \<and> gn_blend_port n \<le> u16_max
     \<and> ac_address_port (gc_api (gn_general n)) \<le> u16_max \<and> ac_testing_http_port (gc_api (gn_general n)) \<le> u16_max"

text \<open>The ports of the model are numbers; those of the code are 16 bits wide.\<close>

definition ports_16 :: "'p topology_env \<Rightarrow> topology_builder \<Rightarrow> bool" where
  "ports_16 te b \<longleftrightarrow> (\<forall>i p. i < n_validators (tb_config b) + n_executors (tb_config b) \<and> (te_da_port te i = Some p \<or> te_blend_port te i = Some p \<or> te_network_port te i = Some p
       \<or> te_api_port te i = Some p \<or> te_testing_port te i = Some p) \<longrightarrow> p \<le> u16_max)
     \<and> (\<forall>ps. tb_da_ports b = Some ps \<or> tb_blend_ports b = Some ps \<longrightarrow> (\<forall>p \<in> set ps. p \<le> u16_max))"

lemma unwrap_port_Inr: "unwrap_port x = Inr p \<longleftrightarrow> x = Some p"
  by (auto simp: unwrap_port_def split: option.splits)

lemma resolve_ports_bound:
  assumes "resolve_ports free ports n lbl = Inr ps" and "\<And>i p. i < n \<Longrightarrow> free i = Some p \<Longrightarrow> p \<le> u16_max"
    and "\<And>qs p. ports = Some qs \<Longrightarrow> p \<in> set qs \<Longrightarrow> p \<le> u16_max" and "p \<in> set ps"
  shows "p \<le> u16_max"
proof (cases ports)
  case None
  then have "try_map (\<lambda>i. unwrap_port (free i)) [0..<n] = Inr ps" using assms(1) by (auto simp: resolve_ports_def rbind_Inr_iff)
  from try_map_member [OF this assms(4)] show ?thesis using assms(2) by (auto simp: unwrap_port_Inr)
next
  case (Some qs)
  then show ?thesis using assms(1,3,4) resolve_ports_Inr by metis
qed

lemma network_ports_bound:
  assumes "create_network_configs te ids params = Inr nets" and "\<And>i p. i < length ids \<Longrightarrow> te_network_port te i = Some p \<Longrightarrow> p \<le> u16_max"
    and "c \<in> set nets"
  shows "nc_port c \<le> u16_max"
proof -
  obtain ports peers where p: "try_map (\<lambda>i. unwrap_port (te_network_port te i)) [0..<length ids] = Inr ports"
    and n: "nets = map (\<lambda>((i, port), peers). \<lparr>nc_host = ''0.0.0.0'', nc_port = port, nc_node_key = i,
              nc_peer_response_timeout = from_secs 60,
              nc_nat_external = nat_settings (te_env te) port, nc_initial_peers = peers\<rparr>)
            (zip (zip ids ports) peers)"
    using assms(1) by (auto simp: create_network_configs_def rbind_Inr_iff)
  have "nc_port c \<in> set ports" using assms(3) unfolding n by (auto dest!: set_zip_leftD [of "(_, _)"] intro: set_zip_rightD)
  from try_map_member [OF p this] show ?thesis using assms(2) by (auto simp: unwrap_port_Inr)
qed

lemma api_ports_bound:
  assumes "create_api_configs te ids = Inr apis" and "\<And>i p. i < length ids \<Longrightarrow> te_api_port te i = Some p \<Longrightarrow> p \<le> u16_max"
    and "\<And>i p. i < length ids \<Longrightarrow> te_testing_port te i = Some p \<Longrightarrow> p \<le> u16_max" and "c \<in> set apis"
  shows "ac_address_port c \<le> u16_max \<and> ac_testing_http_port c \<le> u16_max"
  using try_map_member [OF assms(1) [unfolded create_api_configs_def] assms(4)] assms(2,3)
  by (auto simp: rbind_Inr_iff unwrap_port_Inr)

lemma built_ports_ok:
  assumes "build te b = Inr t" and "ports_16 te b"
  shows "\<forall>n \<in> set (nodes t). node_ports_ok n" and "length (nodes t) \<le> usize_max"
  using assms(1)
proof (atomize (full), cases rule: build_cases)
  case (1 ids dps bps cs das nets apis slot providers genesis ns)
  note o = build_ordered [OF 1(14)]
  have t: "nodes t = ns" using 1(15) o(3,4) by (simp add: nodes_def)
  have "node_ports_ok (ns ! i)" if i: "i < length ns" for i
  proof -
    note f = build_node_fields [OF o(2) [OF i]]
    have "length ids = n_validators (tb_config b) + n_executors (tb_config b)"
      using 1(3) by (auto simp: resolve_ids_Inr split: option.splits)
    note p = assms(2) [unfolded ports_16_def, folded this]
    have "dps ! i \<in> set dps" "bps ! i \<in> set bps" using resolve_ports_Inr [OF 1(4)] resolve_ports_Inr [OF 1(5)] i o(1) by simp_all
    then have "dps ! i \<le> u16_max" "bps ! i \<le> u16_max"
      using resolve_ports_bound [OF 1(4)] resolve_ports_bound [OF 1(5)] assms(2) unfolding ports_16_def by blast+
    moreover have "nc_port (nets ! i) \<le> u16_max"
      using network_ports_bound [OF 1(8) _ nth_mem [OF f(14)]] p by blast
    moreover have "ac_address_port (apis ! i) \<le> u16_max \<and> ac_testing_http_port (apis ! i) \<le> u16_max"
      using api_ports_bound [OF 1(9) _ _ nth_mem [OF f(15)]] p by blast
    ultimately show ?thesis using f(4,5,11,13) by (simp add: node_ports_ok_def)
  qed
  then show "(\<forall>n \<in> set (nodes t). node_ports_ok n) \<and> length (nodes t) \<le> usize_max"
    using 1(1) o(1) t by (simp add: all_set_conv_all_nth)
qed

text \<open>The host of a container that was given the ports and the name of a node.\<close>

definition role_name :: "node_role \<Rightarrow> string" where
  "role_name kind = (case kind of Validator \<Rightarrow> ''validator'' | Executor \<Rightarrow> ''executor'')"

definition host_of_node :: "(string \<Rightarrow> string option) \<Rightarrow> string \<Rightarrow> node_role \<Rightarrow> nat \<Rightarrow> 'p generated_node \<Rightarrow> host" where
  "host_of_node parse_addr ip kind i n =
    \<lparr>h_kind = host_kind_of kind, h_ip = parse_ip parse_addr ip, h_identifier = instance_name kind i,
     h_network_port = nc_port (gc_network (gn_general n)), h_da_network_port = gn_da_port n, h_blend_port = gn_blend_port n,
     h_api_port = ac_address_port (gc_api (gn_general n)), h_testing_http_port = ac_testing_http_port (gc_api (gn_general n))\<rparr>"

lemma script_host_of_node:
  assumes "node_ports_ok n" and "given ''CFG_HOST_KIND'' \<in> {None, Some (role_name kind)}"
    and "given ''CFG_HOST_IDENTIFIER'' = Some (instance_name kind i)"
    and "given ''CFG_NETWORK_PORT'' = Some (show_nat (nc_port (gc_network (gn_general n))))"
    and "given ''CFG_DA_PORT'' = Some (show_nat (gn_da_port n))" and "given ''CFG_BLEND_PORT'' = Some (show_nat (gn_blend_port n))"
    and "given ''CFG_API_PORT'' = Some (show_nat (ac_address_port (gc_api (gn_general n))))"
    and "given ''CFG_TESTING_HTTP_PORT'' = Some (show_nat (ac_testing_http_port (gc_api (gn_general n))))"
  shows "script_host parse_addr ip (role_name kind) given = host_of_node parse_addr ip kind i n"
proof -
  have ne: "instance_name kind i \<noteq> []" by (cases kind) (simp_all add: instance_name_def)
  have k: "shell_default (role_name kind) (given ''CFG_HOST_KIND'') = role_name kind"
    using assms(2) by (cases kind) (auto simp: shell_default_def role_name_def)
  have d: "shell_default dflt (Some s) = (if s = [] then dflt else s)" for dflt s by (simp add: shell_default_def)
  show ?thesis using assms(1,3-) ne k
    by (cases kind) (simp_all add: node_ports_ok_def script_host_def script_environment_def host_of_node_def role_name_def
        host_kind_of_def handler_host_def client_host_kind_def client_payload_def payload_ports_def
        validator_from_ip_def executor_from_ip_def from_parts_def unwrap_or_def parse_u16_show d Let_def)
qed

lemma built_api_ports:
  assumes "build te b = Inr t" and "n \<in> set (nodes t)"
  obtains i where "te_api_port te i = Some (ac_address_port (gc_api (gn_general n)))"
    "te_testing_port te i = Some (ac_testing_http_port (gc_api (gn_general n)))"
  using assms(1)
proof (cases rule: build_cases)
  case (1 ids dps bps cs das nets apis slot providers genesis ns)
  note o = build_ordered [OF 1(14)]
  have "nodes t = ns" using 1(15) o(3,4) by (simp add: nodes_def)
  then obtain i where i: "i < length ns" "n = ns ! i" using assms(2) by (auto simp: in_set_conv_nth)
  note f = build_node_fields(13,15) [OF o(2) [OF i(1)]]
  from try_map_member [OF 1(9) [unfolded create_api_configs_def] nth_mem [OF f(2)]]
  obtain j p q where j: "te_api_port te j = Some p" "te_testing_port te j = Some q" "apis ! i = \<lparr>ac_address_port = p, ac_testing_http_port = q\<rparr>"
    by (auto simp: rbind_Inr_iff unwrap_port_Inr)
  then show ?thesis using f(1) i(2) by (intro that [of j]) simp_all
qed

lemma plain_ports_16: "ports_16 plain_topology_env plain_builder"
  by (auto simp: ports_16_def plain_topology_env_def u16_max_def)



section \<open>Stacks of one container per node\<close>

text \<open>
  \<open>rendered t d\<close> says that the deployer rendered the topology \<open>t\<close> as \<open>d\<close>; \<open>host_at d i\<close> is the host that
  the \<open>i\<close>-th container of \<open>d\<close> announces, validators first.
\<close>

locale rendered_stack =
  fixes rendered :: "'p::linorder generated_topology \<Rightarrow> 'd \<Rightarrow> bool"
    and host_at :: "'d \<Rightarrow> nat \<Rightarrow> host"
  assumes host_kind_at: "rendered t d \<Longrightarrow> i < length (nodes t) \<Longrightarrow> node_ports_ok (nodes t ! i) \<Longrightarrow>
      h_kind (host_at d i) = (if i < length (gt_validators t) then HostValidator else HostExecutor)"
    and host_identifier_at: "rendered t d \<Longrightarrow> i < length (nodes t) \<Longrightarrow> node_ports_ok (nodes t ! i) \<Longrightarrow>
      h_identifier (host_at d i) = (if i < length (gt_validators t) then instance_name Validator i
        else instance_name Executor (i - length (gt_validators t)))"
begin

definition announced :: "'p generated_topology \<Rightarrow> 'd \<Rightarrow> host list" where
  "announced t d = map (host_at d) [0..<length (nodes t)]"

lemma announced_key:
  assumes "rendered t d" and "\<forall>n \<in> set (nodes t). node_ports_ok n" and "i < length (nodes t)" and "length (nodes t) \<le> usize_max"
  shows "(h_kind (host_at d i), host_index (host_at d i)) =
    (if i < length (gt_validators t) then (HostValidator, i) else (HostExecutor, i - length (gt_validators t)))"
proof -
  have ok: "node_ports_ok (nodes t ! i)" using assms(2,3) by simp
  have "i \<le> usize_max" "i - length (gt_validators t) \<le> usize_max" using assms(3,4) by simp_all
  then show ?thesis
    using host_kind_at [OF assms(1,3) ok] host_identifier_at [OF assms(1,3) ok]
      host_index_numbered [of i "host_at d i" "''validator''"]
      host_index_numbered [of "i - length (gt_validators t)" "host_at d i" "''executor''"]
    by (auto simp: instance_name_def)
qed

lemma announced_sorted:
  assumes "rendered t d" and "\<forall>n \<in> set (nodes t). node_ports_ok n" and "length (nodes t) \<le> usize_max"
    and "mset hosts = mset (announced t d)"
  shows "sort_hosts hosts = announced t d" and "distinct hosts" and "length hosts = length (nodes t)"
proof -
  let ?hs = "announced t d" and ?f = "\<lambda>h. (h_kind h, host_index h)"
  have len: "length ?hs = length (nodes t)" by (simp add: announced_def)
  note key = announced_key [OF assms(1,2) _ assms(3)]
  have less: "?f (?hs ! i) < ?f (?hs ! j)" if "i < j" "j < length ?hs" for i j
    using key [of i] key [of j] that len by (auto simp: announced_def less_host_kind_def split: if_splits)
  then have sw: "sorted_wrt (<) (map ?f ?hs)" by (simp add: sorted_wrt_iff_nth_less)
  then have dm: "distinct (map ?f ?hs)" and srt: "sorted (map ?f ?hs)" by (simp_all add: strict_sorted_iff)
  then have d: "distinct ?hs" "inj_on ?f (set ?hs)" by (simp_all add: distinct_map)
  have st: "set hosts = set ?hs" using assms(4) by (metis set_mset_mset)
  show "sort_hosts hosts = ?hs"
    unfolding sort_hosts_def using assms(4) d(2) st srt by (intro sort_key_inj_key_eq) simp_all
  show "distinct hosts" "length hosts = length (nodes t)"
    using mset_eq_imp_distinct_iff [OF assms(4)] mset_eq_length [OF assms(4)] d(1) len by simp_all
qed

text \<open>Every container becomes the node it was made for, whatever the order of the announcements.\<close>

lemma containers_become_nodes:
  assumes "env_supplies te" and "build te b = Inr t" and "ports_16 te b" and "\<forall>n \<in> set (nodes t). length (gn_id n) = 32"
    and "rendered t d" and "mset hosts = mset (announced t d)"
  shows "\<exists>m. repo_source te show_peer (apply_topology_overrides env mount t cfg) hosts = Inr m \<and> dom m = set hosts
    \<and> (\<forall>i < length (nodes t). \<exists>g. m (host_at d i) = Some g \<and> same_identity g (gn_general (nodes t ! i)))"
proof -
  note h = announced_sorted [OF assms(5) built_ports_ok [OF assms(2,3)] assms(6)]
  obtain m where m: "repo_source te show_peer (apply_topology_overrides env mount t cfg) hosts = Inr m" "dom m = set hosts"
    using repo_source_of_topology [OF assms(1,2,4) h(2,3)] .
  have "\<exists>g. m (host_at d i) = Some g \<and> same_identity g (gn_general (nodes t ! i))"
    if "i < length (nodes t)" for i
    using host_matches_node [OF assms(2) h(2) _ m(1), of i] that h(1,3) by (simp add: announced_def)
  then show ?thesis using m by blast
qed

end

end
