(* ===== verification/Compose_Descriptor.thy ===== *)
theory Compose_Descriptor
  imports Stack_Hosts
begin

text \<open>
  The docker compose file: \<open>runners/compose/src/descriptor\<close> and \<open>docker/platform.rs\<close>, and the start
  script of a container, \<open>assets/stack/scripts/run_nomos.sh\<close>, as far as it sets the environment of the
  cfgsync client. The template engine is left out.

  \<open>env\<close> is the environment of the test process, \<open>arch\<close> the processor architecture.
\<close>

section \<open>Image and platform\<close>

definition resolve_image :: "environment \<Rightarrow> string \<times> string option" where
  "resolve_image env =
     (let img = unwrap_or ''logos-blockchain-testing:local'' (env ''NOMOS_TESTNET_IMAGE'')
      in (img, if img = ''ghcr.io/logos-co/nomos:testnet'' then Some ''linux/amd64'' else None))"

definition ascii_lower :: "char \<Rightarrow> char" where
  "ascii_lower c = (let n = of_char c :: nat in if 65 \<le> n \<and> n \<le> 90 then char_of (n + 32) else c)"

definition eq_ignore_ascii_case :: "string \<Rightarrow> string \<Rightarrow> bool" where
  "eq_ignore_ascii_case s t \<longleftrightarrow> map ascii_lower s = map ascii_lower t"

definition host_gateway_entry :: "environment \<Rightarrow> string option" where
  "host_gateway_entry env = (case env ''COMPOSE_RUNNER_HOST_GATEWAY'' of
     Some v \<Rightarrow> if eq_ignore_ascii_case v ''disable'' \<or> v = [] then None else Some v
   | None \<Rightarrow> (case env ''DOCKER_HOST_GATEWAY'' of
        Some gateway \<Rightarrow> if gateway \<noteq> [] then Some (''host.docker.internal:'' @ gateway)
                       else Some ''host.docker.internal:host-gateway''
      | None \<Rightarrow> Some ''host.docker.internal:host-gateway''))"

section \<open>Nodes\<close>

record node_descriptor =
  nd_name :: string
  nd_image :: string
  nd_entrypoint :: string
  nd_volumes :: "string list"
  nd_extra_hosts :: "string list"
  nd_ports :: "string list"
  nd_environment :: "(string \<times> string) list"
  nd_platform :: "string option"

definition entrypoint :: "node_role \<Rightarrow> string" where
  "entrypoint kind = (case kind of Validator \<Rightarrow> ''/etc/nomos/scripts/run_nomos_node.sh''
     | Executor \<Rightarrow> ''/etc/nomos/scripts/run_nomos_executor.sh'')"

definition base_volumes :: "bool \<Rightarrow> string list" where
  "base_volumes use_kzg_mount = [''./stack:/etc/nomos''] @ (if use_kzg_mount then [''./kzgrs_test_params:/kzgrs_test_params:z''] else [])"

definition default_extra_hosts :: "environment \<Rightarrow> string list" where
  "default_extra_hosts env = (case host_gateway_entry env of Some h \<Rightarrow> [h] | None \<Rightarrow> [])"

definition base_environment :: "environment \<Rightarrow> nat \<Rightarrow> (string \<times> string) list" where
  "base_environment env port =
     [(''POL_PROOF_DEV_MODE'', unwrap_or ''true'' (env ''POL_PROOF_DEV_MODE'')),
      (''RUST_LOG'', unwrap_or ''info'' (env ''RUST_LOG'')),
      (''NOMOS_LOG_LEVEL'', unwrap_or ''info'' (env ''NOMOS_LOG_LEVEL'')),
      (''NOMOS_TIME_BACKEND'', unwrap_or ''monotonic'' (env ''NOMOS_TIME_BACKEND'')),
      (''NOMOS_KZGRS_PARAMS_PATH'', unwrap_or (kzg_container_path env) (env ''NOMOS_KZGRS_PARAMS_PATH'')),
      (''CFG_SERVER_ADDR'', ''http://host.docker.internal:'' @ show_nat port),
      (''OTEL_METRIC_EXPORT_INTERVAL'', ''5000'')]"

definition from_node :: "environment \<Rightarrow> node_role \<Rightarrow> nat \<Rightarrow> 'p generated_node \<Rightarrow> string \<Rightarrow> string option \<Rightarrow> bool \<Rightarrow> nat \<Rightarrow> node_descriptor" where
  "from_node env kind index node img platform use_kzg_mount port =
     (let api = show_nat (ac_address_port (gc_api (gn_general node)));
          testing = show_nat (ac_testing_http_port (gc_api (gn_general node))) in
      \<lparr>nd_name = instance_name kind index, nd_image = img, nd_entrypoint = entrypoint kind,
       nd_volumes = base_volumes use_kzg_mount, nd_extra_hosts = default_extra_hosts env, nd_ports = [api, testing],
       nd_environment = base_environment env port @
         [(''CFG_NETWORK_PORT'', show_nat (nc_port (gc_network (gn_general node)))),
          (''CFG_DA_PORT'', show_nat (gn_da_port node)), (''CFG_BLEND_PORT'', show_nat (gn_blend_port node)),
          (''CFG_API_PORT'', api), (''CFG_TESTING_HTTP_PORT'', testing),
          (''CFG_HOST_IDENTIFIER'', instance_name kind index)],
       nd_platform = platform\<rparr>)"

definition compose_build_nodes :: "environment \<Rightarrow> 'p generated_node list \<Rightarrow> node_role \<Rightarrow> string \<Rightarrow> string option \<Rightarrow> bool \<Rightarrow> nat
    \<Rightarrow> node_descriptor list" where
  "compose_build_nodes env ns kind img platform use_kzg_mount port =
     map (\<lambda>(index, node). from_node env kind index node img platform use_kzg_mount port) (enumerate 0 ns)"

section \<open>The descriptor\<close>

record compose_descriptor =
  cd_prometheus_host_port :: string
  cd_prometheus_platform :: "string option"
  cd_grafana_host_port :: string
  cd_validators :: "node_descriptor list"
  cd_executors :: "node_descriptor list"

record descriptor_builder =
  de_use_kzg_mount :: bool
  de_cfgsync_port :: "nat option"
  de_prometheus_port :: "nat option"
  de_grafana_port :: "nat option"

definition descriptor_builder_new :: descriptor_builder where
  "descriptor_builder_new = \<lparr>de_use_kzg_mount = False, de_cfgsync_port = None, de_prometheus_port = None, de_grafana_port = None\<rparr>"

definition with_kzg_mount :: "bool \<Rightarrow> descriptor_builder \<Rightarrow> descriptor_builder" where
  "with_kzg_mount enabled b = b\<lparr>de_use_kzg_mount := enabled\<rparr>"

definition with_cfgsync_port :: "nat \<Rightarrow> descriptor_builder \<Rightarrow> descriptor_builder" where
  "with_cfgsync_port port b = b\<lparr>de_cfgsync_port := Some port\<rparr>"

definition with_prometheus_port :: "nat \<Rightarrow> descriptor_builder \<Rightarrow> descriptor_builder" where
  "with_prometheus_port port b = b\<lparr>de_prometheus_port := Some port\<rparr>"

definition with_grafana_port :: "nat \<Rightarrow> descriptor_builder \<Rightarrow> descriptor_builder" where
  "with_grafana_port port b = b\<lparr>de_grafana_port := Some port\<rparr>"

definition grafana_host_port :: "nat \<Rightarrow> string" where
  "grafana_host_port port = (if port = 0 then ''127.0.0.1::3000'' else ''127.0.0.1:'' @ show_nat port @ '':3000'')"

definition prometheus_host_port :: "nat \<Rightarrow> string" where
  "prometheus_host_port port = ''127.0.0.1:'' @ show_nat port @ '':9090''"

datatype descriptor_error = MissingPrometheusPort

definition descriptor_build :: "environment \<Rightarrow> string \<Rightarrow> 'p generated_topology \<Rightarrow> descriptor_builder
    \<Rightarrow> descriptor_error + compose_descriptor" where
  "descriptor_build env arch t b =
     (let port = unwrap_or default_cfgsync_port (de_cfgsync_port b) in
      case de_prometheus_port b of None \<Rightarrow> Inl MissingPrometheusPort
      | Some prometheus \<Rightarrow> (case resolve_image env of (img, platform) \<Rightarrow>
          Inr \<lparr>cd_prometheus_host_port = prometheus_host_port prometheus,
            cd_prometheus_platform = (if arch = ''aarch64'' \<or> arch = ''arm64'' then Some ''linux/arm64'' else None),
            cd_grafana_host_port = grafana_host_port (unwrap_or 0 (de_grafana_port b)),
            cd_validators = compose_build_nodes env (gt_validators t) Validator img platform (de_use_kzg_mount b) port,
            cd_executors = compose_build_nodes env (gt_executors t) Executor img platform (de_use_kzg_mount b) port\<rparr>))"

section \<open>Containers\<close>

definition container_host :: "(string \<Rightarrow> string option) \<Rightarrow> string \<Rightarrow> node_descriptor \<Rightarrow> host" where
  "container_host parse_addr ip d =
     script_host parse_addr ip (role_of_entrypoint (nd_entrypoint d)) (map_of (rev (nd_environment d)))"

lemma container_host_node:
  assumes "node_ports_ok n"
  shows "container_host parse_addr ip (from_node env kind i n img platform mount port) = host_of_node parse_addr ip kind i n"
proof -
  have "role_of_entrypoint (entrypoint kind) = role_name kind"
    by (cases kind) (simp_all add: role_of_entrypoint_def entrypoint_def role_name_def)
  then show ?thesis unfolding container_host_def using assms
    by (simp add: from_node_def Let_def base_environment_def script_host_of_node)
qed

definition containers :: "compose_descriptor \<Rightarrow> node_descriptor list" where
  "containers d = cd_validators d @ cd_executors d"

lemma containers_length:
  assumes "descriptor_build env arch t b = Inr d"
  shows "length (containers d) = length (nodes t)"
  using assms by (auto simp: descriptor_build_def containers_def compose_build_nodes_def nodes_def Let_def
      split: option.splits prod.splits)

lemma container_at:
  assumes "descriptor_build env arch t b = Inr d" and "i < length (nodes t)"
  shows "containers d ! i =
      (let v = length (gt_validators t) in
       from_node env (if i < v then Validator else Executor) (if i < v then i else i - v) (nodes t ! i)
         (fst (resolve_image env)) (snd (resolve_image env)) (de_use_kzg_mount b) (unwrap_or default_cfgsync_port (de_cfgsync_port b)))"
  using assms
  by (auto simp: descriptor_build_def containers_def compose_build_nodes_def nodes_def Let_def nth_append
      nth_enumerate_eq split: option.splits prod.splits)

text \<open>The hosts of a project, given the addresses of its containers.\<close>

definition project_hosts :: "(string \<Rightarrow> string option) \<Rightarrow> (nat \<Rightarrow> string) \<Rightarrow> compose_descriptor \<Rightarrow> host list" where
  "project_hosts parse_addr ip d = map (\<lambda>(i, c). container_host parse_addr (ip i) c) (enumerate 0 (containers d))"

interpretation project: rendered_stack "\<lambda>t d. \<exists>db. descriptor_build env arch t db = Inr d" "\<lambda>d i. container_host parse_addr (ip i) (containers d ! i)"
  for env arch parse_addr ip
  by unfold_locales (auto simp: container_at container_host_node Let_def host_of_node_def host_kind_of_def)

lemma project_hosts_announced:
  assumes "descriptor_build env arch t b = Inr d"
  shows "project_hosts parse_addr ip d = project.announced parse_addr ip t d"
  using containers_length [OF assms] by (auto simp: project_hosts_def project.announced_def nth_enumerate_eq intro: nth_equalityI)



end
