(* ===== verification/Deploy_Monad.thy ===== *)
theory Deploy_Monad
  imports Readiness
begin

text \<open>
  Computations of the deployers: from a state to an outcome and a state. An outcome is a value, an error
  returned with \<open>?\<close>, a panic, or not returning. Shared by the local, compose and Kubernetes deployers.
\<close>

section \<open>Computations\<close>

datatype ('e, 'a) outcome = Returns 'a | Fails 'e | Panics string | Hangs

type_synonym ('s, 'e, 'a) io = "'s \<Rightarrow> ('e, 'a) outcome \<times> 's"

definition ret_io :: "'a \<Rightarrow> ('s, 'e, 'a) io" where "ret_io a s = (Returns a, s)"
definition fail_io :: "'e \<Rightarrow> ('s, 'e, 'a) io" where "fail_io e s = (Fails e, s)"
definition panic_io :: "string \<Rightarrow> ('s, 'e, 'a) io" where "panic_io msg s = (Panics msg, s)"

definition bind_io :: "('s, 'e, 'a) io \<Rightarrow> ('a \<Rightarrow> ('s, 'e, 'b) io) \<Rightarrow> ('s, 'e, 'b) io" where
  "bind_io m f s = (case m s of
     (Returns a, s') \<Rightarrow> f a s' | (Fails e, s') \<Rightarrow> (Fails e, s') | (Panics msg, s') \<Rightarrow> (Panics msg, s') | (Hangs, s') \<Rightarrow> (Hangs, s'))"

text \<open>A \<open>Result\<close> whose error is turned into the deployer's error and returned by \<open>?\<close>.\<close>

definition lift_io :: "('d \<Rightarrow> 'e) \<Rightarrow> 'd + 'a \<Rightarrow> ('s, 'e, 'a) io" where
  "lift_io f r = (case r of Inl e \<Rightarrow> fail_io (f e) | Inr a \<Rightarrow> ret_io a)"

text \<open>A call that may panic.\<close>

definition rust_io :: "'a rust \<Rightarrow> ('s, 'e, 'a) io" where
  "rust_io r = (case r of Inl msg \<Rightarrow> panic_io msg | Inr a \<Rightarrow> ret_io a)"

text \<open>A wait that does not return, a panic and an error of a modelled check as an outcome.\<close>

definition wait_io :: "('d \<Rightarrow> 'e) \<Rightarrow> ('d + 'a) rust option \<Rightarrow> ('s, 'e, 'a) io" where
  "wait_io f r s = (case r of None \<Rightarrow> (Hangs, s) | Some (Inl msg) \<Rightarrow> panic_io msg s | Some (Inr x) \<Rightarrow> lift_io f x s)"

text \<open>A value dropped on every way out but the successful one.\<close>

definition dropping :: "('s \<Rightarrow> 's) \<Rightarrow> ('s, 'e, 'a) io \<Rightarrow> ('s, 'e, 'a) io" where
  "dropping d m s = (case m s of (Returns a, s') \<Rightarrow> (Returns a, s') | (Fails e, s') \<Rightarrow> (Fails e, d s')
     | (Panics msg, s') \<Rightarrow> (Panics msg, d s') | (Hangs, s') \<Rightarrow> (Hangs, s'))"

text \<open>A value whose destructor asks whether the thread is panicking.\<close>

definition unwinding :: "(bool \<Rightarrow> 's \<Rightarrow> 's) \<Rightarrow> ('s, 'e, 'a) io \<Rightarrow> ('s, 'e, 'a) io" where
  "unwinding d m s = (case m s of (Returns a, s') \<Rightarrow> (Returns a, s') | (Fails e, s') \<Rightarrow> (Fails e, d False s')
     | (Panics msg, s') \<Rightarrow> (Panics msg, d True s') | (Hangs, s') \<Rightarrow> (Hangs, s'))"

text \<open>A value dropped on every way out.\<close>

definition scoped :: "('s \<Rightarrow> 's) \<Rightarrow> ('s, 'e, 'a) io \<Rightarrow> ('s, 'e, 'a) io" where
  "scoped d m s = (case m s of (Returns a, s') \<Rightarrow> (Returns a, d s') | (Fails e, s') \<Rightarrow> (Fails e, d s')
     | (Panics msg, s') \<Rightarrow> (Panics msg, d s') | (Hangs, s') \<Rightarrow> (Hangs, s'))"

text \<open>A callee whose error is wrapped by \<open>From\<close>.\<close>

definition map_fail :: "('d \<Rightarrow> 'e) \<Rightarrow> ('s, 'd, 'a) io \<Rightarrow> ('s, 'e, 'a) io" where
  "map_fail f m s = (case m s of (Returns a, s') \<Rightarrow> (Returns a, s') | (Fails e, s') \<Rightarrow> (Fails (f e), s')
     | (Panics msg, s') \<Rightarrow> (Panics msg, s') | (Hangs, s') \<Rightarrow> (Hangs, s'))"

text \<open>A handler that runs before an error is returned.\<close>

definition on_fail :: "('s, 'e, unit) io \<Rightarrow> ('s, 'e, 'a) io \<Rightarrow> ('s, 'e, 'a) io" where
  "on_fail h m s = (case m s of (Fails e, s') \<Rightarrow> bind_io h (\<lambda>_. fail_io e) s' | r \<Rightarrow> r)"

text \<open>A call of which only success or failure matters.\<close>

definition succeeds :: "('s, 'e, unit) io \<Rightarrow> ('s, 'f, bool) io" where
  "succeeds m s = (case m s of (Returns _, s') \<Rightarrow> (Returns True, s') | (Fails _, s') \<Rightarrow> (Returns False, s')
     | (Panics msg, s') \<Rightarrow> (Panics msg, s') | (Hangs, s') \<Rightarrow> (Hangs, s'))"

lemma bind_lift_Inr: "bind_io (lift_io f (Inr a)) g s = g a s"
  by (simp add: bind_io_def lift_io_def ret_io_def)

section \<open>What a computation keeps\<close>

text \<open>It returns and does not change what \<open>view\<close> shows of the state.\<close>

definition keeps :: "('s \<Rightarrow> 'v) \<Rightarrow> ('s, 'e, 'a) io \<Rightarrow> bool" where
  "keeps view m \<longleftrightarrow> (\<forall>s r s'. m s = (r, s') \<longrightarrow> view s' = view s \<and> r \<noteq> Hangs)"

named_theorems keeps_intros

lemma keeps_basic [keeps_intros]: "keeps view (ret_io a)" "keeps view (fail_io e)" "keeps view (panic_io msg)"
  "keeps view (lift_io f r)" "keeps view (rust_io q)"
  by (auto simp: keeps_def ret_io_def fail_io_def panic_io_def lift_io_def rust_io_def split: sum.splits)

lemma keeps_bind [keeps_intros]:
  assumes "keeps view m" and "\<And>a. keeps view (f a)"
  shows "keeps view (bind_io m f)"
  unfolding keeps_def
proof (intro allI impI)
  fix s r s' assume b: "bind_io m f s = (r, s')"
  obtain q t where m: "m s = (q, t)" by fastforce
  show "view s' = view s \<and> r \<noteq> Hangs"
    using b m assms by (cases q) (force simp: bind_io_def keeps_def)+
qed

lemma keeps_if [keeps_intros]: "keeps view a \<Longrightarrow> keeps view b \<Longrightarrow> keeps view (if p then a else b)"
  by simp

lemma keeps_wait [keeps_intros]: "r \<noteq> None \<Longrightarrow> keeps view (wait_io f r)"
  by (auto simp: keeps_def wait_io_def panic_io_def lift_io_def ret_io_def fail_io_def split: option.splits sum.splits)

section \<open>Triples\<close>

text \<open>
  Started in a state with \<open>P\<close> the computation returns, and \<open>Q\<close>, \<open>E\<close> or \<open>X\<close> holds after a value, an
  error or a panic.
\<close>

definition triple :: "('s \<Rightarrow> bool) \<Rightarrow> ('s, 'e, 'a) io \<Rightarrow> ('a \<Rightarrow> 's \<Rightarrow> bool) \<Rightarrow> ('e \<Rightarrow> 's \<Rightarrow> bool) \<Rightarrow> ('s \<Rightarrow> bool) \<Rightarrow> bool" where
  "triple P m Q E X \<longleftrightarrow> (\<forall>s. P s \<longrightarrow> (case m s of
     (Returns a, s') \<Rightarrow> Q a s' | (Fails e, s') \<Rightarrow> E e s' | (Panics msg, s') \<Rightarrow> X s' | (Hangs, s') \<Rightarrow> False))"

named_theorems triple_intros

lemma tripleD:
  "triple P m Q E X \<Longrightarrow> P s \<Longrightarrow> m s = (r, s') \<Longrightarrow>
     (case r of Returns a \<Rightarrow> Q a s' | Fails e \<Rightarrow> E e s' | Panics msg \<Rightarrow> X s' | Hangs \<Rightarrow> False)"
  unfolding triple_def by (cases r) fastforce+

lemma triple_basic:
  "(\<And>s. P s \<Longrightarrow> Q a s) \<Longrightarrow> triple P (ret_io a) Q E X"
  "(\<And>s. P s \<Longrightarrow> E e s) \<Longrightarrow> triple P (fail_io e) Q E X"
  "(\<And>s. P s \<Longrightarrow> X s) \<Longrightarrow> triple P (panic_io msg) Q E X"
  by (auto simp: triple_def ret_io_def fail_io_def panic_io_def)

lemma triple_lift:
  "(\<And>a s. r = Inr a \<Longrightarrow> P s \<Longrightarrow> Q a s) \<Longrightarrow> (\<And>e s. r = Inl e \<Longrightarrow> P s \<Longrightarrow> E (f e) s) \<Longrightarrow> triple P (lift_io f r) Q E X"
  by (cases r) (auto simp: lift_io_def intro!: triple_basic)

lemma triple_rust:
  "(\<And>a s. r = Inr a \<Longrightarrow> P s \<Longrightarrow> Q a s) \<Longrightarrow> (\<And>s. P s \<Longrightarrow> X s) \<Longrightarrow> triple P (rust_io r) Q E X"
  by (cases r) (auto simp: rust_io_def intro!: triple_basic)

lemma triple_wait:
  "r \<noteq> None \<Longrightarrow> (\<And>a s. P s \<Longrightarrow> Q a s) \<Longrightarrow> (\<And>e s. P s \<Longrightarrow> E (f e) s) \<Longrightarrow> (\<And>s. P s \<Longrightarrow> X s) \<Longrightarrow> triple P (wait_io f r) Q E X"
  by (auto simp: triple_def wait_io_def panic_io_def lift_io_def ret_io_def fail_io_def split: option.splits sum.splits)

lemma triple_bind:
  assumes "triple P m Q E X" and "\<And>a. triple (Q a) (f a) R E X"
  shows "triple P (bind_io m f) R E X"
proof -
  have "case bind_io m f s of (Returns a, s') \<Rightarrow> R a s' | (Fails e, s') \<Rightarrow> E e s' | (Panics msg, s') \<Rightarrow> X s' | (Hangs, s') \<Rightarrow> False"
    if "P s" for s
  proof -
    obtain q t where q: "m s = (q, t)" by fastforce
    from tripleD [OF assms(1) that q] show ?thesis using q assms(2) by (cases q) (auto simp: bind_io_def triple_def)
  qed
  then show ?thesis by (simp add: triple_def)
qed

lemma triple_bind_pair:
  assumes "triple P m (\<lambda>(a, b). Q a b) E X" and "\<And>a b. triple (Q a b) (f a b) R E X"
  shows "triple P (bind_io m (\<lambda>(a, b). f a b)) R E X"
  by (rule triple_bind [OF assms(1)]) (use assms(2) in \<open>simp split: prod.split\<close>)

lemma triple_given: "(b \<Longrightarrow> triple P m Q E X) \<Longrightarrow> triple (\<lambda>s. b \<and> P s) m Q E X"
  by (cases b) (simp_all add: triple_def)

lemma triple_exists: "(\<And>x. triple (P x) m Q E X) \<Longrightarrow> triple (\<lambda>s. \<exists>x. P x s) m Q E X"
  unfolding triple_def by (intro allI impI, elim exE) simp

lemma triple_conseq:
  assumes "triple P m Q E X" and "\<And>s. P' s \<Longrightarrow> P s" and "\<And>a s. Q a s \<Longrightarrow> Q' a s" and "\<And>e s. E e s \<Longrightarrow> E' e s" and "\<And>s. X s \<Longrightarrow> X' s"
  shows "triple P' m Q' E' X'"
  unfolding triple_def
proof (intro allI impI)
  fix s assume "P' s"
  obtain q t where q: "m s = (q, t)" by fastforce
  from tripleD [OF assms(1) assms(2) [OF \<open>P' s\<close>] q] q assms(3-5)
  show "case m s of (Returns a, s') \<Rightarrow> Q' a s' | (Fails e, s') \<Rightarrow> E' e s' | (Panics msg, s') \<Rightarrow> X' s' | (Hangs, s') \<Rightarrow> False"
    by (cases q) auto
qed

lemma triple_keeps:
  assumes "keeps view m" and "\<And>s s'. P s \<Longrightarrow> view s' = view s \<Longrightarrow> P s'"
  shows "triple P m (\<lambda>_. P) (\<lambda>_. P) P"
  unfolding triple_def
proof (intro allI impI)
  fix s assume "P s"
  obtain q t where q: "m s = (q, t)" by fastforce
  then have "view t = view s" "q \<noteq> Hangs" using assms(1) by (auto simp: keeps_def)
  then show "case m s of (Returns a, s') \<Rightarrow> P s' | (Fails e, s') \<Rightarrow> P s' | (Panics msg, s') \<Rightarrow> P s' | (Hangs, s') \<Rightarrow> False"
    using q assms(2) [OF \<open>P s\<close>] by (cases q) auto
qed

lemma triple_dropping:
  assumes "triple P m Q (\<lambda>e s. E e (d s)) (\<lambda>s. X (d s))"
  shows "triple P (dropping d m) Q E X"
  using assms unfolding triple_def dropping_def by (fastforce split: outcome.splits prod.splits)

lemma triple_unwinding:
  assumes "triple P m Q (\<lambda>e s. E e (d False s)) (\<lambda>s. X (d True s))"
  shows "triple P (unwinding d m) Q E X"
  using assms unfolding triple_def unwinding_def by (fastforce split: outcome.splits prod.splits)

lemma triple_scoped:
  assumes "triple P m (\<lambda>a s. Q a (d s)) (\<lambda>e s. E e (d s)) (\<lambda>s. X (d s))"
  shows "triple P (scoped d m) Q E X"
  using assms unfolding triple_def scoped_def by (fastforce split: outcome.splits prod.splits)

lemma triple_map_fail:
  assumes "triple P m Q (\<lambda>e. E (f e)) X"
  shows "triple P (map_fail f m) Q E X"
  using assms unfolding triple_def map_fail_def by (fastforce split: outcome.splits prod.splits)

lemma triple_succeeds:
  assumes "triple P m (\<lambda>_. Q) (\<lambda>_. Q) X"
  shows "triple P (succeeds m) (\<lambda>_. Q) E X"
  using assms unfolding triple_def succeeds_def by (fastforce split: outcome.splits prod.splits)

lemma triple_on_fail:
  assumes "triple P m Q E X" and "\<And>e. triple (E e) h (\<lambda>_. E' e) (\<lambda>_ _. False) X"
  shows "triple P (on_fail h m) Q E' X"
  unfolding triple_def
proof (intro allI impI)
  fix s assume "P s"
  obtain q t where q: "m s = (q, t)" by fastforce
  note m = tripleD [OF assms(1) \<open>P s\<close> q]
  show "case on_fail h m s of (Returns a, s') \<Rightarrow> Q a s' | (Fails e, s') \<Rightarrow> E' e s' | (Panics msg, s') \<Rightarrow> X s' | (Hangs, s') \<Rightarrow> False"
  proof (cases q)
    case (Fails e)
    obtain r u where r: "h t = (r, u)" by fastforce
    have "E e t" using m Fails by simp
    from tripleD [OF assms(2) this r] show ?thesis using q Fails r by (cases r) (simp_all add: on_fail_def bind_io_def fail_io_def)
  qed (use m q in \<open>simp_all add: on_fail_def\<close>)
qed

lemma keeps_wrappers [keeps_intros]:
  "keeps view m \<Longrightarrow> keeps view (map_fail f m)" "keeps view n \<Longrightarrow> keeps view (succeeds n)"
  by (fastforce simp: keeps_def map_fail_def succeeds_def split: outcome.splits prod.splits)+

end
