(* ===== verification/File_System.thy ===== *)
theory File_System
  imports Deploy_Monad "HOL-Library.AList" "HOL-Library.Sublist"
begin

text \<open>
  The part of \<open>std::fs\<close> the repository uses. The file system is one tree; a path is the list of its
  components. An operation fails where the tree forbids it, and writing fails where \<open>writable\<close> says so
  (permissions, a full disk). Symbolic links are not represented. What a tree shows at every path is its
  abstraction; one lemma per operation says how it changes.
\<close>

section \<open>A file system\<close>

type_synonym fpath = "string list"

datatype file_tree = File string | Dir "(string \<times> file_tree) list"

fun lookup_path :: "file_tree \<Rightarrow> fpath \<Rightarrow> file_tree option" where
  "lookup_path t [] = Some t"
| "lookup_path (Dir es) (n # p) = Option.bind (map_of es n) (\<lambda>t. lookup_path t p)"
| "lookup_path (File c) (n # p) = None"

text \<open>Put a tree where a directory exists to hold it; create a directory and its parents; remove a tree.\<close>

fun put_path :: "fpath \<Rightarrow> file_tree \<Rightarrow> file_tree \<Rightarrow> file_tree option" where
  "put_path [] v t = Some v"
| "put_path (n # p) v (Dir es) = (case map_of es n of
     Some t \<Rightarrow> map_option (\<lambda>t'. Dir (AList.update n t' es)) (put_path p v t)
   | None \<Rightarrow> if p = [] then Some (Dir (AList.update n v es)) else None)"
| "put_path (n # p) v (File c) = None"

fun make_dirs :: "fpath \<Rightarrow> file_tree \<Rightarrow> file_tree option" where
  "make_dirs [] t = (case t of Dir es \<Rightarrow> Some (Dir es) | File c \<Rightarrow> None)"
| "make_dirs (n # p) (Dir es) =
     map_option (\<lambda>t'. Dir (AList.update n t' es)) (make_dirs p (case map_of es n of Some t \<Rightarrow> t | None \<Rightarrow> Dir []))"
| "make_dirs (n # p) (File c) = None"

fun prune :: "fpath \<Rightarrow> file_tree \<Rightarrow> file_tree" where
  "prune [n] (Dir es) = Dir (AList.delete n es)"
| "prune (n # p) (Dir es) = (case map_of es n of Some t \<Rightarrow> Dir (AList.update n (prune p t) es) | None \<Rightarrow> Dir es)"
| "prune p t = t"

definition path_exists :: "file_tree \<Rightarrow> fpath \<Rightarrow> bool" where
  "path_exists fs p \<longleftrightarrow> lookup_path fs p \<noteq> None"

definition path_is_dir :: "file_tree \<Rightarrow> fpath \<Rightarrow> bool" where
  "path_is_dir fs p \<longleftrightarrow> (case lookup_path fs p of Some (Dir es) \<Rightarrow> True | _ \<Rightarrow> False)"

definition path_parent :: "fpath \<Rightarrow> fpath option" where
  "path_parent p = (if p = [] then None else Some (butlast p))"

section \<open>Operations of \<open>std::fs\<close>\<close>

type_synonym 'a fs_io = "(file_tree, string, 'a) io"

type_synonym writable = "fpath \<Rightarrow> bool"

definition change_tree :: "string \<Rightarrow> (file_tree \<Rightarrow> file_tree option) \<Rightarrow> unit fs_io" where
  "change_tree msg f fs = (case f fs of Some fs' \<Rightarrow> (Returns (), fs') | None \<Rightarrow> (Fails msg, fs))"

definition create_dir_all :: "writable \<Rightarrow> fpath \<Rightarrow> unit fs_io" where
  "create_dir_all w p = change_tree ''creating target dir'' (\<lambda>fs. if w p then make_dirs p fs else None)"

text \<open>\<open>fs::copy\<close> of a file with contents \<open>c\<close>: the target is created or overwritten, but not when it is a directory.\<close>

definition write_copy :: "writable \<Rightarrow> string \<Rightarrow> fpath \<Rightarrow> unit fs_io" where
  "write_copy w c p = change_tree ''copying'' (\<lambda>fs. if w p \<and> \<not> path_is_dir fs p then put_path p (File c) fs else None)"

definition fs_copy :: "writable \<Rightarrow> fpath \<Rightarrow> fpath \<Rightarrow> unit fs_io" where
  "fs_copy w source target fs = (case lookup_path fs source of
     Some (File c) \<Rightarrow> write_copy w c target fs | _ \<Rightarrow> fail_io ''copying'' fs)"

definition remove_dir_all :: "writable \<Rightarrow> fpath \<Rightarrow> unit fs_io" where
  "remove_dir_all w p = change_tree ''removing bogus dir'' (\<lambda>fs. if w p then Some (prune p fs) else None)"

section \<open>What a tree shows at a path\<close>

datatype entry_kind = IsDir | IsFile string

fun tree_kind :: "file_tree \<Rightarrow> entry_kind" where
  "tree_kind (Dir es) = IsDir"
| "tree_kind (File c) = IsFile c"

definition kind_at :: "file_tree \<Rightarrow> fpath \<Rightarrow> entry_kind option" where
  "kind_at fs p = map_option tree_kind (lookup_path fs p)"

fun wf_tree :: "file_tree \<Rightarrow> bool" where
  "wf_tree (File c) = True"
| "wf_tree (Dir es) = (distinct (map fst es) \<and> (\<forall>e \<in> set es. wf_tree (snd e)))"

lemma kind_at_simps [simp]:
  "kind_at t [] = Some (tree_kind t)" "kind_at (File c) (n # p) = None"
  "kind_at (Dir es) (n # p) = (case map_of es n of Some t \<Rightarrow> kind_at t p | None \<Rightarrow> None)"
  by (simp_all add: kind_at_def split: option.split)

lemma kind_views:
  "path_exists fs p \<longleftrightarrow> kind_at fs p \<noteq> None" "path_is_dir fs p \<longleftrightarrow> kind_at fs p = Some IsDir"
  by (auto simp: path_exists_def path_is_dir_def kind_at_def split: option.splits file_tree.splits)

lemma lookup_append: "lookup_path t (p @ q) = Option.bind (lookup_path t p) (\<lambda>u. lookup_path u q)"
  by (induction t p rule: lookup_path.induct) (auto split: Option.bind_splits)

lemma kind_below: "lookup_path fs p = Some t \<Longrightarrow> kind_at fs (p @ q) = kind_at t q"
  by (simp add: kind_at_def lookup_append)

lemma kind_above: "kind_at fs (p @ n # q) \<noteq> None \<Longrightarrow> kind_at fs p = Some IsDir"
  by (cases "lookup_path fs p") (auto simp: kind_at_def lookup_append, metis file_tree.exhaust lookup_path.simps(3) option.distinct(1) tree_kind.simps(1))

lemma kind_put: "put_path p v fs = Some fs' \<Longrightarrow> kind_at fs' q = (if prefix p q then kind_at v (drop (length p) q) else kind_at fs q)"
proof (induction p v fs arbitrary: fs' q rule: put_path.induct)
  case (2 n p v es)
  show ?case
    by (cases q; cases "map_of es n") (use 2 in \<open>auto simp: update_conv' split: if_splits option.splits\<close>)
qed auto

lemma kind_beyond: "kind_at fs p \<noteq> Some IsDir \<Longrightarrow> kind_at fs (p @ n # q) = None"
  using kind_above by blast

lemma kind_file: "kind_at (File c) q = (if q = [] then Some (IsFile c) else None)"
  by (cases q) auto

lemma prune_file [simp]: "prune p (File c) = File c"
  by (cases p) auto

lemma kind_empty: "kind_at (Dir []) q = (if q = [] then Some IsDir else None)"
  by (cases q) auto

lemma kind_make_dirs: "make_dirs p fs = Some fs' \<Longrightarrow> kind_at fs' q = (if prefix q p then Some IsDir else kind_at fs q)"
proof (induction p fs arbitrary: fs' q rule: make_dirs.induct)
  case (1 t)
  then show ?case by (auto split: file_tree.splits)
next
  case (2 n p es)
  then obtain t' where t: "make_dirs p (case map_of es n of Some t \<Rightarrow> t | None \<Rightarrow> Dir []) = Some t'" "fs' = Dir (AList.update n t' es)" by auto
  show ?case using 2(1) [OF t(1)] t(2) by (cases q) (auto simp: update_conv' kind_empty split: option.split)
qed auto

lemma kind_prune: "p \<noteq> [] \<Longrightarrow> kind_at (prune p fs) q = (if prefix p q then None else kind_at fs q)"
proof (induction p fs arbitrary: q rule: prune.induct)
  case (1 n es)
  then show ?case by (cases q) (auto simp: delete_conv')
next
  case (2 n m p es)
  show ?case
  proof (cases q)
    case (Cons k r)
    then show ?thesis by (cases "map_of es n") (use 2 in \<open>auto simp: update_conv' split: option.split\<close>)
  qed (simp split: option.split)
qed (auto simp: kind_file)

lemma put_defined: "put_path p v fs \<noteq> None \<longleftrightarrow> p = [] \<or> kind_at fs (butlast p) = Some IsDir"
proof (induction p v fs rule: put_path.induct)
  case (2 n p v es)
  show ?case by (cases "map_of es n"; cases p) (use 2 in auto)
qed auto

lemma make_dirs_defined: "make_dirs p fs \<noteq> None \<longleftrightarrow> (\<forall>q c. prefix q p \<longrightarrow> kind_at fs q \<noteq> Some (IsFile c))"
proof (induction p fs rule: make_dirs.induct)
  case (2 n p es)
  have "(\<forall>q c. prefix q (n # p) \<longrightarrow> kind_at (Dir es) q \<noteq> Some (IsFile c))
      \<longleftrightarrow> (\<forall>q c. prefix q p \<longrightarrow> kind_at (Dir es) (n # q) \<noteq> Some (IsFile c))"
    by (auto simp: prefix_Cons)
  with 2 show ?case by (cases "map_of es n") (auto simp: kind_empty)
next
  case (3 n p c)
  have "prefix [] (n # p)" "kind_at (File c) [] = Some (IsFile c)" by simp_all
  then show ?case by (metis make_dirs.simps(3))
qed (auto split: file_tree.split)

section \<open>What the operations do to it\<close>

text \<open>Only paths below \<open>p\<close> change, and trees beside \<open>p\<close> stay as they are.\<close>

definition frame :: "fpath \<Rightarrow> file_tree \<Rightarrow> file_tree \<Rightarrow> bool" where
  "frame p fs fs' \<longleftrightarrow> (\<forall>q. \<not> prefix p q \<longrightarrow> kind_at fs' q = kind_at fs q) \<and> (\<forall>b. p \<parallel> b \<longrightarrow> lookup_path fs' b = lookup_path fs b)"

lemma frame_refl [simp]: "frame p fs fs"
  by (simp add: frame_def)

lemma frame_trans: "frame p fs fs1 \<Longrightarrow> frame p fs1 fs2 \<Longrightarrow> frame p fs fs2"
  by (simp add: frame_def)

lemma frame_below: "frame (p @ r) fs fs' \<Longrightarrow> frame p fs fs'"
  unfolding frame_def by (metis append_prefixD parallel_append parallel_def append_Nil2 prefix_def append_assoc)

lemma parallel_names [simp]: "x # xs \<parallel> y # ys \<longleftrightarrow> x \<noteq> y \<or> xs \<parallel> ys" "\<not> [] \<parallel> ys" "\<not> xs \<parallel> []"
  by (auto simp: parallel_def)

lemma lookup_beside:
  "p \<parallel> b \<Longrightarrow> put_path p v fs = Some fs' \<Longrightarrow> lookup_path fs' b = lookup_path fs b"
  "p \<parallel> b \<Longrightarrow> make_dirs p fs = Some fs' \<Longrightarrow> lookup_path fs' b = lookup_path fs b"
  "p \<parallel> b \<Longrightarrow> lookup_path (prune p fs) b = lookup_path fs b"
proof -
  show "p \<parallel> b \<Longrightarrow> put_path p v fs = Some fs' \<Longrightarrow> lookup_path fs' b = lookup_path fs b"
  proof (induction p v fs arbitrary: fs' b rule: put_path.induct)
    case (2 n p v es)
    show ?case by (cases b; cases "map_of es n") (use 2 in \<open>auto simp: update_conv' split: if_splits\<close>)
  qed auto
  show "p \<parallel> b \<Longrightarrow> make_dirs p fs = Some fs' \<Longrightarrow> lookup_path fs' b = lookup_path fs b"
  proof (induction p fs arbitrary: fs' b rule: make_dirs.induct)
    case (2 n p es)
    then obtain t' where t: "make_dirs p (case map_of es n of Some t \<Rightarrow> t | None \<Rightarrow> Dir []) = Some t'" "fs' = Dir (AList.update n t' es)" by auto
    obtain m c where b: "b = m # c" using 2(2) by (cases b) auto
    show ?case
    proof (cases "m = n")
      case True
      with 2(2) b have par: "p \<parallel> c" by simp
      then have "c \<noteq> []" by auto
      with 2(1) [OF par t(1)] t(2) b True show ?thesis by (cases c) (auto simp: update_conv' split: option.splits)
    qed (use t(2) b in \<open>simp add: update_conv'\<close>)
  qed auto
  show "p \<parallel> b \<Longrightarrow> lookup_path (prune p fs) b = lookup_path fs b"
  proof (induction p fs arbitrary: b rule: prune.induct)
    case (1 n es)
    then show ?case by (cases b) (auto simp: delete_conv')
  next
    case (2 n m p es)
    show ?case by (cases b; cases "map_of es n") (use 2 in \<open>auto simp: update_conv'\<close>)
  qed auto
qed

text \<open>Entries come from the source where it has any, and stay where it has none.\<close>

definition overlay :: "(fpath \<Rightarrow> entry_kind option) \<Rightarrow> fpath \<Rightarrow> (fpath \<Rightarrow> entry_kind option) \<Rightarrow> fpath \<Rightarrow> entry_kind option" where
  "overlay k' p k q = (if prefix p q \<and> k' (drop (length p) q) \<noteq> None then k' (drop (length p) q) else k q)"

definition fits :: "(fpath \<Rightarrow> entry_kind option) \<Rightarrow> fpath \<Rightarrow> (fpath \<Rightarrow> entry_kind option) \<Rightarrow> bool" where
  "fits k' p k \<longleftrightarrow> (\<forall>q x y. k' q = Some x \<longrightarrow> k (p @ q) = Some y \<longrightarrow> (x = IsDir \<longleftrightarrow> y = IsDir))"

text \<open>Something that shows \<open>k'\<close> is copied to \<open>p\<close>: it works if everything is writable and nothing is in the way.\<close>

definition copies :: "writable \<Rightarrow> (fpath \<Rightarrow> entry_kind option) \<Rightarrow> fpath \<Rightarrow> file_tree \<Rightarrow> unit fs_io \<Rightarrow> bool" where
  "copies w k' p fs m \<longleftrightarrow> frame p fs (snd (m fs)) \<and> (case fst (m fs) of
     Returns u \<Rightarrow> kind_at (snd (m fs)) = overlay k' p (kind_at fs)
   | Fails e \<Rightarrow> \<not> ((\<forall>q. w q) \<and> fits k' p (kind_at fs)) | _ \<Rightarrow> False)"


lemma create_dir_outcome:
  assumes "p \<noteq> []" and "kind_at fs (butlast p) = Some IsDir"
  shows "case create_dir_all w p fs of (Returns u, fs') \<Rightarrow> frame p fs fs' \<and> kind_at fs' = (kind_at fs)(p \<mapsto> IsDir)
     | (Fails e, fs') \<Rightarrow> fs' = fs \<and> (w p \<longrightarrow> (\<exists>c. kind_at fs p = Some (IsFile c))) | _ \<Rightarrow> False"
proof -
  have above: "kind_at fs q = Some IsDir" if q: "prefix q p" "q \<noteq> p" for q
  proof (cases "q = butlast p")
    case False
    then obtain n r where "butlast p = q @ n # r"
      using q assms(1) by (metis append_butlast_last_id prefixE prefix_snoc neq_Nil_conv append_Nil2)
    then show ?thesis using assms(2) kind_above [of fs q n r] by simp
  qed (use assms(2) in simp)
  have "kind_at fs' = (kind_at fs)(p \<mapsto> IsDir)" "frame p fs fs'" if "make_dirs p fs = Some fs'" for fs'
    using that above by (auto simp: fun_eq_iff frame_def kind_make_dirs lookup_beside(2)) 
  moreover have "\<exists>c. kind_at fs p = Some (IsFile c)" if none: "make_dirs p fs = None"
  proof -
    obtain q c where "prefix q p" "kind_at fs q = Some (IsFile c)" using none make_dirs_defined [of p fs] by auto
    with above show ?thesis by (cases "q = p") auto
  qed
  ultimately show ?thesis by (auto simp: create_dir_all_def change_tree_def split: option.split)
qed

lemma write_copy_copies: "kind_at fs (butlast p) = Some IsDir \<Longrightarrow> copies w (kind_at (File c)) p fs (write_copy w c p)"
proof -
  assume parent: "kind_at fs (butlast p) = Some IsDir"
  have "kind_at fs' q = overlay (kind_at (File c)) p (kind_at fs) q"
    if put: "\<not> path_is_dir fs p" "put_path p (File c) fs = Some fs'" for fs' q
  proof (cases "drop (length p) q")
    case Nil
    with put show ?thesis by (auto simp: kind_put overlay_def)
  next
    case (Cons n r)
    then have "prefix p q \<Longrightarrow> kind_at fs q = None"
      using kind_beyond [of fs p n r] put(1) by (auto simp: prefix_def kind_views)
    with Cons put show ?thesis by (auto simp: kind_put overlay_def)
  qed
  moreover have "frame p fs fs'" if "put_path p (File c) fs = Some fs'" for fs'
    using that by (simp add: frame_def kind_put lookup_beside(1))
  moreover have "\<not> fits (kind_at (File c)) p (kind_at fs)" if "path_is_dir fs p"
    using that unfolding fits_def kind_views by (metis append_Nil2 entry_kind.distinct(1) kind_at_simps(1) tree_kind.simps(2))
  moreover have "put_path p (File c) fs \<noteq> None" using parent put_defined by blast
  ultimately show ?thesis by (auto simp: copies_def write_copy_def change_tree_def split: option.split)
qed

end
