(* ===== verification/Compose_Workspace.thy ===== *)
theory Compose_Workspace
  imports File_System
begin

text \<open>
  The workspace of a compose deployment: \<open>runners/compose/src/docker/workspace.rs\<close> and
  \<open>prepare_workspace_state\<close> of \<open>infrastructure/environment.rs\<close>. A directory is read once, before its
  entries are copied.
\<close>

section \<open>Copying a directory\<close>

text \<open>\<open>copy_dir_recursive\<close>, by recursion on the tree it copies.\<close>

fun copy_node :: "writable \<Rightarrow> file_tree \<Rightarrow> fpath \<Rightarrow> unit fs_io"
  and copy_entries :: "writable \<Rightarrow> (string \<times> file_tree) list \<Rightarrow> fpath \<Rightarrow> unit fs_io" where
  "copy_node w (File c) target = write_copy w c target"
| "copy_node w (Dir es) target = bind_io (create_dir_all w target) (\<lambda>_. copy_entries w es target)"
| "copy_entries w [] target = ret_io ()"
| "copy_entries w ((n, t) # es) target = bind_io (copy_node w t (target @ [n])) (\<lambda>_. copy_entries w es target)"

definition copy_dir_recursive :: "writable \<Rightarrow> fpath \<Rightarrow> fpath \<Rightarrow> unit fs_io" where
  "copy_dir_recursive w source target = bind_io (create_dir_all w target) (\<lambda>_ fs.
     case lookup_path fs source of Some (Dir es) \<Rightarrow> copy_entries w es target fs | _ \<Rightarrow> fail_io ''reading'' fs)"

section \<open>The workspace\<close>

record workspace_world =
  ww_workspace_dir :: "fpath option"
  ww_manifest_dir :: fpath
  ww_tempdir :: "fpath option"
  ww_writable :: "fpath \<Rightarrow> bool"

definition workspace_repo_root :: "workspace_world \<Rightarrow> fpath option" where
  "workspace_repo_root w = (case ww_workspace_dir w of Some d \<Rightarrow> Some d
     | None \<Rightarrow> Option.bind (Option.bind (path_parent (ww_manifest_dir w)) path_parent) path_parent)"

definition new_layout :: fpath where "new_layout = [''testing-framework'', ''assets'', ''stack'']"

definition stack_assets :: "file_tree \<Rightarrow> fpath \<Rightarrow> fpath" where
  "stack_assets fs base = (if path_exists fs (base @ new_layout) then base @ new_layout else base @ [''testnet''])"

definition stack_scripts :: "file_tree \<Rightarrow> fpath \<Rightarrow> fpath" where
  "stack_scripts fs base = (if path_exists fs (base @ new_layout @ [''scripts'']) then base @ new_layout @ [''scripts'']
     else base @ [''testnet'', ''scripts''])"

definition prometheus_file :: fpath where "prometheus_file = [''monitoring'', ''prometheus.yml'']"

text \<open>A directory where Docker wants a file is replaced by the file.\<close>

definition ensure_prometheus :: "writable \<Rightarrow> fpath \<Rightarrow> fpath \<Rightarrow> unit fs_io" where
  "ensure_prometheus w source target =
     bind_io (\<lambda>fs. if path_is_dir fs target then remove_dir_all w target fs else ret_io () fs) (\<lambda>_ fs.
       if path_exists fs target then ret_io () fs else fs_copy w source target fs)"

definition copy_kzg :: "writable \<Rightarrow> fpath \<Rightarrow> fpath \<Rightarrow> unit fs_io" where
  "copy_kzg w source target fs =
     (if path_is_dir fs source then copy_dir_recursive w source target fs
      else if path_exists fs source then fs_copy w source target fs else ret_io () fs)"

definition has_entries :: "file_tree \<Rightarrow> fpath \<Rightarrow> bool" where
  "has_entries fs p \<longleftrightarrow> (case lookup_path fs p of Some (Dir es) \<Rightarrow> es \<noteq> [] | _ \<Rightarrow> False)"

definition kzg_dir :: string where "kzg_dir = ''kzgrs_test_params''"

text \<open>What \<open>create\<close> does once the temporary directory is there.\<close>

definition fill_workspace :: "writable \<Rightarrow> fpath \<Rightarrow> fpath \<Rightarrow> unit fs_io" where
  "fill_workspace w base temp fs =
     (let stack = stack_assets fs base in
      if \<not> path_exists fs stack then fail_io ''stack assets directory not found'' fs
      else bind_io (copy_dir_recursive w stack (temp @ [''stack''])) (\<lambda>_.
        bind_io (\<lambda>fs1. let scripts = stack_scripts fs1 base in
            if path_exists fs1 scripts then copy_dir_recursive w scripts (temp @ [''stack'', ''scripts'']) fs1 else ret_io () fs1) (\<lambda>_.
        bind_io (ensure_prometheus w (stack @ prometheus_file) (temp @ [''stack''] @ prometheus_file)) (\<lambda>_.
        bind_io (copy_kzg w (base @ new_layout @ [kzg_dir]) (temp @ [kzg_dir])) (\<lambda>_ fs2.
          if has_entries fs2 (temp @ [kzg_dir]) then ret_io () fs2
          else fail_io ''KZG params missing in stack assets'' fs2)))) fs)"

text \<open>The destructor of the temporary directory removes it on the way out with an error.\<close>

definition workspace_create :: "workspace_world \<Rightarrow> fpath fs_io" where
  "workspace_create w fs = (case workspace_repo_root w of
     None \<Rightarrow> fail_io ''locating repository root'' fs
   | Some base \<Rightarrow> (case Option.bind (ww_tempdir w) (\<lambda>temp. map_option (Pair temp) (put_path temp (Dir []) fs)) of
       None \<Rightarrow> fail_io ''creating testnet temp dir'' fs
     | Some (temp, fs0) \<Rightarrow> dropping (prune temp) (bind_io (fill_workspace (ww_writable w) base temp) (\<lambda>_. ret_io temp)) fs0))"

record workspace_state =
  ws_root :: fpath
  ws_cfgsync_path :: fpath
  ws_use_kzg :: bool

definition prepare_workspace_state :: "workspace_world \<Rightarrow> workspace_state fs_io" where
  "prepare_workspace_state w = bind_io (workspace_create w) (\<lambda>temp fs.
     ret_io \<lparr>ws_root = temp, ws_cfgsync_path = temp @ [''stack'', ''cfgsync.yaml''], ws_use_kzg = path_exists fs (temp @ [kzg_dir])\<rparr> fs)"

text \<open>The entries of a directory one after the other.\<close>

lemma overlay_entries:
  assumes "n \<notin> fst ` set es" and "k p = Some IsDir"
  shows "overlay (kind_at (Dir es)) p (overlay (kind_at t) (p @ [n]) k) = overlay (kind_at (Dir ((n, t) # es))) p k"
proof
  fix q
  have none: "map_of es n = None" using assms(1) by (simp add: map_of_eq_None_iff)
  show "overlay (kind_at (Dir es)) p (overlay (kind_at t) (p @ [n]) k) q = overlay (kind_at (Dir ((n, t) # es))) p k q"
  proof (cases "prefix p q")
    case True
    then obtain r where "q = p @ r" by (auto simp: prefix_def)
    then show ?thesis using none by (cases r) (auto simp: overlay_def split: option.split)
  next
    case False
    then have "\<not> prefix (p @ [n]) q" using append_prefixD by blast
    with False show ?thesis by (simp add: overlay_def)
  qed
qed

lemma fits_entries:
  assumes "fits (kind_at (Dir ((n, t) # es))) p k" and "n \<notin> fst ` set es" and "k p = Some IsDir"
  shows "fits (kind_at t) (p @ [n]) k" and "fits (kind_at (Dir es)) p (overlay (kind_at t) (p @ [n]) k)"
proof -
  have none: "map_of es n = None" using assms(2) by (simp add: map_of_eq_None_iff)
  show "fits (kind_at t) (p @ [n]) k" using assms(1) by (fastforce simp: fits_def dest: spec [of _ "n # _"])
  show "fits (kind_at (Dir es)) p (overlay (kind_at t) (p @ [n]) k)"
    unfolding fits_def
  proof (intro allI impI)
    fix q x y assume q: "kind_at (Dir es) q = Some x" "overlay (kind_at t) (p @ [n]) k (p @ q) = Some y"
    show "(x = IsDir) = (y = IsDir)"
    proof (cases q)
      case Nil
      with q assms(3) show ?thesis by (simp add: overlay_def)
    next
      case (Cons m r)
      with q(1) none have "m \<noteq> n" by auto
      with q Cons have "kind_at (Dir ((n, t) # es)) q = Some x" "k (p @ q) = Some y" by (auto simp: overlay_def)
      with assms(1) show ?thesis by (simp add: fits_def)
    qed
  qed
qed

lemma fits_root: "fits k' p k \<Longrightarrow> k' [] = Some IsDir \<Longrightarrow> k p \<noteq> Some (IsFile c)"
  unfolding fits_def by (metis append_Nil2 entry_kind.distinct(1))

lemma create_dir_copies:
  assumes "p \<noteq> []" and "kind_at fs (butlast p) = Some IsDir"
  shows "copies w [[] \<mapsto> IsDir] p fs (create_dir_all w p)"
proof -
  have "(kind_at fs)(p \<mapsto> IsDir) = overlay [[] \<mapsto> IsDir] p (kind_at fs)" by (auto simp: overlay_def fun_eq_iff prefix_def)
  moreover have "fits [[] \<mapsto> IsDir] p (kind_at fs) \<Longrightarrow> kind_at fs p \<noteq> Some (IsFile c)" for c by (erule fits_root) simp
  ultimately show ?thesis using create_dir_outcome [OF assms, of w] by (auto simp: copies_def split: outcome.splits prod.splits)
qed

lemma copies_bind:
  assumes "copies w k1 p1 fs m" and "frame p fs (snd (m fs))"
    and "\<And>fs1. m fs = (Returns (), fs1) \<Longrightarrow> kind_at fs1 = overlay k1 p1 (kind_at fs) \<Longrightarrow> copies w k2 p fs1 n"
    and "fits k p (kind_at fs) \<Longrightarrow> fits k1 p1 (kind_at fs) \<and> fits k2 p (overlay k1 p1 (kind_at fs))"
    and "overlay k2 p (overlay k1 p1 (kind_at fs)) = overlay k p (kind_at fs)"
  shows "copies w k p fs (bind_io m (\<lambda>_. n))"
proof -
  obtain r fs1 where m: "m fs = (r, fs1)" by fastforce
  show ?thesis
  proof (cases r)
    case (Returns u)
    with m assms(1) have k1: "kind_at fs1 = overlay k1 p1 (kind_at fs)" by (simp add: copies_def)
    with m Returns have c: "copies w k2 p fs1 n" by (intro assms(3)) simp_all
    have "bind_io m (\<lambda>_. n) fs = n fs1" using m Returns by (simp add: bind_io_def)
    with c k1 assms(2,4,5) m show ?thesis by (auto simp: copies_def intro: frame_trans split: outcome.splits)
  qed (use assms(1,2,4) m in \<open>auto simp: copies_def bind_io_def\<close>)
qed

lemma copy_copies:
  "wf_tree t \<Longrightarrow> p \<noteq> [] \<Longrightarrow> kind_at fs (butlast p) = Some IsDir \<Longrightarrow> copies w (kind_at t) p fs (copy_node w t p)"
  "wf_tree (Dir es) \<Longrightarrow> kind_at fs p = Some IsDir \<Longrightarrow> copies w (kind_at (Dir es)) p fs (copy_entries w es p)"
proof (induction w t p and w es p arbitrary: fs and fs rule: copy_node_copy_entries.induct)
  case (1 w c p)
  then show ?case by (simp add: write_copy_copies)
next
  case (2 w es p)
  have dir: "copies w [[] \<mapsto> IsDir] p fs (create_dir_all w p)" using create_dir_copies 2(3,4) by blast
  have over: "overlay (kind_at (Dir es)) p (overlay [[] \<mapsto> IsDir] p k) = overlay (kind_at (Dir es)) p k" for k
    by (auto simp: overlay_def fun_eq_iff prefix_def split: if_splits)
  have fits: "fits [[] \<mapsto> IsDir] p k \<and> fits (kind_at (Dir es)) p (overlay [[] \<mapsto> IsDir] p k)" if "fits (kind_at (Dir es)) p k" for k
  proof -
    have "fits [[] \<mapsto> IsDir] p k" using that by (auto simp: fits_def dest: spec [of _ "[]"])
    moreover have "fits (kind_at (Dir es)) p (overlay [[] \<mapsto> IsDir] p k)"
      using that by (auto simp: fits_def overlay_def split: if_splits)
    ultimately show ?thesis ..
  qed
  show ?case unfolding copy_node.simps
  proof (rule copies_bind [OF dir])
    show "frame p fs (snd (create_dir_all w p fs))" using dir by (simp add: copies_def)
  qed (use 2 over fits in \<open>auto simp: overlay_def\<close>)
next
  case (3 w p)
  then show ?case by (auto simp: copies_def ret_io_def overlay_def fun_eq_iff prefix_def kind_empty)
next
  case (4 w n t es p)
  then have t: "copies w (kind_at t) (p @ [n]) fs (copy_node w t (p @ [n]))" by simp
  have "overlay (kind_at t) (p @ [n]) (kind_at fs) p = Some IsDir" using 4(4) by (simp add: overlay_def)
  then have rest: "copies w (kind_at (Dir es)) p fs1 (copy_entries w es p)" if "kind_at fs1 = overlay (kind_at t) (p @ [n]) (kind_at fs)" for fs1
    using 4(2) [of fs1] 4(3) that by simp
  have "frame p fs (snd (copy_node w t (p @ [n]) fs))" using t by (auto simp: copies_def intro: frame_below)
  then show ?case unfolding copy_entries.simps using 4(3,4) overlay_entries fits_entries
    by (intro copies_bind [OF t _ rest]) auto
qed


section \<open>Copying directories into the workspace\<close>

lemma has_entries_kind: "has_entries fs p \<longleftrightarrow> (\<exists>n. kind_at fs (p @ [n]) \<noteq> None)"
proof (cases "lookup_path fs p")
  case (Some t)
  show ?thesis
  proof (cases t)
    case (Dir es)
    then show ?thesis using kind_below [OF Some] Some by (cases es) (auto simp: has_entries_def split: option.split if_splits)
  qed (use kind_below [OF Some] Some in \<open>simp add: has_entries_def\<close>)
qed (simp add: has_entries_def kind_at_def lookup_append)

lemma wf_lookup: "wf_tree fs \<Longrightarrow> lookup_path fs p = Some t \<Longrightarrow> wf_tree t"
proof (induction fs p rule: lookup_path.induct)
  case (2 es n p)
  then obtain u where "map_of es n = Some u" "lookup_path u p = Some t" by (auto simp: bind_eq_Some_conv)
  with 2 show ?case by (auto dest!: map_of_SomeD)
qed auto

text \<open>The trees beside the workspace are those of \<open>fs\<close>, and below it there is what \<open>v\<close> says.\<close>

definition workspace_shows :: "fpath \<Rightarrow> file_tree \<Rightarrow> (fpath \<Rightarrow> entry_kind option) \<Rightarrow> file_tree \<Rightarrow> bool" where
  "workspace_shows temp fs v s \<longleftrightarrow> frame temp fs s \<and> (\<forall>q. kind_at s (temp @ q) = v q)"

lemma beside_below: "p \<parallel> b \<Longrightarrow> p @ q \<parallel> b" "p \<parallel> b \<Longrightarrow> p \<parallel> b @ q"
  by (metis append_Nil2 parallel_append)+

lemma frame_beside:
  assumes "frame temp fs s" and "temp \<parallel> b"
  shows "lookup_path s b = lookup_path fs b" and "kind_at s (b @ q) = kind_at fs (b @ q)"
proof -
  show "lookup_path s b = lookup_path fs b" using assms by (simp add: frame_def)
  then show "kind_at s (b @ q) = kind_at fs (b @ q)" by (simp add: kind_at_def lookup_append)
qed

lemma copy_dir_copies:
  assumes "kind_at fs source = Some IsDir" and "wf_tree (the (lookup_path fs source))" and "p \<noteq> []" and "kind_at fs (butlast p) = Some IsDir" and "p \<parallel> source"
  shows "copies w (\<lambda>q. kind_at fs (source @ q)) p fs (copy_dir_recursive w source p)"
proof -
  obtain es where es: "lookup_path fs source = Some (Dir es)"
    using assms(1) by (auto simp: kind_at_def) (metis entry_kind.distinct(1) file_tree.exhaust tree_kind.simps(2))
  have "copy_dir_recursive w source p fs = copy_node w (Dir es) p fs"
    using es lookup_beside(2) [OF assms(5)]
    by (auto simp: copy_dir_recursive_def bind_io_def create_dir_all_def change_tree_def split: option.split)
  moreover have "(\<lambda>q. kind_at fs (source @ q)) = kind_at (Dir es)" using kind_below [OF es] by blast
  moreover have "copies w (kind_at (Dir es)) p fs (copy_node w (Dir es) p)"
    by (rule copy_copies(1) [OF _ assms(3,4)]) (use assms(2) es in \<open>simp only: option.sel\<close>)
  ultimately show ?thesis by (simp only: copies_def)
qed

lemma copy_dir_refused:
  assumes "kind_at fs source \<noteq> Some IsDir" and "p \<noteq> []" and "kind_at fs (butlast p) = Some IsDir" and "p \<parallel> source"
  shows "\<exists>e fs'. copy_dir_recursive w source p fs = (Fails e, fs') \<and> frame p fs fs'"
proof -
  obtain r fs1 where r: "create_dir_all w p fs = (r, fs1)" by fastforce
  note c = create_dir_copies [OF assms(2,3), of w] r
  show ?thesis
  proof (cases r)
    case (Returns u)
    have "lookup_path fs1 source = lookup_path fs source" using c assms(4) by (simp add: copies_def frame_def)
    with assms(1) c Returns show ?thesis
      by (auto simp: copy_dir_recursive_def bind_io_def fail_io_def kind_at_def copies_def split: option.splits file_tree.splits)
  qed (use c in \<open>auto simp: copies_def copy_dir_recursive_def bind_io_def\<close>)
qed

lemma overlay_below: "overlay k' (t @ p) k (t @ q) = overlay k' p (\<lambda>r. k (t @ r)) q"
  by (auto simp: overlay_def)

text \<open>A copy step of \<open>create\<close>; \<open>ok\<close> is what lets all steps succeed when everything is writable.\<close>

abbreviation gives_up :: "writable \<Rightarrow> fpath \<Rightarrow> file_tree \<Rightarrow> bool \<Rightarrow> string \<Rightarrow> file_tree \<Rightarrow> bool" where
  "gives_up w temp fs ok \<equiv> \<lambda>e s. frame temp fs s \<and> \<not> ((\<forall>q. w q) \<and> ok)"

lemma copy_dir_triple:
  assumes "wf_tree fs" and "temp \<parallel> source" and "p \<noteq> []" and "v (butlast p) = Some IsDir"
    and "ok \<Longrightarrow> kind_at fs source = Some IsDir \<and> fits (\<lambda>q. kind_at fs (source @ q)) p v"
  shows "triple (workspace_shows temp fs v) (copy_dir_recursive w source (temp @ p))
     (\<lambda>_ s. kind_at fs source = Some IsDir \<and> workspace_shows temp fs (overlay (\<lambda>q. kind_at fs (source @ q)) p v) s)
     (gives_up w temp fs ok) (\<lambda>_. False)"
  unfolding triple_def
proof (intro allI impI)
  fix s assume s: "workspace_shows temp fs v s"
  let ?m = "copy_dir_recursive w source (temp @ p)"
  have same: "lookup_path s source = lookup_path fs source" "\<And>q. kind_at s (source @ q) = kind_at fs (source @ q)"
    using s frame_beside [OF _ assms(2)] by (auto simp: workspace_shows_def)
  have parent: "kind_at s (butlast (temp @ p)) = Some IsDir" using s assms(3,4) by (simp add: butlast_append workspace_shows_def)
  have below: "frame temp fs s'" if "frame (temp @ p) s s'" for s' using that s by (auto simp: workspace_shows_def intro: frame_below frame_trans)
  show "case ?m s of (Returns a, s') \<Rightarrow> kind_at fs source = Some IsDir \<and> workspace_shows temp fs (overlay (\<lambda>q. kind_at fs (source @ q)) p v) s'
      | (Fails e, s') \<Rightarrow> gives_up w temp fs ok e s' | (Panics msg, s') \<Rightarrow> False | (Hangs, s') \<Rightarrow> False"
  proof (cases "kind_at fs source = Some IsDir")
    case True
    have k: "kind_at s source = Some IsDir" using True same(2) [of "[]"] by simp
    have "wf_tree (the (lookup_path s source))" using k same(1) wf_lookup [OF assms(1)] by (auto simp: kind_at_def)
    from copy_dir_copies [OF k this _ parent beside_below(1) [OF assms(2)]] assms(3)
    have c: "copies w (\<lambda>q. kind_at fs (source @ q)) (temp @ p) s ?m" by (simp add: same(2))
    have "fits k' (temp @ p) (kind_at s)" if "fits k' p v" for k' using that s by (simp add: fits_def workspace_shows_def)
    moreover have "overlay k' (temp @ p) (kind_at s) (temp @ q) = overlay k' p v q" for k' q
      using s by (simp add: overlay_below workspace_shows_def)
    ultimately show ?thesis using c True below assms(5) by (auto simp: copies_def workspace_shows_def split: prod.splits outcome.splits)
  next
    case False
    moreover have "kind_at s source = kind_at fs source" using same(2) [of "[]"] by simp
    ultimately show ?thesis
      using copy_dir_refused [OF _ _ parent beside_below(1) [OF assms(2)], of w] assms(3,5) below by (auto split: prod.splits outcome.splits)
  qed
qed


lemma triple_at: "(\<And>s. P s \<Longrightarrow> m s = n s) \<Longrightarrow> triple P n Q E X \<Longrightarrow> triple P m Q E X"
  by (simp add: triple_def)

section \<open>The steps of \<open>create\<close>\<close>

text \<open>The repository has what a workspace needs: a Prometheus file, the KZG bundle, and scripts only as a directory.\<close>

definition has_assets :: "file_tree \<Rightarrow> fpath \<Rightarrow> bool" where
  "has_assets fs base \<longleftrightarrow> (\<exists>c. kind_at fs (base @ new_layout @ prometheus_file) = Some (IsFile c))
     \<and> has_entries fs (base @ new_layout @ [kzg_dir]) \<and> kind_at fs (stack_scripts fs base) \<in> {None, Some IsDir}"

text \<open>What \<open>stack\<close> in the workspace shows: the assets, and scripts of the old layout if the assets have none.\<close>

definition stack_view :: "file_tree \<Rightarrow> fpath \<Rightarrow> fpath \<Rightarrow> entry_kind option" where
  "stack_view fs base q = (case kind_at fs (stack_assets fs base @ q) of
     Some k \<Rightarrow> Some k
   | None \<Rightarrow> if prefix [''scripts''] q then kind_at fs (stack_scripts fs base @ tl q) else None)"

definition workspace_view :: "file_tree \<Rightarrow> fpath \<Rightarrow> bool \<Rightarrow> fpath \<Rightarrow> entry_kind option" where
  "workspace_view fs base with_kzg q = (case q of [] \<Rightarrow> Some IsDir
     | n # r \<Rightarrow> if n = ''stack'' then stack_view fs base r
       else if n = kzg_dir \<and> with_kzg then kind_at fs (base @ new_layout @ kzg_dir # r) else None)"

lemma has_assets_new_layout:
  assumes "has_entries fs (base @ new_layout @ [kzg_dir])" shows "stack_assets fs base = base @ new_layout"
proof -
  obtain n where "kind_at fs ((base @ new_layout) @ kzg_dir # [n]) \<noteq> None" using assms has_entries_kind by fastforce
  then have "kind_at fs (base @ new_layout) = Some IsDir" by (rule kind_above)
  then show ?thesis by (simp add: stack_assets_def kind_views)
qed

lemma scripts_of_stack:
  "stack_scripts fs base = stack_assets fs base @ [''scripts''] \<or> kind_at fs (stack_assets fs base @ [''scripts'']) = None"
proof (cases "path_exists fs (base @ new_layout)")
  case False
  then have "kind_at fs ((base @ new_layout) @ ''scripts'' # []) = None" by (intro kind_beyond) (simp add: kind_views)
  with False show ?thesis by (simp add: stack_scripts_def stack_assets_def kind_views)
qed (auto simp: stack_scripts_def stack_assets_def kind_views)

lemma scripts_step:
  fixes fs base
  defines "stack \<equiv> stack_assets fs base" and "scripts \<equiv> stack_scripts fs base"
  defines "v \<equiv> overlay (\<lambda>q. kind_at fs (stack @ q)) [''stack''] [[] \<mapsto> IsDir]"
  shows "fits (\<lambda>q. kind_at fs (scripts @ q)) [''stack'', ''scripts''] v"
    and "overlay (\<lambda>q. kind_at fs (scripts @ q)) [''stack'', ''scripts''] v = workspace_view fs base False"
    and "kind_at fs scripts = None \<Longrightarrow> v = workspace_view fs base False"
proof -
  have v: "v (''stack'' # q) = kind_at fs (stack @ q)" "v [] = Some IsDir" "n \<noteq> ''stack'' \<Longrightarrow> v (n # q) = None" for n q
    by (auto simp: v_def overlay_def)
  have split: "kind_at fs (scripts @ q) = kind_at fs (stack @ ''scripts'' # q) \<or> kind_at fs (stack @ ''scripts'' # q) = None" for q
    using scripts_of_stack [of fs base] kind_beyond [of fs "stack @ [''scripts'']"] by (cases q) (auto simp: stack_def scripts_def)
  show "fits (\<lambda>q. kind_at fs (scripts @ q)) [''stack'', ''scripts''] v"
    unfolding fits_def
  proof (intro allI impI)
    fix q x y assume "kind_at fs (scripts @ q) = Some x" "v ([''stack'', ''scripts''] @ q) = Some y"
    with split [of q] show "(x = IsDir) = (y = IsDir)" by (auto simp: v)
  qed
  show "overlay (\<lambda>q. kind_at fs (scripts @ q)) [''stack'', ''scripts''] v = workspace_view fs base False"
  proof
    fix q
    show "overlay (\<lambda>q. kind_at fs (scripts @ q)) [''stack'', ''scripts''] v q = workspace_view fs base False q"
    proof (cases q)
      case (Cons n r)
      show ?thesis
      proof (cases r)
        case (Cons m r')
        with \<open>q = n # r\<close> split [of r'] show ?thesis
          by (auto simp: overlay_def v workspace_view_def stack_view_def stack_def [symmetric] scripts_def [symmetric] split: option.splits)
      qed (use Cons in \<open>auto simp: overlay_def v workspace_view_def stack_view_def stack_def [symmetric] split: option.split\<close>)
    qed (simp add: overlay_def v workspace_view_def)
  qed
  show "v = workspace_view fs base False" if none: "kind_at fs scripts = None"
  proof
    fix q
    have "kind_at fs (scripts @ r) = None" for r using kind_beyond [of fs scripts] none by (cases r) auto
    then show "v q = workspace_view fs base False q"
      by (cases q) (auto simp: v workspace_view_def stack_view_def stack_def [symmetric] scripts_def [symmetric] split: option.split)
  qed
qed


lemma change_tree_frame:
  "(\<And>s'. f s = Some s' \<Longrightarrow> frame p s s') \<Longrightarrow> \<exists>r s'. change_tree msg f s = (r, s') \<and> frame p s s' \<and> (r = Returns () \<or> (\<exists>e. r = Fails e))"
  by (auto simp: change_tree_def split: option.split)

lemma write_copy_frame:
  "\<exists>r s'. write_copy w c p s = (r, s') \<and> frame p s s' \<and> (r = Returns () \<and> kind_at s' p = Some (IsFile c) \<or> (\<exists>e. r = Fails e))"
  by (auto simp: write_copy_def change_tree_def frame_def kind_put lookup_beside(1) split: option.split)

lemma fs_copy_frame:
  "\<exists>r s'. fs_copy w source p s = (r, s') \<and> frame p s s' \<and> ((\<exists>c. kind_at s source = Some (IsFile c)) \<and> r = Returns () \<and> (\<exists>c. kind_at s' p = Some (IsFile c)) \<or> (\<exists>e. r = Fails e))"
proof (cases "\<exists>c. lookup_path s source = Some (File c)")
  case True
  then obtain c where "lookup_path s source = Some (File c)" by blast
  with write_copy_frame [of w c p s] show ?thesis by (auto simp: fs_copy_def kind_at_def)
qed (auto simp: fs_copy_def fail_io_def split: option.splits file_tree.splits)

text \<open>The Prometheus file is what was copied; a directory or nothing in its place cannot be mended from the same source.\<close>

lemma prometheus_triple:
  assumes "temp \<parallel> source" and "v ([''stack''] @ prometheus_file) = kind_at fs source" and "ok \<Longrightarrow> \<exists>c. kind_at fs source = Some (IsFile c)"
  shows "triple (workspace_shows temp fs v) (ensure_prometheus w source (temp @ [''stack''] @ prometheus_file))
     (\<lambda>_ s. (\<exists>c. kind_at fs source = Some (IsFile c)) \<and> workspace_shows temp fs v s) (gives_up w temp fs ok) (\<lambda>_. False)"
  unfolding triple_def
proof (intro allI impI)
  let ?target = "temp @ [''stack''] @ prometheus_file" and ?m = "ensure_prometheus w source (temp @ [''stack''] @ prometheus_file)"
  fix s assume s: "workspace_shows temp fs v s"
  have here: "kind_at s ?target = kind_at fs source" using s assms(2) by (simp only: workspace_shows_def)
  have below: "frame temp fs s'" if "frame temp fs u" "frame ?target u s'" for u s' using that frame_below frame_trans by blast
  have refused: "\<exists>e s'. fs_copy w source ?target u = (Fails e, s') \<and> frame temp fs s'"
    if u: "frame temp fs u" and n: "\<not> (\<exists>c. kind_at fs source = Some (IsFile c))" for u
    using fs_copy_frame [of w source ?target u] frame_beside(2) [OF u assms(1), of "[]"] n below [OF u] by auto
  show "case ?m s of (Returns a, s') \<Rightarrow> (\<exists>c. kind_at fs source = Some (IsFile c)) \<and> workspace_shows temp fs v s'
      | (Fails e, s') \<Rightarrow> gives_up w temp fs ok e s' | (Panics msg, s') \<Rightarrow> False | (Hangs, s') \<Rightarrow> False"
  proof (cases "kind_at fs source")
    case None
    then show ?thesis using here refused [of s] s assms(3)
      by (auto simp: ensure_prometheus_def bind_io_def ret_io_def kind_views workspace_shows_def)
  next
    case (Some k)
    show ?thesis
    proof (cases k)
      case IsDir
      have "frame ?target s (prune ?target s)" by (auto simp: frame_def kind_prune lookup_beside(3) prometheus_file_def)
      moreover have "\<not> path_exists (prune ?target s) ?target" by (simp add: kind_views kind_prune prometheus_file_def)
      moreover have "frame temp fs s" using s by (simp add: workspace_shows_def)
      ultimately show ?thesis using here refused [of "prune ?target s"] Some IsDir assms(3) below
        by (auto simp: ensure_prometheus_def bind_io_def ret_io_def kind_views remove_dir_all_def change_tree_def)
    qed (use here Some s in \<open>auto simp: ensure_prometheus_def bind_io_def ret_io_def kind_views\<close>)
  qed
qed


lemma has_entries_dir: "has_entries fs p \<Longrightarrow> kind_at fs p = Some IsDir"
  using kind_above has_entries_kind by blast

lemma kzg_triple:
  fixes fs base
  defines "source \<equiv> base @ new_layout @ [kzg_dir]"
  assumes "wf_tree fs" and "temp \<parallel> base" and "ok \<Longrightarrow> has_entries fs source"
  shows "triple (workspace_shows temp fs (workspace_view fs base False))
     (bind_io (copy_kzg w source (temp @ [kzg_dir])) (\<lambda>_ s. if has_entries s (temp @ [kzg_dir]) then ret_io () s else fail_io msg s))
     (\<lambda>_ s. has_entries fs source \<and> workspace_shows temp fs (workspace_view fs base True) s) (gives_up w temp fs ok) (\<lambda>_. False)"
proof -
  have beside: "temp \<parallel> source" using assms(3) beside_below(2) by (simp add: source_def)
  have empty: "workspace_view fs base False (kzg_dir # q) = None" for q by (simp add: workspace_view_def kzg_dir_def)
  have same: "kind_at s source = kind_at fs source" if "workspace_shows temp fs v s" for s v
    using that frame_beside(2) [OF _ beside, of fs s "[]"] by (simp add: workspace_shows_def)
  show ?thesis
  proof (cases "kind_at fs source = Some IsDir")
    case True
    have "overlay (\<lambda>q. kind_at fs (source @ q)) [kzg_dir] (workspace_view fs base False) = workspace_view fs base True"
      by (rule ext, rename_tac q, case_tac q) (auto simp: overlay_def workspace_view_def source_def kzg_dir_def)
    moreover have "has_entries s (temp @ [kzg_dir]) \<longleftrightarrow> has_entries fs source" if "workspace_shows temp fs (workspace_view fs base True) s" for s
      using that by (simp add: has_entries_kind workspace_shows_def workspace_view_def source_def kzg_dir_def)
    ultimately have check: "triple (\<lambda>s. kind_at fs source = Some IsDir \<and> workspace_shows temp fs (overlay (\<lambda>q. kind_at fs (source @ q)) [kzg_dir] (workspace_view fs base False)) s)
       (\<lambda>s. if has_entries s (temp @ [kzg_dir]) then ret_io () s else fail_io msg s)
       (\<lambda>_ s. has_entries fs source \<and> workspace_shows temp fs (workspace_view fs base True) s) (gives_up w temp fs ok) (\<lambda>_. False)"
      using assms(4) by (auto simp: triple_def ret_io_def fail_io_def workspace_shows_def)
    have "triple (workspace_shows temp fs (workspace_view fs base False)) (copy_dir_recursive w source (temp @ [kzg_dir]))
       (\<lambda>_ s. kind_at fs source = Some IsDir \<and> workspace_shows temp fs (overlay (\<lambda>q. kind_at fs (source @ q)) [kzg_dir] (workspace_view fs base False)) s)
       (gives_up w temp fs ok) (\<lambda>_. False)"
      by (rule copy_dir_triple [OF assms(2) beside]) (use True empty in \<open>simp_all add: fits_def workspace_view_def\<close>)
    then show ?thesis using True same by (intro triple_bind [OF triple_at check]) (auto simp: copy_kzg_def kind_views)
  next
    case False
    have copied: "\<exists>r s'. copy_kzg w source (temp @ [kzg_dir]) s = (r, s') \<and> frame temp fs s' \<and> (r = Returns () \<and> \<not> has_entries s' (temp @ [kzg_dir]) \<or> (\<exists>e. r = Fails e))"
      if s: "workspace_shows temp fs (workspace_view fs base False) s" for s
    proof (cases "kind_at fs source")
      case None
      have "\<not> has_entries s (temp @ [kzg_dir])" using s has_entries_dir [of s "temp @ [kzg_dir]"] empty [of "[]"] by (auto simp: workspace_shows_def)
      with None s same [OF s] show ?thesis by (auto simp: copy_kzg_def kind_views ret_io_def workspace_shows_def)
    next
      case (Some k)
      obtain r s' where "fs_copy w source (temp @ [kzg_dir]) s = (r, s')" "frame (temp @ [kzg_dir]) s s'"
          "r = Returns () \<and> (\<exists>c. kind_at s' (temp @ [kzg_dir]) = Some (IsFile c)) \<or> (\<exists>e. r = Fails e)"
        using fs_copy_frame [of w source "temp @ [kzg_dir]" s] by blast
      moreover from this have "frame temp fs s'" using s frame_below frame_trans unfolding workspace_shows_def by blast
      ultimately show ?thesis using Some False same [OF s] has_entries_dir [of s' "temp @ [kzg_dir]"] by (auto simp: copy_kzg_def kind_views)
    qed
    moreover have "\<not> ok" using assms(4) False has_entries_dir by blast
    ultimately show ?thesis by (fastforce simp: triple_def bind_io_def fail_io_def)
  qed
qed


lemma workspace_same:
  assumes "workspace_shows temp fs v s" and "temp \<parallel> base"
  shows "stack_assets s base = stack_assets fs base" and "stack_scripts s base = stack_scripts fs base"
    and "kind_at s (stack_scripts fs base) = kind_at fs (stack_scripts fs base)" and "kind_at s (stack_assets fs base) = kind_at fs (stack_assets fs base)"
proof -
  have same: "kind_at s (base @ q) = kind_at fs (base @ q)" for q using assms frame_beside(2) unfolding workspace_shows_def by blast
  then show "stack_assets s base = stack_assets fs base" "stack_scripts s base = stack_scripts fs base"
    by (simp_all add: stack_assets_def stack_scripts_def kind_views)
  show "kind_at s (stack_scripts fs base) = kind_at fs (stack_scripts fs base)" "kind_at s (stack_assets fs base) = kind_at fs (stack_assets fs base)"
    using same by (simp_all add: stack_assets_def stack_scripts_def)
qed

lemma stack_beside: "temp \<parallel> base \<Longrightarrow> temp \<parallel> stack_assets fs base @ q" "temp \<parallel> base \<Longrightarrow> temp \<parallel> stack_scripts fs base"
  by (auto simp: stack_assets_def stack_scripts_def intro: beside_below(2))

lemma scripts_triple:
  assumes "wf_tree fs" and "temp \<parallel> base" and "kind_at fs (stack_assets fs base) = Some IsDir" and "ok \<Longrightarrow> kind_at fs (stack_scripts fs base) \<in> {None, Some IsDir}"
  shows "triple (workspace_shows temp fs (overlay (\<lambda>q. kind_at fs (stack_assets fs base @ q)) [''stack''] [[] \<mapsto> IsDir]))
     (\<lambda>s. let scripts = stack_scripts s base in
        if path_exists s scripts then copy_dir_recursive w scripts (temp @ [''stack'', ''scripts'']) s else ret_io () s)
     (\<lambda>_ s. kind_at fs (stack_scripts fs base) \<in> {None, Some IsDir} \<and> workspace_shows temp fs (workspace_view fs base False) s)
     (gives_up w temp fs ok) (\<lambda>_. False)"
    (is "triple ?P ?m ?Q ?E ?X")
proof (cases "kind_at fs (stack_scripts fs base) = None")
  case True
  have "triple ?P (ret_io ()) ?Q ?E ?X" by (rule triple_basic) (simp add: scripts_step(3) [OF True] True)
  moreover have "?m s = ret_io () s" if "?P s" for s using workspace_same(2,3) [OF that assms(2)] True by (simp add: Let_def kind_views)
  ultimately show ?thesis by (intro triple_at [where m = ?m])
next
  case False
  have "triple ?P (copy_dir_recursive w (stack_scripts fs base) (temp @ [''stack'', ''scripts''])) ?Q ?E ?X"
  proof (rule triple_conseq [OF copy_dir_triple [OF assms(1) stack_beside(2) [OF assms(2)], where ok = ok and p = "[''stack'', ''scripts'']"
        and v = "overlay (\<lambda>q. kind_at fs (stack_assets fs base @ q)) [''stack''] [[] \<mapsto> IsDir]"]])
    show "overlay (\<lambda>q. kind_at fs (stack_assets fs base @ q)) [''stack''] [[] \<mapsto> IsDir] (butlast [''stack'', ''scripts'']) = Some IsDir"
      using assms(3) by (simp add: overlay_def)
    show "ok \<Longrightarrow> kind_at fs (stack_scripts fs base) = Some IsDir
        \<and> fits (\<lambda>q. kind_at fs (stack_scripts fs base @ q)) [''stack'', ''scripts''] (overlay (\<lambda>q. kind_at fs (stack_assets fs base @ q)) [''stack''] [[] \<mapsto> IsDir])"
      using scripts_step(1) [of fs base] assms(4) False by blast
  qed (use scripts_step(2) [of fs base] in \<open>assumption | simp\<close>)+
  moreover have "?m s = copy_dir_recursive w (stack_scripts fs base) (temp @ [''stack'', ''scripts'']) s" if "?P s" for s
    using workspace_same(2,3) [OF that assms(2)] False by (simp add: Let_def kind_views)
  ultimately show ?thesis by (intro triple_at [where m = ?m])
qed

lemma fill_triple:
  assumes "wf_tree fs" and "temp \<parallel> base"
  shows "triple (workspace_shows temp fs [[] \<mapsto> IsDir]) (fill_workspace w base temp)
     (\<lambda>_ s. has_assets fs base \<and> workspace_shows temp fs (workspace_view fs base True) s) (gives_up w temp fs (has_assets fs base)) (\<lambda>_. False)"
    (is "triple ?P ?m ?Q ?E ?X")
proof -
  let ?stack = "stack_assets fs base"
  have layout: "?stack = base @ new_layout" "kind_at fs ?stack = Some IsDir" if "has_assets fs base"
  proof -
    show "?stack = base @ new_layout" using that has_assets_new_layout by (simp add: has_assets_def)
    then show "kind_at fs ?stack = Some IsDir"
      using that has_entries_dir [of fs "base @ new_layout @ [kzg_dir]"] kind_above [of fs "base @ new_layout" kzg_dir "[]"] by (auto simp: has_assets_def)
  qed
  have stack: "triple ?P (copy_dir_recursive w ?stack (temp @ [''stack'']))
      (\<lambda>_ s. kind_at fs ?stack = Some IsDir \<and> workspace_shows temp fs (overlay (\<lambda>q. kind_at fs (?stack @ q)) [''stack''] [[] \<mapsto> IsDir]) s) ?E ?X"
    using layout stack_beside(1) [OF assms(2), of fs "[]"] by (intro copy_dir_triple assms(1)) (auto simp: fits_def)
  have prometheus: "workspace_view fs base False ([''stack''] @ prometheus_file) = kind_at fs (?stack @ prometheus_file)"
    by (simp add: workspace_view_def stack_view_def prometheus_file_def split: option.split)
  have rest: "triple ?P (bind_io (copy_dir_recursive w ?stack (temp @ [''stack''])) (\<lambda>_.
        bind_io (\<lambda>s. let scripts = stack_scripts s base in
            if path_exists s scripts then copy_dir_recursive w scripts (temp @ [''stack'', ''scripts'']) s else ret_io () s) (\<lambda>_.
        bind_io (ensure_prometheus w (?stack @ prometheus_file) (temp @ [''stack''] @ prometheus_file)) (\<lambda>_.
        bind_io (copy_kzg w (base @ new_layout @ [kzg_dir]) (temp @ [kzg_dir])) (\<lambda>_ s.
          if has_entries s (temp @ [kzg_dir]) then ret_io () s else fail_io ''KZG params missing in stack assets'' s))))) ?Q ?E ?X"
    apply (rule triple_bind [OF stack], rule triple_given)
    apply (rule triple_bind [OF scripts_triple [OF assms]], assumption)
     apply (simp add: has_assets_def)
    apply (rule triple_given)
    apply (rule triple_bind [OF prometheus_triple [where fs = fs and v = "workspace_view fs base False"]])
       apply (rule stack_beside(1) [OF assms(2)])
      apply (rule prometheus)
     apply (use layout(1) in \<open>simp add: has_assets_def\<close>)
    apply (rule triple_given)
    apply (rule triple_conseq [OF kzg_triple [OF assms, where ok = "has_assets fs base"]])
         apply (simp_all add: has_assets_def has_assets_new_layout)
    done
  have exists: "path_exists s ?stack \<longleftrightarrow> kind_at fs ?stack \<noteq> None" if "?P s" for s using workspace_same(4) [OF that assms(2)] by (simp add: kind_views)
  show ?thesis
  proof (cases "kind_at fs ?stack")
    case None
    have "triple ?P (fail_io ''stack assets directory not found'') ?Q ?E ?X"
      using None layout(2) by (intro triple_basic) (auto simp: workspace_shows_def)
    then show ?thesis using exists workspace_same(1) [OF _ assms(2)] None
      by (intro triple_at [where m = ?m]) (auto simp: fill_workspace_def Let_def)
  qed (use exists workspace_same(1) [OF _ assms(2)] in \<open>intro triple_at [where m = ?m, OF _ rest]\<close>, simp add: fill_workspace_def Let_def)
qed


section \<open>The workspace of a deployment\<close>

lemma workspace_create_triple:
  assumes "wf_tree fs" and "workspace_repo_root w = Some base" and "ww_tempdir w = Some temp" and "temp \<parallel> base"
    and "kind_at fs temp = None" and "kind_at fs (butlast temp) = Some IsDir"
  shows "triple (\<lambda>s. s = fs) (workspace_create w) (\<lambda>t s. t = temp \<and> has_assets fs base \<and> workspace_shows temp fs (workspace_view fs base True) s)
     (\<lambda>_ s. kind_at s = kind_at fs \<and> \<not> ((\<forall>q. ww_writable w q) \<and> has_assets fs base)) (\<lambda>_. False)"
proof -
  have ne: "temp \<noteq> []" using assms(4) by auto
  obtain fs0 where fs0: "put_path temp (Dir []) fs = Some fs0" using put_defined [of temp "Dir []" fs] assms(6) by auto
  have start: "workspace_shows temp fs [[] \<mapsto> IsDir] fs0"
    using fs0 by (auto simp: workspace_shows_def frame_def kind_put kind_empty lookup_beside(1))
  have "kind_at fs (temp @ q) = None" for q using assms(5) kind_beyond [of fs temp] by (cases q) auto
  then have gone: "kind_at (prune temp s) = kind_at fs" if "frame temp fs s" for s
    using that ne by (auto simp: fun_eq_iff kind_prune frame_def prefix_def)
  have "triple (workspace_shows temp fs [[] \<mapsto> IsDir]) (dropping (prune temp) (bind_io (fill_workspace (ww_writable w) base temp) (\<lambda>_. ret_io temp)))
      (\<lambda>t s. t = temp \<and> has_assets fs base \<and> workspace_shows temp fs (workspace_view fs base True) s)
      (\<lambda>_ s. kind_at s = kind_at fs \<and> \<not> ((\<forall>q. ww_writable w q) \<and> has_assets fs base)) (\<lambda>_. False)"
    by (intro triple_dropping triple_conseq [OF triple_bind [OF fill_triple [OF assms(1,4)] triple_basic(1)]]) (auto simp: gone)
  then show ?thesis using start fs0 assms(2,3) by (simp add: triple_def workspace_create_def)
qed

text \<open>
  C32. Preparing a workspace copies the assets of the repository or leaves no trace. On success the temporary
  directory holds the stack (with the scripts of the old layout only if the assets have none) and the KZG
  bundle, nothing else on disk changes, and the bundle is always reported as present; the repository then has
  a Prometheus file and a KZG bundle with entries in the new layout. On failure the file system shows the same
  as before, and something was not writable or one of these assets was missing.
\<close>

theorem prepare_workspace_outcome:
  assumes "wf_tree fs" and "workspace_repo_root w = Some base" and "ww_tempdir w = Some temp" and "temp \<parallel> base"
    and "kind_at fs temp = None" and "kind_at fs (butlast temp) = Some IsDir"
  shows "case prepare_workspace_state w fs of
     (Returns st, fs') \<Rightarrow> ws_root st = temp \<and> ws_use_kzg st \<and> has_assets fs base
       \<and> kind_at fs' = (\<lambda>q. if prefix temp q then workspace_view fs base True (drop (length temp) q) else kind_at fs q)
   | (Fails e, fs') \<Rightarrow> kind_at fs' = kind_at fs \<and> \<not> ((\<forall>q. ww_writable w q) \<and> has_assets fs base)
   | _ \<Rightarrow> False"
proof -
  obtain r s where r: "workspace_create w fs = (r, s)" by fastforce
  note t = tripleD [OF workspace_create_triple [OF assms] refl r]
  show ?thesis
  proof (cases r)
    case (Returns t')
    then have s: "t' = temp" "has_assets fs base" "workspace_shows temp fs (workspace_view fs base True) s" using t by auto
    have "kind_at s (temp @ [kzg_dir]) = kind_at fs (base @ new_layout @ [kzg_dir])"
      using s(3) by (simp add: workspace_shows_def workspace_view_def kzg_dir_def)
    then have "path_exists s (temp @ [kzg_dir])" using s(2) has_entries_dir by (simp add: has_assets_def kind_views)
    moreover have "kind_at s q = (if prefix temp q then workspace_view fs base True (drop (length temp) q) else kind_at fs q)" for q
      using s(3) by (auto simp: workspace_shows_def frame_def prefix_def)
    ultimately show ?thesis using r Returns s by (simp add: prepare_workspace_state_def bind_io_def ret_io_def fun_eq_iff)
  qed (use t r in \<open>auto simp: prepare_workspace_state_def bind_io_def\<close>)
qed

definition sample_tree :: file_tree where
  "sample_tree = Dir [(''repo'', Dir [(''testing-framework'', Dir [(''assets'', Dir [(''stack'', Dir [
     (''cfgsync.yaml'', File ''port: 4400''), (''scripts'', Dir [(''run_nomos.sh'', File ''start'')]),
     (''monitoring'', Dir [(''prometheus.yml'', File ''scrape'')]),
     (''kzgrs_test_params'', Dir [(''kzgrs_test_params'', File ''key'')])])])])]), (''tmp'', Dir [])]"

definition sample_place :: workspace_world where
  "sample_place = \<lparr>ww_workspace_dir = None, ww_manifest_dir = [''repo'', ''testing-framework'', ''runners'', ''compose''],
     ww_tempdir = Some [''tmp'', ''nomos-testnet-1''], ww_writable = (\<lambda>q. True)\<rparr>"

lemma sample_workspace:
  obtains st fs where "prepare_workspace_state sample_place sample_tree = (Returns st, fs)"
    and "lookup_path fs (ws_cfgsync_path st) = Some (File ''port: 4400'')"
proof -
  have "case prepare_workspace_state sample_place sample_tree of
     (Returns st, fs) \<Rightarrow> lookup_path fs (ws_cfgsync_path st) = Some (File ''port: 4400'') | _ \<Rightarrow> False"
    by code_simp
  then show thesis by (auto intro: that split: prod.splits outcome.splits)
qed

theorem prepare_workspace_outcome_witness:
  "\<exists>st fs'. prepare_workspace_state sample_place sample_tree = (Returns st, fs') \<and> ws_use_kzg st
     \<and> kind_at fs' [''tmp'', ''nomos-testnet-1'', ''stack'', ''cfgsync.yaml''] = Some (IsFile ''port: 4400'')"
proof -
  note ev = sample_tree_def sample_place_def
  have "has_assets sample_tree [''repo'']"
    by (simp add: ev has_assets_def has_entries_def new_layout_def prometheus_file_def kzg_dir_def stack_scripts_def kind_views)
  moreover have "stack_view sample_tree [''repo''] [''cfgsync.yaml''] = Some (IsFile ''port: 4400'')"
    by (simp add: ev stack_view_def stack_assets_def new_layout_def kind_views)
  moreover have "\<forall>q. ww_writable sample_place q" by (simp add: ev)
  ultimately show ?thesis
    using prepare_workspace_outcome [of sample_tree sample_place "[''repo'']" "[''tmp'', ''nomos-testnet-1'']"]
    by (auto simp: ev workspace_repo_root_def path_parent_def workspace_view_def split: prod.splits outcome.splits)
qed

end
