(* ===== verification/Compose_Runner.thy ===== *)
theory Compose_Runner
  imports Compose_Descriptor Compose_Workspace Deploy_Monad Runner Runtime_Clients Block_Feed
begin

text \<open>
  The docker compose deployer: \<open>runners/compose/src\<close>, files \<open>errors.rs\<close>, \<open>docker/commands.rs\<close>,
  \<open>docker/mod.rs\<close>, \<open>docker/control.rs\<close>, \<open>infrastructure/cfgsync.rs\<close>, \<open>infrastructure/environment.rs\<close>,
  \<open>infrastructure/ports.rs\<close>, \<open>lifecycle/*\<close> and \<open>deployer/*\<close>.

  Everything the deployer asks of the world is a parameter in the record \<open>compose_world\<close>: \<open>cw_docker n c\<close>
  is what the docker command \<open>c\<close> answers when it is the \<open>n\<close>-th effect, \<open>cw_uuid\<close> the identifiers drawn,
  \<open>cw_bind n p\<close> the port a socket gets when the deployer binds \<open>p\<close> (0 for any), and so on. What the deployer
  does is a log of effects, and a computation maps a state to an outcome and a state. Values with a
  destructor (the cfgsync handle, the workspace) are dropped explicitly where Rust drops them.
  All commands of one deployment use the same compose file and directory, so the project name stands for
  them. Logging and sleeping are left out; sockets that only reserve a port are not tracked.
\<close>

section \<open>Errors and effects\<close>

datatype command_status = Success string | Failure string | SpawnFailed string | TimedOut

datatype compose_command_error = CommandFailed string string | CommandSpawn string string | CommandTimeout string "duration rust"

datatype template_error = TemplateRepositoryRoot string | TemplateRead string string | TemplateSerialize string
  | TemplateRender string string | TemplateWrite fpath string

datatype compose_runner_error = MissingValidator nat nat | DockerUnavailable | PortDiscovery string nat string
  | WorkspaceError string | ConfigCfgsync string | ConfigPort string | CfgsyncStart nat compose_command_error
  | ConfigDescriptor descriptor_error | ConfigTemplate template_error | Compose compose_command_error
  | ReadinessHttp http_readiness_error | ReadinessEndpoint node_role nat string | ReadinessRemote string
  | NodeClientEndpoint node_role string nat string | Telemetry string | BlockFeedMissing | BlockFeedFailed string
  | MissingImage string | ImageBuild string

datatype docker_command = DockerInfo | ImageInspect string | DockerBuild "string list" | RunCfgsync string nat string
  | RemoveContainer string | ComposeUp string | ComposeDown string | ComposeLogs string
  | ComposePort string string nat | ComposeRestart string string

datatype compose_effect = Ran docker_command bool | WorkspaceCreated | WorkspaceRemoved | WorkspaceKept | FeedAborted

record 'c compose_world =
  cw_env :: environment
  cw_arch :: string
  cw_docker :: "nat \<Rightarrow> docker_command \<Rightarrow> command_status"
  cw_uuid :: "nat \<Rightarrow> string"
  cw_bind :: "nat \<Rightarrow> nat \<Rightarrow> nat option"
  cw_place :: workspace_world
  cw_files :: file_tree
  cw_cfgsync_port :: "string + nat"
  cw_parse_cfgsync :: "string \<Rightarrow> string + cfgsync_config"
  cw_write_cfgsync :: "fpath \<Rightarrow> cfgsync_config \<Rightarrow> string + unit"
  cw_read_file :: "string \<Rightarrow> string + string"
  cw_context :: "compose_descriptor \<Rightarrow> string + json"
  cw_one_off :: "string \<Rightarrow> json \<Rightarrow> string + string"
  cw_write_file :: "fpath \<Rightarrow> string \<Rightarrow> string + unit"
  cw_repo_root :: "string + string"
  cw_parse_url :: "string \<Rightarrow> string + string"
  cw_prometheus :: "string \<Rightarrow> string + prometheus"
  cw_client :: "string \<Rightarrow> string \<Rightarrow> 'c"
  cw_answers :: "nat \<Rightarrow> nat \<Rightarrow> bool"
  cw_latency :: "nat \<Rightarrow> nat \<Rightarrow> duration"
  cw_infos :: "string list \<Rightarrow> (string + nat) list samples"
  cw_members :: "string list \<Rightarrow> (string + nat) list samples"
  cw_pick :: "nat \<Rightarrow> nat"
  cw_tip :: "nat \<Rightarrow> 'c \<Rightarrow> string + header_id \<times> nat"
  cw_storage :: "nat \<Rightarrow> 'c \<Rightarrow> storage"

section \<open>The state of a deployment\<close>

record cfgsync_handle =
  ch_name :: string
  ch_stopped :: bool

text \<open>The workspace is there until it has been taken; what matters of it is whether it is.\<close>

record stack_environment =
  se_project :: string
  se_workspace :: bool
  se_cfgsync :: "cfgsync_handle option"
  se_prometheus_port :: nat
  se_grafana_port :: nat

record runner_cleanup =
  rcl_project :: string
  rcl_workspace :: bool
  rcl_cfgsync :: "cfgsync_handle option"

text \<open>The effects so far, the number of identifiers drawn and the environment the orchestrator owns.\<close>

record deploy_state =
  ds_log :: "compose_effect list"
  ds_uuids :: nat
  ds_stack :: "stack_environment option"

type_synonym 'a compose_io = "(deploy_state, compose_runner_error, 'a) io"

definition log_effect :: "compose_effect \<Rightarrow> deploy_state \<Rightarrow> deploy_state" where
  "log_effect ev s = s\<lparr>ds_log := ds_log s @ [ev]\<rparr>"

definition new_uuid :: "'c compose_world \<Rightarrow> deploy_state \<Rightarrow> string \<times> deploy_state" where
  "new_uuid cw s = (cw_uuid cw (ds_uuids s), s\<lparr>ds_uuids := Suc (ds_uuids s)\<rparr>)"

section \<open>Docker commands\<close>

definition is_success :: "command_status \<Rightarrow> bool" where
  "is_success r = (case r of Success _ \<Rightarrow> True | _ \<Rightarrow> False)"

definition run_command :: "'c compose_world \<Rightarrow> docker_command \<Rightarrow> deploy_state \<Rightarrow> command_status \<times> deploy_state" where
  "run_command cw c s = (let r = cw_docker cw (length (ds_log s)) c in (r, log_effect (Ran c (is_success r)) s))"

definition handle_compose_status :: "command_status \<Rightarrow> string \<Rightarrow> duration rust \<Rightarrow> compose_command_error + unit" where
  "handle_compose_status status description timeout = (case status of
     Success _ \<Rightarrow> Inr ()
   | Failure code \<Rightarrow> Inl (CommandFailed description code)
   | SpawnFailed err \<Rightarrow> Inl (CommandSpawn description err)
   | TimedOut \<Rightarrow> Inl (CommandTimeout description timeout))"

definition run_docker_command :: "'c compose_world \<Rightarrow> docker_command \<Rightarrow> duration rust \<Rightarrow> string \<Rightarrow> deploy_state
    \<Rightarrow> (compose_command_error + unit) \<times> deploy_state" where
  "run_docker_command cw c timeout description s =
     (case run_command cw c s of (r, s') \<Rightarrow> (handle_compose_status r description timeout, s'))"

definition compose_up :: "'c compose_world \<Rightarrow> string \<Rightarrow> deploy_state \<Rightarrow> (compose_command_error + unit) \<times> deploy_state" where
  "compose_up cw project =
     run_docker_command cw (ComposeUp project) (adjust_timeout (cw_env cw) (from_secs 120)) ''docker compose up''"

definition compose_down :: "'c compose_world \<Rightarrow> string \<Rightarrow> deploy_state \<Rightarrow> (compose_command_error + unit) \<times> deploy_state" where
  "compose_down cw project =
     run_docker_command cw (ComposeDown project) (adjust_timeout (cw_env cw) (from_secs 120)) ''docker compose down''"

definition dump_compose_logs :: "'c compose_world \<Rightarrow> string \<Rightarrow> deploy_state \<Rightarrow> deploy_state" where
  "dump_compose_logs cw project s = snd (run_command cw (ComposeLogs project) s)"

definition restart_compose_service :: "'c compose_world \<Rightarrow> string \<Rightarrow> string \<Rightarrow> deploy_state
    \<Rightarrow> (compose_runner_error + unit) \<times> deploy_state" where
  "restart_compose_service cw project service s =
     (case run_docker_command cw (ComposeRestart project service) (adjust_timeout (cw_env cw) (from_secs 120)) ''docker compose restart'' s of
        (Inl e, s') \<Rightarrow> (Inl (Compose e), s') | (Inr u, s') \<Rightarrow> (Inr u, s'))"

definition restart_validator :: "'c compose_world \<Rightarrow> string \<Rightarrow> nat \<Rightarrow> deploy_state
    \<Rightarrow> (compose_runner_error + unit) \<times> deploy_state" where
  "restart_validator cw project index = restart_compose_service cw project (''validator-'' @ show_nat index)"

definition restart_executor :: "'c compose_world \<Rightarrow> string \<Rightarrow> nat \<Rightarrow> deploy_state
    \<Rightarrow> (compose_runner_error + unit) \<times> deploy_state" where
  "restart_executor cw project index = restart_compose_service cw project (''executor-'' @ show_nat index)"

section \<open>Images\<close>

definition ensure_docker_available :: "'c compose_world \<Rightarrow> unit compose_io" where
  "ensure_docker_available cw s = (case run_command cw DockerInfo s of
     (r, s') \<Rightarrow> if is_success r then ret_io () s' else fail_io DockerUnavailable s')"

definition docker_image_exists :: "'c compose_world \<Rightarrow> string \<Rightarrow> bool compose_io" where
  "docker_image_exists cw img s = (case run_command cw (ImageInspect img) s of
     (Success _, s') \<Rightarrow> ret_io True s'
   | (Failure _, s') \<Rightarrow> ret_io False s'
   | (SpawnFailed e, s') \<Rightarrow> fail_io (Compose (CommandSpawn (''docker image inspect '' @ img) e)) s'
   | (TimedOut, s') \<Rightarrow> fail_io (Compose (CommandTimeout (''docker image inspect '' @ img) (adjust_timeout (cw_env cw) (from_secs 60)))) s')"

definition select_build_platform :: "string \<Rightarrow> string option \<Rightarrow> string option" where
  "select_build_platform arch platform = (case platform of Some p \<Rightarrow> Some p
   | None \<Rightarrow> if arch = ''aarch64'' \<or> arch = ''arm64'' then Some ''linux/arm64''
       else if arch = ''x86_64'' then Some ''linux/amd64'' else None)"

definition non_empty_var :: "environment \<Rightarrow> string \<Rightarrow> string option" where
  "non_empty_var env name = (case env name of Some v \<Rightarrow> if v = [] then None else Some v | None \<Rightarrow> None)"

definition build_arg :: "string \<Rightarrow> string \<Rightarrow> string list" where
  "build_arg name v = [''--build-arg'', name @ ''='' @ v]"

definition build_image_args :: "environment \<Rightarrow> string \<Rightarrow> string \<Rightarrow> string \<Rightarrow> string option \<Rightarrow> string list" where
  "build_image_args env arch repo_root img platform =
     [''build''] @ (case select_build_platform arch platform of Some p \<Rightarrow> [''--platform'', p] | None \<Rightarrow> [])
     @ build_arg ''NOMOS_CIRCUITS_PLATFORM'' (unwrap_or ''linux-x86_64'' (non_empty_var env ''COMPOSE_CIRCUITS_PLATFORM''))
     @ (case non_empty_var env ''CIRCUITS_OVERRIDE'' of Some v \<Rightarrow> build_arg ''CIRCUITS_OVERRIDE'' v | None \<Rightarrow> [])
     @ build_arg ''NOMOS_NODE_REV'' (unwrap_or ''d2dd5a5084e1daef4032562c77d41de5e4d495f8'' (env ''NOMOS_NODE_REV''))
     @ (case non_empty_var env ''NOMOS_CIRCUITS_VERSION'' of Some v \<Rightarrow> build_arg ''NOMOS_CIRCUITS_VERSION'' v | None \<Rightarrow> [])
     @ (if env ''NOMOS_CIRCUITS_REBUILD_RAPIDSNARK'' \<noteq> None then [''--build-arg'', ''RAPIDSNARK_REBUILD=1''] else [])
     @ [''-t'', img, ''-f'', repo_root @ ''/testing-framework/runners/docker/runner.Dockerfile'', repo_root]"

definition build_local_image :: "'c compose_world \<Rightarrow> string \<Rightarrow> string option \<Rightarrow> unit compose_io" where
  "build_local_image cw img platform =
     bind_io (lift_io ImageBuild (cw_repo_root cw)) (\<lambda>repo_root s.
       case run_command cw (DockerBuild (build_image_args (cw_env cw) (cw_arch cw) repo_root img platform)) s of
         (Success _, s') \<Rightarrow> ret_io () s'
       | (Failure code, s') \<Rightarrow> fail_io (Compose (CommandFailed ''docker build'' code)) s'
       | (SpawnFailed e, s') \<Rightarrow> fail_io (ImageBuild e) s'
       | (TimedOut, s') \<Rightarrow> fail_io (Compose (CommandTimeout ''docker build'' (adjust_timeout (cw_env cw) (from_secs 600)))) s')"

definition ensure_image_present :: "'c compose_world \<Rightarrow> string \<Rightarrow> string option \<Rightarrow> unit compose_io" where
  "ensure_image_present cw img platform =
     bind_io (docker_image_exists cw img) (\<lambda>present.
       if present then ret_io ()
       else if img \<noteq> ''logos-blockchain-testing:local'' then fail_io (MissingImage img)
       else build_local_image cw img platform)"

definition ensure_compose_image :: "'c compose_world \<Rightarrow> unit compose_io" where
  "ensure_compose_image cw = (case resolve_image (cw_env cw) of (img, platform) \<Rightarrow> ensure_image_present cw img platform)"

section \<open>Cleanup\<close>

definition shutdown :: "'c compose_world \<Rightarrow> cfgsync_handle \<Rightarrow> deploy_state \<Rightarrow> cfgsync_handle \<times> deploy_state" where
  "shutdown cw h s = (if ch_stopped h then (h, s)
     else (h\<lparr>ch_stopped := True\<rparr>, snd (run_command cw (RemoveContainer (ch_name h)) s)))"

definition drop_cfgsync :: "'c compose_world \<Rightarrow> cfgsync_handle option \<Rightarrow> deploy_state \<Rightarrow> deploy_state" where
  "drop_cfgsync cw h s = (case h of Some h \<Rightarrow> snd (shutdown cw h s) | None \<Rightarrow> s)"

definition drop_workspace :: "bool \<Rightarrow> deploy_state \<Rightarrow> deploy_state" where
  "drop_workspace present s = (if present then log_effect WorkspaceRemoved s else s)"

definition should_preserve :: "environment \<Rightarrow> bool" where
  "should_preserve env \<longleftrightarrow> env ''COMPOSE_RUNNER_PRESERVE'' \<noteq> None \<or> env ''TESTNET_RUNNER_PRESERVE'' \<noteq> None"

definition persist_workspace :: "runner_cleanup \<Rightarrow> deploy_state \<Rightarrow> runner_cleanup \<times> deploy_state" where
  "persist_workspace rc s = (if rcl_workspace rc then (rc\<lparr>rcl_workspace := False\<rparr>, log_effect WorkspaceKept s) else (rc, s))"

text \<open>Dropping a cleanup guard drops its fields in the order they are declared.\<close>

definition drop_runner_cleanup :: "'c compose_world \<Rightarrow> runner_cleanup \<Rightarrow> deploy_state \<Rightarrow> deploy_state" where
  "drop_runner_cleanup cw rc s = drop_cfgsync cw (rcl_cfgsync rc) (drop_workspace (rcl_workspace rc) s)"

text \<open>\<open>CleanupGuard::cleanup\<close>, which consumes the guard; a failing \<open>compose down\<close> is only logged.\<close>

definition cleanup_compose :: "'c compose_world \<Rightarrow> runner_cleanup \<Rightarrow> deploy_state \<Rightarrow> deploy_state" where
  "cleanup_compose cw rc s =
     (if should_preserve (cw_env cw) then (case persist_workspace rc s of (rc', s') \<Rightarrow> drop_runner_cleanup cw rc' s')
      else (let s1 = snd (compose_down cw (rcl_project rc) s); s2 = drop_cfgsync cw (rcl_cfgsync rc) s1
        in drop_runner_cleanup cw (rc\<lparr>rcl_cfgsync := None\<rparr>) s2))"

section \<open>The stack environment\<close>

definition from_workspace :: "string \<Rightarrow> cfgsync_handle option \<Rightarrow> nat \<Rightarrow> nat \<Rightarrow> stack_environment" where
  "from_workspace project handle prometheus grafana = \<lparr>se_project = project, se_workspace = True, se_cfgsync = handle,
     se_prometheus_port = prometheus, se_grafana_port = grafana\<rparr>"

definition take_cleanup :: "stack_environment \<Rightarrow> (runner_cleanup \<times> stack_environment) rust" where
  "take_cleanup env = rbind (rust_assert (se_workspace env) ''workspace must be available while cleaning up'') (\<lambda>_.
     Inr (\<lparr>rcl_project = se_project env, rcl_workspace = True, rcl_cfgsync = se_cfgsync env\<rparr>,
       env\<lparr>se_workspace := False, se_cfgsync := None\<rparr>))"

definition into_cleanup :: "stack_environment \<Rightarrow> runner_cleanup rust" where
  "into_cleanup env = rbind (rust_assert (se_workspace env) ''workspace must be available while cleaning up'') (\<lambda>_.
     Inr \<lparr>rcl_project = se_project env, rcl_workspace = True, rcl_cfgsync = se_cfgsync env\<rparr>)"

definition drop_stack :: "'c compose_world \<Rightarrow> deploy_state \<Rightarrow> deploy_state" where
  "drop_stack cw s = (case ds_stack s of None \<Rightarrow> s
   | Some env \<Rightarrow> (drop_cfgsync cw (se_cfgsync env) (drop_workspace (se_workspace env) s))\<lparr>ds_stack := None\<rparr>)"

text \<open>\<open>StackEnvironment::fail\<close>.\<close>

definition stack_fail :: "'c compose_world \<Rightarrow> unit compose_io" where
  "stack_fail cw s = (case ds_stack s of None \<Rightarrow> ret_io () s
   | Some env \<Rightarrow> (let s1 = dump_compose_logs cw (se_project env) s in
       case take_cleanup env of Inl msg \<Rightarrow> panic_io msg s1
       | Inr (rc, env') \<Rightarrow> ret_io () (cleanup_compose cw rc (s1\<lparr>ds_stack := Some env'\<rparr>))))"

text \<open>What the phases of the deployment share: an error takes the stack down before it is returned.\<close>

definition failing :: "'c compose_world \<Rightarrow> 'a compose_io \<Rightarrow> 'a compose_io" where
  "failing cw m s = (case m s of (Fails e, s') \<Rightarrow> bind_io (stack_fail cw) (\<lambda>_. fail_io e) s' | r \<Rightarrow> r)"

section \<open>Ports\<close>

definition default_prometheus_port :: nat where "default_prometheus_port = 9090"

definition reserve_prometheus_port :: "'c compose_world \<Rightarrow> nat \<Rightarrow> deploy_state \<Rightarrow> nat option" where
  "reserve_prometheus_port cw port s = cw_bind cw (length (ds_log s)) port"

definition allocate_prometheus_port :: "'c compose_world \<Rightarrow> deploy_state \<Rightarrow> nat option" where
  "allocate_prometheus_port cw s = (case reserve_prometheus_port cw default_prometheus_port s of
     Some p \<Rightarrow> Some p | None \<Rightarrow> reserve_prometheus_port cw 0 s)"

text \<open>The output of \<open>docker compose port\<close>: the first line that ends in a colon and a port number.\<close>

fun split_lines :: "string \<Rightarrow> string \<Rightarrow> string list" where
  "split_lines acc [] = (if acc = [] then [] else [rev acc])"
| "split_lines acc (c # cs) = (if c = CHR 0x0A then rev acc # split_lines [] cs else split_lines (c # acc) cs)"

definition after_last_colon :: "string \<Rightarrow> string" where
  "after_last_colon s = rev (takeWhile (\<lambda>c. c \<noteq> CHR '':'') (rev s))"

fun find_port :: "string list \<Rightarrow> nat option" where
  "find_port [] = None"
| "find_port (l # ls) =
     (let line = trim l in
      if line = [] then find_port ls
      else (case parse_u16 (trim (after_last_colon line)) of Some port \<Rightarrow> Some port | None \<Rightarrow> find_port ls))"

definition resolve_service_port :: "'c compose_world \<Rightarrow> string \<Rightarrow> string \<Rightarrow> nat \<Rightarrow> nat compose_io" where
  "resolve_service_port cw project service container_port s =
     (case run_command cw (ComposePort project service container_port) s of
        (TimedOut, s') \<Rightarrow> fail_io (PortDiscovery service container_port ''docker compose port timed out'') s'
      | (SpawnFailed e, s') \<Rightarrow> fail_io (PortDiscovery service container_port
            (''running docker compose port '' @ service @ '' '' @ show_nat container_port)) s'
      | (Failure code, s') \<Rightarrow> fail_io (PortDiscovery service container_port (''docker compose port exited with '' @ code)) s'
      | (Success stdout, s') \<Rightarrow> (case find_port (split_lines [] stdout) of
            Some port \<Rightarrow> ret_io port s'
          | None \<Rightarrow> fail_io (PortDiscovery service container_port (''unable to parse docker compose port output: '' @ stdout)) s'))"

section \<open>Bringing up the stack\<close>

definition ensure_supported_topology :: "'p generated_topology \<Rightarrow> compose_runner_error + unit" where
  "ensure_supported_topology t = (if gt_validators t = [] then Inl (MissingValidator 0 (length (gt_executors t))) else Inr ())"

definition launch_cfgsync :: "'c compose_world \<Rightarrow> nat \<Rightarrow> cfgsync_handle compose_io" where
  "launch_cfgsync cw port s = (case new_uuid cw s of (uuid, s0) \<Rightarrow>
     (let name = ''nomos-cfgsync-'' @ uuid in
      case run_docker_command cw (RunCfgsync name port (fst (resolve_image (cw_env cw)))) (adjust_timeout (cw_env cw) (from_secs 180))
          ''docker run cfgsync server'' s0 of
        (Inl e, s1) \<Rightarrow> fail_io (CfgsyncStart port e) s1
      | (Inr _, s1) \<Rightarrow> ret_io \<lparr>ch_name = name, ch_stopped = False\<rparr> s1))"

text \<open>The compose file: the template of the repository, rendered with the descriptor as its context.\<close>

definition template_relative_path :: string where
  "template_relative_path = ''testing-framework/runners/compose/assets/docker-compose.yml.tera''"

definition template_load :: "'c compose_world \<Rightarrow> template_error + string \<times> string" where
  "template_load cw = (case cw_repo_root cw of
     Inl e \<Rightarrow> Inl (TemplateRepositoryRoot e)
   | Inr base \<Rightarrow> (let file = path_join base template_relative_path in
       case cw_read_file cw file of Inl e \<Rightarrow> Inl (TemplateRead file e) | Inr contents \<Rightarrow> Inr (file, contents)))"

definition template_render :: "'c compose_world \<Rightarrow> string \<times> string \<Rightarrow> compose_descriptor \<Rightarrow> template_error + string" where
  "template_render cw src d = (case cw_context cw d of
     Inl e \<Rightarrow> Inl (TemplateSerialize e)
   | Inr ctx \<Rightarrow> (case cw_one_off cw (snd src) ctx of Inl e \<Rightarrow> Inl (TemplateRender (fst src) e) | Inr text \<Rightarrow> Inr text))"

definition template_write :: "'c compose_world \<Rightarrow> string \<times> string \<Rightarrow> compose_descriptor \<Rightarrow> fpath \<Rightarrow> template_error + unit" where
  "template_write cw src d output = rbind (template_render cw src d) (\<lambda>rendered.
     case cw_write_file cw output rendered of Inl e \<Rightarrow> Inl (TemplateWrite output e) | Inr u \<Rightarrow> Inr u)"

definition write_compose_file :: "'c compose_world \<Rightarrow> compose_descriptor \<Rightarrow> fpath \<Rightarrow> template_error + unit" where
  "write_compose_file cw d compose_path = rbind (template_load cw) (\<lambda>src. template_write cw src d compose_path)"

definition write_compose_artifacts :: "'c compose_world \<Rightarrow> 'p generated_topology \<Rightarrow> workspace_state \<Rightarrow> nat \<Rightarrow> nat \<Rightarrow> nat
    \<Rightarrow> compose_runner_error + unit" where
  "write_compose_artifacts cw t ws port prometheus grafana =
     (case descriptor_build (cw_env cw) (cw_arch cw) t (with_grafana_port grafana (with_prometheus_port prometheus
          (with_cfgsync_port port (with_kzg_mount (ws_use_kzg ws) descriptor_builder_new)))) of
        Inl e \<Rightarrow> Inl (ConfigDescriptor e)
      | Inr d \<Rightarrow> (case write_compose_file cw d (ws_root ws @ [''compose.generated.yml'']) of
          Inl e \<Rightarrow> Inl (ConfigTemplate e) | Inr u \<Rightarrow> Inr u))"

text \<open>\<open>update_cfgsync_config\<close>: the template in the workspace, with the port and the overrides of the topology.\<close>

definition load_cfgsync_template :: "'c compose_world \<Rightarrow> file_tree \<Rightarrow> fpath \<Rightarrow> string + cfgsync_config" where
  "load_cfgsync_template cw fs file = (case lookup_path fs file of
     Some (File contents) \<Rightarrow> cw_parse_cfgsync cw contents | _ \<Rightarrow> Inl ''opening cfgsync template'')"

definition update_cfgsync_config :: "'c compose_world \<Rightarrow> file_tree \<Rightarrow> fpath \<Rightarrow> 'p generated_topology \<Rightarrow> bool \<Rightarrow> nat \<Rightarrow> string + unit" where
  "update_cfgsync_config cw fs file t use_kzg_mount port = rbind (load_cfgsync_template cw fs file) (\<lambda>cfg.
     cw_write_cfgsync cw file (apply_topology_overrides (cw_env cw) use_kzg_mount t (cfg\<lparr>cs_port := port\<rparr>)))"

definition configure_cfgsync :: "'c compose_world \<Rightarrow> workspace_state \<times> file_tree \<Rightarrow> 'p generated_topology \<Rightarrow> nat
    \<Rightarrow> compose_runner_error + unit" where
  "configure_cfgsync cw ws t port =
     (case update_cfgsync_config cw (snd ws) (ws_cfgsync_path (fst ws)) t (ws_use_kzg (fst ws)) port of
        Inl e \<Rightarrow> Inl (ConfigCfgsync e) | Inr u \<Rightarrow> Inr u)"

text \<open>The workspace and the file system with it; preparing it neither panics nor hangs.\<close>

definition prepare_workspace_logged :: "'c compose_world \<Rightarrow> compose_runner_error + workspace_state \<times> file_tree" where
  "prepare_workspace_logged cw = (case prepare_workspace_state (cw_place cw) (cw_files cw) of
     (Returns st, fs) \<Rightarrow> Inr (st, fs) | (Fails e, fs) \<Rightarrow> Inl (WorkspaceError e) | (Panics e, fs) \<Rightarrow> Inl (WorkspaceError e)
   | (Hangs, fs) \<Rightarrow> Inl (WorkspaceError []))"

definition bring_up_stack :: "'c compose_world \<Rightarrow> string \<Rightarrow> cfgsync_handle \<Rightarrow> deploy_state
    \<Rightarrow> (compose_runner_error + unit) \<times> cfgsync_handle \<times> deploy_state" where
  "bring_up_stack cw project h s = (case compose_up cw project s of
     (Inl e, s1) \<Rightarrow> (Inl (Compose e), shutdown cw h s1) | (Inr u, s1) \<Rightarrow> (Inr u, h, s1))"

text \<open>
  The loop of \<open>prepare_environment\<close> with \<open>n\<close> attempts left. The compose file is written again in every
  attempt, with a new project name; the cfgsync port stays.
\<close>

fun bring_up_attempts :: "'c compose_world \<Rightarrow> 'p generated_topology \<Rightarrow> workspace_state \<Rightarrow> nat \<Rightarrow> nat \<Rightarrow> bool \<Rightarrow> nat \<Rightarrow> nat
    \<Rightarrow> compose_runner_error option \<Rightarrow> stack_environment compose_io" where
  "bring_up_attempts cw t ws port grafana locked 0 prometheus last_err =
     (case last_err of Some e \<Rightarrow> fail_io e | None \<Rightarrow> panic_io ''prepare_environment should return or fail with error'')"
| "bring_up_attempts cw t ws port grafana locked (Suc n) prometheus last_err =
     bind_io (lift_io id (write_compose_artifacts cw t ws port prometheus grafana)) (\<lambda>_ s.
       case new_uuid cw s of (uuid, s0) \<Rightarrow>
       (let project = ''nomos-compose-'' @ uuid in
        bind_io (launch_cfgsync cw port) (\<lambda>handle s1.
          case bring_up_stack cw project handle s1 of
            (Inr _, handle', s2) \<Rightarrow>
              (case resolve_service_port cw project ''grafana'' 3000 s2 of
                 (Returns resolved, s3) \<Rightarrow> ret_io (from_workspace project (Some handle') prometheus resolved) s3
               | (_, s3) \<Rightarrow> ret_io (from_workspace project (Some handle') prometheus grafana) s3)
          | (Inl err, handle', s2) \<Rightarrow>
              (let s3 = snd (shutdown cw handle' (dump_compose_logs cw project s2)) in
               if locked then fail_io err s3
               else bring_up_attempts cw t ws port grafana locked n
                 (unwrap_or default_prometheus_port (allocate_prometheus_port cw s3)) (Some err) s3)) s0))"

definition stack_bringup_max_attempts :: nat where "stack_bringup_max_attempts = 3"

definition prepare_environment :: "'c compose_world \<Rightarrow> 'p generated_topology \<Rightarrow> nat \<Rightarrow> bool \<Rightarrow> stack_environment compose_io" where
  "prepare_environment cw t prometheus locked s = (case prepare_workspace_logged cw of
     Inl e \<Rightarrow> fail_io e s
   | Inr ws \<Rightarrow> dropping (drop_workspace True)
       (bind_io (lift_io ConfigPort (cw_cfgsync_port cw)) (\<lambda>port.
        bind_io (lift_io id (configure_cfgsync cw ws t port)) (\<lambda>_.
        bind_io (ensure_compose_image cw) (\<lambda>_.
          bring_up_attempts cw t (fst ws) port (unwrap_or 0 (Option.bind (cw_env cw ''COMPOSE_GRAFANA_PORT'') parse_u16)) locked
            (if locked then 1 else stack_bringup_max_attempts) prometheus None))))
       (log_effect WorkspaceCreated s))"

definition validate_environment :: "'c compose_world \<Rightarrow> 'p generated_topology \<Rightarrow> unit compose_io" where
  "validate_environment cw t = bind_io (ensure_docker_available cw) (\<lambda>_. lift_io id (ensure_supported_topology t))"

text \<open>\<open>DeploymentSetup::prepare_workspace\<close>: a port set in the environment is tried once only.\<close>

definition initial_prometheus_port :: "'c compose_world \<Rightarrow> nat option \<Rightarrow> deploy_state \<Rightarrow> nat" where
  "initial_prometheus_port cw configured s = (case Option.bind configured (\<lambda>p. reserve_prometheus_port cw p s) of
     Some p \<Rightarrow> p | None \<Rightarrow> unwrap_or default_prometheus_port (allocate_prometheus_port cw s))"

definition prepare_workspace :: "'c compose_world \<Rightarrow> 'p generated_topology \<Rightarrow> stack_environment compose_io" where
  "prepare_workspace cw t s =
     (let configured = Option.bind (cw_env cw ''TEST_FRAMEWORK_PROMETHEUS_PORT'') parse_u16
      in prepare_environment cw t (initial_prometheus_port cw configured s) (configured \<noteq> None) s)"

section \<open>Host ports, readiness and clients\<close>

record node_host_ports =
  hp_api :: nat
  hp_testing :: nat

record host_port_mapping =
  hm_validators :: "node_host_ports list"
  hm_executors :: "node_host_ports list"

definition node_identifier :: "node_role \<Rightarrow> nat \<Rightarrow> string" where
  "node_identifier role index = (case role of Validator \<Rightarrow> ''validator-'' | Executor \<Rightarrow> ''executor-'') @ show_nat index"

text \<open>The copy of \<open>resolve_service_port\<close> in \<open>ports.rs\<close>, which reads the project off the environment.\<close>

definition resolve_node_port :: "'c compose_world \<Rightarrow> stack_environment \<Rightarrow> string \<Rightarrow> nat \<Rightarrow> nat compose_io" where
  "resolve_node_port cw env service container_port = resolve_service_port cw (se_project env) service container_port"

fun discover_nodes :: "'c compose_world \<Rightarrow> stack_environment \<Rightarrow> node_role \<Rightarrow> 'p generated_node list \<Rightarrow> node_host_ports list compose_io" where
  "discover_nodes cw env role [] = ret_io []"
| "discover_nodes cw env role (n # ns) =
     (let service = node_identifier role (gn_index n) in
      bind_io (resolve_node_port cw env service (ac_address_port (gc_api (gn_general n)))) (\<lambda>api.
      bind_io (resolve_node_port cw env service (ac_testing_http_port (gc_api (gn_general n)))) (\<lambda>testing.
      bind_io (discover_nodes cw env role ns) (\<lambda>rest.
        ret_io (\<lparr>hp_api = api, hp_testing = testing\<rparr> # rest)))))"

definition discover_host_ports :: "'c compose_world \<Rightarrow> stack_environment \<Rightarrow> 'p generated_topology \<Rightarrow> host_port_mapping compose_io" where
  "discover_host_ports cw env t =
     bind_io (discover_nodes cw env Validator (gt_validators t)) (\<lambda>vs.
     bind_io (discover_nodes cw env Executor (gt_executors t)) (\<lambda>es.
       ret_io \<lparr>hm_validators = vs, hm_executors = es\<rparr>))"

definition compose_runner_host :: "environment \<Rightarrow> string" where
  "compose_runner_host env = unwrap_or ''127.0.0.1'' (env ''COMPOSE_RUNNER_HOST'')"

definition localhost_url :: "'c compose_world \<Rightarrow> nat \<Rightarrow> string + string" where
  "localhost_url cw port = cw_parse_url cw (''http://'' @ compose_runner_host (cw_env cw) @ '':'' @ show_nat port @ ''/'')"

definition wait_for_ports :: "'c compose_world \<Rightarrow> node_role \<Rightarrow> nat list \<Rightarrow> unit compose_io" where
  "wait_for_ports cw role ports = (wait_io ReadinessHttp (case adjust_timeout (cw_env cw) (from_secs 180) of
       Inl msg \<Rightarrow> Some (Inl msg)
     | Inr timeout \<Rightarrow> map_option Inr
         (wait_for_http_ports_with_host (cw_answers cw) (cw_latency cw) role timeout (from_millis 250) ports)))"

text \<open>\<open>ensure_validators_ready_with_ports\<close> and \<open>ensure_executors_ready_with_ports\<close>.\<close>

definition ensure_ready_with_ports :: "'c compose_world \<Rightarrow> node_role \<Rightarrow> nat list \<Rightarrow> unit compose_io" where
  "ensure_ready_with_ports cw role ports = (if ports = [] then ret_io () else wait_for_ports cw role ports)"

definition readiness_urls :: "'c compose_world \<Rightarrow> node_role \<Rightarrow> nat list \<Rightarrow> compose_runner_error + string list" where
  "readiness_urls cw role ports = try_map (\<lambda>port. case localhost_url cw port of
     Inl e \<Rightarrow> Inl (ReadinessEndpoint role port e) | Inr url \<Rightarrow> Inr url) ports"

definition ensure_remote_readiness_with_ports :: "'c compose_world \<Rightarrow> 'p generated_topology \<Rightarrow> host_port_mapping \<Rightarrow> unit compose_io" where
  "ensure_remote_readiness_with_ports cw t m =
     bind_io (lift_io id (readiness_urls cw Validator (map hp_api (hm_validators m)))) (\<lambda>vs.
     bind_io (lift_io id (readiness_urls cw Executor (map hp_api (hm_executors m)))) (\<lambda>es.
     bind_io (lift_io id (readiness_urls cw Validator (map hp_testing (hm_validators m)))) (\<lambda>vms.
     bind_io (lift_io id (readiness_urls cw Executor (map hp_testing (hm_executors m)))) (\<lambda>ems.
       wait_io ReadinessRemote (wait_remote_readiness t (cw_env cw) vs es (Some vms) (Some ems) (cw_infos cw) (cw_members cw))))))"

definition wait_all :: "'c compose_world \<Rightarrow> 'p generated_topology \<Rightarrow> host_port_mapping \<Rightarrow> unit compose_io" where
  "wait_all cw t m =
     bind_io (failing cw (ensure_ready_with_ports cw Validator (map hp_api (hm_validators m)))) (\<lambda>_.
     bind_io (failing cw (ensure_ready_with_ports cw Executor (map hp_api (hm_executors m)))) (\<lambda>_.
       failing cw (ensure_remote_readiness_with_ports cw t m)))"

definition api_client_from_host_ports :: "'c compose_world \<Rightarrow> node_role \<Rightarrow> node_host_ports \<Rightarrow> compose_runner_error + 'c" where
  "api_client_from_host_ports cw role ports = (case localhost_url cw (hp_api ports) of
     Inl e \<Rightarrow> Inl (NodeClientEndpoint role ''api'' (hp_api ports) e)
   | Inr base \<Rightarrow> (case localhost_url cw (hp_testing ports) of
       Inl e \<Rightarrow> Inl (NodeClientEndpoint role ''testing'' (hp_testing ports) e)
     | Inr testing \<Rightarrow> Inr (cw_client cw base testing)))"

definition build_node_clients_with_ports :: "'c compose_world \<Rightarrow> 'p generated_topology \<Rightarrow> host_port_mapping
    \<Rightarrow> compose_runner_error + 'c node_clients" where
  "build_node_clients_with_ports cw t m =
     rbind (try_map (\<lambda>(node, ports). api_client_from_host_ports cw (gn_role node) ports) (zip (gt_validators t) (hm_validators m))) (\<lambda>vs.
     rbind (try_map (\<lambda>(node, ports). api_client_from_host_ports cw (gn_role node) ports) (zip (gt_executors t) (hm_executors m))) (\<lambda>es.
       Inr \<lparr>nc_validators = vs, nc_executors = es\<rparr>))"

definition metrics_handle_from_port :: "'c compose_world \<Rightarrow> nat \<Rightarrow> string + prometheus" where
  "metrics_handle_from_port cw port = (case localhost_url cw port of
     Inl e \<Rightarrow> Inl (''invalid prometheus url: '' @ e) | Inr url \<Rightarrow> cw_prometheus cw url)"

definition block_feed_max_attempts :: nat where "block_feed_max_attempts = 5"

definition spawn_block_feed_with :: "'c compose_world \<Rightarrow> 'c node_clients \<Rightarrow> nat \<Rightarrow> compose_runner_error + scanner" where
  "spawn_block_feed_with cw clients attempt = (case random_validator (cw_pick cw attempt) clients of
     None \<Rightarrow> Inl BlockFeedMissing
   | Some c \<Rightarrow> (case spawn_block_feed (cw_tip cw attempt c) (cw_storage cw attempt c) of
        Inl e \<Rightarrow> Inl (BlockFeedFailed e) | Inr feed \<Rightarrow> Inr feed))"

fun block_feed_attempts :: "'c compose_world \<Rightarrow> 'c node_clients \<Rightarrow> nat \<Rightarrow> compose_runner_error option
    \<Rightarrow> (compose_runner_error + scanner) rust" where
  "block_feed_attempts cw clients 0 last_err =
     (case last_err of Some e \<Rightarrow> Inr (Inl e) | None \<Rightarrow> Inl ''block feed retry should capture an error'')"
| "block_feed_attempts cw clients (Suc n) last_err =
     (case spawn_block_feed_with cw clients (block_feed_max_attempts - n) of
        Inr feed \<Rightarrow> Inr (Inr feed) | Inl e \<Rightarrow> block_feed_attempts cw clients n (Some e))"

definition spawn_block_feed_with_retry :: "'c compose_world \<Rightarrow> 'c node_clients \<Rightarrow> scanner compose_io" where
  "spawn_block_feed_with_retry cw clients s =
     (case block_feed_attempts cw clients block_feed_max_attempts None of Inl msg \<Rightarrow> panic_io msg s | Inr r \<Rightarrow> lift_io id r s)"

section \<open>The deployment\<close>

text \<open>The guard handed to the runner; the block feed task is aborted by the guard, not when it is dropped.\<close>

definition compose_guard_cleanup :: "'c compose_world \<Rightarrow> runner_cleanup \<Rightarrow> deploy_state \<Rightarrow> deploy_state" where
  "compose_guard_cleanup cw rc s = cleanup_compose cw rc (log_effect FeedAborted s)"

record ('p, 'c) compose_runner =
  cr_context :: "'p run_context"
  cr_clients :: "'c node_clients"
  cr_telemetry :: prometheus
  cr_feed :: scanner
  cr_guard :: runner_cleanup

text \<open>\<open>PortManager::prepare\<close> and the methods of \<open>ClientBuilder\<close>.\<close>

definition prepare_ports :: "'c compose_world \<Rightarrow> stack_environment \<Rightarrow> 'p generated_topology \<Rightarrow> host_port_mapping compose_io" where
  "prepare_ports cw env t = failing cw (discover_host_ports cw env t)"

definition build_node_clients :: "'c compose_world \<Rightarrow> 'p generated_topology \<Rightarrow> host_port_mapping \<Rightarrow> 'c node_clients compose_io" where
  "build_node_clients cw t host_ports = failing cw (lift_io id (build_node_clients_with_ports cw t host_ports))"

definition start_block_feed :: "'c compose_world \<Rightarrow> 'c node_clients \<Rightarrow> scanner compose_io" where
  "start_block_feed cw clients = failing cw (spawn_block_feed_with_retry cw clients)"

definition own_stack :: "stack_environment \<Rightarrow> unit compose_io" where
  "own_stack env s = ret_io () (s\<lparr>ds_stack := Some env\<rparr>)"

text \<open>\<open>into_cleanup\<close>, \<open>make_cleanup_guard\<close> and \<open>RunContext::new\<close>: the guard owns the stack when the context is built.\<close>

definition hand_over :: "'c compose_world \<Rightarrow> 'p generated_topology \<Rightarrow> duration \<Rightarrow> bool \<Rightarrow> 'c node_clients \<Rightarrow> prometheus \<Rightarrow> scanner
    \<Rightarrow> stack_environment \<Rightarrow> ('p, 'c) compose_runner compose_io" where
  "hand_over cw t run_duration node_control clients telemetry feed env s = (case into_cleanup env of
     Inl msg \<Rightarrow> panic_io msg s
   | Inr guard \<Rightarrow> (let s' = s\<lparr>ds_stack := None\<rparr> in
       case run_context_new t run_duration node_control of
         Inl msg \<Rightarrow> panic_io msg (drop_runner_cleanup cw guard s')
       | Inr ctx \<Rightarrow> ret_io \<lparr>cr_context = ctx, cr_clients = clients, cr_telemetry = telemetry, cr_feed = feed, cr_guard = guard\<rparr> s'))"

definition compose_deploy :: "'c compose_world \<Rightarrow> bool \<Rightarrow> bool \<Rightarrow> 'p generated_topology \<Rightarrow> duration \<Rightarrow> ('p, 'c) compose_runner compose_io" where
  "compose_deploy cw readiness_checks node_control t run_duration =
     bind_io (validate_environment cw t) (\<lambda>_.
     bind_io (prepare_workspace cw t) (\<lambda>env.
     bind_io (own_stack env) (\<lambda>_.
     dropping (drop_stack cw)
       (bind_io (prepare_ports cw env t) (\<lambda>host_ports.
        bind_io (if readiness_checks then wait_all cw t host_ports else ret_io ()) (\<lambda>_.
        bind_io (build_node_clients cw t host_ports) (\<lambda>clients.
        bind_io (lift_io Telemetry (metrics_handle_from_port cw (se_prometheus_port env))) (\<lambda>telemetry.
        bind_io (start_block_feed cw clients) (\<lambda>feed.
          hand_over cw t run_duration node_control clients telemetry feed env)))))))))"

section \<open>Resources\<close>

text \<open>
  What a log of effects leaves behind: cfgsync containers started and not removed, compose projects brought
  up and not taken down, and temporary directories that are neither removed nor handed to the user.
\<close>

fun effect_on :: "compose_effect \<Rightarrow> string set \<times> string set \<times> nat \<Rightarrow> string set \<times> string set \<times> nat" where
  "effect_on (Ran (RunCfgsync name port img) ok) (cs, ps, ws) = (if ok then insert name cs else cs, ps, ws)"
| "effect_on (Ran (RemoveContainer name) ok) (cs, ps, ws) = (cs - {name}, ps, ws)"
| "effect_on (Ran (ComposeUp p) ok) (cs, ps, ws) = (cs, if ok then insert p ps else ps, ws)"
| "effect_on (Ran (ComposeDown p) ok) (cs, ps, ws) = (cs, ps - {p}, ws)"
| "effect_on WorkspaceCreated (cs, ps, ws) = (cs, ps, Suc ws)"
| "effect_on WorkspaceRemoved (cs, ps, ws) = (cs, ps, ws - 1)"
| "effect_on WorkspaceKept (cs, ps, ws) = (cs, ps, ws - 1)"
| "effect_on _ r = r"

definition resources :: "compose_effect list \<Rightarrow> string set \<times> string set \<times> nat" where
  "resources evs = fold effect_on evs ({}, {}, 0)"

fun tracked :: "compose_effect \<Rightarrow> bool" where
  "tracked (Ran (RunCfgsync name port img) ok) = True"
| "tracked (Ran (RemoveContainer name) ok) = True"
| "tracked (Ran (ComposeUp p) ok) = True"
| "tracked (Ran (ComposeDown p) ok) = True"
| "tracked (Ran c ok) = False"
| "tracked FeedAborted = False"
| "tracked _ = True"

definition trace :: "deploy_state \<Rightarrow> compose_effect list" where
  "trace s = filter tracked (ds_log s)"

lemma untracked_effect: "\<not> tracked ev \<Longrightarrow> effect_on ev r = r"
  by (cases r) (induction ev rule: tracked.induct; simp)

lemma resources_trace: "resources (ds_log s) = resources (trace s)"
proof -
  have "fold effect_on (filter tracked evs) r = fold effect_on evs r" for evs r
    by (induction evs arbitrary: r) (simp_all add: untracked_effect)
  then show ?thesis by (simp add: resources_def trace_def)
qed

lemma resources_append: "resources (xs @ ys) = fold effect_on ys (resources xs)"
  by (simp add: resources_def)

lemma trace_log_effect [simp]: "trace (log_effect ev s) = trace s @ (if tracked ev then [ev] else [])"
  "ds_stack (log_effect ev s) = ds_stack s" "ds_uuids (log_effect ev s) = ds_uuids s"
  by (simp_all add: trace_def log_effect_def)

lemma trace_updates [simp]: "trace (s\<lparr>ds_stack := x\<rparr>) = trace s" "trace (s\<lparr>ds_uuids := u\<rparr>) = trace s"
  by (simp_all add: trace_def)

lemma run_command_state [simp]:
  "trace (snd (run_command cw c s)) = trace s @ (if tracked (Ran c (is_success (fst (run_command cw c s))))
     then [Ran c (is_success (fst (run_command cw c s)))] else [])"
  "ds_stack (snd (run_command cw c s)) = ds_stack s" "ds_uuids (snd (run_command cw c s)) = ds_uuids s"
  by (simp_all add: run_command_def Let_def)

lemma run_commandD:
  "run_command cw c s = (r, s') \<Longrightarrow>
     trace s' = trace s @ (if tracked (Ran c (is_success r)) then [Ran c (is_success r)] else [])
     \<and> ds_stack s' = ds_stack s \<and> ds_uuids s' = ds_uuids s"
  using run_command_state [of cw c s] by simp

subsection \<open>Computations that leave the stack alone\<close>

abbreviation quiet :: "'a compose_io \<Rightarrow> bool" where
  "quiet m \<equiv> keeps (\<lambda>s. (trace s, ds_stack s, ds_uuids s)) m"

lemma quiet_docker [keeps_intros]: "quiet (ensure_docker_available cw)" "quiet (docker_image_exists cw img)"
  "quiet (resolve_service_port cw project service port)"
  by (auto simp: keeps_def ensure_docker_available_def docker_image_exists_def resolve_service_port_def ret_io_def fail_io_def
      dest!: run_commandD split: prod.splits if_splits command_status.splits option.splits)

lemma quiet_build [keeps_intros]: "quiet (build_local_image cw img platform)"
  unfolding build_local_image_def
  by (rule keeps_bind, rule keeps_basic)
    (auto simp: keeps_def ret_io_def fail_io_def dest!: run_commandD split: prod.splits command_status.splits)

lemma quiet_image [keeps_intros]: "quiet (ensure_compose_image cw)"
  unfolding ensure_compose_image_def ensure_image_present_def by (auto intro!: keeps_intros split: prod.splits)

lemma quiet_validate [keeps_intros]: "quiet (validate_environment cw t)"
  unfolding validate_environment_def by (intro keeps_intros)

lemma quiet_discover [keeps_intros]: "quiet (discover_nodes cw env role ns)"
  by (induction ns) (auto simp: Let_def resolve_node_port_def intro!: keeps_intros)

lemma quiet_discover_all [keeps_intros]: "quiet (discover_host_ports cw env t)"
  unfolding discover_host_ports_def by (intro keeps_intros)

lemma quiet_ports [keeps_intros]: "quiet (ensure_ready_with_ports cw role ports)"
proof -
  have "0 < from_millis 250" by (simp add: from_millis_def)
  then show ?thesis unfolding wait_for_ports_def ensure_ready_with_ports_def
    by (intro keeps_intros) (simp add: ports_wait_ends split: sum.splits)
qed

lemma quiet_remote [keeps_intros]: "quiet (ensure_remote_readiness_with_ports cw t m)"
  unfolding ensure_remote_readiness_with_ports_def by (intro keeps_intros remote_wait_ends)

lemma quiet_feed [keeps_intros]: "quiet (spawn_block_feed_with_retry cw clients)"
  by (auto simp: keeps_def spawn_block_feed_with_retry_def panic_io_def lift_io_def ret_io_def fail_io_def split: sum.splits)

end
