(* ===== verification/Compose_Lifecycle.thy ===== *)
theory Compose_Lifecycle
  imports Compose_Runner
begin

text \<open>
  What a compose deployment leaves behind, on every way out: the attempts of \<open>prepare_environment\<close>, the
  phases of the orchestrator as computations between two states of the stack, and the cleanup guard.
\<close>

section \<open>Bringing up the stack\<close>

definition compose_name :: "'c compose_world \<Rightarrow> nat \<Rightarrow> string" where
  "compose_name cw k = ''nomos-compose-'' @ cw_uuid cw k"

text \<open>What a failed attempt does: the cfgsync container comes and goes, the project is not taken down.\<close>

definition failed_attempt :: "string \<Rightarrow> nat \<Rightarrow> string \<times> string \<times> bool \<Rightarrow> compose_effect list" where
  "failed_attempt img port = (\<lambda>(name, project, removed).
     [Ran (RunCfgsync name port img) True, Ran (ComposeUp project) False, Ran (RemoveContainer name) removed])"

lemma docker_command_state:
  assumes "run_docker_command cw c timeout d s = (r, s')" and "\<And>ok. tracked (Ran c ok)"
  shows "trace s' = trace s @ [Ran c (r = Inr ())] \<and> ds_stack s' = ds_stack s \<and> ds_uuids s' = ds_uuids s"
proof -
  obtain q t where q: "run_command cw c s = (q, t)" by fastforce
  then have "r = handle_compose_status q d timeout" "s' = t" using assms(1) by (simp_all add: run_docker_command_def)
  moreover have "is_success q \<longleftrightarrow> r = Inr ()"
    using calculation(1) by (auto simp: is_success_def handle_compose_status_def split: command_status.splits)
  ultimately show ?thesis using run_commandD [OF q] assms(2) by simp
qed

lemma shutdown_state:
  assumes "shutdown cw \<lparr>ch_name = name, ch_stopped = False\<rparr> s = (h, s')"
  shows "h = \<lparr>ch_name = name, ch_stopped = True\<rparr> \<and> (\<exists>ok. trace s' = trace s @ [Ran (RemoveContainer name) ok])
    \<and> ds_stack s' = ds_stack s \<and> ds_uuids s' = ds_uuids s"
  using assms by (auto simp: shutdown_def)

lemma shutdown_stopped [simp]: "ch_stopped h \<Longrightarrow> shutdown cw h s = (h, s)"
  by (simp add: shutdown_def)

lemma dump_logs_state [simp]: "trace (dump_compose_logs cw project s) = trace s"
  "ds_stack (dump_compose_logs cw project s) = ds_stack s" "ds_uuids (dump_compose_logs cw project s) = ds_uuids s"
  by (simp_all add: dump_compose_logs_def)

lemma launch_state:
  assumes "launch_cfgsync cw port s = (r, s')"
  obtains (started) name where "r = Returns \<lparr>ch_name = name, ch_stopped = False\<rparr>"
      "trace s' = trace s @ [Ran (RunCfgsync name port (fst (resolve_image (cw_env cw)))) True]"
      "ds_stack s' = ds_stack s" "ds_uuids s' = Suc (ds_uuids s)"
  | (failed) name e where "r = Fails e"
      "trace s' = trace s @ [Ran (RunCfgsync name port (fst (resolve_image (cw_env cw)))) False]"
      "ds_stack s' = ds_stack s" "ds_uuids s' = Suc (ds_uuids s)"
proof -
  let ?name = "''nomos-cfgsync-'' @ cw_uuid cw (ds_uuids s)" and ?s = "s\<lparr>ds_uuids := Suc (ds_uuids s)\<rparr>"
  let ?c = "RunCfgsync ?name port (fst (resolve_image (cw_env cw)))"
  obtain q t where q: "run_docker_command cw ?c (adjust_timeout (cw_env cw) (from_secs 180)) ''docker run cfgsync server'' ?s = (q, t)"
    by fastforce
  note st = docker_command_state [OF q, simplified]
  show thesis
  proof (cases q)
    case (Inl e)
    then show thesis using assms q st failed [of "CfgsyncStart port e" ?name]
      by (simp add: launch_cfgsync_def new_uuid_def Let_def fail_io_def)
  next
    case (Inr u)
    then show thesis using assms q st started [of ?name]
      by (simp add: launch_cfgsync_def new_uuid_def Let_def ret_io_def)
  qed
qed

lemma bring_up_state:
  assumes "bring_up_stack cw project \<lparr>ch_name = name, ch_stopped = False\<rparr> s = (r, h, s')"
  shows "ds_stack s' = ds_stack s \<and> ds_uuids s' = ds_uuids s \<and>
    (case r of Inr _ \<Rightarrow> h = \<lparr>ch_name = name, ch_stopped = False\<rparr> \<and> trace s' = trace s @ [Ran (ComposeUp project) True]
     | Inl e \<Rightarrow> h = \<lparr>ch_name = name, ch_stopped = True\<rparr> \<and> (\<exists>ok. trace s' = trace s @ [Ran (ComposeUp project) False, Ran (RemoveContainer name) ok]))"
proof -
  obtain q t where q: "compose_up cw project s = (q, t)" by fastforce
  note st = docker_command_state [OF q [unfolded compose_up_def], simplified]
  show ?thesis
  proof (cases q)
    case (Inl e)
    obtain h' t' where sh: "shutdown cw \<lparr>ch_name = name, ch_stopped = False\<rparr> t = (h', t')" by fastforce
    then show ?thesis using assms q Inl st shutdown_state [OF sh] by (auto simp: bring_up_stack_def)
  next
    case (Inr u)
    then show ?thesis using assms q st by (auto simp: bring_up_stack_def)
  qed
qed

declare bring_up_attempts.simps [simp del]

text \<open>One round of the loop.\<close>

lemma attempt_cases:
  fixes cw :: "'c compose_world"
  assumes "bring_up_attempts cw t kzg port grafana locked (Suc n) prom le s = (r, s')"
  defines "img \<equiv> fst (resolve_image (cw_env cw))" and "p \<equiv> compose_name cw (ds_uuids s)"
  obtains (nothing) e where "r = Fails e" "s' = s"
  | (no_cfgsync) name e where "r = Fails e" "trace s' = trace s @ [Ran (RunCfgsync name port img) False]" "ds_stack s' = ds_stack s"
  | (up) name env where "r = Returns env" "trace s' = trace s @ [Ran (RunCfgsync name port img) True, Ran (ComposeUp p) True]"
      "ds_stack s' = ds_stack s" "se_project env = p" "se_workspace env" "se_cfgsync env = Some \<lparr>ch_name = name, ch_stopped = False\<rparr>"
  | (failed) name b err s1 where "trace s1 = trace s @ failed_attempt img port (name, p, b)" "ds_stack s1 = ds_stack s"
      "ds_uuids s1 = ds_uuids s + 2"
      "(r, s') = (if locked then (Fails err, s1) else bring_up_attempts cw t kzg port grafana locked n
         (unwrap_or default_prometheus_port (allocate_prometheus_port cw s1)) (Some err) s1)"
proof (cases "write_compose_artifacts cw t kzg port prom grafana")
  case (Inl e)
  then have "r = Fails e" "s' = s" using assms(1) by (auto simp: bring_up_attempts.simps bind_io_def lift_io_def fail_io_def)
  then show thesis by (rule nothing)
next
  case art: (Inr u)
  let ?s = "s\<lparr>ds_uuids := Suc (ds_uuids s)\<rparr>"
  obtain q t1 where q: "launch_cfgsync cw port ?s = (q, t1)" by fastforce
  have step: "bring_up_attempts cw t kzg port grafana locked (Suc n) prom le s = bind_io (launch_cfgsync cw port) (\<lambda>handle s1.
          case bring_up_stack cw p handle s1 of
            (Inr _, handle', s2) \<Rightarrow>
              (case resolve_service_port cw p ''grafana'' 3000 s2 of
                 (Returns resolved, s3) \<Rightarrow> ret_io (from_workspace p (Some handle') prom resolved) s3
               | (_, s3) \<Rightarrow> ret_io (from_workspace p (Some handle') prom grafana) s3)
          | (Inl err, handle', s2) \<Rightarrow>
              (let s3 = snd (shutdown cw handle' (dump_compose_logs cw p s2)) in
               if locked then fail_io err s3
               else bring_up_attempts cw t kzg port grafana locked n
                 (unwrap_or default_prometheus_port (allocate_prometheus_port cw s3)) (Some err) s3)) ?s"
    unfolding bring_up_attempts.simps(2) art bind_lift_Inr new_uuid_def prod.case p_def compose_name_def Let_def by (rule refl)
  from q show thesis
  proof (cases rule: launch_state)
    case (failed name e)
    then show thesis using no_cfgsync [of e name] assms(1) step q by (simp add: bind_io_def img_def)
  next
    case (started name)
    obtain x h t2 where x: "bring_up_stack cw p \<lparr>ch_name = name, ch_stopped = False\<rparr> t1 = (x, h, t2)"
      by (metis prod_cases3)
    note bs = bring_up_state [OF x]
    show thesis
    proof (cases x)
      case (Inl err)
      let ?s1 = "dump_compose_logs cw p t2"
      from bs Inl obtain b where b: "trace t2 = trace t1 @ [Ran (ComposeUp p) False, Ran (RemoveContainer name) b]"
        and h: "ch_stopped h" by auto
      have "(r, s') = (if locked then (Fails err, ?s1) else bring_up_attempts cw t kzg port grafana locked n
         (unwrap_or default_prometheus_port (allocate_prometheus_port cw ?s1)) (Some err) ?s1)"
        using assms(1) step q x started(1) Inl by (auto simp: bind_io_def fail_io_def Let_def shutdown_stopped [OF h] split: if_splits)
      then show thesis using failed [of ?s1 name b err] b bs started(2-4) by (simp add: failed_attempt_def img_def)
    next
      case (Inr u)
      obtain y t3 where y: "resolve_service_port cw p ''grafana'' 3000 t2 = (y, t3)" by fastforce
      have q3: "trace t3 = trace t2 \<and> ds_stack t3 = ds_stack t2"
        using quiet_docker(3) [of cw p "''grafana''" 3000] y by (simp add: keeps_def)
      obtain resolved where "(r, s') = (Returns (from_workspace p (Some h) prom resolved), t3)"
        using assms(1) step q x started(1) Inr y by (cases y) (auto simp: bind_io_def ret_io_def)
      then show thesis using up [of _ name] bs Inr q3 started(2-4) by (simp add: from_workspace_def img_def)
    qed
  qed
qed

text \<open>The whole loop: some attempts that failed, then one that succeeded or an error.\<close>

definition attempts_end :: "'c compose_world \<Rightarrow> nat \<Rightarrow> nat \<Rightarrow> (compose_runner_error, stack_environment) outcome \<Rightarrow> compose_effect list \<Rightarrow> bool" where
  "attempts_end cw port k r final \<longleftrightarrow> (let img = fst (resolve_image (cw_env cw)) in case r of
     Returns env \<Rightarrow> (\<exists>name. final = [Ran (RunCfgsync name port img) True, Ran (ComposeUp (compose_name cw k)) True]
       \<and> se_project env = compose_name cw k \<and> se_workspace env \<and> se_cfgsync env = Some \<lparr>ch_name = name, ch_stopped = False\<rparr>)
   | Fails e \<Rightarrow> final = [] \<or> (\<exists>name. final = [Ran (RunCfgsync name port img) False])
   | Panics msg \<Rightarrow> final = []
   | Hangs \<Rightarrow> False)"

lemma attempts_state:
  assumes "bring_up_attempts cw t kzg port grafana locked n prom le s = (r, s')" and "locked \<Longrightarrow> n \<le> 1"
  shows "\<exists>as final k. trace s' = trace s @ concat (map (failed_attempt (fst (resolve_image (cw_env cw))) port) as) @ final
    \<and> ds_stack s' = ds_stack s \<and> attempts_end cw port k r final \<and> length as + (case r of Returns _ \<Rightarrow> 1 | _ \<Rightarrow> 0) \<le> n
    \<and> (\<forall>(name, p, b) \<in> set as. \<exists>j. ds_uuids s \<le> j \<and> j < k \<and> p = compose_name cw j) \<and> ds_uuids s \<le> k"
  using assms
proof (induction n arbitrary: prom le s)
  case 0
  then show ?case
    by (intro exI [of _ "[]"] exI [of _ "ds_uuids s"])
      (auto simp: bring_up_attempts.simps attempts_end_def panic_io_def fail_io_def split: option.splits)
next
  case (Suc n)
  let ?img = "fst (resolve_image (cw_env cw))"
  from Suc.prems(1) show ?case
  proof (cases rule: attempt_cases)
    case (nothing e)
    then show ?thesis by (intro exI [of _ "[]"] exI [of _ "ds_uuids s"]) (simp add: attempts_end_def)
  next
    case (no_cfgsync name e)
    then show ?thesis by (intro exI [of _ "[]"] exI [of _ "ds_uuids s"] exI) (auto simp: attempts_end_def)
  next
    case (up name env)
    then show ?thesis by (intro exI [of _ "[]"] exI [of _ "ds_uuids s"] exI) (auto simp: attempts_end_def)
  next
    case (failed name b err s1)
    let ?a = "(name, compose_name cw (ds_uuids s), b)"
    show ?thesis
    proof (cases locked)
      case True
      then show ?thesis using failed
        by (intro exI [of _ "[?a]"] exI [of _ "[]"] exI [of _ "Suc (ds_uuids s)"]) (auto simp: attempts_end_def)
    next
      case False
      then have rec: "bring_up_attempts cw t kzg port grafana locked n
         (unwrap_or default_prometheus_port (allocate_prometheus_port cw s1)) (Some err) s1 = (r, s')" using failed(4) by simp
      from Suc.IH [OF rec] False obtain as final k where ih: "trace s' = trace s1 @ concat (map (failed_attempt ?img port) as) @ final"
        "ds_stack s' = ds_stack s1" "attempts_end cw port k r final" "length as + (case r of Returns _ \<Rightarrow> 1 | _ \<Rightarrow> 0) \<le> n"
        "\<forall>(name, p, b) \<in> set as. \<exists>j. ds_uuids s1 \<le> j \<and> j < k \<and> p = compose_name cw j" "ds_uuids s1 \<le> k"
        by blast
      have "\<forall>(name, p, b) \<in> set (?a # as). \<exists>j. ds_uuids s \<le> j \<and> j < k \<and> p = compose_name cw j"
        proof
        fix x assume "x \<in> set (?a # as)"
        then consider "x = ?a" | "x \<in> set as" by auto
        then show "case x of (name, p, b) \<Rightarrow> \<exists>j. ds_uuids s \<le> j \<and> j < k \<and> p = compose_name cw j"
        proof cases
          case 1
          have "ds_uuids s < k" using ih(6) failed(3) by simp
          then show ?thesis using 1 by auto
        next
          case 2
          obtain name' p' b' where x: "x = (name', p', b')" by (cases x)
          then obtain j where "ds_uuids s1 \<le> j" "j < k" "p' = compose_name cw j" using ih(5) 2 by blast
          then show ?thesis using x failed(3) by (auto intro!: exI [of _ j])
        qed
      qed
      then show ?thesis using failed(1-3) ih
        by (intro exI [of _ "?a # as"] exI [of _ final] exI [of _ k]) (simp split: outcome.splits)
    qed
  qed
qed

lemma prepare_state:
  assumes "prepare_environment cw t prom locked s = (r, s')"
  shows "ds_stack s' = ds_stack s \<and> ((\<exists>e. r = Fails e) \<and> trace s' = trace s \<or>
    (\<exists>as final k port. trace s' = trace s @ [WorkspaceCreated]
        @ concat (map (failed_attempt (fst (resolve_image (cw_env cw))) port) as) @ final
        @ (case r of Returns _ \<Rightarrow> [] | _ \<Rightarrow> [WorkspaceRemoved])
     \<and> attempts_end cw port k r final \<and> length as + (case r of Returns _ \<Rightarrow> 1 | _ \<Rightarrow> 0) \<le> (if locked then 1 else 3)
     \<and> (\<forall>(name, p, b) \<in> set as. \<exists>j < k. p = compose_name cw j)))"
proof (cases "prepare_workspace_logged cw")
  case (Inl e)
  then show ?thesis using assms by (auto simp: prepare_environment_def fail_io_def)
next
  case (Inr ws)
  define grafana where "grafana = unwrap_or 0 (Option.bind (cw_env cw ''COMPOSE_GRAFANA_PORT'') parse_u16)"
  define n :: nat where "n = (if locked then 1 else stack_bringup_max_attempts)"
  define pre where "pre port = bind_io (lift_io id (configure_cfgsync cw ws t port)) (\<lambda>_. ensure_compose_image cw)" for port
  let ?s = "log_effect WorkspaceCreated s"
  define body where "body = bind_io (lift_io ConfigPort (cw_cfgsync_port cw)) (\<lambda>port.
        bind_io (lift_io id (configure_cfgsync cw ws t port)) (\<lambda>_.
        bind_io (ensure_compose_image cw) (\<lambda>_. bring_up_attempts cw t (fst ws) port grafana locked n prom None)))"
  obtain q s1 where q: "body ?s = (q, s1)" by fastforce
  have end': "r = q \<and> s' = (case q of Returns _ \<Rightarrow> s1 | Hangs \<Rightarrow> s1 | _ \<Rightarrow> log_effect WorkspaceRemoved s1)"
    using assms q Inr by (auto simp: prepare_environment_def body_def grafana_def n_def dropping_def drop_workspace_def
        split: outcome.splits)
  have "\<exists>as final k port. trace s1 = trace s @ [WorkspaceCreated] @ concat (map (failed_attempt (fst (resolve_image (cw_env cw))) port) as) @ final
     \<and> ds_stack s1 = ds_stack s \<and> attempts_end cw port k q final \<and> length as + (case q of Returns _ \<Rightarrow> 1 | _ \<Rightarrow> 0) \<le> n
     \<and> (\<forall>(name, p, b) \<in> set as. \<exists>j < k. p = compose_name cw j)"
    (is "\<exists>as final k port. ?P as final k port")
  proof (cases "cw_cfgsync_port cw")
    case (Inl e)
    then have "?P [] [] 0 0" using q by (auto simp: body_def bind_io_def lift_io_def fail_io_def attempts_end_def)
    then show ?thesis by blast
  next
    case (Inr port)
    obtain x s2 where x: "pre port ?s = (x, s2)" by fastforce
    have s2: "trace s2 = trace s @ [WorkspaceCreated]" "ds_stack s2 = ds_stack s" "x \<noteq> Hangs"
    proof -
      have "quiet (pre port)" unfolding pre_def by (intro keeps_intros)
      then show "trace s2 = trace s @ [WorkspaceCreated]" "ds_stack s2 = ds_stack s" "x \<noteq> Hangs"
        using x by (auto simp: keeps_def)
    qed
    have b: "body ?s = bind_io (pre port) (\<lambda>_. bring_up_attempts cw t (fst ws) port grafana locked n prom None) ?s"
      unfolding body_def pre_def Inr bind_lift_Inr by (auto simp: bind_io_def split: prod.splits outcome.splits)
    show ?thesis
    proof (cases "\<exists>u. x = Returns u")
      case True
      then have "bring_up_attempts cw t (fst ws) port grafana locked n prom None s2 = (q, s1)"
        using q b x by (auto simp: bind_io_def)
      from attempts_state [OF this] show ?thesis using s2 by (fastforce simp: n_def)
    next
      case False
      then have "(\<exists>e. q = Fails e) \<or> (\<exists>m. q = Panics m)" "s1 = s2" using q b x s2(3) by (cases x; auto simp: bind_io_def)+
      then have "?P [] [] 0 port" using s2 by (auto simp: attempts_end_def)
      then show ?thesis by blast
    qed
  qed
  then obtain as final k port where P: "?P as final k port" by blast
  then have "q \<noteq> Hangs" by (auto simp: attempts_end_def Let_def)
  then have "ds_stack s' = ds_stack s" and "trace s' = trace s @ [WorkspaceCreated]
        @ concat (map (failed_attempt (fst (resolve_image (cw_env cw))) port) as) @ final
        @ (case r of Returns _ \<Rightarrow> [] | _ \<Rightarrow> [WorkspaceRemoved])"
    using P end' by (cases q; simp)+
  then show ?thesis
    using P end' by (intro conjI disjI2 exI [of _ as] exI [of _ final] exI [of _ k] exI [of _ port])
      (simp_all add: n_def stack_bringup_max_attempts_def split: if_splits)
qed

section \<open>Phases of the deployment\<close>

lemma failed_attempts_fold:
  "fold effect_on (concat (map (failed_attempt img port) as)) ({}, ps, ws) = ({}, ps, ws)"
  by (induction as) (auto simp: failed_attempt_def)

lemma prepare_resources:
  assumes "prepare_environment cw t prom locked s = (r, s')" and "resources (trace s) = ({}, {}, 0)"
  shows "r \<noteq> Hangs \<and> (case r of
     Returns env \<Rightarrow> se_workspace env \<and> (\<exists>name. se_cfgsync env = Some \<lparr>ch_name = name, ch_stopped = False\<rparr>
         \<and> resources (trace s') = ({name}, {se_project env}, 1))
   | _ \<Rightarrow> resources (trace s') = ({}, {}, 0))"
  using prepare_state [OF assms(1)] assms(2)
  by (auto simp: attempts_end_def Let_def resources_append failed_attempts_fold split: outcome.splits)

text \<open>The stack is up and owned; or it has been taken down, or left up on request, by \<open>fail\<close>.\<close>

definition stack_up :: "stack_environment \<Rightarrow> deploy_state \<Rightarrow> bool" where
  "stack_up env s \<longleftrightarrow> ds_stack s = Some env \<and> se_workspace env \<and> (\<exists>name. se_cfgsync env = Some \<lparr>ch_name = name, ch_stopped = False\<rparr>
     \<and> resources (trace s) = ({name}, {se_project env}, 1))"

definition left_up :: "'c compose_world \<Rightarrow> string \<Rightarrow> string set" where
  "left_up cw p = (if should_preserve (cw_env cw) then {p} else {})"

definition stack_taken :: "'c compose_world \<Rightarrow> stack_environment \<Rightarrow> deploy_state \<Rightarrow> bool" where
  "stack_taken cw env s \<longleftrightarrow> (\<exists>env'. ds_stack s = Some env' \<and> \<not> se_workspace env' \<and> se_cfgsync env' = None)
     \<and> resources (trace s) = ({}, left_up cw (se_project env), 0)"

text \<open>What may be logged once the stack is up.\<close>

fun closing :: "string \<Rightarrow> compose_effect \<Rightarrow> bool" where
  "closing p (Ran (ComposeDown q) ok) = (q = p)"
| "closing p (Ran (RemoveContainer name) ok) = True"
| "closing p WorkspaceRemoved = True"
| "closing p WorkspaceKept = True"
| "closing p _ = False"

definition extends :: "string \<Rightarrow> deploy_state \<Rightarrow> deploy_state \<Rightarrow> bool" where
  "extends p s s' \<longleftrightarrow> (\<exists>ext. trace s' = trace s @ ext \<and> list_all (closing p) ext)"

lemma extends_refl [simp]: "trace s' = trace s \<Longrightarrow> extends p s s'"
  by (simp add: extends_def)

lemma extends_trans: "extends p s s' \<Longrightarrow> extends p s' s'' \<Longrightarrow> extends p s s''"
  by (auto simp: extends_def)

lemma closing_resources:
  assumes "resources (trace s) = ({name}, {p}, 1)"
  defines "h \<equiv> Some \<lparr>ch_name = name, ch_stopped = False\<rparr>"
  shows "let s' = cleanup_compose cw \<lparr>rcl_project = p, rcl_workspace = True, rcl_cfgsync = h\<rparr> s in
      resources (trace s') = ({}, left_up cw p, 0) \<and> ds_stack s' = ds_stack s \<and> extends p s s'"
    and "let s' = drop_cfgsync cw h (drop_workspace True s) in
      resources (trace s') = ({}, {p}, 0) \<and> ds_stack s' = ds_stack s \<and> extends p s s'"
proof -
  obtain q t where q: "compose_down cw p s = (q, t)" by fastforce
  note d = docker_command_state [OF q [unfolded compose_down_def], simplified]
  show "let s' = cleanup_compose cw \<lparr>rcl_project = p, rcl_workspace = True, rcl_cfgsync = h\<rparr> s in
      resources (trace s') = ({}, left_up cw p, 0) \<and> ds_stack s' = ds_stack s \<and> extends p s s'"
    using assms d q by (simp add: cleanup_compose_def Let_def persist_workspace_def drop_runner_cleanup_def drop_cfgsync_def
        drop_workspace_def shutdown_def left_up_def resources_append extends_def)
  show "let s' = drop_cfgsync cw h (drop_workspace True s) in
      resources (trace s') = ({}, {p}, 0) \<and> ds_stack s' = ds_stack s \<and> extends p s s'"
    using assms by (simp add: Let_def drop_cfgsync_def drop_workspace_def shutdown_def resources_append extends_def)
qed

text \<open>A phase starts with the stack up and keeps it so, unless it fails and takes the stack down.\<close>

definition phase :: "'c compose_world \<Rightarrow> stack_environment \<Rightarrow> 'a compose_io \<Rightarrow> bool" where
  "phase cw env m \<longleftrightarrow> (\<forall>s r s'. stack_up env s \<longrightarrow> m s = (r, s') \<longrightarrow> extends (se_project env) s s' \<and>
     (case r of Returns _ \<Rightarrow> stack_up env s' | Fails _ \<Rightarrow> stack_taken cw env s' | Panics _ \<Rightarrow> stack_up env s' | Hangs \<Rightarrow> False))"

lemma stack_fail_takes:
  assumes "stack_up env s" and "stack_fail cw s = (r, s')"
  shows "r = Returns () \<and> stack_taken cw env s' \<and> extends (se_project env) s s'"
proof -
  obtain name where up: "ds_stack s = Some env" "se_workspace env" "se_cfgsync env = Some \<lparr>ch_name = name, ch_stopped = False\<rparr>"
    "resources (trace s) = ({name}, {se_project env}, 1)" using assms(1) by (auto simp: stack_up_def)
  define s1 where "s1 = (dump_compose_logs cw (se_project env) s)\<lparr>ds_stack := Some (env\<lparr>se_workspace := False, se_cfgsync := None\<rparr>)\<rparr>"
  have "resources (trace s1) = ({name}, {se_project env}, 1)" and t: "trace s1 = trace s" using up(4) by (simp_all add: s1_def)
  note c = closing_resources(1) [OF this(1), of cw]
  have "r = Returns ()" "s' = cleanup_compose cw \<lparr>rcl_project = se_project env, rcl_workspace = True, rcl_cfgsync = se_cfgsync env\<rparr> s1"
    using assms(2) up by (simp_all add: stack_fail_def take_cleanup_def Let_def ret_io_def s1_def)
  then show ?thesis using c up t by (simp add: stack_taken_def Let_def s1_def extends_def)
qed

lemma quiet_phase:
  assumes "quiet m" shows "phase cw env (failing cw m)"
  unfolding phase_def
proof (intro allI impI)
  fix s r s' assume up: "stack_up env s" and m: "failing cw m s = (r, s')"
  obtain q t where q: "m s = (q, t)" by fastforce
  then have t: "trace t = trace s" "ds_stack t = ds_stack s" "q \<noteq> Hangs" using assms by (auto simp: keeps_def)
  then have upt: "stack_up env t" using up by (simp add: stack_up_def)
  show "extends (se_project env) s s' \<and> (case r of Returns _ \<Rightarrow> stack_up env s' | Fails _ \<Rightarrow> stack_taken cw env s'
      | Panics _ \<Rightarrow> stack_up env s' | Hangs \<Rightarrow> False)"
  proof (cases q)
    case (Fails e)
    obtain x u where x: "stack_fail cw t = (x, u)" by fastforce
    have "r = Fails e" "s' = u" using m q Fails x stack_fail_takes [OF upt x] by (auto simp: failing_def bind_io_def fail_io_def)
    then show ?thesis using stack_fail_takes [OF upt x] t(1) by (auto simp: extends_def)
  qed (use m q t upt in \<open>auto simp: failing_def\<close>)
qed

lemma phase_ret: "phase cw env (ret_io a)"
  by (auto simp: phase_def ret_io_def)

text \<open>Sequencing, for a phase followed by anything that is good from a stack that is up.\<close>

lemma phase_step:
  assumes "phase cw env m" and "stack_up env s" and "bind_io m f s = (r, s')"
  obtains (go_on) a t where "stack_up env t" "extends (se_project env) s t" "f a t = (r, s')"
  | (failed) e where "r = Fails e" "stack_taken cw env s'" "extends (se_project env) s s'"
  | (panicked) msg where "r = Panics msg" "stack_up env s'" "extends (se_project env) s s'"
proof -
  obtain q t where q: "m s = (q, t)" by fastforce
  note p = assms(1) [unfolded phase_def, rule_format, OF assms(2) q]
  show thesis using p q assms(3) go_on failed panicked by (cases q) (auto simp: bind_io_def)
qed

lemma phase_bind:
  assumes "phase cw env m" and "\<And>a. phase cw env (f a)"
  shows "phase cw env (bind_io m f)"
  unfolding phase_def
proof (intro allI impI)
  fix s r s' assume "stack_up env s" "bind_io m f s = (r, s')"
  with assms(1) show "extends (se_project env) s s' \<and> (case r of Returns _ \<Rightarrow> stack_up env s' | Fails _ \<Rightarrow> stack_taken cw env s'
      | Panics _ \<Rightarrow> stack_up env s' | Hangs \<Rightarrow> False)"
  proof (cases rule: phase_step)
    case (go_on a t)
    then show ?thesis using assms(2) [of a] extends_trans unfolding phase_def by blast
  qed simp_all
qed

lemma wait_all_phase: "phase cw env (wait_all cw t m)"
  unfolding wait_all_def by (intro phase_bind quiet_phase keeps_intros)

text \<open>How the part of the deployment that owns the stack ends, before the stack is dropped.\<close>

definition body_end :: "'c compose_world \<Rightarrow> stack_environment \<Rightarrow> (compose_runner_error, ('p, 'c) compose_runner) outcome \<Rightarrow> deploy_state \<Rightarrow> bool" where
  "body_end cw env r s' \<longleftrightarrow> (case r of
     Returns x \<Rightarrow> ds_stack s' = None \<and> (\<exists>name. cr_guard x = \<lparr>rcl_project = se_project env, rcl_workspace = True,
         rcl_cfgsync = Some \<lparr>ch_name = name, ch_stopped = False\<rparr>\<rparr> \<and> resources (trace s') = ({name}, {se_project env}, 1))
   | Fails e \<Rightarrow> stack_taken cw env s' \<or> (\<exists>msg. e = Telemetry msg) \<and> stack_up env s'
   | Panics _ \<Rightarrow> stack_up env s' \<or> ds_stack s' = None \<and> resources (trace s') = ({}, {se_project env}, 0)
   | Hangs \<Rightarrow> False)"

definition body :: "'c compose_world \<Rightarrow> stack_environment \<Rightarrow> ('p, 'c) compose_runner compose_io \<Rightarrow> bool" where
  "body cw env m \<longleftrightarrow> (\<forall>s r s'. stack_up env s \<longrightarrow> m s = (r, s') \<longrightarrow> extends (se_project env) s s' \<and> body_end cw env r s')"

lemma body_bind:
  assumes "phase cw env m" and "\<And>a. body cw env (f a)"
  shows "body cw env (bind_io m f)"
  unfolding body_def
proof (intro allI impI)
  fix s r s' assume "stack_up env s" "bind_io m f s = (r, s')"
  with assms(1) show "extends (se_project env) s s' \<and> body_end cw env r s'"
  proof (cases rule: phase_step)
    case (go_on a t)
    then show ?thesis using assms(2) [of a] extends_trans unfolding body_def by blast
  qed (simp_all add: body_end_def)
qed

lemma body_telemetry: "(\<And>a. body cw env (f a)) \<Longrightarrow> body cw env (bind_io (lift_io Telemetry x) f)"
  by (cases x) (auto simp: body_def bind_lift_Inr, auto simp: bind_io_def lift_io_def fail_io_def body_end_def)

lemma body_hand_over: "body cw env (hand_over cw t d nc clients telemetry feed env)"
  unfolding body_def
proof (intro allI impI)
  fix s r s' assume up: "stack_up env s" and h: "hand_over cw t d nc clients telemetry feed env s = (r, s')"
  obtain name where n: "se_cfgsync env = Some \<lparr>ch_name = name, ch_stopped = False\<rparr>" "se_workspace env"
    "resources (trace (s\<lparr>ds_stack := None\<rparr>)) = ({name}, {se_project env}, 1)" using up by (auto simp: stack_up_def)
  note c = closing_resources(2) [OF n(3), of cw]
  show "extends (se_project env) s s' \<and> body_end cw env r s'"
    using h n c by (auto simp: body_end_def hand_over_def into_cleanup_def Let_def ret_io_def panic_io_def drop_runner_cleanup_def extends_def
        split: sum.splits)
qed

section \<open>The deployment\<close>

definition deploy_start :: deploy_state where
  "deploy_start = \<lparr>ds_log = [], ds_uuids = 0, ds_stack = None\<rparr>"

lemma deploy_start_trace [simp]: "trace deploy_start = []" "resources [] = ({}, {}, 0)"
  by (simp_all add: deploy_start_def trace_def resources_def)

lemma drop_stack_up:
  assumes "stack_up env s"
  shows "resources (trace (drop_stack cw s)) = ({}, {se_project env}, 0) \<and> extends (se_project env) s (drop_stack cw s)"
proof -
  obtain name where n: "ds_stack s = Some env" "se_workspace env" "se_cfgsync env = Some \<lparr>ch_name = name, ch_stopped = False\<rparr>"
    "resources (trace s) = ({name}, {se_project env}, 1)" using assms by (auto simp: stack_up_def)
  show ?thesis using closing_resources(2) [OF n(4), of cw] n(1-3) by (simp add: drop_stack_def Let_def extends_def)
qed

lemma drop_stack_taken: "stack_taken cw env s \<Longrightarrow> trace (drop_stack cw s) = trace s"
  by (auto simp: stack_taken_def drop_stack_def drop_cfgsync_def drop_workspace_def)

text \<open>The deployment: what happens before the stack is up, and what may follow.\<close>

definition configured_prometheus :: "environment \<Rightarrow> nat option" where
  "configured_prometheus env = Option.bind (env ''TEST_FRAMEWORK_PROMETHEUS_PORT'') parse_u16"

definition deploy_end :: "'c compose_world \<Rightarrow> string \<Rightarrow> (compose_runner_error, ('p, 'c) compose_runner) outcome \<Rightarrow> deploy_state \<Rightarrow> bool" where
  "deploy_end cw p r s \<longleftrightarrow> (case r of
     Returns x \<Rightarrow> (\<exists>name. cr_guard x = \<lparr>rcl_project = p, rcl_workspace = True, rcl_cfgsync = Some \<lparr>ch_name = name, ch_stopped = False\<rparr>\<rparr>
         \<and> resources (trace s) = ({name}, {p}, 1))
   | Fails e \<Rightarrow> resources (trace s) = ({}, left_up cw p, 0) \<or> (\<exists>msg. e = Telemetry msg) \<and> resources (trace s) = ({}, {p}, 0)
   | Panics _ \<Rightarrow> resources (trace s) = ({}, {p}, 0)
   | Hangs \<Rightarrow> False)"

lemma dropping_body:
  assumes "body cw env m" and "stack_up env s" and "dropping (drop_stack cw) m s = (r, s')"
  shows "extends (se_project env) s s' \<and> deploy_end cw (se_project env) r s'"
proof -
  obtain q t where q: "m s = (q, t)" by fastforce
  have b: "extends (se_project env) s t" "body_end cw env q t" using assms(1,2) q by (auto simp: body_def)
  have idle: "drop_stack cw u = u" if "ds_stack u = None" for u using that by (simp add: drop_stack_def)
  show ?thesis
  proof (cases q)
    case (Returns x)
    then show ?thesis using assms(3) q b by (auto simp: dropping_def body_end_def deploy_end_def)
  next
    case (Fails e)
    then have "stack_taken cw env t \<or> (\<exists>msg. e = Telemetry msg) \<and> stack_up env t" using b(2) by (simp add: body_end_def)
    then show ?thesis using assms(3) q b(1) Fails drop_stack_up [of env t cw] drop_stack_taken [of cw env t] extends_trans
      by (auto simp: dropping_def deploy_end_def stack_taken_def extends_def)
  next
    case (Panics msg)
    then have "stack_up env t \<or> ds_stack t = None \<and> resources (trace t) = ({}, {se_project env}, 0)" using b(2) by (simp add: body_end_def)
    then show ?thesis using assms(3) q b(1) Panics drop_stack_up [of env t cw] idle [of t]
      by (auto simp: dropping_def deploy_end_def extends_def)
  qed (use b(2) in \<open>simp add: body_end_def\<close>)
qed

lemma deploy_body:
  "body cw env (bind_io (prepare_ports cw env t) (\<lambda>host_ports.
      bind_io (if checks then wait_all cw t host_ports else ret_io ()) (\<lambda>_.
      bind_io (build_node_clients cw t host_ports) (\<lambda>clients.
      bind_io (lift_io Telemetry (metrics_handle_from_port cw (se_prometheus_port env))) (\<lambda>telemetry.
      bind_io (start_block_feed cw clients) (\<lambda>feed.
        hand_over cw t d nc clients telemetry feed env))))))"
  unfolding prepare_ports_def build_node_clients_def start_block_feed_def
  by (intro body_bind body_telemetry body_hand_over quiet_phase keeps_intros)
    (simp add: wait_all_phase phase_ret)

lemma deploy_cases:
  assumes "compose_deploy cw checks nc t d deploy_start = (r, s')"
  obtains (unprepared) "trace s' = []" "(\<exists>e. r = Fails e) \<or> (\<exists>msg. r = Panics msg)"
  | (unready) s0 prom q where "trace s0 = []"
      "prepare_environment cw t prom (configured_prometheus (cw_env cw) \<noteq> None) s0 = (q, s')"
      "(\<exists>e. q = Fails e \<and> r = Fails e) \<or> (\<exists>msg. q = Panics msg \<and> r = Panics msg)"
  | (prepared) s0 prom env s1 where "trace s0 = []"
      "prepare_environment cw t prom (configured_prometheus (cw_env cw) \<noteq> None) s0 = (Returns env, s1)"
      "stack_up env (s1\<lparr>ds_stack := Some env\<rparr>)" "extends (se_project env) s1 s'" "deploy_end cw (se_project env) r s'"
proof -
  obtain v s0 where v: "validate_environment cw t deploy_start = (v, s0)" by fastforce
  have s0: "trace s0 = []" "v \<noteq> Hangs" using quiet_validate [of cw t] v by (auto simp: keeps_def)
  show thesis
  proof (cases v)
    case (Returns u)
    let ?prom = "initial_prometheus_port cw (configured_prometheus (cw_env cw)) s0"
    obtain q s1 where q: "prepare_environment cw t ?prom (configured_prometheus (cw_env cw) \<noteq> None) s0 = (q, s1)" by fastforce
    have pw: "prepare_workspace cw t s0 = (q, s1)" using q by (simp add: prepare_workspace_def configured_prometheus_def Let_def)
    note pr = prepare_resources [OF q] s0(1)
    show thesis
    proof (cases q)
      case env: (Returns env)
      let ?s = "s1\<lparr>ds_stack := Some env\<rparr>"
      have up: "stack_up env ?s" using pr env by (auto simp: stack_up_def)
      have "dropping (drop_stack cw) (bind_io (prepare_ports cw env t) (\<lambda>host_ports.
          bind_io (if checks then wait_all cw t host_ports else ret_io ()) (\<lambda>_.
          bind_io (build_node_clients cw t host_ports) (\<lambda>clients.
          bind_io (lift_io Telemetry (metrics_handle_from_port cw (se_prometheus_port env))) (\<lambda>telemetry.
          bind_io (start_block_feed cw clients) (\<lambda>feed.
            hand_over cw t d nc clients telemetry feed env)))))) ?s = (r, s')"
        using assms v Returns pw env by (simp add: compose_deploy_def bind_io_def [of "validate_environment cw t"]
            bind_io_def [of "prepare_workspace cw t"] bind_io_def [of "own_stack env"] own_stack_def ret_io_def)
      from dropping_body [OF deploy_body up this] have "extends (se_project env) ?s s'" "deploy_end cw (se_project env) r s'" by blast+
      then show thesis using prepared [OF s0(1) _ up] q env by (simp add: extends_def)
    next
      case (Fails e)
      then show thesis using unready [OF s0(1), of ?prom q] assms v Returns pw q by (auto simp: compose_deploy_def bind_io_def)
    next
      case (Panics msg)
      then show thesis using unready [OF s0(1), of ?prom q] assms v Returns pw q by (auto simp: compose_deploy_def bind_io_def)
    qed (use pr in simp)
  qed (use assms v s0 unprepared in \<open>auto simp: compose_deploy_def bind_io_def\<close>)
qed


fun is_up :: "compose_effect \<Rightarrow> bool" where
  "is_up (Ran (ComposeUp p) ok) = True"
| "is_up _ = False"

lemma is_up_tracked: "is_up ev \<Longrightarrow> tracked ev"
  by (induction ev rule: is_up.induct) simp_all

lemma filter_up_trace: "filter is_up (trace s) = filter is_up (ds_log s)"
proof -
  have "(is_up ev \<and> tracked ev) = is_up ev" for ev using is_up_tracked by blast
  then show ?thesis by (simp add: trace_def conj_commute)
qed

lemma closing_not_up: "list_all (closing p) ext \<Longrightarrow> filter is_up ext = []"
proof (induction ext)
  case (Cons ev ext)
  then show ?case by (induction p ev rule: closing.induct) simp_all
qed simp

lemma failed_attempts_ups: "length (filter is_up (concat (map (failed_attempt img port) as))) = length as"
  by (induction as) (auto simp: failed_attempt_def)

lemma failed_attempts_events:
  "Ran (ComposeUp p) False \<in> set (concat (map (failed_attempt img port) as)) \<longleftrightarrow> (\<exists>name b. (name, p, b) \<in> set as)"
  "Ran (ComposeDown p) ok \<notin> set (concat (map (failed_attempt img port) as))"
  by (auto simp: failed_attempt_def)

text \<open>The trace of a deployment.\<close>

lemma deploy_trace:
  assumes "compose_deploy cw checks nc t d deploy_start = (r, s')"
  obtains (empty) "trace s' = []"
  | (attempts) as final port k ext where
      "trace s' = [WorkspaceCreated] @ concat (map (failed_attempt (fst (resolve_image (cw_env cw))) port) as) @ final @ ext"
      "\<forall>(name, p, b) \<in> set as. \<exists>j < k. p = compose_name cw j" "list_all (closing (compose_name cw k)) ext"
      "length as + length (filter is_up final) \<le> (if configured_prometheus (cw_env cw) = None then 3 else 1)"
      "\<And>p. Ran (ComposeUp p) False \<notin> set final" "\<And>p ok. Ran (ComposeDown p) ok \<notin> set final"
  using assms
proof (cases rule: deploy_cases)
  case unprepared
  then show ?thesis using empty by simp
next
  case (unready s0 prom q)
  have q: "(\<exists>e. q = Fails e) \<or> (\<exists>msg. q = Panics msg)" using unready(3) by blast
  then have eq: "(case q of Returns _ \<Rightarrow> [] | _ \<Rightarrow> [WorkspaceRemoved]) = [WorkspaceRemoved]"
    "(case q of Returns _ \<Rightarrow> 1 | _ \<Rightarrow> 0) = (0 :: nat)" by auto
  from prepare_state [OF unready(2), unfolded eq unready(1) append_Nil add_0_right] consider "trace s' = []"
    | as final k port where "trace s' = [WorkspaceCreated] @ concat (map (failed_attempt (fst (resolve_image (cw_env cw))) port) as)
         @ final @ [WorkspaceRemoved]" "attempts_end cw port k q final"
        "length as \<le> (if configured_prometheus (cw_env cw) \<noteq> None then 1 else 3)" "\<forall>(name, p, b) \<in> set as. \<exists>j < k. p = compose_name cw j"
    by blast
  then show ?thesis
  proof cases
    case 2
    then have "final = [] \<or> (\<exists>name. final = [Ran (RunCfgsync name port (fst (resolve_image (cw_env cw)))) False])"
      using q by (auto simp: attempts_end_def Let_def)
    then show ?thesis using attempts [of port as final "[WorkspaceRemoved]" k] 2 by (auto split: if_splits)
  qed (use empty in simp)
next
  case (prepared s0 prom env s1)
  from prepare_state [OF prepared(2)] prepared(1) obtain as final k port where
    t: "trace s1 = [WorkspaceCreated] @ concat (map (failed_attempt (fst (resolve_image (cw_env cw))) port) as) @ final"
      "attempts_end cw port k (Returns env) final" "length as + 1 \<le> (if configured_prometheus (cw_env cw) \<noteq> None then 1 else 3)"
      "\<forall>(name, p, b) \<in> set as. \<exists>j < k. p = compose_name cw j" by auto
  obtain ext where ext: "trace s' = trace s1 @ ext" "list_all (closing (se_project env)) ext" using prepared(4) by (auto simp: extends_def)
  from t(2) obtain name where f: "final = [Ran (RunCfgsync name port (fst (resolve_image (cw_env cw)))) True, Ran (ComposeUp (compose_name cw k)) True]"
    "se_project env = compose_name cw k" by (auto simp: attempts_end_def Let_def)
  show ?thesis using attempts [of port as final ext k] t(1,3,4) ext f by (auto split: if_splits)
qed

text \<open>
  C31. Attempts to bring up the stack: with a Prometheus port set in the environment \<open>docker compose up\<close> runs at
  most once, otherwise at most three times, and a project whose bring-up failed is never taken down (as
  long as the identifiers drawn are different).
\<close>

theorem compose_failed_attempts_stay:
  assumes "inj (cw_uuid cw)" and "compose_deploy cw checks nc t d deploy_start = (r, s)" and "ds_log s = evs"
  shows "length (filter is_up evs) \<le> (if configured_prometheus (cw_env cw) = None then 3 else 1)
    \<and> (\<forall>p ok. Ran (ComposeUp p) False \<in> set evs \<longrightarrow> Ran (ComposeDown p) ok \<notin> set evs)"
proof -
  have ev: "Ran (ComposeUp p) False \<in> set evs \<longleftrightarrow> Ran (ComposeUp p) False \<in> set (trace s)"
    "Ran (ComposeDown p) ok \<in> set evs \<longleftrightarrow> Ran (ComposeDown p) ok \<in> set (trace s)" for p ok
    by (simp_all add: assms(3) [symmetric] trace_def)
  have up: "filter is_up evs = filter is_up (trace s)" by (simp add: assms(3) [symmetric] filter_up_trace)
  from assms(2) show ?thesis
  proof (cases rule: deploy_trace)
    case empty
    then show ?thesis by (simp add: ev up)
  next
    case (attempts as final port k ext)
    have other: "p \<noteq> compose_name cw k" if "(name, p, b) \<in> set as" for name p b
      using attempts(2) that assms(1) by (fastforce simp: compose_name_def inj_eq)
    have down: "q = compose_name cw k" if "Ran (ComposeDown q) ok \<in> set ext" for q ok
      using attempts(3) that by (auto simp: list_all_iff)
    have up_ext: "Ran (ComposeUp q) False \<notin> set ext" for q using attempts(3) by (auto simp: list_all_iff)
    have "Ran (ComposeDown p) ok \<notin> set (trace s)" if "Ran (ComposeUp p) False \<in> set (trace s)" for p ok
    proof -
      let ?img = "fst (resolve_image (cw_env cw))"
      have "Ran (ComposeUp p) False \<in> set (concat (map (failed_attempt ?img port) as))"
        using that attempts(5) up_ext unfolding attempts(1) by auto
      then obtain name b where "(name, p, b) \<in> set as" unfolding failed_attempts_events(1) by blast
      then have "Ran (ComposeDown p) ok \<notin> set ext" using other down by blast
      then show ?thesis using attempts(6) failed_attempts_events(2) [of p] unfolding attempts(1) by auto
    qed
    moreover have "length (filter is_up (trace s)) = length as + length (filter is_up final)"
      by (simp add: attempts(1) closing_not_up [OF attempts(3)] failed_attempts_ups)
    ultimately show ?thesis using attempts(4) by (simp add: ev up)
  qed
qed

text \<open>A deployment in which bringing up the stack fails; the Prometheus port is given.\<close>

definition sample_world :: "string compose_world" where
  "sample_world = \<lparr>cw_env = [''TEST_FRAMEWORK_PROMETHEUS_PORT'' \<mapsto> ''9''], cw_arch = ''x86_64'',
     cw_docker = (\<lambda>n c. case c of ComposeUp p \<Rightarrow> Failure ''1'' | _ \<Rightarrow> Success []), cw_uuid = (\<lambda>n. replicate n CHR ''u''),
     cw_bind = (\<lambda>n p. Some p), cw_place = sample_place, cw_files = sample_tree, cw_cfgsync_port = Inr 4400,
     cw_parse_cfgsync = (\<lambda>c. Inr (sample_settings 1)), cw_write_cfgsync = (\<lambda>p c. Inr ()), cw_read_file = (\<lambda>p. Inr ''services''),
     cw_context = (\<lambda>d. Inr JNull), cw_one_off = (\<lambda>c x. Inr c), cw_write_file = (\<lambda>p c. Inr ()), cw_repo_root = Inr ''repo'', cw_parse_url = Inr, cw_prometheus = (\<lambda>u. Inl ''none''),
     cw_client = (\<lambda>u v. u), cw_answers = (\<lambda>p k. True), cw_latency = (\<lambda>p k. 0), cw_infos = (\<lambda>us. (\<lambda>k. [], \<lambda>k. 0)),
     cw_members = (\<lambda>us. (\<lambda>k. [], \<lambda>k. 0)), cw_pick = (\<lambda>n. n), cw_tip = (\<lambda>n c. Inl ''none''), cw_storage = (\<lambda>n c h. Inl ''none'')\<rparr>"

lemma sample_deploy:
  assumes "gt_validators t \<noteq> []"
  shows "\<exists>r s. compose_deploy sample_world checks nc t d deploy_start = (r, s) \<and> Ran (ComposeUp ''nomos-compose-'') False \<in> set (ds_log s)"
proof -
  have p: "parse_u16 ''9'' = Some 9" by (simp add: parse_u16_def parse_usize_def digit_value_def u16_max_def usize_max_def)
  obtain st fs where ws: "prepare_workspace_state sample_place sample_tree = (Returns st, fs)"
    "lookup_path fs (ws_cfgsync_path st) = Some (File ''port: 4400'')" by (rule sample_workspace)
  have w: "prepare_workspace_logged sample_world = Inr (st, fs)" "configure_cfgsync sample_world (st, fs) t 4400 = Inr ()"
    using ws by (simp_all add: sample_world_def prepare_workspace_logged_def configure_cfgsync_def update_cfgsync_config_def load_cfgsync_template_def)
  obtain u where a: "write_compose_artifacts sample_world t st 4400 9 0 = Inr u"
    by (cases "resolve_image (cw_env sample_world)")
      (simp add: write_compose_artifacts_def descriptor_build_def with_grafana_port_def with_prometheus_port_def Let_def sample_world_def
        write_compose_file_def template_load_def template_write_def template_render_def)
  show ?thesis
    using assms a [unfolded sample_world_def] w [unfolded sample_world_def]
    by (simp add: p sample_world_def compose_deploy_def bind_io_def validate_environment_def ensure_docker_available_def run_command_def
        Let_def is_success_def ret_io_def lift_io_def ensure_supported_topology_def prepare_workspace_def prepare_environment_def dropping_def
        ensure_compose_image_def resolve_image_def ensure_image_present_def docker_image_exists_def initial_prometheus_port_def
        reserve_prometheus_port_def bring_up_attempts.simps new_uuid_def launch_cfgsync_def run_docker_command_def
        handle_compose_status_def bring_up_stack_def compose_up_def deploy_start_def log_effect_def fail_io_def shutdown_def
        dump_compose_logs_def drop_workspace_def unwrap_or_def)
qed

theorem compose_failed_attempts_stay_witness:
  "\<exists>(t :: nat generated_topology) evs. gt_validators t \<noteq> [] \<and> evs = ds_log (snd (compose_deploy sample_world True False t 5 deploy_start))
     \<and> Ran (ComposeUp ''nomos-compose-'') False \<in> set evs \<and> Ran (ComposeDown ''nomos-compose-'') True \<notin> set evs"
proof -
  obtain t where t: "build plain_topology_env plain_builder = Inr t" using plain_build ..
  have v: "gt_validators t \<noteq> []" using build_lengths [OF t] by auto
  obtain r s where s: "compose_deploy sample_world True False t 5 deploy_start = (r, s)"
    "Ran (ComposeUp ''nomos-compose-'') False \<in> set (ds_log s)" using sample_deploy [OF v] by blast
  have "inj (cw_uuid sample_world)" by (rule injI) (simp add: sample_world_def)
  from compose_failed_attempts_stay [OF this s(1) refl] s v show ?thesis
    by (intro exI [of _ t] exI [of _ "ds_log s"]) auto
qed

section \<open>Host ports\<close>

lemma split_lines_one: "CHR 0x0A \<notin> set l \<Longrightarrow> split_lines acc (l @ CHR 0x0A # rest) = (rev acc @ l) # split_lines [] rest"
  by (induction l arbitrary: acc) auto

lemma digits_plain:
  assumes "c \<in> set (show_nat n)" shows "\<not> is_space c" "c \<noteq> CHR '':''" "c \<noteq> CHR 0x0A"
proof -
  obtain d where "d < 10" "c = digit_char d" using set_show_nat assms by blast
  then show "\<not> is_space c" "c \<noteq> CHR '':''" "c \<noteq> CHR 0x0A" using digit_char_bounds [of d] by (auto simp: is_space_def)
qed

lemma show_nat_ends: "\<exists>c cs. rev (show_nat n) = c # cs \<and> \<not> is_space c"
proof (cases "rev (show_nat n)")
  case Nil
  then show ?thesis by (simp add: show_nat.simps [of n] split: if_splits)
next
  case (Cons c cs)
  then show ?thesis using digits_plain(1) [of c n] by (metis list.set_intros(1) set_rev)
qed

lemma trim_endpoint: "trim (addr @ CHR '':'' # show_nat n) = dropWhile is_space addr @ CHR '':'' # show_nat n"
proof -
  obtain c cs where "rev (show_nat n) = c # cs" "\<not> is_space c" using show_nat_ends by blast
  moreover have "\<not> is_space CHR '':''" by (simp add: is_space_def)
  then have "dropWhile is_space (addr @ CHR '':'' # show_nat n) = dropWhile is_space addr @ CHR '':'' # show_nat n"
    by (induction addr) auto
  ultimately show ?thesis by (simp add: trim_def)
qed

lemma trim_number: "trim (show_nat n) = show_nat n"
proof -
  have "dropWhile is_space (show_nat n) = show_nat n" using digits_plain(1) [of _ n] by (cases "show_nat n") auto
  moreover obtain c cs where "rev (show_nat n) = c # cs" "\<not> is_space c" using show_nat_ends by blast
  ultimately show ?thesis by (simp add: trim_def)
qed

lemma after_last_colon_number: "after_last_colon (a @ CHR '':'' # show_nat n) = show_nat n"
proof -
  have "takeWhile (\<lambda>c. c \<noteq> CHR '':'') (rev (show_nat n) @ CHR '':'' # rev a) = rev (show_nat n)"
    using digits_plain(2) [of _ n] by (subst takeWhile_append2) auto
  then show ?thesis by (simp add: after_last_colon_def)
qed

text \<open>
  Reading the output of \<open>docker compose port\<close>: when its first line is an address, a colon and a port
  number, that number is what the runner takes as the host port, whatever the address looks like (also one
  with colons of its own) and whatever follows; empty lines before it are skipped.
\<close>

theorem compose_port_output:
  assumes "CHR 0x0A \<notin> set addr" and "port \<le> u16_max"
  shows "find_port (split_lines [] (replicate k CHR 0x0A @ addr @ CHR '':'' # show_nat port @ CHR 0x0A # rest)) = Some port"
proof (induction k)
  case 0
  have "CHR 0x0A \<notin> set (addr @ CHR '':'' # show_nat port)" using assms(1) digits_plain(3) [of _ port] by auto
  from split_lines_one [OF this, of "[]" rest]
  have "split_lines [] (addr @ CHR '':'' # show_nat port @ CHR 0x0A # rest) = (addr @ CHR '':'' # show_nat port) # split_lines [] rest" by simp
  then show ?case using assms(2) by (simp add: trim_endpoint after_last_colon_number trim_number parse_u16_show)
next
  case (Suc k)
  then show ?case by (simp add: trim_def)
qed

theorem compose_port_output_witness:
  "find_port (split_lines [] (''[::]:'' @ show_nat 49153 @ [CHR 0x0A])) = Some 49153"
  using compose_port_output [of "''[::]''" 49153 0 "[]"] by (simp add: u16_max_def)

end
