(* ===== verification/K8s_Assets.thy ===== *)
theory K8s_Assets
  imports Stack_Hosts
begin

text \<open>
  The files of the Kubernetes deployment: \<open>runners/k8s/src/infrastructure/assets.rs\<close> and the parts of the
  Helm chart \<open>runners/k8s/helm/nomos-runner\<close> that fix the names, ports and environment of the node pods.
  The file system, the YAML renderer and the template engine are parameters; \<open>env\<close> is the environment of
  the test process.
\<close>

section \<open>Paths\<close>

text \<open>\<open>Path::parent\<close> of a normalised path.\<close>

definition path_parent :: "string \<Rightarrow> string option" where
  "path_parent p = (if p = [] \<or> p = ''/'' then None
     else (let r = dropWhile (\<lambda>c. c \<noteq> CHR ''/'') (rev p) in Some (if r = [] \<or> r = ''/'' then r else rev (tl r))))"

record asset_world =
  aw_env :: environment
  aw_manifest_dir :: string
  aw_exists :: "string \<Rightarrow> bool"

definition workspace_root :: "'w asset_world_scheme \<Rightarrow> string + string" where
  "workspace_root aw = (case aw_env aw ''CARGO_WORKSPACE_DIR'' of
     Some v \<Rightarrow> Inr v
   | None \<Rightarrow> (case Option.bind (Option.bind (path_parent (aw_manifest_dir aw)) path_parent) path_parent of
        Some p \<Rightarrow> Inr p | None \<Rightarrow> Inl ''resolving workspace root from manifest dir''))"

definition stack_assets_root :: "'w asset_world_scheme \<Rightarrow> string \<Rightarrow> string" where
  "stack_assets_root aw base = (let new_layout = path_join base ''testing-framework/assets/stack'' in
     if aw_exists aw new_layout then new_layout else path_join base ''testnet'')"

definition stack_scripts_root :: "'w asset_world_scheme \<Rightarrow> string \<Rightarrow> string" where
  "stack_scripts_root aw base = (let new_layout = path_join base ''testing-framework/assets/stack/scripts'' in
     if aw_exists aw new_layout then new_layout else path_join base ''testnet/scripts'')"

datatype assets_error = AssetsWorkspaceRoot string | AssetsCfgsync string | MissingScript string | MissingKzg string
  | MissingChart string | AssetsTempDir string | AssetsIo string string | AssetsValues string

record script_paths =
  sp_run_cfgsync :: string
  sp_run_shared :: string
  sp_run_node :: string
  sp_run_executor :: string

definition validate_scripts :: "'w asset_world_scheme \<Rightarrow> string \<Rightarrow> assets_error + script_paths" where
  "validate_scripts aw base =
     (let dir = stack_scripts_root aw base;
          run_cfgsync = path_join dir ''run_cfgsync.sh''; run_shared = path_join dir ''run_nomos.sh'';
          run_node = path_join dir ''run_nomos_node.sh''; run_executor = path_join dir ''run_nomos_executor.sh'' in
      case find (\<lambda>p. \<not> aw_exists aw p) [run_cfgsync, run_shared, run_node, run_executor] of
        Some p \<Rightarrow> Inl (MissingScript p)
      | None \<Rightarrow> Inr \<lparr>sp_run_cfgsync = run_cfgsync, sp_run_shared = run_shared, sp_run_node = run_node, sp_run_executor = run_executor\<rparr>)"

definition default_kzg_host_dir :: string where
  "default_kzg_host_dir = ''testing-framework/assets/stack/kzgrs_test_params''"

definition validate_kzg_params :: "'w asset_world_scheme \<Rightarrow> string \<Rightarrow> assets_error + string" where
  "validate_kzg_params aw base =
     (let path = path_join base (unwrap_or default_kzg_host_dir (aw_env aw ''NOMOS_KZG_DIR_REL'')) in
      if aw_exists aw path then Inr path else Inl (MissingKzg path))"

definition helm_chart_path :: "'w asset_world_scheme \<Rightarrow> assets_error + string" where
  "helm_chart_path aw = (let path = path_join (aw_manifest_dir aw) ''helm/nomos-runner'' in
     if aw_exists aw path then Inr path else Inl (MissingChart path))"

section \<open>The settings of the cfgsync server\<close>

definition cfgsync_k8s_timeout_secs :: nat where "cfgsync_k8s_timeout_secs = 300"

text \<open>\<open>template\<close> is what loading the template file gives, \<open>render\<close> the YAML renderer.\<close>

definition k8s_cfgsync_settings :: "environment \<Rightarrow> 'p generated_topology \<Rightarrow> cfgsync_config \<Rightarrow> cfgsync_config" where
  "k8s_cfgsync_settings env t cfg =
     (let cfg' = apply_topology_overrides env True t cfg in cfg'\<lparr>cs_timeout := max (cs_timeout cfg') cfgsync_k8s_timeout_secs\<rparr>)"

definition render_cfgsync_config :: "'w asset_world_scheme \<Rightarrow> (string \<Rightarrow> string + cfgsync_config) \<Rightarrow> (cfgsync_config \<Rightarrow> string + string)
    \<Rightarrow> string \<Rightarrow> 'p generated_topology \<Rightarrow> assets_error + string" where
  "render_cfgsync_config aw load render base t =
     (case load (path_join (stack_assets_root aw base) ''cfgsync.yaml'') of
        Inl e \<Rightarrow> Inl (AssetsCfgsync e)
      | Inr cfg \<Rightarrow> (case render (k8s_cfgsync_settings (aw_env aw) t cfg) of Inl e \<Rightarrow> Inl (AssetsCfgsync e) | Inr yaml \<Rightarrow> Inr yaml))"

section \<open>Helm values\<close>

record node_values =
  nv_api_port :: nat
  nv_testing_http_port :: nat
  nv_env :: environment

record node_group =
  ng_count :: nat
  ng_nodes :: "node_values list"

record grafana_values =
  gv_enabled :: bool
  gv_image :: string
  gv_image_pull_policy :: string
  gv_admin_user :: string
  gv_admin_password :: string
  gv_service_type :: string
  gv_node_port :: "nat option"

record helm_values =
  hv_cfgsync_port :: nat
  hv_validators :: node_group
  hv_executors :: node_group
  hv_grafana :: grafana_values

definition default_grafana_node_port :: nat where "default_grafana_node_port = 30030"

definition pol_proof_mode :: "environment \<Rightarrow> string" where
  "pol_proof_mode env = unwrap_or ''true'' (env ''POL_PROOF_DEV_MODE'')"

text \<open>The closures for validators and executors differ in the kind only.\<close>

definition build_node_values :: "string \<Rightarrow> node_role \<Rightarrow> nat \<times> 'p generated_node \<Rightarrow> node_values" where
  "build_node_values pol_mode kind = (\<lambda>(index, n).
     (let api = ac_address_port (gc_api (gn_general n)); testing = ac_testing_http_port (gc_api (gn_general n)) in
      \<lparr>nv_api_port = api, nv_testing_http_port = testing,
       nv_env = [''POL_PROOF_DEV_MODE'' \<mapsto> pol_mode,
         ''CFG_NETWORK_PORT'' \<mapsto> show_nat (network_port n),
         ''CFG_DA_PORT'' \<mapsto> show_nat (gn_da_port n), ''CFG_BLEND_PORT'' \<mapsto> show_nat (gn_blend_port n),
         ''CFG_API_PORT'' \<mapsto> show_nat api, ''CFG_TESTING_HTTP_PORT'' \<mapsto> show_nat testing,
         ''CFG_HOST_KIND'' \<mapsto> role_name kind, ''CFG_HOST_IDENTIFIER'' \<mapsto> instance_name kind index]\<rparr>))"

definition build_values :: "environment \<Rightarrow> 'p generated_topology \<Rightarrow> helm_values" where
  "build_values env t =
     (let pol_mode = pol_proof_mode env in
      \<lparr>hv_cfgsync_port = cfgsync_port env,
       hv_validators = \<lparr>ng_count = length (gt_validators t), ng_nodes = map (build_node_values pol_mode Validator) (enumerate 0 (gt_validators t))\<rparr>,
       hv_executors = \<lparr>ng_count = length (gt_executors t), ng_nodes = map (build_node_values pol_mode Executor) (enumerate 0 (gt_executors t))\<rparr>,
       hv_grafana = \<lparr>gv_enabled = True, gv_image = ''grafana/grafana:10.4.1'', gv_image_pull_policy = ''IfNotPresent'',
         gv_admin_user = ''admin'', gv_admin_password = ''admin'', gv_service_type = ''NodePort'',
         gv_node_port = Some default_grafana_node_port\<rparr>\<rparr>)"

definition render_values_yaml :: "environment \<Rightarrow> (helm_values \<Rightarrow> string + string) \<Rightarrow> 'p generated_topology \<Rightarrow> assets_error + string" where
  "render_values_yaml env to_yaml t = (case to_yaml (build_values env t) of Inl e \<Rightarrow> Inl (AssetsValues e) | Inr yaml \<Rightarrow> Inr yaml)"

section \<open>The chart\<close>

text \<open>
  A Deployment and a Service per node of the values: \<open>validator-deployments.yaml\<close>,
  \<open>executor-deployments.yaml\<close>, \<open>validator-services.yaml\<close> and \<open>executor-services.yaml\<close>.
\<close>

definition trim_suffix_dash :: "string \<Rightarrow> string" where
  "trim_suffix_dash s = (if s \<noteq> [] \<and> last s = CHR ''-'' then butlast s else s)"

definition chart_fullname :: "string \<Rightarrow> string" where
  "chart_fullname release = trim_suffix_dash (take 63 release)"

definition chart_default :: "nat \<Rightarrow> nat \<Rightarrow> nat" where
  "chart_default d v = (if v = 0 then d else v)"

record pod =
  pd_name :: string
  pd_command :: string
  pd_environment :: environment
  pd_service_ports :: "nat list"

definition chart_pod :: "string \<Rightarrow> nat \<Rightarrow> node_role \<Rightarrow> nat \<times> node_values \<Rightarrow> pod" where
  "chart_pod release port kind = (\<lambda>(i, node).
     \<lparr>pd_name = chart_fullname release @ ''-'' @ instance_name kind i,
      pd_command = (case kind of Validator \<Rightarrow> ''/etc/nomos/scripts/run_nomos_node.sh'' | Executor \<Rightarrow> ''/etc/nomos/scripts/run_nomos_executor.sh''),
      pd_environment = [''CFG_SERVER_ADDR'' \<mapsto> ''http://'' @ chart_fullname release @ ''-cfgsync:'' @ show_nat port] ++ nv_env node,
      pd_service_ports = [chart_default 18080 (nv_api_port node), chart_default 18081 (nv_testing_http_port node)]\<rparr>)"

definition chart_pods :: "string \<Rightarrow> helm_values \<Rightarrow> pod list" where
  "chart_pods release v =
     map (chart_pod release (hv_cfgsync_port v) Validator) (enumerate 0 (ng_nodes (hv_validators v)))
     @ map (chart_pod release (hv_cfgsync_port v) Executor) (enumerate 0 (ng_nodes (hv_executors v)))"

definition pod_host :: "(string \<Rightarrow> string option) \<Rightarrow> string \<Rightarrow> pod \<Rightarrow> host" where
  "pod_host parse_addr ip p = script_host parse_addr ip (role_of_entrypoint (pd_command p)) (pd_environment p)"

definition release_hosts :: "(string \<Rightarrow> string option) \<Rightarrow> (nat \<Rightarrow> string) \<Rightarrow> pod list \<Rightarrow> host list" where
  "release_hosts parse_addr ip pods = map (\<lambda>(i, p). pod_host parse_addr (ip i) p) (enumerate 0 pods)"

section \<open>Pods and nodes\<close>

text \<open>The Kubernetes settings are those of the topology on a template with a longer timeout.\<close>

lemma k8s_cfgsync_settings_overrides:
  "k8s_cfgsync_settings env t cfg = apply_topology_overrides env True t (cfg\<lparr>cs_timeout := max (cs_timeout cfg) cfgsync_k8s_timeout_secs\<rparr>)"
  by (simp add: k8s_cfgsync_settings_def apply_topology_overrides_def Let_def)

lemma chart_pods_length: "length (chart_pods release (build_values env t)) = length (nodes t)"
  by (simp add: chart_pods_def build_values_def Let_def nodes_def)

lemma chart_pod_at:
  assumes "i < length (nodes t)"
  shows "chart_pods release (build_values env t) ! i =
    (let v = length (gt_validators t); kind = (if i < v then Validator else Executor); index = (if i < v then i else i - v) in
     chart_pod release (cfgsync_port env) kind (index, build_node_values (pol_proof_mode env) kind (index, nodes t ! i)))"
  using assms by (auto simp: chart_pods_def build_values_def nodes_def Let_def nth_append nth_enumerate_eq)

lemma pod_host_node:
  assumes "node_ports_ok n"
  shows "pod_host parse_addr ip (chart_pod release port kind (i, build_node_values pol kind (i, n))) = host_of_node parse_addr ip kind i n"
proof -
  have "role_of_entrypoint (pd_command (chart_pod release port kind (i, v))) = role_name kind" for v
    by (cases kind) (simp_all add: role_of_entrypoint_def chart_pod_def role_name_def)
  then show ?thesis unfolding pod_host_def using assms
    by (simp add: chart_pod_def build_node_values_def Let_def script_host_of_node network_port_def)
qed

interpretation release: rendered_stack "\<lambda>t pods. \<exists>env name. pods = chart_pods name (build_values env t)" "\<lambda>pods i. pod_host parse_addr (ip i) (pods ! i)"
  for parse_addr ip
  by unfold_locales (auto simp: chart_pod_at pod_host_node Let_def host_of_node_def host_kind_of_def)

lemma release_hosts_announced:
  "release_hosts parse_addr ip (chart_pods name (build_values env t)) = release.announced parse_addr ip t (chart_pods name (build_values env t))"
  by (auto simp: release_hosts_def release.announced_def nth_enumerate_eq chart_pods_length intro: nth_equalityI)

text \<open>
  The port the chart gives the cfgsync service comes from the environment, the port the server listens on from
  the template: they agree only if the two do.
\<close>

lemma k8s_cfgsync_ports:
  "hv_cfgsync_port (build_values env t) = cs_port (k8s_cfgsync_settings env t cfg) \<longleftrightarrow> cfgsync_port env = cs_port cfg"
  by (simp add: build_values_def k8s_cfgsync_settings_def apply_topology_overrides_def Let_def)



end
