(* ===== verification/K8s_Runner.thy ===== *)
theory K8s_Runner
  imports K8s_Assets Deploy_Monad Runner Runtime_Clients Block_Feed
begin

text \<open>
  The Kubernetes deployer: \<open>runners/k8s/src\<close>, files \<open>host.rs\<close>, \<open>infrastructure/assets.rs\<close>
  (\<open>prepare_assets\<close>), \<open>infrastructure/cluster.rs\<close>, \<open>infrastructure/helm.rs\<close>, \<open>lifecycle/*\<close>,
  \<open>lifecycle/wait/*\<close> and \<open>deployer/orchestrator.rs\<close>.

  What the cluster, Helm, the operating system and the nodes answer is a parameter in the record
  \<open>kube_world\<close>; the first argument of such a function is the number of questions asked before, so that
  answers may change over time. What the deployer does to the outside is a log of effects. A \<open>kubectl\<close>
  child is a number; a handle that is dropped is not killed, as in Rust. Every single
  request and command is taken to return. Log output is left out.
\<close>

section \<open>Errors and effects\<close>

record node_port_allocation =
  np_api :: nat
  np_testing :: nat

datatype cluster_wait_error = DeploymentTimeout string string duration | DeploymentFetch string string
  | ServiceFetch string string | NodePortUnavailable string nat | WaitMissingValidator
  | NodeHttpTimeout node_role nat duration | PrometheusTimeout nat | PortForward string nat string

datatype helm_error = HelmSpawn string string | HelmFailed string string

datatype remote_readiness_error = KReadinessEndpoint node_role nat string | KReadinessRemote string

datatype k8s_error = UnsupportedTopology nat nat | ClientInit string | Assets assets_error | Helm helm_error
  | Cluster cluster_wait_error | KReadiness remote_readiness_error | KNodeClients node_role string nat string
  | KTelemetry string | KBlockFeedMissing | KBlockFeed string

datatype delete_route = ViaApi | ViaCli

datatype kube_effect = TempDirCreated | TempDirRemoved
  | HelmInstall string string "string list" bool | HelmUninstall string string bool
  | NamespaceDelete string delete_route bool | TerminationAwaited string bool
  | ForwardSpawned nat | ForwardExited nat | ForwardKilled nat | KFeedAborted | PodLogsDumped string

text \<open>How a Helm command, a \<open>kubectl\<close> child and an attempt to clean up may go.\<close>

datatype helm_status = HelmOk | HelmExit string | HelmNotSpawned string

datatype forward_poll = Exited string | Connects | Pending

datatype cleanup_attempt = NoRuntime | Interrupted nat | Completed

record deployment_info =
  di_replicas :: "int option"
  di_ready_replicas :: "int option"

type_synonym service_ports = "(int \<times> int option) list option"

record ('p, 'c) kube_world = asset_world +
  kw_is_dir :: "string \<Rightarrow> bool"
  kw_load_template :: "string \<Rightarrow> string + cfgsync_config"
  kw_render_cfgsync :: "cfgsync_config \<Rightarrow> string + string"
  kw_to_yaml :: "helm_values \<Rightarrow> string + string"
  kw_tempdir :: "string + string"
  kw_write :: "string \<Rightarrow> string \<Rightarrow> string + unit"
  kw_client :: "string + unit"
  kw_uuid :: string
  kw_helm_install :: "string list \<Rightarrow> helm_status"
  kw_helm_uninstall :: "nat \<Rightarrow> helm_status"
  kw_delete_api :: "nat \<Rightarrow> bool"
  kw_delete_cli :: "nat \<Rightarrow> bool"
  kw_namespace_gone :: "nat \<Rightarrow> nat \<Rightarrow> bool"
  kw_in_runtime :: bool
  kw_blocking :: "nat \<Rightarrow> cleanup_attempt"
  kw_background :: "nat \<Rightarrow> cleanup_attempt"
  kw_deployment :: "nat \<Rightarrow> string \<Rightarrow> string + deployment_info"
  kw_service :: "nat \<Rightarrow> string \<Rightarrow> string + service_ports"
  kw_answers :: "nat \<Rightarrow> string \<Rightarrow> nat \<Rightarrow> nat \<Rightarrow> bool"
  kw_latency :: "nat \<Rightarrow> string \<Rightarrow> nat \<Rightarrow> nat \<Rightarrow> duration"
  kw_prometheus_ready :: "nat \<Rightarrow> string \<Rightarrow> nat \<Rightarrow> bool"
  kw_local_port :: "nat \<Rightarrow> string + nat"
  kw_spawn :: "nat \<Rightarrow> string \<Rightarrow> nat \<Rightarrow> string + unit"
  kw_forward :: "nat \<Rightarrow> nat \<Rightarrow> forward_poll"
  kw_parse_url :: "string \<Rightarrow> string + string"
  kw_prometheus :: "string \<Rightarrow> string + prometheus"
  kw_api_client :: "string \<Rightarrow> string \<Rightarrow> 'c"
  kw_infos :: "string list \<Rightarrow> (string + nat) list samples"
  kw_members :: "string list \<Rightarrow> (string + nat) list samples"
  kw_pick :: nat
  kw_tip :: "'c \<Rightarrow> string + header_id \<times> nat"
  kw_storage :: "'c \<Rightarrow> storage"

record kube_state =
  ks_log :: "kube_effect list"
  ks_clock :: nat
  ks_children :: nat

type_synonym 'a kube_io = "(kube_state, k8s_error, 'a) io"

definition kube_start :: kube_state where "kube_start = \<lparr>ks_log = [], ks_clock = 0, ks_children = 0\<rparr>"

definition emit :: "kube_effect \<Rightarrow> kube_state \<Rightarrow> kube_state" where
  "emit ev s = s\<lparr>ks_log := ks_log s @ [ev]\<rparr>"

text \<open>A question to the world, and an effect of a computation.\<close>

definition ask :: "(nat \<Rightarrow> 'a) \<Rightarrow> (kube_state, 'e, 'a) io" where
  "ask f s = (Returns (f (ks_clock s)), s\<lparr>ks_clock := Suc (ks_clock s)\<rparr>)"

definition perform :: "kube_effect \<Rightarrow> (kube_state, 'e, unit) io" where
  "perform ev s = (Returns (), emit ev s)"

section \<open>Hosts and ports\<close>

definition node_host :: "environment \<Rightarrow> string" where
  "node_host env = (case env ''K8S_RUNNER_NODE_HOST'' of Some host \<Rightarrow> host
   | None \<Rightarrow> (case env ''KUBERNETES_SERVICE_HOST'' of Some host \<Rightarrow> if host = [] then ''127.0.0.1'' else host | None \<Rightarrow> ''127.0.0.1''))"

record node_config_ports =
  ncp_api :: nat
  ncp_testing :: nat

record port_specs =
  ps_validators :: "node_config_ports list"
  ps_executors :: "node_config_ports list"

definition collect_port_specs :: "'p generated_topology \<Rightarrow> port_specs" where
  "collect_port_specs t =
     (let ports = (\<lambda>n. \<lparr>ncp_api = ac_address_port (gc_api (gn_general n)), ncp_testing = ac_testing_http_port (gc_api (gn_general n))\<rparr>)
      in \<lparr>ps_validators = map ports (gt_validators t), ps_executors = map ports (gt_executors t)\<rparr>)"

record cluster_ports =
  cp_validators :: "node_port_allocation list"
  cp_executors :: "node_port_allocation list"
  cp_prometheus :: nat

record cluster_ready =
  cl_ports :: cluster_ports
  cl_port_forwards :: "nat list"

section \<open>Waiting for the cluster\<close>

definition deployment_timeout :: duration where "deployment_timeout = from_secs 180"
definition http_poll_interval :: duration where "http_poll_interval = from_secs 1"
definition node_http_timeout :: duration where "node_http_timeout = from_secs 240"
definition node_http_probe_timeout :: duration where "node_http_probe_timeout = from_secs 30"
definition prometheus_http_port :: nat where "prometheus_http_port = 9090"
definition prometheus_http_timeout_secs :: nat where "prometheus_http_timeout_secs = 240"
definition prometheus_probe_timeout_secs :: nat where "prometheus_probe_timeout_secs = 30"

definition deployment_is_ready :: "deployment_info \<Rightarrow> bool" where
  "deployment_is_ready d \<longleftrightarrow> unwrap_or 1 (di_replicas d) \<le> unwrap_or 0 (di_ready_replicas d)"

type_synonym 'a kube_wait = "(kube_state, cluster_wait_error, 'a) io"

function deployment_loop :: "('p, 'c) kube_world \<Rightarrow> string \<Rightarrow> string \<Rightarrow> duration \<Rightarrow> unit kube_wait" where
  "deployment_loop kw namespace name elapsed =
     (if elapsed \<le> deployment_timeout then
        bind_io (ask (\<lambda>k. kw_deployment kw k name)) (\<lambda>answer. case answer of
          Inr d \<Rightarrow> if deployment_is_ready d then ret_io () else deployment_loop kw namespace name (elapsed + from_secs 2)
        | Inl e \<Rightarrow> fail_io (DeploymentFetch name e))
      else fail_io (DeploymentTimeout name namespace deployment_timeout))"
  by pat_completeness auto
termination
  by (relation "measure (\<lambda>(kw, namespace, name, elapsed). Suc deployment_timeout - elapsed)") (auto simp: from_secs_def nanos_per_sec_def)

declare deployment_loop.simps [simp del]

definition wait_for_deployment_ready :: "('p, 'c) kube_world \<Rightarrow> string \<Rightarrow> string \<Rightarrow> unit kube_wait" where
  "wait_for_deployment_ready kw namespace name = deployment_loop kw namespace name 0"

text \<open>The node port is narrowed to 16 bits.\<close>

fun service_node_port :: "nat \<Rightarrow> (int \<times> int option) list \<Rightarrow> nat option" where
  "service_node_port port [] = None"
| "service_node_port port ((p, node_port) # ps) =
     (case (p = int port, node_port) of (True, Some np) \<Rightarrow> Some (nat (np mod 65536)) | _ \<Rightarrow> service_node_port port ps)"

fun node_port_loop :: "('p, 'c) kube_world \<Rightarrow> string \<Rightarrow> nat \<Rightarrow> nat \<Rightarrow> nat kube_wait" where
  "node_port_loop kw service port 0 = fail_io (NodePortUnavailable service port)"
| "node_port_loop kw service port (Suc n) =
     bind_io (ask (\<lambda>k. kw_service kw k service)) (\<lambda>answer. case answer of
       Inl e \<Rightarrow> fail_io (ServiceFetch service e)
     | Inr ports \<Rightarrow> (case Option.bind ports (service_node_port port) of
          Some np \<Rightarrow> ret_io np | None \<Rightarrow> node_port_loop kw service port n))"

definition find_node_port :: "('p, 'c) kube_world \<Rightarrow> string \<Rightarrow> nat \<Rightarrow> nat kube_wait" where
  "find_node_port kw service port = node_port_loop kw service port 120"

definition discover_node_ports :: "('p, 'c) kube_world \<Rightarrow> string \<Rightarrow> node_config_ports \<Rightarrow> node_port_allocation kube_wait" where
  "discover_node_ports kw service ports =
     bind_io (find_node_port kw service (ncp_api ports)) (\<lambda>api.
     bind_io (find_node_port kw service (ncp_testing ports)) (\<lambda>testing.
       ret_io \<lparr>np_api = api, np_testing = testing\<rparr>))"

definition wait_for_node_http_on_host :: "('p, 'c) kube_world \<Rightarrow> nat list \<Rightarrow> node_role \<Rightarrow> string \<Rightarrow> duration \<Rightarrow> unit kube_wait" where
  "wait_for_node_http_on_host kw ports role host timeout =
     bind_io (ask (\<lambda>k. wait_for_http_ports_with_host (kw_answers kw k host) (kw_latency kw k host) role timeout http_poll_interval ports))
       (\<lambda>r. wait_io (\<lambda>e. NodeHttpTimeout (hre_role e) (hre_port e) (hre_timeout e)) (map_option Inr r))"

definition wait_for_node_http_nodeport :: "('p, 'c) kube_world \<Rightarrow> nat list \<Rightarrow> node_role \<Rightarrow> unit kube_wait" where
  "wait_for_node_http_nodeport kw ports role = wait_for_node_http_on_host kw ports role (node_host (aw_env kw)) node_http_probe_timeout"

definition wait_for_node_http_port_forward :: "('p, 'c) kube_world \<Rightarrow> nat list \<Rightarrow> node_role \<Rightarrow> unit kube_wait" where
  "wait_for_node_http_port_forward kw ports role = wait_for_node_http_on_host kw ports role ''127.0.0.1'' node_http_timeout"

fun wait_for_prometheus_http :: "('p, 'c) kube_world \<Rightarrow> string \<Rightarrow> nat \<Rightarrow> nat \<Rightarrow> unit kube_wait" where
  "wait_for_prometheus_http kw host port 0 = fail_io (PrometheusTimeout port)"
| "wait_for_prometheus_http kw host port (Suc n) =
     bind_io (ask (\<lambda>k. kw_prometheus_ready kw k host port)) (\<lambda>ok. if ok then ret_io () else wait_for_prometheus_http kw host port n)"

section \<open>Port forwards\<close>

text \<open>A child is killed, or found dead, and then reaped; either way it is gone.\<close>

fun kill_port_forwards :: "nat list \<Rightarrow> (kube_state, 'e, unit) io" where
  "kill_port_forwards [] = ret_io ()"
| "kill_port_forwards (c # cs) = bind_io (perform (ForwardKilled c)) (\<lambda>_. kill_port_forwards cs)"

definition spawn_child :: "(kube_state, 'e, nat) io" where
  "spawn_child s = (let c = ks_children s in (Returns c, emit (ForwardSpawned c) (s\<lparr>ks_children := Suc c\<rparr>)))"

fun forward_loop :: "('p, 'c) kube_world \<Rightarrow> string \<Rightarrow> nat \<Rightarrow> nat \<Rightarrow> nat \<Rightarrow> nat \<Rightarrow> (nat \<times> nat) kube_wait" where
  "forward_loop kw service remote_port local_port child 0 =
     bind_io (perform (ForwardKilled child)) (\<lambda>_. fail_io (PortForward service remote_port ''port-forward did not become ready''))"
| "forward_loop kw service remote_port local_port child (Suc n) =
     bind_io (ask (\<lambda>k. kw_forward kw k local_port)) (\<lambda>poll. case poll of
       Exited status \<Rightarrow> bind_io (perform (ForwardExited child)) (\<lambda>_. fail_io (PortForward service remote_port (''kubectl exited with '' @ status)))
     | Connects \<Rightarrow> ret_io (local_port, child)
     | Pending \<Rightarrow> forward_loop kw service remote_port local_port child n)"

definition port_forward_service :: "('p, 'c) kube_world \<Rightarrow> string \<Rightarrow> nat \<Rightarrow> (nat \<times> nat) kube_wait" where
  "port_forward_service kw service remote_port =
     bind_io (ask (kw_local_port kw)) (\<lambda>r. bind_io (lift_io (PortForward service remote_port) r) (\<lambda>local_port.
     bind_io (ask (\<lambda>k. kw_spawn kw k service remote_port)) (\<lambda>r. bind_io (lift_io (PortForward service remote_port) r) (\<lambda>_.
     bind_io spawn_child (\<lambda>child. forward_loop kw service remote_port local_port child 20)))))"

text \<open>An error that kills some children before it is returned.\<close>

definition or_kill :: "nat list \<Rightarrow> 'a kube_wait \<Rightarrow> 'a kube_wait" where
  "or_kill cs m = on_fail (kill_port_forwards cs) m"

text \<open>
  \<open>port_forward_group\<close> from index \<open>i\<close> on, with the allocations and children so far. The child of the API
  port is only added once the testing port is forwarded too.
\<close>

fun forward_group_from :: "('p, 'c) kube_world \<Rightarrow> string \<Rightarrow> string \<Rightarrow> nat \<Rightarrow> node_config_ports list \<Rightarrow> node_port_allocation list \<Rightarrow> nat list
    \<Rightarrow> (node_port_allocation list \<times> nat list) kube_wait" where
  "forward_group_from kw release kind i [] allocations forwards = ret_io (allocations, forwards)"
| "forward_group_from kw release kind i (ports # rest) allocations forwards =
     (let service = release @ ''-'' @ kind @ ''-'' @ show_nat i in
      bind_io (or_kill forwards (port_forward_service kw service (ncp_api ports))) (\<lambda>(api_port, api_forward).
      bind_io (or_kill forwards (port_forward_service kw service (ncp_testing ports))) (\<lambda>(testing_port, testing_forward).
        forward_group_from kw release kind (Suc i) rest
          (allocations @ [\<lparr>np_api = api_port, np_testing = testing_port\<rparr>]) (forwards @ [api_forward, testing_forward]))))"

definition port_forward_group :: "('p, 'c) kube_world \<Rightarrow> string \<Rightarrow> string \<Rightarrow> node_config_ports list
    \<Rightarrow> (node_port_allocation list \<times> nat list) kube_wait" where
  "port_forward_group kw release kind ports = forward_group_from kw release kind 0 ports [] []"

section \<open>Cluster readiness\<close>

text \<open>The loops over validators and executors: wait for the deployment, then find its node ports.\<close>

fun allocate_from :: "('p, 'c) kube_world \<Rightarrow> string \<Rightarrow> string \<Rightarrow> string \<Rightarrow> nat \<Rightarrow> node_config_ports list \<Rightarrow> node_port_allocation list kube_wait" where
  "allocate_from kw namespace release kind i [] = ret_io []"
| "allocate_from kw namespace release kind i (ports # rest) =
     (let name = release @ ''-'' @ kind @ ''-'' @ show_nat i in
      bind_io (wait_for_deployment_ready kw namespace name) (\<lambda>_.
      bind_io (discover_node_ports kw name ports) (\<lambda>allocation.
      bind_io (allocate_from kw namespace release kind (Suc i) rest) (\<lambda>allocations.
        ret_io (allocation # allocations)))))"

text \<open>
  The validators: node ports that answer are used as they are, otherwise all validators are forwarded.
  The executors: the same, and an error kills what was forwarded for the validators.
\<close>

definition reach_validators :: "('p, 'c) kube_world \<Rightarrow> string \<Rightarrow> string \<Rightarrow> node_config_ports list
    \<Rightarrow> (node_port_allocation list \<times> nat list) kube_wait" where
  "reach_validators kw namespace release ports =
     bind_io (allocate_from kw namespace release ''validator'' 0 ports) (\<lambda>allocations.
     bind_io (succeeds (wait_for_node_http_nodeport kw (map np_api allocations) Validator)) (\<lambda>ok.
       if ok then ret_io (allocations, [])
       else bind_io (port_forward_group kw release ''validator'' ports) (\<lambda>(forwarded, children).
         bind_io (or_kill children (wait_for_node_http_port_forward kw (map np_api forwarded) Validator)) (\<lambda>_.
           ret_io (forwarded, children)))))"

definition reach_executors :: "('p, 'c) kube_world \<Rightarrow> string \<Rightarrow> string \<Rightarrow> node_config_ports list \<Rightarrow> nat list
    \<Rightarrow> (node_port_allocation list \<times> nat list) kube_wait" where
  "reach_executors kw namespace release ports forwards =
     bind_io (allocate_from kw namespace release ''executor'' 0 ports) (\<lambda>allocations.
     bind_io (if allocations = [] then ret_io True else succeeds (wait_for_node_http_nodeport kw (map np_api allocations) Executor)) (\<lambda>ok.
       if ok then ret_io (allocations, forwards)
       else bind_io (or_kill forwards (port_forward_group kw release ''executor'' ports)) (\<lambda>(forwarded, children).
         bind_io (or_kill (forwards @ children) (wait_for_node_http_port_forward kw (map np_api forwarded) Executor)) (\<lambda>_.
           ret_io (forwarded, forwards @ children)))))"

definition reach_prometheus :: "('p, 'c) kube_world \<Rightarrow> nat list \<Rightarrow> (nat \<times> nat list) kube_wait" where
  "reach_prometheus kw forwards =
     bind_io (find_node_port kw ''prometheus'' prometheus_http_port) (\<lambda>node_port.
     bind_io (succeeds (wait_for_prometheus_http kw (node_host (aw_env kw)) node_port prometheus_probe_timeout_secs)) (\<lambda>ok.
       if ok then ret_io (node_port, forwards)
       else bind_io (or_kill forwards (port_forward_service kw ''prometheus'' prometheus_http_port)) (\<lambda>(local_port, forward).
         bind_io (or_kill (forwards @ [forward]) (wait_for_prometheus_http kw ''127.0.0.1'' local_port prometheus_http_timeout_secs)) (\<lambda>_.
           ret_io (local_port, forwards @ [forward])))))"

definition wait_for_cluster_ready :: "('p, 'c) kube_world \<Rightarrow> string \<Rightarrow> string \<Rightarrow> node_config_ports list \<Rightarrow> node_config_ports list \<Rightarrow> cluster_ready kube_wait" where
  "wait_for_cluster_ready kw namespace release validator_ports executor_ports =
     (if validator_ports = [] then fail_io WaitMissingValidator
      else bind_io (reach_validators kw namespace release validator_ports) (\<lambda>(validators, forwards).
        bind_io (reach_executors kw namespace release executor_ports forwards) (\<lambda>(executors, forwards').
        bind_io (reach_prometheus kw forwards') (\<lambda>(prometheus, forwards'').
          ret_io \<lparr>cl_ports = \<lparr>cp_validators = validators, cp_executors = executors, cp_prometheus = prometheus\<rparr>,
            cl_port_forwards = forwards''\<rparr>))))"

section \<open>Assets and Helm\<close>

record runner_assets =
  ra_image :: string
  ra_kzg_path :: string
  ra_chart_path :: string
  ra_cfgsync_file :: string
  ra_scripts :: script_paths
  ra_values_file :: string

definition write_temp_file :: "('p, 'c) kube_world \<Rightarrow> string \<Rightarrow> string \<Rightarrow> string \<Rightarrow> assets_error + string" where
  "write_temp_file kw dir name contents = (let path = path_join dir name in
     case kw_write kw path contents of Inl e \<Rightarrow> Inl (AssetsIo path e) | Inr _ \<Rightarrow> Inr path)"

text \<open>The temporary directory is removed when a later step fails; the assets own it afterwards.\<close>

definition prepare_assets :: "('p, 'c) kube_world \<Rightarrow> 'p generated_topology \<Rightarrow> runner_assets kube_io" where
  "prepare_assets kw t =
     bind_io (lift_io (\<lambda>e. Assets (AssetsWorkspaceRoot e)) (workspace_root kw)) (\<lambda>base.
     bind_io (lift_io Assets (render_cfgsync_config kw (kw_load_template kw) (kw_render_cfgsync kw) base t)) (\<lambda>cfgsync_yaml.
     bind_io (lift_io (\<lambda>e. Assets (AssetsTempDir e)) (kw_tempdir kw)) (\<lambda>dir.
     bind_io (perform TempDirCreated) (\<lambda>_. dropping (emit TempDirRemoved)
       (bind_io (lift_io Assets (write_temp_file kw dir ''cfgsync.yaml'' cfgsync_yaml)) (\<lambda>cfgsync_file.
        bind_io (lift_io Assets (validate_scripts kw base)) (\<lambda>scripts.
        bind_io (lift_io Assets (validate_kzg_params kw base)) (\<lambda>kzg_path.
        bind_io (lift_io Assets (helm_chart_path kw)) (\<lambda>chart_path.
        bind_io (lift_io Assets (render_values_yaml (aw_env kw) (kw_to_yaml kw) t)) (\<lambda>values_yaml.
        bind_io (lift_io Assets (write_temp_file kw dir ''values.yaml'' values_yaml)) (\<lambda>values_file.
          ret_io \<lparr>ra_image = unwrap_or ''logos-blockchain-testing:local'' (aw_env kw ''NOMOS_TESTNET_IMAGE''), ra_kzg_path = kzg_path,
            ra_chart_path = chart_path, ra_cfgsync_file = cfgsync_file, ra_scripts = scripts, ra_values_file = values_file\<rparr>)))))))))))"

definition helm_set :: "string \<Rightarrow> string \<Rightarrow> string list" where
  "helm_set key v = [''--set'', key @ ''='' @ v]"

definition helm_set_file :: "string \<Rightarrow> string \<Rightarrow> string list" where
  "helm_set_file key file = [''--set-file'', key @ ''='' @ file]"

definition install_args :: "('p, 'c) kube_world \<Rightarrow> runner_assets \<Rightarrow> string \<Rightarrow> string \<Rightarrow> nat \<Rightarrow> nat \<Rightarrow> string list" where
  "install_args kw ra release namespace n_val n_exec =
     [''install'', release, ra_chart_path ra, ''--namespace'', namespace, ''--create-namespace'', ''--wait'', ''--timeout'', ''5m'']
     @ helm_set ''image'' (ra_image ra) @ helm_set ''validators.count'' (show_nat n_val) @ helm_set ''executors.count'' (show_nat n_exec)
     @ helm_set ''cfgsync.port'' (show_nat (cfgsync_port (aw_env kw))) @ helm_set ''kzg.hostPath'' (ra_kzg_path ra)
     @ helm_set ''kzg.hostPathType'' (if kw_is_dir kw (ra_kzg_path ra) then ''Directory'' else ''File'')
     @ [''-f'', ra_values_file ra] @ helm_set_file ''cfgsync.config'' (ra_cfgsync_file ra)
     @ helm_set_file ''scripts.runCfgsyncSh'' (sp_run_cfgsync (ra_scripts ra))
     @ helm_set_file ''scripts.runNomosNodeSh'' (sp_run_node (ra_scripts ra))
     @ helm_set_file ''scripts.runNomosSh'' (sp_run_shared (ra_scripts ra))
     @ helm_set_file ''scripts.runNomosExecutorSh'' (sp_run_executor (ra_scripts ra))"

definition run_helm_command :: "helm_status \<Rightarrow> string \<Rightarrow> helm_error + unit" where
  "run_helm_command status command = (case status of
     HelmOk \<Rightarrow> Inr () | HelmExit e \<Rightarrow> Inl (HelmFailed command e) | HelmNotSpawned e \<Rightarrow> Inl (HelmSpawn command e))"

text \<open>A command that was not spawned leaves no effect.\<close>

definition install_release :: "('p, 'c) kube_world \<Rightarrow> runner_assets \<Rightarrow> string \<Rightarrow> string \<Rightarrow> nat \<Rightarrow> nat \<Rightarrow> unit kube_io" where
  "install_release kw ra release namespace n_val n_exec =
     (let args = install_args kw ra release namespace n_val n_exec; status = kw_helm_install kw args in
      bind_io (case status of HelmNotSpawned _ \<Rightarrow> ret_io () | _ \<Rightarrow> perform (HelmInstall release namespace args (status = HelmOk))) (\<lambda>_.
        lift_io Helm (run_helm_command status (''helm install '' @ release))))"

section \<open>Cleanup\<close>

record k8s_cleanup =
  kc_namespace :: string
  kc_release :: string
  kc_preserve :: bool

fun namespace_polls :: "(nat \<Rightarrow> bool) \<Rightarrow> nat \<Rightarrow> nat \<Rightarrow> bool" where
  "namespace_polls gone attempt 0 = False"
| "namespace_polls gone attempt (Suc n) = (gone attempt \<or> namespace_polls gone (Suc attempt) n)"

definition wait_for_namespace_termination :: "('p, 'c) kube_world \<Rightarrow> nat \<Rightarrow> bool" where
  "wait_for_namespace_termination kw k = namespace_polls (kw_namespace_gone kw k) 0 60"

text \<open>The effects of \<open>cleanup_async\<close> when it runs to its end, from time \<open>k\<close> on.\<close>

definition delete_namespace :: "('p, 'c) kube_world \<Rightarrow> string \<Rightarrow> nat \<Rightarrow> kube_effect list" where
  "delete_namespace kw namespace k =
     (let api = kw_delete_api kw k; cli = kw_delete_cli kw k; waited = TerminationAwaited namespace (wait_for_namespace_termination kw k) in
      if api then [NamespaceDelete namespace ViaApi True, waited]
      else [NamespaceDelete namespace ViaApi False, NamespaceDelete namespace ViaCli cli] @ (if cli then [waited] else []))"

definition uninstall_release_and_namespace :: "('p, 'c) kube_world \<Rightarrow> string \<Rightarrow> string \<Rightarrow> nat \<Rightarrow> kube_effect list" where
  "uninstall_release_and_namespace kw release namespace k =
     HelmUninstall release namespace (kw_helm_uninstall kw k = HelmOk) # delete_namespace kw namespace k"

definition cleanup_async :: "('p, 'c) kube_world \<Rightarrow> k8s_cleanup \<Rightarrow> nat \<Rightarrow> kube_effect list" where
  "cleanup_async kw kc k = (if kc_preserve kc then [] else uninstall_release_and_namespace kw (kc_release kc) (kc_namespace kc) k)"

text \<open>One attempt under the 120 s timeout, which may cut the cleanup after some of its effects.\<close>

definition run_attempt :: "('p, 'c) kube_world \<Rightarrow> k8s_cleanup \<Rightarrow> cleanup_attempt \<Rightarrow> kube_state \<Rightarrow> bool \<times> kube_state" where
  "run_attempt kw kc attempt s =
     (let evs = cleanup_async kw kc (ks_clock s); s' = s\<lparr>ks_clock := Suc (ks_clock s)\<rparr> in
      case attempt of NoRuntime \<Rightarrow> (False, s')
      | Interrupted n \<Rightarrow> (False, s'\<lparr>ks_log := ks_log s @ take n evs\<rparr>)
      | Completed \<Rightarrow> (True, s'\<lparr>ks_log := ks_log s @ evs\<rparr>))"

definition blocking_cleanup_success :: "('p, 'c) kube_world \<Rightarrow> k8s_cleanup \<Rightarrow> kube_state \<Rightarrow> bool \<times> kube_state" where
  "blocking_cleanup_success kw kc s = run_attempt kw kc (kw_blocking kw (ks_clock s)) s"

text \<open>A thread that cannot be started is an attempt without a runtime.\<close>

definition spawn_cleanup_thread :: "('p, 'c) kube_world \<Rightarrow> k8s_cleanup \<Rightarrow> kube_state \<Rightarrow> kube_state" where
  "spawn_cleanup_thread kw kc s = snd (run_attempt kw kc (kw_background kw (ks_clock s)) s)"

definition k8s_cleanup_run :: "('p, 'c) kube_world \<Rightarrow> k8s_cleanup \<Rightarrow> kube_state \<Rightarrow> kube_state" where
  "k8s_cleanup_run kw kc s =
     (if kw_in_runtime kw then spawn_cleanup_thread kw kc s
      else (case blocking_cleanup_success kw kc s of (True, s') \<Rightarrow> s' | (False, s') \<Rightarrow> spawn_cleanup_thread kw kc s'))"

section \<open>The cluster environment\<close>

record cluster_environment =
  ce_namespace :: string
  ce_release :: string
  ce_cleanup :: k8s_cleanup
  ce_validator_api_ports :: "nat list"
  ce_validator_testing_ports :: "nat list"
  ce_executor_api_ports :: "nat list"
  ce_executor_testing_ports :: "nat list"
  ce_prometheus_port :: nat
  ce_port_forwards :: "nat list"

definition cluster_environment_new :: "string \<Rightarrow> string \<Rightarrow> k8s_cleanup \<Rightarrow> cluster_ports \<Rightarrow> nat list \<Rightarrow> cluster_environment" where
  "cluster_environment_new namespace release kc ports forwards =
     \<lparr>ce_namespace = namespace, ce_release = release, ce_cleanup = kc,
      ce_validator_api_ports = map np_api (cp_validators ports), ce_validator_testing_ports = map np_testing (cp_validators ports),
      ce_executor_api_ports = map np_api (cp_executors ports), ce_executor_testing_ports = map np_testing (cp_executors ports),
      ce_prometheus_port = cp_prometheus ports, ce_port_forwards = forwards\<rparr>"

text \<open>\<open>ClusterEnvironment::fail\<close>; the environment is not used afterwards.\<close>

definition cluster_fail :: "('p, 'c) kube_world \<Rightarrow> cluster_environment \<Rightarrow> unit kube_io" where
  "cluster_fail kw ce =
     bind_io (perform (PodLogsDumped (ce_namespace ce))) (\<lambda>_.
     bind_io (kill_port_forwards (ce_port_forwards ce)) (\<lambda>_ s. ret_io () (k8s_cleanup_run kw (ce_cleanup ce) s)))"

definition cluster_host_url :: "('p, 'c) kube_world \<Rightarrow> nat \<Rightarrow> string + string" where
  "cluster_host_url kw port = kw_parse_url kw (''http://'' @ node_host (aw_env kw) @ '':'' @ show_nat port @ ''/'')"

definition api_client_from_ports :: "('p, 'c) kube_world \<Rightarrow> node_role \<Rightarrow> nat \<Rightarrow> nat \<Rightarrow> k8s_error + 'c" where
  "api_client_from_ports kw role api_port testing_port = (case cluster_host_url kw api_port of
     Inl e \<Rightarrow> Inl (KNodeClients role ''api'' api_port e)
   | Inr base \<Rightarrow> (case cluster_host_url kw testing_port of
       Inl e \<Rightarrow> Inl (KNodeClients role ''testing'' testing_port e)
     | Inr testing \<Rightarrow> Inr (kw_api_client kw base testing)))"

definition k8s_node_clients :: "('p, 'c) kube_world \<Rightarrow> cluster_environment \<Rightarrow> k8s_error + 'c node_clients" where
  "k8s_node_clients kw ce =
     rbind (try_map (\<lambda>(api, testing). api_client_from_ports kw Validator api testing)
       (zip (ce_validator_api_ports ce) (ce_validator_testing_ports ce))) (\<lambda>vs.
     rbind (try_map (\<lambda>(api, testing). api_client_from_ports kw Executor api testing)
       (zip (ce_executor_api_ports ce) (ce_executor_testing_ports ce))) (\<lambda>es.
       Inr \<lparr>nc_validators = vs, nc_executors = es\<rparr>))"

definition k8s_metrics_handle :: "('p, 'c) kube_world \<Rightarrow> nat \<Rightarrow> string + prometheus" where
  "k8s_metrics_handle kw port = (case cluster_host_url kw port of
     Inl e \<Rightarrow> Inl (''invalid prometheus url: '' @ e) | Inr url \<Rightarrow> kw_prometheus kw url)"

definition k8s_readiness_urls :: "('p, 'c) kube_world \<Rightarrow> nat list \<Rightarrow> node_role \<Rightarrow> remote_readiness_error + string list" where
  "k8s_readiness_urls kw ports role = try_map (\<lambda>port. case cluster_host_url kw port of
     Inl e \<Rightarrow> Inl (KReadinessEndpoint role port e) | Inr url \<Rightarrow> Inr url) ports"

definition ensure_cluster_readiness :: "('p, 'c) kube_world \<Rightarrow> 'p generated_topology \<Rightarrow> cluster_environment \<Rightarrow> unit kube_io" where
  "ensure_cluster_readiness kw t ce =
     bind_io (lift_io KReadiness (k8s_readiness_urls kw (ce_validator_api_ports ce) Validator)) (\<lambda>vs.
     bind_io (lift_io KReadiness (k8s_readiness_urls kw (ce_executor_api_ports ce) Executor)) (\<lambda>es.
     bind_io (lift_io KReadiness (k8s_readiness_urls kw (ce_validator_testing_ports ce) Validator)) (\<lambda>vms.
     bind_io (lift_io KReadiness (k8s_readiness_urls kw (ce_executor_testing_ports ce) Executor)) (\<lambda>ems.
       wait_io (\<lambda>e. KReadiness (KReadinessRemote e))
         (wait_remote_readiness t (aw_env kw) vs es (Some vms) (Some ems) (kw_infos kw) (kw_members kw))))))"

section \<open>The deployment\<close>

definition k8s_supported_topology :: "'p generated_topology \<Rightarrow> k8s_error + unit" where
  "k8s_supported_topology t =
     (if gt_validators t = [] \<or> gt_executors t = [] then Inl (UnsupportedTopology (length (gt_validators t)) (length (gt_executors t)))
      else Inr ())"

definition cluster_identifiers :: "string \<Rightarrow> string \<times> string" where
  "cluster_identifiers run_id = (let namespace = ''nomos-k8s-'' @ run_id in (namespace, namespace))"

definition install_stack :: "('p, 'c) kube_world \<Rightarrow> runner_assets \<Rightarrow> string \<Rightarrow> string \<Rightarrow> nat \<Rightarrow> nat \<Rightarrow> k8s_cleanup kube_io" where
  "install_stack kw ra namespace release n_val n_exec =
     bind_io (install_release kw ra release namespace n_val n_exec) (\<lambda>_.
       ret_io \<lparr>kc_namespace = namespace, kc_release = release, kc_preserve = (aw_env kw ''K8S_RUNNER_PRESERVE'' \<noteq> None)\<rparr>)"

definition cleanup_pending :: "('p, 'c) kube_world \<Rightarrow> string \<Rightarrow> k8s_cleanup \<Rightarrow> unit kube_io" where
  "cleanup_pending kw namespace kc =
     bind_io (perform (PodLogsDumped namespace)) (\<lambda>_ s. ret_io () (k8s_cleanup_run kw kc s))"

definition wait_for_ports_or_cleanup :: "('p, 'c) kube_world \<Rightarrow> string \<Rightarrow> string \<Rightarrow> port_specs \<Rightarrow> k8s_cleanup \<Rightarrow> cluster_ready kube_io" where
  "wait_for_ports_or_cleanup kw namespace release specs kc =
     on_fail (cleanup_pending kw namespace kc)
       (map_fail Cluster (wait_for_cluster_ready kw namespace release (ps_validators specs) (ps_executors specs)))"

text \<open>
  The assets, and with them the temporary directory, are dropped when \<open>setup_cluster\<close> is left. A failing
  readiness check drops the environment, which has no destructor.
\<close>

definition setup_cluster :: "('p, 'c) kube_world \<Rightarrow> port_specs \<Rightarrow> 'p generated_topology \<Rightarrow> bool \<Rightarrow> cluster_environment kube_io" where
  "setup_cluster kw specs t readiness_checks =
     bind_io (prepare_assets kw t) (\<lambda>ra. scoped (emit TempDirRemoved)
       (case cluster_identifiers (kw_uuid kw) of (namespace, release) \<Rightarrow>
        bind_io (install_stack kw ra namespace release (length (gt_validators t)) (length (gt_executors t))) (\<lambda>kc.
        bind_io (wait_for_ports_or_cleanup kw namespace release specs kc) (\<lambda>ready.
          let ce = cluster_environment_new namespace release kc (cl_ports ready) (cl_port_forwards ready) in
          bind_io (if readiness_checks then ensure_cluster_readiness kw t ce else ret_io ()) (\<lambda>_. ret_io ce)))))"

definition k8s_block_feed :: "('p, 'c) kube_world \<Rightarrow> 'c node_clients \<Rightarrow> k8s_error + scanner" where
  "k8s_block_feed kw clients = (case any_client (kw_pick kw) clients of
     None \<Rightarrow> Inl KBlockFeedMissing
   | Some c \<Rightarrow> (case spawn_block_feed (kw_tip kw c) (kw_storage kw c) of Inl e \<Rightarrow> Inl (KBlockFeed e) | Inr feed \<Rightarrow> Inr feed))"

record k8s_cleanup_guard =
  kg_cleanup :: k8s_cleanup
  kg_port_forwards :: "nat list"

definition k8s_guard_cleanup :: "('p, 'c) kube_world \<Rightarrow> k8s_cleanup_guard \<Rightarrow> unit kube_io" where
  "k8s_guard_cleanup kw kg =
     bind_io (perform KFeedAborted) (\<lambda>_.
     bind_io (kill_port_forwards (kg_port_forwards kg)) (\<lambda>_ s. ret_io () (k8s_cleanup_run kw (kg_cleanup kg) s)))"

record ('p, 'c) k8s_runner =
  kr_context :: "'p run_context"
  kr_clients :: "'c node_clients"
  kr_telemetry :: prometheus
  kr_feed :: scanner
  kr_guard :: k8s_cleanup_guard

text \<open>The guard has no destructor: when building the context panics, it is dropped without cleaning up.\<close>

definition k8s_deploy :: "('p, 'c) kube_world \<Rightarrow> bool \<Rightarrow> 'p generated_topology \<Rightarrow> duration \<Rightarrow> ('p, 'c) k8s_runner kube_io" where
  "k8s_deploy kw readiness_checks t run_duration =
     bind_io (lift_io id (k8s_supported_topology t)) (\<lambda>_.
     bind_io (lift_io ClientInit (kw_client kw)) (\<lambda>_.
     bind_io (setup_cluster kw (collect_port_specs t) t readiness_checks) (\<lambda>ce.
     bind_io (on_fail (cluster_fail kw ce) (lift_io id (k8s_node_clients kw ce))) (\<lambda>clients.
     bind_io (on_fail (cluster_fail kw ce) (lift_io KTelemetry (k8s_metrics_handle kw (ce_prometheus_port ce)))) (\<lambda>telemetry.
     bind_io (on_fail (cluster_fail kw ce) (lift_io id (k8s_block_feed kw clients))) (\<lambda>feed.
     bind_io (rust_io (run_context_new t run_duration False)) (\<lambda>ctx.
       ret_io \<lparr>kr_context = ctx, kr_clients = clients, kr_telemetry = telemetry, kr_feed = feed,
         kr_guard = \<lparr>kg_cleanup = ce_cleanup ce, kg_port_forwards = ce_port_forwards ce\<rparr>\<rparr>)))))))"

end
