(* ===== verification/K8s_Lifecycle.thy ===== *)
theory K8s_Lifecycle
  imports K8s_Runner
begin

text \<open>
  What a Kubernetes deployment leaves behind. A log of effects determines the \<open>kubectl\<close> children that run,
  the namespaces with an installed release, the namespaces where an installation was tried and failed, and
  the temporary directories. The waiting computations keep them; forwarding a port adds a child; the
  theorem at the end follows them through the whole deployment, for every outcome.
\<close>

section \<open>Resources\<close>

type_synonym kube_resources = "nat set \<times> string set \<times> string set \<times> nat"

fun kube_effect_on :: "kube_effect \<Rightarrow> kube_resources \<Rightarrow> kube_resources" where
  "kube_effect_on TempDirCreated (fs, ns, ps, td) = (fs, ns, ps, Suc td)"
| "kube_effect_on TempDirRemoved (fs, ns, ps, td) = (fs, ns, ps, td - 1)"
| "kube_effect_on (HelmInstall release namespace args ok) (fs, ns, ps, td) =
     (if ok then (fs, insert namespace ns, ps, td) else (fs, ns, insert namespace ps, td))"
| "kube_effect_on (NamespaceDelete namespace via ok) (fs, ns, ps, td) =
     (if ok then (fs, ns - {namespace}, ps - {namespace}, td) else (fs, ns, ps, td))"
| "kube_effect_on (ForwardSpawned c) (fs, ns, ps, td) = (insert c fs, ns, ps, td)"
| "kube_effect_on (ForwardExited c) (fs, ns, ps, td) = (fs - {c}, ns, ps, td)"
| "kube_effect_on (ForwardKilled c) (fs, ns, ps, td) = (fs - {c}, ns, ps, td)"
| "kube_effect_on _ r = r"

definition kube_resources :: "kube_effect list \<Rightarrow> kube_resources" where
  "kube_resources evs = fold kube_effect_on evs ({}, {}, {}, 0)"

lemma kube_resources_append: "kube_resources (xs @ ys) = fold kube_effect_on ys (kube_resources xs)"
  by (simp add: kube_resources_def)

text \<open>The resources of a state; the numbers of children are not used again.\<close>

definition holds :: "nat set \<Rightarrow> string set \<Rightarrow> string set \<Rightarrow> nat \<Rightarrow> kube_state \<Rightarrow> bool" where
  "holds fs ns ps td s \<longleftrightarrow> kube_resources (ks_log s) = (fs, ns, ps, td) \<and> (\<forall>c \<in> fs. c < ks_children s)"

lemma holds_start: "holds {} {} {} 0 kube_start"
  by (simp add: holds_def kube_start_def kube_resources_def)

lemma holds_emit:
  "holds fs ns ps td s \<Longrightarrow> kube_effect_on ev (fs, ns, ps, td) = (fs', ns', ps', td') \<Longrightarrow> fs' \<subseteq> fs \<Longrightarrow> holds fs' ns' ps' td' (emit ev s)"
  by (auto simp: holds_def emit_def kube_resources_append)

subsection \<open>Computations that keep the resources\<close>

abbreviation kube_quiet :: "(kube_state, 'e, 'a) io \<Rightarrow> bool" where
  "kube_quiet m \<equiv> keeps (\<lambda>s. (kube_resources (ks_log s), ks_children s)) m"

lemma quiet_holds: "kube_quiet m \<Longrightarrow> triple (holds fs ns ps td) m (\<lambda>_. holds fs ns ps td) (\<lambda>_. holds fs ns ps td) (holds fs ns ps td)"
  by (rule triple_keeps) (auto simp: holds_def)

lemma quiet_ask [keeps_intros]: "kube_quiet (ask f)"
  by (simp add: keeps_def ask_def)

lemma quiet_deployment [keeps_intros]: "kube_quiet (wait_for_deployment_ready kw namespace name)"
proof -
  have "kube_quiet (deployment_loop kw namespace name elapsed)" for elapsed
  proof (induction kw namespace name elapsed rule: deployment_loop.induct)
    case (1 kw namespace name elapsed)
    show ?case
    proof (cases "elapsed \<le> deployment_timeout")
      case True
      then show ?thesis using 1
        by (subst deployment_loop.simps) (auto intro!: keeps_intros split: sum.splits)
    next
      case False
      then show ?thesis by (subst deployment_loop.simps) (simp add: keeps_basic)
    qed
  qed
  then show ?thesis by (simp add: wait_for_deployment_ready_def)
qed

lemma quiet_node_port [keeps_intros]: "kube_quiet (find_node_port kw service port)"
proof -
  have "kube_quiet (node_port_loop kw service port n)" for n
    by (induction n) (auto intro!: keeps_intros split: sum.split option.split)
  then show ?thesis by (simp add: find_node_port_def)
qed

lemma quiet_allocate [keeps_intros]: "kube_quiet (allocate_from kw namespace release kind i ports)"
  by (induction ports arbitrary: i) (auto simp: Let_def discover_node_ports_def intro!: keeps_intros)

lemma quiet_http [keeps_intros]: "kube_quiet (wait_for_node_http_on_host kw ports role host timeout)"
  unfolding keeps_def
proof (intro allI impI)
  fix s r s' assume w: "wait_for_node_http_on_host kw ports role host timeout s = (r, s')"
  have "0 < http_poll_interval" by (simp add: http_poll_interval_def from_secs_def nanos_per_sec_def)
  then obtain a where "wait_for_http_ports_with_host (kw_answers kw (ks_clock s) host) (kw_latency kw (ks_clock s) host) role timeout http_poll_interval ports = Some a"
    using ports_wait_ends by blast
  then show "(kube_resources (ks_log s'), ks_children s') = (kube_resources (ks_log s), ks_children s) \<and> r \<noteq> Hangs"
    using w by (auto simp: wait_for_node_http_on_host_def bind_io_def ask_def wait_io_def lift_io_def ret_io_def fail_io_def split: sum.splits)
qed

lemma quiet_probes [keeps_intros]: "kube_quiet (wait_for_node_http_nodeport kw ports role)"
  "kube_quiet (wait_for_node_http_port_forward kw ports role)" "kube_quiet (wait_for_prometheus_http kw host port n)"
  unfolding wait_for_node_http_nodeport_def wait_for_node_http_port_forward_def
  by (intro keeps_intros, intro keeps_intros, induction n) (auto intro!: keeps_intros)

lemma quiet_readiness [keeps_intros]: "kube_quiet (ensure_cluster_readiness kw t ce)"
  unfolding ensure_cluster_readiness_def by (intro keeps_intros remote_wait_ends)

subsection \<open>Port forwards\<close>

lemma perform_triple:
  "(\<And>s. P s \<Longrightarrow> Q () (emit ev s)) \<Longrightarrow> triple P (perform ev) Q E X"
  by (simp add: triple_def perform_def)

lemma kill_triple: "triple (holds fs ns ps td) (kill_port_forwards cs) (\<lambda>_. holds (fs - set cs) ns ps td) (\<lambda>_ _. False) (\<lambda>_. False)"
proof (induction cs arbitrary: fs)
  case Nil
  show ?case by (simp add: triple_basic)
next
  case (Cons c cs)
  have "triple (holds fs ns ps td) (perform (ForwardKilled c)) (\<lambda>_. holds (fs - {c}) ns ps td) (\<lambda>_ _. False) (\<lambda>_. False)"
    by (rule perform_triple, erule holds_emit) simp_all
  moreover have "fs - {c} - set cs = fs - set (c # cs)" by auto
  ultimately show ?case using triple_bind [OF _ Cons [of "fs - {c}"]] by simp
qed

lemma holds_gone:
  assumes "holds (insert c fs) ns ps td s" and "c \<notin> fs" and "ev \<in> {ForwardKilled c, ForwardExited c}"
  shows "holds fs ns ps td (emit ev s)"
  by (rule holds_emit [OF assms(1)]) (use assms(2,3) in auto)

lemma gone_then_fail:
  assumes "c \<notin> fs" and "ev \<in> {ForwardKilled c, ForwardExited c}"
  shows "triple (holds (insert c fs) ns ps td) (bind_io (perform ev) (\<lambda>_. fail_io e)) Q (\<lambda>_. holds fs ns ps td) X"
proof (rule triple_bind [where Q = "\<lambda>_. holds fs ns ps td"])
  show "triple (holds (insert c fs) ns ps td) (perform ev) (\<lambda>_. holds fs ns ps td) (\<lambda>_. holds fs ns ps td) X"
    by (rule perform_triple) (rule holds_gone [OF _ assms])
qed (simp add: triple_basic)

lemma ask_triple: "(\<And>s. P s \<Longrightarrow> P (s\<lparr>ks_clock := Suc (ks_clock s)\<rparr>)) \<Longrightarrow> triple P (ask f) (\<lambda>_. P) E X"
  by (simp add: triple_def ask_def)

lemma holds_clock [simp]: "holds fs ns ps td (s\<lparr>ks_clock := k\<rparr>) = holds fs ns ps td s"
  by (simp add: holds_def)

lemma forward_loop_triple:
  assumes "c \<notin> fs"
  shows "triple (holds (insert c fs) ns ps td) (forward_loop kw service remote local c n)
    (\<lambda>(p, c') s. c' = c \<and> holds (insert c fs) ns ps td s) (\<lambda>_. holds fs ns ps td) X"
proof (induction n)
  case 0
  show ?case unfolding forward_loop.simps by (rule gone_then_fail) (simp_all add: assms)
next
  case (Suc n)
  show ?case unfolding forward_loop.simps
  proof (rule triple_bind [OF ask_triple])
    fix a
    show "triple (holds (insert c fs) ns ps td) (case a of
         Exited status \<Rightarrow> bind_io (perform (ForwardExited c)) (\<lambda>_. fail_io (PortForward service remote (''kubectl exited with '' @ status)))
       | Connects \<Rightarrow> ret_io (local, c) | Pending \<Rightarrow> forward_loop kw service remote local c n)
      (\<lambda>(p, c') s. c' = c \<and> holds (insert c fs) ns ps td s) (\<lambda>_. holds fs ns ps td) X"
      using gone_then_fail [OF assms, of "ForwardExited c"] Suc by (cases a) (simp_all add: triple_basic)
  qed simp
qed

text \<open>A forward that fails leaves no child; one that succeeds leaves a new one.\<close>

lemma port_forward_triple:
  "triple (holds fs ns ps td) (port_forward_service kw service remote)
     (\<lambda>(p, c) s. c \<notin> fs \<and> holds (insert c fs) ns ps td s) (\<lambda>_. holds fs ns ps td) X"
  (is "triple ?P _ ?Q ?E X")
proof -
  have loop: "triple (\<lambda>s. c \<notin> fs \<and> holds (insert c fs) ns ps td s) (forward_loop kw service remote l c 20) ?Q ?E X" for c l
  proof (cases "c \<in> fs")
    case False
    show ?thesis by (rule triple_conseq [OF forward_loop_triple [OF False]]) (use False in auto)
  qed (simp add: triple_def)
  have spawn: "triple ?P spawn_child (\<lambda>c s. c \<notin> fs \<and> holds (insert c fs) ns ps td s) ?E X"
    by (auto simp: triple_def spawn_child_def Let_def holds_def emit_def kube_resources_append)
  show ?thesis unfolding port_forward_service_def
    by (rule triple_bind [OF ask_triple], simp, rule triple_bind [OF triple_lift [where Q = "\<lambda>_. ?P"]], simp, simp)
      (rule triple_bind [OF ask_triple], simp, rule triple_bind [OF triple_lift [where Q = "\<lambda>_. ?P"]], simp, simp,
        rule triple_bind [OF spawn loop])
qed

text \<open>After an error of the waiting phase some children may run; the rest is as before.\<close>

definition stranded :: "string set \<Rightarrow> string set \<Rightarrow> nat \<Rightarrow> kube_state \<Rightarrow> bool" where
  "stranded ns ps td s \<longleftrightarrow> (\<exists>fs. holds fs ns ps td s)"

lemma holds_stranded: "holds fs ns ps td s \<Longrightarrow> stranded ns ps td s"
  by (auto simp: stranded_def)

lemma or_kill_triple:
  assumes "triple P m Q (\<lambda>_. stranded ns ps td) X"
  shows "triple P (or_kill cs m) Q (\<lambda>_. stranded ns ps td) X"
  unfolding or_kill_def
proof (rule triple_on_fail [OF assms])
  have "triple (holds fs ns ps td) (kill_port_forwards cs) (\<lambda>_. stranded ns ps td) (\<lambda>_ _. False) X" for fs
    by (rule triple_conseq [OF kill_triple]) (auto intro: holds_stranded)
  then show "triple (stranded ns ps td) (kill_port_forwards cs) (\<lambda>_. stranded ns ps td) (\<lambda>_ _. False) X"
    by (rule triple_conseq [OF triple_exists]) (auto simp: stranded_def)
qed

lemma forward_or_kill:
  "triple (holds fs ns ps td) (or_kill cs (port_forward_service kw service remote))
     (\<lambda>(p, c). holds (insert c fs) ns ps td) (\<lambda>_. stranded ns ps td) X"
  by (rule or_kill_triple, rule triple_conseq [OF port_forward_triple]) (auto intro: holds_stranded)

lemma wait_or_kill: "kube_quiet m \<Longrightarrow> triple (holds fs ns ps td) (or_kill cs m) (\<lambda>_. holds fs ns ps td) (\<lambda>_. stranded ns ps td) (stranded ns ps td)"
  by (rule or_kill_triple, rule triple_conseq [OF quiet_holds]) (auto intro: holds_stranded)

lemma quiet_stranding: "kube_quiet m \<Longrightarrow> triple (holds fs ns ps td) m (\<lambda>_. holds fs ns ps td) (\<lambda>_. stranded ns ps td) (stranded ns ps td)"
  by (rule triple_conseq [OF quiet_holds]) (auto intro: holds_stranded)

lemma group_triple:
  "triple (holds (fs \<union> set forwards) ns ps td) (forward_group_from kw release kind i ports allocations forwards)
     (\<lambda>(al, fw). holds (fs \<union> set fw) ns ps td) (\<lambda>_. stranded ns ps td) X"
proof (induction ports arbitrary: i allocations forwards)
  case Nil
  show ?case by (simp add: triple_basic)
next
  case (Cons q qs)
  have "triple (holds (insert tc (insert ac (fs \<union> set forwards))) ns ps td)
      (forward_group_from kw release kind (Suc i) qs al (forwards @ [ac, tc]))
      (\<lambda>(al, fw). holds (fs \<union> set fw) ns ps td) (\<lambda>_. stranded ns ps td) X" for ac tc al
    using Cons [where forwards = "forwards @ [ac, tc]"] by (simp add: insert_commute)
  then show ?case unfolding forward_group_from.simps Let_def
    by (intro triple_bind_pair [OF forward_or_kill])
qed

lemma port_forward_group_triple:
  "triple (holds fs ns ps td) (port_forward_group kw release kind ports)
     (\<lambda>(al, fw). holds (fs \<union> set fw) ns ps td) (\<lambda>_. stranded ns ps td) X"
  using group_triple [where forwards = "[]"] by (simp add: port_forward_group_def)

section \<open>Waiting for the cluster\<close>

lemma reach_validators_triple:
  "triple (holds {} ns ps td) (reach_validators kw namespace release ports)
     (\<lambda>(al, fw). holds (set fw) ns ps td) (\<lambda>_. stranded ns ps td) (stranded ns ps td)"
proof -
  note group = port_forward_group_triple [where fs = "{}", simplified]
  show ?thesis unfolding reach_validators_def
    by (rule triple_bind [OF quiet_stranding], intro keeps_intros, rule triple_bind [OF quiet_stranding], intro keeps_intros)
      (auto intro!: triple_basic triple_bind_pair [OF group] triple_bind [OF wait_or_kill] keeps_intros)
qed

lemma reach_executors_triple:
  "triple (holds (set forwards) ns ps td) (reach_executors kw namespace release ports forwards)
     (\<lambda>(al, fw). holds (set fw) ns ps td) (\<lambda>_. stranded ns ps td) (stranded ns ps td)"
proof -
  note group = or_kill_triple [OF port_forward_group_triple]
  show ?thesis unfolding reach_executors_def
    by (rule triple_bind [OF quiet_stranding], intro keeps_intros, rule triple_bind [OF quiet_stranding], intro keeps_intros)
      (auto intro!: triple_basic triple_bind_pair [OF group] triple_bind [OF wait_or_kill] keeps_intros)
qed

lemma reach_prometheus_triple:
  "triple (holds (set forwards) ns ps td) (reach_prometheus kw forwards)
     (\<lambda>(port, fw). holds (set fw) ns ps td) (\<lambda>_. stranded ns ps td) (stranded ns ps td)"
  unfolding reach_prometheus_def
  by (rule triple_bind [OF quiet_stranding], intro keeps_intros, rule triple_bind [OF quiet_stranding], intro keeps_intros)
    (auto intro!: triple_basic triple_bind_pair [OF forward_or_kill] triple_bind [OF wait_or_kill] keeps_intros)

lemma cluster_ready_triple:
  "triple (holds {} ns ps td) (wait_for_cluster_ready kw namespace release vports eports)
     (\<lambda>r. holds (set (cl_port_forwards r)) ns ps td) (\<lambda>_. stranded ns ps td) (stranded ns ps td)"
  unfolding wait_for_cluster_ready_def
  by (auto intro!: triple_basic triple_bind_pair [OF reach_validators_triple] triple_bind_pair [OF reach_executors_triple]
      triple_bind_pair [OF reach_prometheus_triple] holds_stranded)

section \<open>Cleanup\<close>

text \<open>A world in which the background cleanup runs to its end and a namespace can be deleted.\<close>

definition cleans :: "('p, 'c) kube_world \<Rightarrow> bool" where
  "cleans kw \<longleftrightarrow> (\<forall>k. kw_background kw k = Completed \<and> (kw_delete_api kw k \<or> kw_delete_cli kw k))"

text \<open>The namespaces left by a cleanup: none where cleanup works, all with the preserve flag.\<close>

definition after_cleanup :: "('p, 'c) kube_world \<Rightarrow> k8s_cleanup \<Rightarrow> string set \<Rightarrow> bool" where
  "after_cleanup kw kc ns \<longleftrightarrow> ns \<subseteq> {kc_namespace kc} \<and> (kc_preserve kc \<longrightarrow> ns = {kc_namespace kc})
     \<and> (\<not> kc_preserve kc \<and> cleans kw \<longrightarrow> ns = {})"

fun tidying :: "kube_effect \<Rightarrow> bool" where
  "tidying (HelmUninstall r n ok) = True"
| "tidying (NamespaceDelete n via ok) = True"
| "tidying (TerminationAwaited n gone) = True"
| "tidying ev = False"

lemma fold_tidying:
  "list_all tidying evs \<Longrightarrow> \<exists>ns'. fold kube_effect_on evs (fs, ns, {}, td) = (fs, ns', {}, td) \<and> ns' \<subseteq> ns"
proof (induction evs arbitrary: ns)
  case (Cons ev evs)
  have "\<exists>ns'. kube_effect_on ev (fs, ns, {}, td) = (fs, ns', {}, td) \<and> ns' \<subseteq> ns" using Cons.prems by (cases ev) auto
  then obtain ns' where "kube_effect_on ev (fs, ns, {}, td) = (fs, ns', {}, td)" "ns' \<subseteq> ns" by blast
  then show ?case using Cons.IH [of ns'] Cons.prems by fastforce
qed simp

lemma cleanup_async_tidying: "list_all tidying (cleanup_async kw kc k)"
  by (simp add: cleanup_async_def uninstall_release_and_namespace_def delete_namespace_def Let_def)

lemma run_attempt_holds:
  assumes "holds fs ns {} td s" and "ns \<subseteq> {kc_namespace kc}"
  shows "\<exists>ns' \<subseteq> ns. holds fs ns' {} td (snd (run_attempt kw kc a s)) \<and> (kc_preserve kc \<longrightarrow> ns' = ns)
    \<and> (\<not> kc_preserve kc \<and> a = Completed \<and> (kw_delete_api kw (ks_clock s) \<or> kw_delete_cli kw (ks_clock s)) \<longrightarrow> ns' = {})"
proof -
  let ?evs = "cleanup_async kw kc (ks_clock s)"
  obtain evs where evs: "ks_log (snd (run_attempt kw kc a s)) = ks_log s @ evs" "evs = ?evs \<or> a \<noteq> Completed" "set evs \<subseteq> set ?evs"
    by (cases a) (auto simp: run_attempt_def Let_def set_take_subset)
  have "list_all tidying evs" using evs(3) cleanup_async_tidying [of kw kc "ks_clock s"] by (auto simp: list_all_iff)
  then obtain ns' where ns': "fold kube_effect_on evs (fs, ns, {}, td) = (fs, ns', {}, td)" "ns' \<subseteq> ns" using fold_tidying by blast
  have "ks_children (snd (run_attempt kw kc a s)) = ks_children s" by (cases a) (simp_all add: run_attempt_def Let_def)
  then have h: "holds fs ns' {} td (snd (run_attempt kw kc a s))" using assms(1) evs(1) ns'(1) by (simp add: holds_def kube_resources_append)
  have p: "kc_preserve kc \<longrightarrow> ns' = ns" using evs(3) ns'(1) by (auto simp: cleanup_async_def)
  have "ns' = {}" if "\<not> kc_preserve kc" "a = Completed" "kw_delete_api kw (ks_clock s) \<or> kw_delete_cli kw (ks_clock s)"
    using that evs(2) ns' assms(2)
    by (auto simp: cleanup_async_def uninstall_release_and_namespace_def delete_namespace_def Let_def split: if_splits)
  then show ?thesis using h p ns'(2) by blast
qed

lemma cleanup_run_holds:
  assumes "holds fs {kc_namespace kc} {} td s"
  shows "\<exists>ns. holds fs ns {} td (k8s_cleanup_run kw kc s) \<and> after_cleanup kw kc ns"
proof -
  let ?n = "{kc_namespace kc}"
  have thread: "\<exists>ns'. holds fs ns' {} td (spawn_cleanup_thread kw kc u) \<and> after_cleanup kw kc ns'"
    if th: "holds fs ns {} td u" "ns \<subseteq> ?n" "kc_preserve kc \<longrightarrow> ns = ?n" for u ns
  proof -
    obtain ns' where n: "ns' \<subseteq> ns" "holds fs ns' {} td (spawn_cleanup_thread kw kc u)" "kc_preserve kc \<longrightarrow> ns' = ns"
      "\<not> kc_preserve kc \<and> kw_background kw (ks_clock u) = Completed \<and> (kw_delete_api kw (ks_clock u) \<or> kw_delete_cli kw (ks_clock u)) \<longrightarrow> ns' = {}"
      using run_attempt_holds [OF th(1,2), where kw = kw and a = "kw_background kw (ks_clock u)"]
      unfolding spawn_cleanup_thread_def by blast
    then have "after_cleanup kw kc ns'" using th(2,3) by (auto simp: after_cleanup_def cleans_def)
    then show ?thesis using n(2) by blast
  qed
  obtain b u where b: "blocking_cleanup_success kw kc s = (b, u)" by fastforce
  let ?a = "kw_blocking kw (ks_clock s)"
  have r: "run_attempt kw kc ?a s = (b, u)" using b by (simp add: blocking_cleanup_success_def)
  have "b = (?a = Completed)" using r by (cases ?a) (auto simp: run_attempt_def Let_def)
  obtain ns where ns: "ns \<subseteq> ?n" "holds fs ns {} td u" "kc_preserve kc \<longrightarrow> ns = ?n"
    "\<not> kc_preserve kc \<and> ?a = Completed \<and> (kw_delete_api kw (ks_clock s) \<or> kw_delete_cli kw (ks_clock s)) \<longrightarrow> ns = {}"
    using run_attempt_holds [OF assms subset_refl, where kw = kw and a = ?a] r by auto
  then have "after_cleanup kw kc ns" if b using that \<open>b = _\<close> by (auto simp: after_cleanup_def cleans_def)
  then show ?thesis using thread [OF assms] thread [OF ns(2,1,3)] ns(2) b by (cases b) (auto simp: k8s_cleanup_run_def)
qed

section \<open>The deployment\<close>

definition release_name :: "('p, 'c) kube_world \<Rightarrow> string" where
  "release_name kw = fst (cluster_identifiers (kw_uuid kw))"

text \<open>The cleanup guard of the release.\<close>

definition release_cleanup :: "('p, 'c) kube_world \<Rightarrow> k8s_cleanup" where
  "release_cleanup kw = \<lparr>kc_namespace = release_name kw, kc_release = release_name kw,
     kc_preserve = (aw_env kw ''K8S_RUNNER_PRESERVE'' \<noteq> None)\<rparr>"

text \<open>
  What an error leaves behind: running children, namespaces with a release and namespaces with a failed
  installation.
\<close>

definition left_behind :: "('p, 'c) kube_world \<Rightarrow> k8s_error \<Rightarrow> nat set \<Rightarrow> string set \<Rightarrow> string set \<Rightarrow> bool" where
  "left_behind kw e fs ns ps \<longleftrightarrow> (case e of
     UnsupportedTopology v x \<Rightarrow> fs = {} \<and> ns = {} \<and> ps = {}
   | ClientInit x \<Rightarrow> fs = {} \<and> ns = {} \<and> ps = {}
   | Assets x \<Rightarrow> fs = {} \<and> ns = {} \<and> ps = {}
   | Helm (HelmSpawn c x) \<Rightarrow> fs = {} \<and> ns = {} \<and> ps = {}
   | Helm (HelmFailed c x) \<Rightarrow> fs = {} \<and> ns = {} \<and> ps = {release_name kw}
   | Cluster x \<Rightarrow> after_cleanup kw (release_cleanup kw) ns \<and> ps = {}
   | KReadiness x \<Rightarrow> ns = {release_name kw} \<and> ps = {}
   | _ \<Rightarrow> fs = {} \<and> after_cleanup kw (release_cleanup kw) ns \<and> ps = {})"

definition failed_with :: "('p, 'c) kube_world \<Rightarrow> nat \<Rightarrow> k8s_error \<Rightarrow> kube_state \<Rightarrow> bool" where
  "failed_with kw td e s \<longleftrightarrow> (\<exists>fs ns ps. holds fs ns ps td s \<and> left_behind kw e fs ns ps)"

definition some_resources :: "nat \<Rightarrow> kube_state \<Rightarrow> bool" where
  "some_resources td s \<longleftrightarrow> (\<exists>fs ns ps. holds fs ns ps td s)"

lemma holds_some: "holds fs ns ps td s \<Longrightarrow> some_resources td s"
  by (auto simp: some_resources_def)

lemma holds_drop_dir: "holds fs ns ps 1 s \<Longrightarrow> holds fs ns ps 0 (emit TempDirRemoved s)"
  by (erule holds_emit) simp_all

lemma drop_dir_after:
  "failed_with kw 1 e s \<Longrightarrow> failed_with kw 0 e (emit TempDirRemoved s)" "some_resources 1 s \<Longrightarrow> some_resources 0 (emit TempDirRemoved s)"
  using holds_drop_dir by (auto simp: failed_with_def some_resources_def) blast+

lemma prepare_assets_triple:
  "triple (holds {} {} {} 0) (prepare_assets kw t) (\<lambda>_. holds {} {} {} 1) (failed_with kw 0) (some_resources 0)"
proof -
  have a: "failed_with kw 0 (Assets x) s" if "holds {} {} {} 0 s" for x s
    using that by (auto simp: failed_with_def left_behind_def)
  have early: "triple (holds {} {} {} 0) (lift_io f r) (\<lambda>_. holds {} {} {} 0) (failed_with kw 0) (some_resources 0)"
    if "\<And>e. \<exists>x. f e = Assets x" for f :: "'x \<Rightarrow> k8s_error" and r :: "'x + 'y"
    by (rule triple_lift) (use that a in metis)+
  have late: "triple (holds {} {} {} 1) (lift_io Assets r) (\<lambda>_. holds {} {} {} 1)
      (\<lambda>e s. failed_with kw 0 e (emit TempDirRemoved s)) (\<lambda>s. some_resources 0 (emit TempDirRemoved s))" for r :: "assets_error + 'y"
    by (rule triple_lift, assumption) (rule a, erule holds_drop_dir)
  have created: "triple (holds {} {} {} 0) (perform TempDirCreated) (\<lambda>_. holds {} {} {} 1) (failed_with kw 0) (some_resources 0)"
    by (rule perform_triple, erule holds_emit) simp_all
  show ?thesis unfolding prepare_assets_def
    apply (rule triple_bind [OF early], simp)
    apply (rule triple_bind [OF early], simp)
    apply (rule triple_bind [OF early], simp)
    apply (rule triple_bind [OF created])
    apply (rule triple_dropping)
    apply (rule triple_bind [OF late])+
    by (simp add: triple_basic)
qed

lemma install_triple:
  "triple (holds {} {} {} 1) (install_stack kw ra (release_name kw) (release_name kw) n_val n_exec)
     (\<lambda>kc s. kc = release_cleanup kw \<and> holds {} {release_name kw} {} 1 s) (failed_with kw 1) (some_resources 1)"
proof -
  let ?n = "release_name kw"
  have ok: "holds {} {?n} {} 1 (emit (HelmInstall ?n ?n args True) s)" and bad: "holds {} {} {?n} 1 (emit (HelmInstall ?n ?n args False) s)"
    if "holds {} {} {} 1 s" for args s
    using holds_emit [OF that] by simp_all
  show ?thesis unfolding triple_def
    by (auto simp: install_stack_def install_release_def Let_def bind_io_def perform_def run_helm_command_def lift_io_def ret_io_def fail_io_def
        release_cleanup_def failed_with_def left_behind_def simp del: One_nat_def intro: ok bad split: helm_status.split)
qed

lemma cleanup_triple:
  assumes "\<And>fs ns s. Q fs \<Longrightarrow> after_cleanup kw (release_cleanup kw) ns \<Longrightarrow> left_behind kw e fs ns {}"
  shows "triple (\<lambda>s. \<exists>fs. Q fs \<and> holds fs {release_name kw} {} td s) (\<lambda>s. ret_io () (k8s_cleanup_run kw (release_cleanup kw) s))
    (\<lambda>_. failed_with kw td e) E X"
  using assms cleanup_run_holds [where kc = "release_cleanup kw" and kw = kw]
  by (fastforce simp: triple_def ret_io_def failed_with_def release_cleanup_def)

lemma cleanup_pending_triple:
  "triple (stranded {release_name kw} {} td) (cleanup_pending kw namespace (release_cleanup kw)) (\<lambda>_. failed_with kw td (Cluster e)) E X"
proof -
  have "holds fs {release_name kw} {} td (emit (PodLogsDumped namespace) s)" if "holds fs {release_name kw} {} td s" for fs s
    by (rule holds_emit [OF that]) simp_all
  then have "triple (stranded {release_name kw} {} td) (perform (PodLogsDumped namespace)) (\<lambda>_ s. \<exists>fs. True \<and> holds fs {release_name kw} {} td s) E X"
    by (intro perform_triple) (auto simp: stranded_def)
  then show ?thesis unfolding cleanup_pending_def
    by (rule triple_bind) (rule cleanup_triple, simp add: left_behind_def)
qed

lemma wait_for_ports_triple:
  "triple (holds {} {release_name kw} {} td) (wait_for_ports_or_cleanup kw namespace release specs (release_cleanup kw))
     (\<lambda>r. holds (set (cl_port_forwards r)) {release_name kw} {} td) (failed_with kw td) (some_resources td)"
  unfolding wait_for_ports_or_cleanup_def
proof (rule triple_on_fail [where E = "\<lambda>e s. (\<exists>x. e = Cluster x) \<and> stranded {release_name kw} {} td s"])
  show "triple (holds {} {release_name kw} {} td) (map_fail Cluster (wait_for_cluster_ready kw namespace release (ps_validators specs) (ps_executors specs)))
     (\<lambda>r. holds (set (cl_port_forwards r)) {release_name kw} {} td) (\<lambda>e s. (\<exists>x. e = Cluster x) \<and> stranded {release_name kw} {} td s) (some_resources td)"
    by (rule triple_map_fail, rule triple_conseq [OF cluster_ready_triple]) (auto simp: stranded_def some_resources_def)
  show "triple (\<lambda>s. (\<exists>x. e = Cluster x) \<and> stranded {release_name kw} {} td s) (cleanup_pending kw namespace (release_cleanup kw))
     (\<lambda>_. failed_with kw td e) (\<lambda>_ _. False) (some_resources td)" for e
    by (rule triple_given) (auto intro: cleanup_pending_triple)
qed

lemma readiness_triple:
  "triple (holds fs {release_name kw} {} td) (ensure_cluster_readiness kw t ce) (\<lambda>_. holds fs {release_name kw} {} td) (failed_with kw td) (some_resources td)"
proof -
  have e: "failed_with kw td (KReadiness x) s" if "holds fs {release_name kw} {} td s" for x s
    using that by (auto simp: failed_with_def left_behind_def)
  have l: "triple (holds fs {release_name kw} {} td) (lift_io KReadiness r) (\<lambda>_. holds fs {release_name kw} {} td) (failed_with kw td) (some_resources td)"
    for r :: "remote_readiness_error + 'x"
    by (rule triple_lift, assumption) (rule e)
  show ?thesis unfolding ensure_cluster_readiness_def
    by (rule triple_bind [OF l])+ (rule triple_wait [OF remote_wait_ends], auto intro: e holds_some)
qed

lemma setup_triple:
  "triple (holds {} {} {} 0) (setup_cluster kw specs t readiness_checks)
     (\<lambda>ce s. ce_cleanup ce = release_cleanup kw \<and> ce_namespace ce = release_name kw \<and> holds (set (ce_port_forwards ce)) {release_name kw} {} 0 s)
     (failed_with kw 0) (some_resources 0)" (is "triple _ _ ?Q _ _")
proof -
  let ?n = "release_name kw"
  have ready: "triple (holds (set (cl_port_forwards r)) {?n} {} 1)
      (let ce = cluster_environment_new ?n ?n (release_cleanup kw) (cl_ports r) (cl_port_forwards r) in
       bind_io (if readiness_checks then ensure_cluster_readiness kw t ce else ret_io ()) (\<lambda>_. ret_io ce))
      (\<lambda>ce s. ?Q ce (emit TempDirRemoved s)) (failed_with kw 1) (some_resources 1)" for r
    unfolding Let_def
    by (rule triple_bind [where Q = "\<lambda>_. holds (set (cl_port_forwards r)) {?n} {} 1"])
      (auto simp: cluster_environment_new_def simp del: One_nat_def intro!: triple_basic readiness_triple dest: holds_drop_dir)
  have inner: "triple (holds {} {} {} 1)
      (bind_io (install_stack kw ra ?n ?n n_val n_exec) (\<lambda>kc.
       bind_io (wait_for_ports_or_cleanup kw ?n ?n specs kc) (\<lambda>r.
         let ce = cluster_environment_new ?n ?n kc (cl_ports r) (cl_port_forwards r) in
         bind_io (if readiness_checks then ensure_cluster_readiness kw t ce else ret_io ()) (\<lambda>_. ret_io ce))))
      (\<lambda>ce s. ?Q ce (emit TempDirRemoved s)) (failed_with kw 1) (some_resources 1)" for ra n_val n_exec
  proof (rule triple_bind [OF install_triple])
    fix kc
    show "triple (\<lambda>s. kc = release_cleanup kw \<and> holds {} {?n} {} 1 s)
       (bind_io (wait_for_ports_or_cleanup kw ?n ?n specs kc) (\<lambda>r.
         let ce = cluster_environment_new ?n ?n kc (cl_ports r) (cl_port_forwards r) in
         bind_io (if readiness_checks then ensure_cluster_readiness kw t ce else ret_io ()) (\<lambda>_. ret_io ce)))
      (\<lambda>ce s. ?Q ce (emit TempDirRemoved s)) (failed_with kw 1) (some_resources 1)"
      by (rule triple_given, hypsubst) (rule triple_bind [OF wait_for_ports_triple ready])
  qed
  have ids: "cluster_identifiers (kw_uuid kw) = (?n, ?n)" by (simp add: release_name_def cluster_identifiers_def Let_def)
  show ?thesis unfolding setup_cluster_def ids prod.case
    by (rule triple_bind [OF prepare_assets_triple], rule triple_scoped, rule triple_conseq [OF inner])
      (auto intro: drop_dir_after simp del: One_nat_def)
qed

text \<open>Errors after the cluster is set up tear it down.\<close>

definition torn_down :: "k8s_error \<Rightarrow> bool" where
  "torn_down e \<longleftrightarrow> (case e of KNodeClients r n p x \<Rightarrow> True | KTelemetry x \<Rightarrow> True | KBlockFeedMissing \<Rightarrow> True | KBlockFeed x \<Rightarrow> True | _ \<Rightarrow> False)"

lemma client_errors:
  "k8s_node_clients kw ce = Inl e \<Longrightarrow> torn_down e" "k8s_block_feed kw clients = Inl e \<Longrightarrow> torn_down e"
proof -
  have "torn_down e" if "api_client_from_ports kw role api testing = Inl e" for role api testing
    using that by (auto simp: api_client_from_ports_def torn_down_def split: sum.splits)
  then show "k8s_node_clients kw ce = Inl e \<Longrightarrow> torn_down e"
    by (auto simp: k8s_node_clients_def rbind_def split: sum.splits dest!: try_map_error)
  show "k8s_block_feed kw clients = Inl e \<Longrightarrow> torn_down e"
    by (auto simp: k8s_block_feed_def torn_down_def split: option.splits sum.splits)
qed

text \<open>Killing the children and cleaning up, as \<open>fail\<close> and the cleanup guard do.\<close>

lemma tear_down_triple:
  assumes "kube_effect_on ev (set cs, {release_name kw}, {}, 0) = (set cs, {release_name kw}, {}, 0)"
  shows "triple (holds (set cs) {release_name kw} {} 0)
    (bind_io (perform ev) (\<lambda>_. bind_io (kill_port_forwards cs) (\<lambda>_ s. ret_io () (k8s_cleanup_run kw (release_cleanup kw) s))))
    (\<lambda>_ s. \<exists>ns. holds {} ns {} 0 s \<and> after_cleanup kw (release_cleanup kw) ns) (\<lambda>_ _. False) X"
proof (rule triple_bind [where Q = "\<lambda>_. holds (set cs) {release_name kw} {} 0"])
  show "triple (holds (set cs) {release_name kw} {} 0) (perform ev) (\<lambda>_. holds (set cs) {release_name kw} {} 0) (\<lambda>_ _. False) X"
    by (rule perform_triple, erule holds_emit) (use assms in auto)
  show "triple (holds (set cs) {release_name kw} {} 0) (bind_io (kill_port_forwards cs) (\<lambda>_ s. ret_io () (k8s_cleanup_run kw (release_cleanup kw) s)))
    (\<lambda>_ s. \<exists>ns. holds {} ns {} 0 s \<and> after_cleanup kw (release_cleanup kw) ns) (\<lambda>_ _. False) X" for u :: unit
  proof (rule triple_bind [where Q = "\<lambda>_. holds {} {release_name kw} {} 0"])
    show "triple (holds (set cs) {release_name kw} {} 0) (kill_port_forwards cs) (\<lambda>_. holds {} {release_name kw} {} 0) (\<lambda>_ _. False) X"
      using triple_conseq [OF kill_triple [of "set cs" "{release_name kw}" "{}" 0 cs]] by (simp add: Diff_cancel)
    show "triple (holds {} {release_name kw} {} 0) (\<lambda>s. ret_io () (k8s_cleanup_run kw (release_cleanup kw) s))
      (\<lambda>_ s. \<exists>ns. holds {} ns {} 0 s \<and> after_cleanup kw (release_cleanup kw) ns) (\<lambda>_ _. False) X" for v :: unit
      using cleanup_run_holds [where kc = "release_cleanup kw" and kw = kw and fs = "{}" and td = 0]
      by (simp add: triple_def ret_io_def release_cleanup_def)
  qed
qed

lemma fail_or_step:
  assumes "ce_cleanup ce = release_cleanup kw" and "\<And>e. r = Inl e \<Longrightarrow> torn_down (f e)"
  shows "triple (holds (set (ce_port_forwards ce)) {release_name kw} {} 0) (on_fail (cluster_fail kw ce) (lift_io f r))
    (\<lambda>_. holds (set (ce_port_forwards ce)) {release_name kw} {} 0) (failed_with kw 0) X"
proof (rule triple_on_fail [where E = "\<lambda>e s. torn_down e \<and> holds (set (ce_port_forwards ce)) {release_name kw} {} 0 s"])
  show "triple (holds (set (ce_port_forwards ce)) {release_name kw} {} 0) (lift_io f r) (\<lambda>_. holds (set (ce_port_forwards ce)) {release_name kw} {} 0)
    (\<lambda>e s. torn_down e \<and> holds (set (ce_port_forwards ce)) {release_name kw} {} 0 s) X"
    by (rule triple_lift) (use assms(2) in auto)
  show "triple (\<lambda>s. torn_down e \<and> holds (set (ce_port_forwards ce)) {release_name kw} {} 0 s) (cluster_fail kw ce) (\<lambda>_. failed_with kw 0 e) (\<lambda>_ _. False) X" for e
    unfolding cluster_fail_def assms(1)
    by (rule triple_given, rule triple_conseq [OF tear_down_triple])
      (auto simp: failed_with_def left_behind_def torn_down_def split: k8s_error.splits)
qed

lemma deploy_triple:
  "triple (holds {} {} {} 0) (k8s_deploy kw readiness_checks t run_duration)
     (\<lambda>r s. kg_cleanup (kr_guard r) = release_cleanup kw \<and> holds (set (kg_port_forwards (kr_guard r))) {release_name kw} {} 0 s)
     (failed_with kw 0) (some_resources 0)" (is "triple _ _ ?Q _ _")
proof -
  have none: "failed_with kw 0 e s" if "holds {} {} {} 0 s" "e = ClientInit x \<or> e = UnsupportedTopology v y" for e s x v y
    using that by (auto simp: failed_with_def left_behind_def)
  have top: "triple (holds {} {} {} 0) (lift_io id (k8s_supported_topology t)) (\<lambda>_. holds {} {} {} 0) (failed_with kw 0) (some_resources 0)"
    by (rule triple_lift) (auto simp: k8s_supported_topology_def intro: none split: if_splits)
  have client: "triple (holds {} {} {} 0) (lift_io ClientInit (kw_client kw)) (\<lambda>_. holds {} {} {} 0) (failed_with kw 0) (some_resources 0)"
    by (rule triple_lift) (auto intro: none)
  have rest: "triple (holds (set (ce_port_forwards ce)) {release_name kw} {} 0)
     (bind_io (on_fail (cluster_fail kw ce) (lift_io id (k8s_node_clients kw ce))) (\<lambda>clients.
      bind_io (on_fail (cluster_fail kw ce) (lift_io KTelemetry (k8s_metrics_handle kw (ce_prometheus_port ce)))) (\<lambda>telemetry.
      bind_io (on_fail (cluster_fail kw ce) (lift_io id (k8s_block_feed kw clients))) (\<lambda>feed.
      bind_io (rust_io (run_context_new t run_duration False)) (\<lambda>ctx.
       ret_io \<lparr>kr_context = ctx, kr_clients = clients, kr_telemetry = telemetry, kr_feed = feed,
         kr_guard = \<lparr>kg_cleanup = ce_cleanup ce, kg_port_forwards = ce_port_forwards ce\<rparr>\<rparr>)))))
     ?Q (failed_with kw 0) (some_resources 0)" if c: "ce_cleanup ce = release_cleanup kw" for ce
    using client_errors c
    by (intro triple_bind [OF fail_or_step [OF c]] triple_bind [OF triple_rust [where Q = "\<lambda>_. holds (set (ce_port_forwards ce)) {release_name kw} {} 0"]])
      (auto simp: torn_down_def intro: triple_basic holds_some)
  show ?thesis unfolding k8s_deploy_def
    by (rule triple_bind [OF top], rule triple_bind [OF client], rule triple_bind [OF setup_triple]) (intro triple_given rest)
qed


end
