(* ===== verification/K8s_Reach.thy ===== *)
theory K8s_Reach
  imports K8s_Lifecycle
begin

text \<open>
  The waiting phase of the Kubernetes deployer against the chart: a cluster that runs what the chart
  declares is reached over node ports. And what goes wrong when a later step of the phase fails.
\<close>

section \<open>Names and ports of the chart\<close>

text \<open>A release name made of a UUID is kept by the chart.\<close>

lemma chart_fullname_release:
  assumes "length (kw_uuid kw) = 32" and "CHR ''-'' \<notin> set (kw_uuid kw)"
  shows "chart_fullname (release_name kw) = release_name kw"
proof -
  have "kw_uuid kw \<noteq> []" using assms(1) by auto
  then have "last (kw_uuid kw) \<noteq> CHR ''-''" using assms(2) last_in_set by metis
  then show ?thesis using assms(1) \<open>kw_uuid kw \<noteq> []\<close>
    by (simp add: chart_fullname_def release_name_def cluster_identifiers_def trim_suffix_dash_def Let_def)
qed

text \<open>
  A cluster that runs the pods: their deployments are ready, and their services give every port \<open>p\<close> the
  node port \<open>np name p\<close>.
\<close>

definition pod_served :: "('p, 'c) kube_world \<Rightarrow> (string \<Rightarrow> nat \<Rightarrow> nat) \<Rightarrow> string \<Rightarrow> nat list \<Rightarrow> bool" where
  "pod_served kw np name ports \<longleftrightarrow>
     (\<forall>k. \<exists>d. kw_deployment kw k name = Inr d \<and> deployment_is_ready d)
     \<and> (\<forall>k. \<exists>ps. kw_service kw k name = Inr (Some ps) \<and> (\<forall>p \<in> set ports. service_node_port p ps = Some (np name p)))"

lemma find_node_port_served:
  assumes "\<And>k. \<exists>ps. kw_service kw k name = Inr (Some ps) \<and> service_node_port p ps = Some q"
  shows "\<exists>s'. find_node_port kw name p s = (Returns q, s')"
proof -
  obtain ps where "kw_service kw (ks_clock s) name = Inr (Some ps)" "service_node_port p ps = Some q" using assms by blast
  then have "node_port_loop kw name p (Suc n) s = (Returns q, s\<lparr>ks_clock := Suc (ks_clock s)\<rparr>)" for n
    by (simp add: bind_io_def ask_def ret_io_def)
  from this [of 119] show ?thesis by (simp add: find_node_port_def)
qed

lemma discover_served:
  assumes "pod_served kw np name [ncp_api ports, ncp_testing ports]"
  shows "\<exists>s'. bind_io (wait_for_deployment_ready kw ns name) (\<lambda>_. bind_io (discover_node_ports kw name ports) f) s
    = f \<lparr>np_api = np name (ncp_api ports), np_testing = np name (ncp_testing ports)\<rparr> s'"
proof -
  note p = assms [unfolded pod_served_def]
  obtain d where d: "kw_deployment kw (ks_clock s) name = Inr d" "deployment_is_ready d" using p by blast
  have w: "wait_for_deployment_ready kw ns name s = (Returns (), s\<lparr>ks_clock := Suc (ks_clock s)\<rparr>)"
    unfolding wait_for_deployment_ready_def by (subst deployment_loop.simps) (simp add: bind_io_def ask_def d ret_io_def)
  have f: "\<exists>s'. find_node_port kw name q u = (Returns (np name q), s')" if "q \<in> {ncp_api ports, ncp_testing ports}" for q u
    by (rule find_node_port_served) (use p that in fastforce)
  obtain s1 where s1: "find_node_port kw name (ncp_api ports) (s\<lparr>ks_clock := Suc (ks_clock s)\<rparr>) = (Returns (np name (ncp_api ports)), s1)" using f by blast
  obtain s2 where s2: "find_node_port kw name (ncp_testing ports) s1 = (Returns (np name (ncp_testing ports)), s2)" using f by blast
  show ?thesis by (intro exI [of _ s2]) (simp add: bind_io_def w discover_node_ports_def s1 s2 ret_io_def)
qed

definition service_name :: "string \<Rightarrow> string \<Rightarrow> nat \<Rightarrow> string" where
  "service_name release kind i = release @ ''-'' @ kind @ ''-'' @ show_nat i"

definition expected_ports :: "(string \<Rightarrow> nat \<Rightarrow> nat) \<Rightarrow> string \<Rightarrow> string \<Rightarrow> nat \<Rightarrow> node_config_ports list \<Rightarrow> node_port_allocation list" where
  "expected_ports np release kind i ports = map (\<lambda>(j, q). \<lparr>np_api = np (service_name release kind j) (ncp_api q),
     np_testing = np (service_name release kind j) (ncp_testing q)\<rparr>) (enumerate i ports)"

lemma allocate_served:
  assumes "\<And>j. j < length ports \<Longrightarrow> pod_served kw np (service_name release kind (i + j)) [ncp_api (ports ! j), ncp_testing (ports ! j)]"
  shows "\<exists>s'. allocate_from kw ns release kind i ports s = (Returns (expected_ports np release kind i ports), s')"
  using assms
proof (induction ports arbitrary: i s)
  case Nil
  show ?case by (simp add: ret_io_def expected_ports_def)
next
  case (Cons q qs)
  have here: "pod_served kw np (service_name release kind i) [ncp_api q, ncp_testing q]" using Cons.prems [of 0] by simp
  have "pod_served kw np (service_name release kind (Suc i + j)) [ncp_api (qs ! j), ncp_testing (qs ! j)]" if "j < length qs" for j
    using Cons.prems [of "Suc j"] that by simp
  note IH = Cons.IH [of "Suc i", OF this]
  obtain s1 where s1: "allocate_from kw ns release kind i (q # qs) s =
      bind_io (allocate_from kw ns release kind (Suc i) qs) (\<lambda>rest. ret_io (\<lparr>np_api = np (service_name release kind i) (ncp_api q),
        np_testing = np (service_name release kind i) (ncp_testing q)\<rparr> # rest)) s1"
    using discover_served [OF here, of ns _ s] unfolding allocate_from.simps Let_def service_name_def by blast
  obtain s2 where "allocate_from kw ns release kind (Suc i) qs s1 = (Returns (expected_ports np release kind (Suc i) qs), s2)" using IH by blast
  then show ?case unfolding s1 by (simp add: bind_io_def ret_io_def expected_ports_def)
qed

section \<open>A healthy cluster\<close>

text \<open>The node ports answer over HTTP at once, and so does Prometheus.\<close>

definition answers_at_once :: "('p, 'c) kube_world \<Rightarrow> bool" where
  "answers_at_once kw \<longleftrightarrow> (\<forall>k p. kw_answers kw k (node_host (aw_env kw)) p 0 \<and> kw_latency kw k (node_host (aw_env kw)) p 0 = 0
     \<and> kw_prometheus_ready kw k (node_host (aw_env kw)) p)"

lemma probe_succeeds:
  assumes "answers_at_once kw"
  shows "\<exists>s'. succeeds (wait_for_node_http_nodeport kw ports role) s = (Returns True, s')"
proof -
  let ?h = "node_host (aw_env kw)"
  have "0 < http_poll_interval" by (simp add: http_poll_interval_def from_secs_def nanos_per_sec_def)
  moreover have "port_up (kw_answers kw (ks_clock s) ?h) (kw_latency kw (ks_clock s) ?h) node_http_probe_timeout http_poll_interval p" for p
    unfolding port_up_def using assms by (intro exI [of _ 0]) (simp add: answers_at_once_def)
  ultimately show ?thesis
    by (simp add: succeeds_def wait_for_node_http_nodeport_def wait_for_node_http_on_host_def bind_io_def ask_def ports_up_ready
        wait_io_def lift_io_def ret_io_def)
qed

lemma chart_pod_served:
  assumes "chart_fullname release = release" and "\<forall>n \<in> set (nodes t). 0 < ac_address_port (gc_api (gn_general n)) \<and> 0 < ac_testing_http_port (gc_api (gn_general n))"
    and "\<forall>p \<in> set (chart_pods release (build_values env t)). pod_served kw np (pd_name p) (pd_service_ports p)"
  shows "j < length (gt_validators t) \<Longrightarrow> let q = ps_validators (collect_port_specs t) ! j in
      pod_served kw np (service_name release ''validator'' j) [ncp_api q, ncp_testing q]"
    and "j < length (gt_executors t) \<Longrightarrow> let q = ps_executors (collect_port_specs t) ! j in
      pod_served kw np (service_name release ''executor'' j) [ncp_api q, ncp_testing q]"
proof -
  let ?v = "length (gt_validators t)" and ?pods = "chart_pods release (build_values env t)"
  have served: "pod_served kw np (pd_name (?pods ! i)) (pd_service_ports (?pods ! i))" if "i < length (nodes t)" for i
    using assms(3) that by (simp add: chart_pods_length)
  have pos: "0 < ac_address_port (gc_api (gn_general (nodes t ! i))) \<and> 0 < ac_testing_http_port (gc_api (gn_general (nodes t ! i)))"
    if "i < length (nodes t)" for i using assms(2) that by simp
  have len: "length (nodes t) = ?v + length (gt_executors t)" by (simp add: nodes_def)
  show "j < ?v \<Longrightarrow> let q = ps_validators (collect_port_specs t) ! j in pod_served kw np (service_name release ''validator'' j) [ncp_api q, ncp_testing q]"
    using served [of j] pos [of j] len assms(1)
    by (simp add: chart_pod_at Let_def chart_pod_def build_node_values_def chart_default_def instance_name_def service_name_def collect_port_specs_def nodes_def nth_append)
  show "j < length (gt_executors t) \<Longrightarrow> let q = ps_executors (collect_port_specs t) ! j in pod_served kw np (service_name release ''executor'' j) [ncp_api q, ncp_testing q]"
    using served [of "?v + j"] pos [of "?v + j"] len assms(1)
    by (simp add: chart_pod_at Let_def chart_pod_def build_node_values_def chart_default_def instance_name_def service_name_def collect_port_specs_def nodes_def nth_append)
qed

lemma reach_nodes:
  assumes "\<And>s. \<exists>s'. allocate_from kw ns release ''validator'' 0 vports s = (Returns vs, s')"
    and "\<And>s. \<exists>s'. allocate_from kw ns release ''executor'' 0 eports s = (Returns es, s')" and "answers_at_once kw"
  shows "\<exists>s'. reach_validators kw ns release vports s = (Returns (vs, []), s')"
    and "\<exists>s'. reach_executors kw ns release eports fw s = (Returns (es, fw), s')"
proof -
  obtain s1 where s1: "allocate_from kw ns release ''validator'' 0 vports s = (Returns vs, s1)" using assms(1) by blast
  obtain s2 where "(succeeds (wait_for_node_http_nodeport kw (map np_api vs) Validator) :: bool kube_wait) s1 = (Returns True, s2)" using probe_succeeds [OF assms(3)] by blast
  then show "\<exists>s'. reach_validators kw ns release vports s = (Returns (vs, []), s')"
    using s1 by (simp add: reach_validators_def bind_io_def ret_io_def)
  obtain u1 where u1: "allocate_from kw ns release ''executor'' 0 eports s = (Returns es, u1)" using assms(2) by blast
  obtain u2 where "(succeeds (wait_for_node_http_nodeport kw (map np_api es) Executor) :: bool kube_wait) u1 = (Returns True, u2)" using probe_succeeds [OF assms(3)] by blast
  then show "\<exists>s'. reach_executors kw ns release eports fw s = (Returns (es, fw), s')"
    using u1 by (cases "es = []") (simp_all add: reach_executors_def bind_io_def ret_io_def)
qed

lemma reach_prometheus_served:
  assumes "\<forall>k. \<exists>ps. kw_service kw k ''prometheus'' = Inr (Some ps) \<and> service_node_port prometheus_http_port ps = Some p" and "answers_at_once kw"
  shows "\<exists>s'. reach_prometheus kw fw s = (Returns (p, fw), s')"
proof -
  have "\<exists>s'. find_node_port kw ''prometheus'' prometheus_http_port s = (Returns p, s')"
    by (rule find_node_port_served) (use assms(1) in blast)
  then obtain s1 where s1: "find_node_port kw ''prometheus'' prometheus_http_port s = (Returns p, s1)" ..
  have "wait_for_prometheus_http kw (node_host (aw_env kw)) p (Suc n) s1 = (Returns (), s1\<lparr>ks_clock := Suc (ks_clock s1)\<rparr>)" for n
    using assms(2) by (simp add: bind_io_def ask_def answers_at_once_def ret_io_def)
  from this [of 29] show ?thesis by (simp add: reach_prometheus_def bind_io_def s1 succeeds_def prometheus_probe_timeout_secs_def ret_io_def)
qed


text \<open>A cluster that gives every port the node port of the same number.\<close>

definition all_ports :: "(int \<times> int option) list" where
  "all_ports = map (\<lambda>p. (int p, Some (int p))) [0..<Suc u16_max]"

lemma service_node_port_all: "p \<le> u16_max \<Longrightarrow> service_node_port p all_ports = Some p"
proof -
  have "service_node_port p (map (\<lambda>p. (int p, Some (int p))) qs) = Some p" if "p \<in> set qs" "\<forall>q \<in> set qs. q \<le> u16_max" for qs
    using that by (induction qs) (auto simp: u16_max_def nat_mod_distrib split: bool.split)
  then show "p \<le> u16_max \<Longrightarrow> service_node_port p all_ports = Some p" by (auto simp: all_ports_def simp del: upt_Suc)
qed

definition sample_kube_world :: "(nat, string) kube_world" where
  "sample_kube_world = \<lparr>aw_env = Map.empty, aw_manifest_dir = ''/repo/testing-framework/runners/k8s'', aw_exists = (\<lambda>_. True),
     kw_is_dir = (\<lambda>_. True), kw_load_template = (\<lambda>_. Inr (sample_settings 2)), kw_render_cfgsync = (\<lambda>_. Inr ''cfgsync''),
     kw_to_yaml = (\<lambda>_. Inr ''values''), kw_tempdir = Inr ''/tmp/nomos-helm'', kw_write = (\<lambda>_ _. Inr ()), kw_client = Inr (),
     kw_uuid = replicate 32 (CHR ''a''), kw_helm_install = (\<lambda>_. HelmOk), kw_helm_uninstall = (\<lambda>_. HelmOk),
     kw_delete_api = (\<lambda>_. True), kw_delete_cli = (\<lambda>_. True), kw_namespace_gone = (\<lambda>_ _. True), kw_in_runtime = True,
     kw_blocking = (\<lambda>_. Completed), kw_background = (\<lambda>_. Completed),
     kw_deployment = (\<lambda>_ _. Inr \<lparr>di_replicas = Some 1, di_ready_replicas = Some 1\<rparr>), kw_service = (\<lambda>_ _. Inr (Some all_ports)),
     kw_answers = (\<lambda>_ _ _ _. True), kw_latency = (\<lambda>_ _ _ _. 0), kw_prometheus_ready = (\<lambda>_ _ _. True),
     kw_local_port = (\<lambda>_. Inr 40000), kw_spawn = (\<lambda>_ _ _. Inr ()), kw_forward = (\<lambda>_ _. Connects), kw_parse_url = Inr,
     kw_prometheus = (\<lambda>_. Inl ''no server''), kw_api_client = (\<lambda>base testing. base),
     kw_infos = (\<lambda>_. (\<lambda>_. [], \<lambda>_. 0)), kw_members = (\<lambda>_. (\<lambda>_. [], \<lambda>_. 0)), kw_pick = 0,
     kw_tip = (\<lambda>_. Inl ''offline''), kw_storage = (\<lambda>_ _. Inl ''offline'')\<rparr>"

lemma chart_ports_bound:
  "node_ports_ok n \<Longrightarrow> q \<in> set (pd_service_ports (chart_pod release port kind (i, build_node_values pol kind (i, n)))) \<Longrightarrow> q \<le> u16_max"
  by (auto simp: chart_pod_def build_node_values_def chart_default_def node_ports_ok_def u16_max_def Let_def split: if_splits)


section \<open>Forwards left running\<close>


text \<open>Node ports that never answer in time, and no deployment for the executor.\<close>

definition half_kube_world :: "(nat, string) kube_world" where
  "half_kube_world = sample_kube_world\<lparr>aw_env := [''K8S_RUNNER_NODE_HOST'' \<mapsto> ''node''],
     kw_latency := (\<lambda>_ host _ _. if host = ''node'' then from_secs 31 else 0),
     kw_deployment := (\<lambda>_ name. if name = ''r-executor-0'' then Inl ''not found'' else Inr \<lparr>di_replicas = Some 1, di_ready_replicas = Some 1\<rparr>)\<rparr>"

lemma half_world_validators:
  "\<exists>al s1. reach_validators half_kube_world ''r'' ''r'' [\<lparr>ncp_api = 1, ncp_testing = 2\<rparr>] kube_start = (Returns (al, [0, 1]), s1)"
proof -
  let ?kw = half_kube_world and ?q = "\<lparr>ncp_api = 1, ncp_testing = 2\<rparr>"
  have "pod_served ?kw (\<lambda>_ p. p) (service_name ''r'' ''validator'' 0) [1, 2]"
    by (simp add: pod_served_def half_kube_world_def sample_kube_world_def deployment_is_ready_def unwrap_or_def service_node_port_all service_name_def u16_max_def)
  then have "\<exists>s'. allocate_from ?kw ''r'' ''r'' ''validator'' 0 [?q] kube_start = (Returns (expected_ports (\<lambda>_ p. p) ''r'' ''validator'' 0 [?q]), s')"
    by (intro allocate_served) simp
  moreover have "expected_ports (\<lambda>_ p. p) ''r'' ''validator'' 0 [?q] = [\<lparr>np_api = 1, np_testing = 2\<rparr>]" by (simp add: expected_ports_def)
  moreover have "\<exists>s'. allocate_from ?kw ''r'' ''r'' ''validator'' 0 [?q] kube_start = (r, s') \<Longrightarrow>
      ks_children (snd (allocate_from ?kw ''r'' ''r'' ''validator'' 0 [?q] kube_start)) = 0" for r
    using quiet_allocate [of ?kw "''r''" "''r''" "''validator''" 0 "[?q]"] by (auto simp: keeps_def kube_start_def)
  ultimately obtain s1 where s1: "allocate_from ?kw ''r'' ''r'' ''validator'' 0 [?q] kube_start = (Returns [\<lparr>np_api = 1, np_testing = 2\<rparr>], s1)" "ks_children s1 = 0"
    by force
  have "node_http_probe_timeout < from_secs 31" by (simp add: node_http_probe_timeout_def from_secs_def nanos_per_sec_def)
  then have p: "(succeeds (wait_for_node_http_nodeport ?kw [1] Validator) :: bool kube_wait) s1 = (Returns False, s1\<lparr>ks_clock := Suc (ks_clock s1)\<rparr>)"
    by (simp add: succeeds_def wait_for_node_http_nodeport_def wait_for_node_http_on_host_def bind_io_def ask_def wait_for_http_ports_with_host_def
        wait_for_single_port_def wait_io_def lift_io_def fail_io_def half_kube_world_def node_host_def)
  have f: "port_forward_service ?kw svc remote u = (Returns (40000, ks_children u), emit (ForwardSpawned (ks_children u))
      (u\<lparr>ks_clock := ks_clock u + 3, ks_children := Suc (ks_children u)\<rparr>))" for svc remote u
  proof -
    have "forward_loop ?kw svc remote 40000 c (Suc n) v = (Returns (40000, c), v\<lparr>ks_clock := Suc (ks_clock v)\<rparr>)" for c n v
      by (simp add: bind_io_def ask_def half_kube_world_def sample_kube_world_def ret_io_def)
    from this [of _ 19] show ?thesis
      by (simp add: port_forward_service_def bind_io_def ask_def lift_io_def ret_io_def spawn_child_def Let_def half_kube_world_def sample_kube_world_def emit_def)
  qed
  have g: "\<exists>v. port_forward_group ?kw ''r'' ''validator'' [?q] u = (Returns ([\<lparr>np_api = 40000, np_testing = 40000\<rparr>], [ks_children u, Suc (ks_children u)]), v)" for u
    by (simp add: port_forward_group_def Let_def bind_io_def or_kill_def on_fail_def f ret_io_def emit_def)
  obtain s3 where s3: "port_forward_group ?kw ''r'' ''validator'' [?q] (s1\<lparr>ks_clock := Suc (ks_clock s1)\<rparr>)
      = (Returns ([\<lparr>np_api = 40000, np_testing = 40000\<rparr>], [0, 1]), s3)" using g [of "s1\<lparr>ks_clock := Suc (ks_clock s1)\<rparr>"] s1(2) by auto
  have poll: "0 < http_poll_interval" by (simp add: http_poll_interval_def from_secs_def nanos_per_sec_def)
  have up: "port_up (kw_answers ?kw k ''127.0.0.1'') (kw_latency ?kw k ''127.0.0.1'') node_http_timeout http_poll_interval q" for k q
    unfolding port_up_def by (intro exI [of _ 0]) (simp add: half_kube_world_def sample_kube_world_def)
  have w: "\<exists>v. wait_for_node_http_port_forward ?kw [40000] Validator u = (Returns (), v)" for u
    by (simp add: wait_for_node_http_port_forward_def wait_for_node_http_on_host_def bind_io_def ask_def ports_up_ready [OF poll up] wait_io_def lift_io_def ret_io_def)
  then obtain s4 where "wait_for_node_http_port_forward ?kw [40000] Validator s3 = (Returns (), s4)" by blast
  then show ?thesis by (simp add: reach_validators_def bind_io_def s1 p s3 or_kill_def on_fail_def ret_io_def del: allocate_from.simps One_nat_def)
qed


end
