(* ===== verification/Node_Yaml.thy ===== *)
theory Node_Yaml
  imports Prelude
begin

text \<open>
  The edits of a node's configuration file before it is written:
  \<open>core/src/nodes/common/config/injection.rs\<close> and \<open>write_config_with_injection\<close> of
  \<open>core/src/nodes/common/lifecycle/spawn.rs\<close>. A YAML value is a datatype; a mapping is a list of entries
  in insertion order, with different keys. Writing the file is left out.
\<close>

section \<open>YAML values\<close>

datatype yaml = YNull | YBool bool | YNum int | YReal string | YStr string | YSeq "yaml list" | YMap "(yaml \<times> yaml) list"
  | YTagged string yaml

text \<open>A sequence of numbers that are bytes.\<close>

fun byte_of :: "yaml \<Rightarrow> nat option" where
  "byte_of (YNum n) = (if 0 \<le> n \<and> n \<le> 255 then Some (nat n) else None)"
| "byte_of v = None"

fun sig_bytes :: "yaml \<Rightarrow> nat list option" where
  "sig_bytes (YSeq xs) = those (map byte_of xs)"
| "sig_bytes v = None"

definition hex_digit :: "nat \<Rightarrow> char" where
  "hex_digit n = ''0123456789abcdef'' ! n"

definition hex_encode :: "nat list \<Rightarrow> string" where
  "hex_encode bs = concat (map (\<lambda>b. [hex_digit (b div 16), hex_digit (b mod 16)]) bs)"

definition sig_key :: yaml where "sig_key = YStr ''ed25519_sig''"

lemma entry_smaller [termination_simp]: "(k, v) \<in> set kvs \<Longrightarrow> size v < Suc (size_list (size_prod size size) kvs)"
  by (induction kvs) auto

fun normalize_ed25519_sigs :: "yaml \<Rightarrow> yaml" where
  "normalize_ed25519_sigs (YMap kvs) = YMap (map (\<lambda>(k, v).
     (k, case (if k = sig_key then sig_bytes v else None) of Some bs \<Rightarrow> YStr (hex_encode bs) | None \<Rightarrow> normalize_ed25519_sigs v)) kvs)"
| "normalize_ed25519_sigs (YSeq xs) = YSeq (map normalize_ed25519_sigs xs)"
| "normalize_ed25519_sigs (YTagged t v) = YTagged t (normalize_ed25519_sigs v)"
| "normalize_ed25519_sigs v = v"

section \<open>Injected defaults\<close>

definition contains_key :: "string \<Rightarrow> (yaml \<times> yaml) list \<Rightarrow> bool" where
  "contains_key k m \<longleftrightarrow> YStr k \<in> fst ` set m"

text \<open>\<open>get_mut\<close> and \<open>as_mapping_mut\<close>: an edit of the mapping under a key, if there is one.\<close>

definition edit_mapping :: "((yaml \<times> yaml) list \<Rightarrow> (yaml \<times> yaml) list) \<Rightarrow> yaml \<Rightarrow> yaml" where
  "edit_mapping f v = (case v of YMap s \<Rightarrow> YMap (f s) | _ \<Rightarrow> v)"

definition edit_section :: "string \<Rightarrow> ((yaml \<times> yaml) list \<Rightarrow> (yaml \<times> yaml) list) \<Rightarrow> (yaml \<times> yaml) list \<Rightarrow> (yaml \<times> yaml) list" where
  "edit_section k f m = map (\<lambda>(k', v). (k', if k' = YStr k then edit_mapping f v else v)) m"

definition or_default :: "string \<Rightarrow> yaml \<Rightarrow> (yaml \<times> yaml) list \<Rightarrow> (yaml \<times> yaml) list" where
  "or_default k v m = (if contains_key k m then m else m @ [(YStr k, v)])"

definition ensure_network_adapter :: "(yaml \<times> yaml) list \<Rightarrow> (yaml \<times> yaml) list" where
  "ensure_network_adapter = or_default ''network_adapter_settings'' (YMap [(YStr ''topic'', YStr ''/cryptarchia/proto'')])"

definition ensure_sync_defaults :: "(yaml \<times> yaml) list \<Rightarrow> (yaml \<times> yaml) list" where
  "ensure_sync_defaults = or_default ''sync'' (YMap [(YStr ''orphan'', YMap [(YStr ''max_orphan_cache_size'', YNum 5)])])"

definition ensure_ibd_bootstrap :: "(yaml \<times> yaml) list \<Rightarrow> (yaml \<times> yaml) list" where
  "ensure_ibd_bootstrap = edit_section ''bootstrap'' (or_default ''ibd'' (YMap [(YStr ''peers'', YSeq [])]))"

definition edit_cryptarchia :: "yaml \<Rightarrow> yaml" where
  "edit_cryptarchia = edit_mapping (edit_section ''cryptarchia'' (\<lambda>c. ensure_ibd_bootstrap (ensure_sync_defaults (ensure_network_adapter c))))"

text \<open>\<open>cryptarchia_section\<close>: whether there is a mapping to edit.\<close>

definition has_cryptarchia :: "yaml \<Rightarrow> bool" where
  "has_cryptarchia y \<longleftrightarrow> (case y of YMap m \<Rightarrow> (\<exists>(k, v) \<in> set m. k = YStr ''cryptarchia'' \<and> (case v of YMap _ \<Rightarrow> True | _ \<Rightarrow> False)) | _ \<Rightarrow> False)"

definition inject_ibd_into_cryptarchia :: "yaml \<Rightarrow> yaml" where
  "inject_ibd_into_cryptarchia y = (if has_cryptarchia y then normalize_ed25519_sigs (edit_cryptarchia y) else y)"

text \<open>The value \<open>write_config_with_injection\<close> writes.\<close>

definition written_config :: "yaml \<Rightarrow> yaml" where
  "written_config y = normalize_ed25519_sigs (inject_ibd_into_cryptarchia y)"

section \<open>Properties\<close>

text \<open>No signature is left as a list of bytes.\<close>

fun no_raw_sigs :: "yaml \<Rightarrow> bool" where
  "no_raw_sigs (YMap kvs) = list_all (\<lambda>(k, v). (k = sig_key \<longrightarrow> sig_bytes v = None) \<and> no_raw_sigs v) kvs"
| "no_raw_sigs (YSeq xs) = list_all no_raw_sigs xs"
| "no_raw_sigs (YTagged t v) = no_raw_sigs v"
| "no_raw_sigs v = True"

lemma byte_normalize: "byte_of (normalize_ed25519_sigs v) = byte_of v"
  by (cases v) simp_all

lemma sig_bytes_normalize: "sig_bytes (normalize_ed25519_sigs v) = sig_bytes v"
  by (cases v) (simp_all add: byte_normalize o_def)

lemma normalize_no_raw: "no_raw_sigs (normalize_ed25519_sigs y)"
  by (induction y rule: normalize_ed25519_sigs.induct)
    (auto simp: list_all_iff sig_bytes_normalize split: option.splits if_splits)

text \<open>The entries of a mapping, normalised.\<close>

definition normalize_entries :: "(yaml \<times> yaml) list \<Rightarrow> (yaml \<times> yaml) list" where
  "normalize_entries kvs = map (\<lambda>(k, v).
     (k, case (if k = sig_key then sig_bytes v else None) of Some bs \<Rightarrow> YStr (hex_encode bs) | None \<Rightarrow> normalize_ed25519_sigs v)) kvs"

lemma normalize_map: "normalize_ed25519_sigs (YMap kvs) = YMap (normalize_entries kvs)"
  by (simp add: normalize_entries_def)

lemma no_raw_normalize: "no_raw_sigs y \<Longrightarrow> normalize_ed25519_sigs y = y"
proof (induction y rule: no_raw_sigs.induct)
  case (1 kvs)
  have "normalize_entries kvs = kvs"
    unfolding normalize_entries_def using 1 by (intro map_idI) (force simp: list_all_iff)
  then show ?case by (simp only: normalize_map)
qed (auto simp: list_all_iff map_idI)

lemma normalize_idem: "normalize_ed25519_sigs (normalize_ed25519_sigs y) = normalize_ed25519_sigs y"
  by (rule no_raw_normalize [OF normalize_no_raw])

lemma contains_key_edits [simp]:
  "contains_key k (normalize_entries m) = contains_key k m" "contains_key k (edit_section k' f m) = contains_key k m"
  "contains_key k (or_default k' v m) \<longleftrightarrow> k = k' \<or> contains_key k m"
  by (force simp: contains_key_def normalize_entries_def edit_section_def or_default_def)+

lemma or_default_normalize:
  "k \<noteq> ''ed25519_sig'' \<Longrightarrow> normalize_ed25519_sigs v = v \<Longrightarrow> or_default k v (normalize_entries m) = normalize_entries (or_default k v m)"
  by (simp add: or_default_def) (simp add: normalize_entries_def sig_key_def)

lemma edit_mapping_normalize:
  "(\<And>s. f (normalize_entries s) = normalize_entries (f s)) \<Longrightarrow> edit_mapping f (normalize_ed25519_sigs v) = normalize_ed25519_sigs (edit_mapping f v)"
  by (cases v) (simp_all only: edit_mapping_def normalize_map yaml.case, simp_all)

lemma edit_section_normalize:
  assumes "k \<noteq> ''ed25519_sig''" and "\<And>s. f (normalize_entries s) = normalize_entries (f s)"
  shows "edit_section k f (normalize_entries m) = normalize_entries (edit_section k f m)"
  using assms(1) edit_mapping_normalize [of f, OF assms(2)] by (auto simp: edit_section_def normalize_entries_def sig_key_def)

lemma edit_cryptarchia_normalize: "edit_cryptarchia (normalize_ed25519_sigs y) = normalize_ed25519_sigs (edit_cryptarchia y)"
  unfolding edit_cryptarchia_def ensure_ibd_bootstrap_def ensure_sync_defaults_def ensure_network_adapter_def
  by (intro edit_mapping_normalize edit_section_normalize) (simp_all add: or_default_normalize edit_section_normalize sig_key_def)

lemma edit_mapping_idem: "(\<And>s. f (f s) = f s) \<Longrightarrow> edit_mapping f (edit_mapping f v) = edit_mapping f v"
  by (cases v) (simp_all add: edit_mapping_def)

lemma edit_section_idem: "(\<And>s. f (f s) = f s) \<Longrightarrow> edit_section k f (edit_section k f m) = edit_section k f m"
  by (auto simp: edit_section_def edit_mapping_idem)

lemma or_default_present: "contains_key k m \<Longrightarrow> or_default k v m = m"
  by (simp add: or_default_def)

lemma edit_cryptarchia_idem: "edit_cryptarchia (edit_cryptarchia y) = edit_cryptarchia y"
  unfolding edit_cryptarchia_def ensure_ibd_bootstrap_def ensure_sync_defaults_def ensure_network_adapter_def
  by (intro edit_mapping_idem edit_section_idem) (simp add: or_default_present edit_section_idem)

lemma written_config_eq: "written_config y = normalize_ed25519_sigs (edit_cryptarchia y)"
proof (cases "has_cryptarchia y")
  case True
  then show ?thesis by (simp add: written_config_def inject_ibd_into_cryptarchia_def normalize_idem)
next
  case False
  have "edit_cryptarchia y = y"
    using False by (cases y) (auto simp: edit_cryptarchia_def has_cryptarchia_def edit_section_def edit_mapping_def split: yaml.splits intro!: map_idI)
  then show ?thesis using False by (simp add: written_config_def inject_ibd_into_cryptarchia_def)
qed


end
