(* ===== verification/Local_Deployer.thy ===== *)
theory Local_Deployer
  imports Node_Yaml Node_Configs File_System Deploy_Monad Runner Runtime_Clients Block_Feed
begin

text \<open>
  Nodes as processes of this machine: \<open>core/src/nodes\<close> (\<open>mod.rs\<close>, \<open>validator.rs\<close>, \<open>executor.rs\<close>,
  \<open>common/binary.rs\<close>, \<open>common/node.rs\<close>, \<open>common/lifecycle/spawn.rs\<close>),
  \<open>spawn_validators_executors\<close> of \<open>core/src/topology/deployment.rs\<close> with its effects, and the local deployer
  \<open>runners/local/src/runner.rs\<close>.

  What the operating system and the nodes answer is a parameter in the record \<open>local_world\<close>; nodes are
  numbered in the order they are spawned. Processes and directories are tracked by a log of effects.
  A process handle that is dropped is not killed, as in Rust: the destructors of validators and executors
  kill theirs.
\<close>

section \<open>Binaries\<close>

record ('p, 'c) local_world =
  lw_env :: environment
  lw_te :: "'p topology_env"
  lw_manifest_dir :: string
  lw_exists :: "string \<Rightarrow> bool"
  lw_is_dir :: "string \<Rightarrow> bool"
  lw_is_file :: "string \<Rightarrow> bool"
  lw_debug_tracing :: bool
  lw_tempdir :: "nat \<Rightarrow> string + string"
  lw_validator_yaml :: "'p validator_config \<Rightarrow> string + yaml"
  lw_executor_yaml :: "'p executor_config \<Rightarrow> string + yaml"
  lw_write :: "string \<Rightarrow> yaml \<Rightarrow> string + unit"
  lw_spawn :: "nat \<Rightarrow> string \<Rightarrow> string \<Rightarrow> string + unit"
  lw_info :: "nat \<Rightarrow> nat \<Rightarrow> bool"
  lw_info_latency :: "nat \<Rightarrow> nat \<Rightarrow> duration"
  lw_persist :: "nat \<Rightarrow> bool"
  lw_infos :: "nat list samples"
  lw_members :: "(string + nat) list samples"
  lw_stats :: "balancer_stats list samples"
  lw_client :: "nat \<Rightarrow> nat \<Rightarrow> 'c"
  lw_pick :: nat
  lw_tip :: "'c \<Rightarrow> string + header_id \<times> nat"
  lw_storage :: "'c \<Rightarrow> storage"

record binary_config =
  bn_env_var :: string
  bn_binary_name :: string
  bn_fallback_path :: string
  bn_shared_bin_subpath :: string

text \<open>\<open>env::split_paths\<close>.\<close>

fun split_colon :: "string \<Rightarrow> string \<Rightarrow> string list" where
  "split_colon acc [] = [rev acc]"
| "split_colon acc (c # cs) = (if c = CHR '':'' then rev acc # split_colon [] cs else split_colon (c # acc) cs)"

definition which_on_path :: "('p, 'c) local_world \<Rightarrow> string \<Rightarrow> string option" where
  "which_on_path lw bin = Option.bind (lw_env lw ''PATH'') (\<lambda>paths.
     find (lw_is_file lw) (map (\<lambda>p. path_join p bin) (split_colon [] paths)))"

definition resolve_path :: "('p, 'c) local_world \<Rightarrow> binary_config \<Rightarrow> string" where
  "resolve_path lw b = (case lw_env lw (bn_env_var b) of
     Some file \<Rightarrow> file
   | None \<Rightarrow> (case which_on_path lw (bn_binary_name b) of
       Some file \<Rightarrow> file
     | None \<Rightarrow> (let shared_bin = path_join (lw_manifest_dir lw) (bn_shared_bin_subpath b) in
         if lw_exists lw shared_bin then shared_bin
         else path_join (path_join (lw_manifest_dir lw) ''../../'') (bn_fallback_path b))))"

definition validator_binary :: binary_config where
  "validator_binary = \<lparr>bn_env_var = ''NOMOS_NODE_BIN'', bn_binary_name = ''nomos-node'', bn_fallback_path = ''target/debug/nomos-node'',
     bn_shared_bin_subpath = ''testing-framework/assets/stack/bin/nomos-node''\<rparr>"

definition executor_binary :: binary_config where
  "executor_binary = \<lparr>bn_env_var = ''NOMOS_EXECUTOR_BIN'', bn_binary_name = ''nomos-executor'', bn_fallback_path = ''target/debug/nomos-executor'',
     bn_shared_bin_subpath = ''testing-framework/assets/stack/bin/nomos-executor''\<rparr>"

section \<open>Configuration of a process\<close>

definition configure_logging :: "environment \<Rightarrow> string \<Rightarrow> string \<Rightarrow> logger_layer" where
  "configure_logging env base_dir log_prefix = LoggerFile (unwrap_or base_dir (env ''NOMOS_LOG_DIR'')) (Some log_prefix)"

definition set_logger :: "logger_layer \<Rightarrow> ('p, 'z) validator_config_scheme \<Rightarrow> ('p, 'z) validator_config_scheme" where
  "set_logger l c = c\<lparr>vc_tracing := (vc_tracing c)\<lparr>ts_logger := l\<rparr>\<rparr>"

definition set_paths :: "string \<Rightarrow> ('p, 'z) validator_config_scheme \<Rightarrow> ('p, 'z) validator_config_scheme" where
  "set_paths base c = c\<lparr>vc_db_path := path_join base ''db'', vc_da_verifier := (vc_da_verifier c)\<lparr>dv_blob_storage_directory := base\<rparr>\<rparr>"

definition prepare_node_config :: "('p, 'c) local_world \<Rightarrow> string \<Rightarrow> ('p, 'z) validator_config_scheme \<Rightarrow> ('p, 'z) validator_config_scheme" where
  "prepare_node_config lw dir c =
     set_paths dir (if lw_debug_tracing lw then c else set_logger (configure_logging (lw_env lw) dir ''__logs'') c)"

text \<open>
  Placeholders for state that services recover, written into the directory of a node before it starts; what
  is there already stays. The caller ignores the result.
\<close>

definition write_missing :: "writable \<Rightarrow> fpath \<Rightarrow> string \<Rightarrow> unit fs_io" where
  "write_missing w p contents fs = (if path_exists fs p then ret_io () fs else write_copy w contents p fs)"

definition ensure_recovery_paths :: "writable \<Rightarrow> fpath \<Rightarrow> unit fs_io" where
  "ensure_recovery_paths w base_dir =
     bind_io (create_dir_all w (base_dir @ [''recovery''])) (\<lambda>_.
     bind_io (write_missing w (base_dir @ [''recovery'', ''mempool.json'']) ''{}'') (\<lambda>_.
     bind_io (create_dir_all w (base_dir @ [''recovery'', ''blend''])) (\<lambda>_.
       write_missing w (base_dir @ [''recovery'', ''blend'', ''core.json'']) ''{}'')))"

section \<open>Processes\<close>

datatype local_effect = DirCreated nat | DirRemoved nat | DirKept nat | ProcessStarted nat | ProcessKilled nat | LocalFeedAborted

datatype local_error = ReadinessFailed string | LocalWorkloadFailed string | LocalExpectationsFailed string

record local_state =
  ls_log :: "local_effect list"
  ls_nodes :: nat

type_synonym 'a local_io = "(local_state, local_error, 'a) io"

definition local_start :: local_state where "local_start = \<lparr>ls_log = [], ls_nodes = 0\<rparr>"

definition note_effect :: "local_effect \<Rightarrow> local_state \<Rightarrow> local_state" where
  "note_effect ev s = s\<lparr>ls_log := ls_log s @ [ev]\<rparr>"

record local_node =
  ln_id :: nat
  ln_running :: running_node
  ln_api :: nat
  ln_testing :: nat

definition node_of_config :: "nat \<Rightarrow> ('p, 'z) validator_config_scheme \<Rightarrow> local_node" where
  "node_of_config n c = \<lparr>ln_id = n, ln_running = \<lparr>rn_port = nc_port (vc_network c), rn_initial_peers = nc_initial_peers (vc_network c),
       rn_subnet_threshold = vc_subnet_threshold c\<rparr>,
     ln_api = hc_port (vc_http c), ln_testing = hc_port (vc_testing_http c)\<rparr>"

text \<open>Whether node \<open>n\<close> answers a consensus query within 60 s, asked every 100 ms.\<close>

definition node_ready :: "('p, 'c) local_world \<Rightarrow> nat \<Rightarrow> bool" where
  "node_ready lw n \<longleftrightarrow>
     wait_for_single_port (lw_info lw) (lw_info_latency lw) Validator (from_secs 60) (from_millis 100) n = Some (Inr ())"

definition persist_tempdir :: "('p, 'c) local_world \<Rightarrow> nat \<Rightarrow> local_state \<Rightarrow> local_state" where
  "persist_tempdir lw n s = note_effect (if lw_persist lw n then DirKept n else DirRemoved n) s"

text \<open>
  \<open>spawn_node\<close>: \<open>None\<close> when the node did not become ready in time. Its handle is then dropped, which
  keeps the directory and leaves the process alone.
\<close>

definition spawn_node :: "('p, 'c) local_world \<Rightarrow> (('p, 'z) validator_config_scheme \<Rightarrow> string + yaml) \<Rightarrow> string \<Rightarrow> string
    \<Rightarrow> ('p, 'z) validator_config_scheme \<Rightarrow> local_node option local_io" where
  "spawn_node lw to_yaml config_filename binary c s =
     (let n = ls_nodes s; s0 = s\<lparr>ls_nodes := Suc n\<rparr> in
      case lw_tempdir lw n of
        Inl e \<Rightarrow> panic_io ''tempdir'' s0
      | Inr dir \<Rightarrow>
         (let s1 = note_effect (DirCreated n) s0; c' = prepare_node_config lw dir c; file = path_join dir config_filename in
          case rbind (to_yaml c') (\<lambda>y. lw_write lw file (written_config y)) of
            Inl e \<Rightarrow> panic_io ''failed to write node config'' (note_effect (DirRemoved n) s1)
          | Inr _ \<Rightarrow>
             (case lw_spawn lw n binary file of
                Inl e \<Rightarrow> panic_io ''failed to spawn node process'' (note_effect (DirRemoved n) s1)
              | Inr _ \<Rightarrow>
                 (let s2 = note_effect (ProcessStarted n) s1 in
                  if node_ready lw n then ret_io (Some (node_of_config n c')) s2
                  else ret_io None (persist_tempdir lw n s2)))))"

definition validator_spawn :: "('p, 'c) local_world \<Rightarrow> 'p validator_config \<Rightarrow> local_node local_io" where
  "validator_spawn lw c =
     bind_io (spawn_node lw (lw_validator_yaml lw) ''validator.yaml'' (resolve_path lw validator_binary) c) (\<lambda>r. case r of
       Some n \<Rightarrow> ret_io n | None \<Rightarrow> panic_io ''called Result::unwrap() on an Err value: Elapsed'')"

definition executor_spawn :: "('p, 'c) local_world \<Rightarrow> 'p executor_config \<Rightarrow> local_node local_io" where
  "executor_spawn lw c =
     bind_io (spawn_node lw (lw_executor_yaml lw) ''executor.yaml'' (resolve_path lw executor_binary) c) (\<lambda>r. case r of
       Some n \<Rightarrow> ret_io n | None \<Rightarrow> panic_io ''executor did not become ready'')"

text \<open>
  \<open>wait_for_exit\<close>: the process is asked every 100 ms; \<open>try_wait k\<close> is the \<open>k\<close>-th answer, a status once it has
  exited. An error counts as not running.
\<close>

definition is_running :: "string + nat option \<Rightarrow> bool" where
  "is_running r = (case r of Inr None \<Rightarrow> True | _ \<Rightarrow> False)"

definition wait_for_exit :: "(nat \<Rightarrow> string + nat option) \<Rightarrow> duration \<Rightarrow> bool" where
  "wait_for_exit try_wait timeout \<longleftrightarrow>
     wait_for_single_port (\<lambda>_ k. \<not> is_running (try_wait k)) (\<lambda>_ _. 0) Validator timeout (from_millis 100) 0 = Some (Inr ())"

text \<open>The destructors of validators and executors.\<close>

definition should_persist_tempdir :: "('p, 'c) local_world \<Rightarrow> bool \<Rightarrow> bool" where
  "should_persist_tempdir lw panicking \<longleftrightarrow> panicking \<or> lw_env lw ''NOMOS_TESTS_KEEP_LOGS'' \<noteq> None"

definition drop_node :: "('p, 'c) local_world \<Rightarrow> bool \<Rightarrow> local_node \<Rightarrow> local_state \<Rightarrow> local_state" where
  "drop_node lw panicking n s = note_effect (ProcessKilled (ln_id n))
     (if should_persist_tempdir lw panicking then persist_tempdir lw (ln_id n) s else note_effect (DirRemoved (ln_id n)) s)"

definition drop_nodes :: "('p, 'c) local_world \<Rightarrow> local_node list \<Rightarrow> bool \<Rightarrow> local_state \<Rightarrow> local_state" where
  "drop_nodes lw ns panicking s = fold (drop_node lw panicking) ns s"

text \<open>The loops of \<open>spawn_validators_executors\<close>; nodes spawned before a panic are dropped.\<close>

fun spawn_each :: "('p, 'c) local_world \<Rightarrow> (nat \<Rightarrow> local_node local_io) \<Rightarrow> nat list \<Rightarrow> local_node list \<Rightarrow> local_node list local_io" where
  "spawn_each lw spawn [] acc = ret_io acc"
| "spawn_each lw spawn (i # js) acc = bind_io (unwinding (drop_nodes lw acc) (spawn i)) (\<lambda>n. spawn_each lw spawn js (acc @ [n]))"

definition spawn_validator_at :: "('p, 'c) local_world \<Rightarrow> 'p general_config list \<Rightarrow> nat \<Rightarrow> local_node local_io" where
  "spawn_validator_at lw configs i =
     bind_io (rust_io (rbind (index_checked configs i) (create_validator_config (lw_is_dir lw) (lw_te lw)))) (validator_spawn lw)"

definition spawn_executor_at :: "('p, 'c) local_world \<Rightarrow> 'p general_config list \<Rightarrow> nat \<Rightarrow> local_node local_io" where
  "spawn_executor_at lw configs i =
     bind_io (rust_io (rbind (index_checked configs i) (create_executor_config (lw_is_dir lw) (lw_te lw)))) (executor_spawn lw)"

text \<open>All nodes of the topology, validators first.\<close>

definition spawn_local_nodes :: "('p, 'c) local_world \<Rightarrow> 'p generated_topology \<Rightarrow> local_node list local_io" where
  "spawn_local_nodes lw t =
     (let configs = map gn_general (nodes t); n_val = n_validators (gt_config t); n_exec = n_executors (gt_config t) in
      bind_io (spawn_each lw (spawn_validator_at lw configs) [0..<n_val] []) (\<lambda>vs.
        spawn_each lw (\<lambda>i. spawn_executor_at lw configs (n_val + i)) [0..<n_exec] vs))"

section \<open>The deployer\<close>

definition from_scenario_error :: "scenario_error \<Rightarrow> local_error" where
  "from_scenario_error e = (case e of WorkloadError x \<Rightarrow> LocalWorkloadFailed x
     | ExpectationCapture x \<Rightarrow> LocalExpectationsFailed x | ExpectationsError x \<Rightarrow> LocalExpectationsFailed x)"

definition topology_of :: "nat \<Rightarrow> local_node list \<Rightarrow> deployed_topology" where
  "topology_of n_val ns = \<lparr>dt_validators = map ln_running (take n_val ns), dt_executors = map ln_running (drop n_val ns)\<rparr>"

definition wait_for_readiness :: "('p, 'c) local_world \<Rightarrow> deployed_topology \<Rightarrow> bool \<Rightarrow> unit local_io" where
  "wait_for_readiness lw d skip_membership =
     bind_io (wait_io ReadinessFailed (wait_network_ready d (lw_env lw) (lw_infos lw))) (\<lambda>_.
       if skip_membership then ret_io ()
       else bind_io (wait_io ReadinessFailed (wait_membership_ready_for_session d (lw_env lw) (lw_members lw))) (\<lambda>_.
         wait_io ReadinessFailed (wait_da_balancer_ready d (lw_env lw) (lw_stats lw))))"

definition local_node_clients :: "('p, 'c) local_world \<Rightarrow> nat \<Rightarrow> local_node list \<Rightarrow> 'c node_clients" where
  "local_node_clients lw n_val ns = (let client = (\<lambda>n. lw_client lw (ln_api n) (ln_testing n)) in
     \<lparr>nc_validators = map client (take n_val ns), nc_executors = map client (drop n_val ns)\<rparr>)"

definition local_block_feed :: "('p, 'c) local_world \<Rightarrow> 'c node_clients \<Rightarrow> local_error + scanner" where
  "local_block_feed lw clients = (case random_validator (lw_pick lw) clients of
     None \<Rightarrow> Inl (LocalWorkloadFailed ''block feed requires at least one validator'')
   | Some c \<Rightarrow> (case spawn_block_feed (lw_tip lw c) (lw_storage lw c) of Inl e \<Rightarrow> Inl (LocalWorkloadFailed e) | Inr feed \<Rightarrow> Inr feed))"

text \<open>The context of the runner owns the nodes; the cleanup guard is the block feed task.\<close>

record ('p, 'c) local_runner =
  lr_context :: "'p run_context"
  lr_nodes :: "local_node list"
  lr_clients :: "'c node_clients"
  lr_feed :: scanner

definition local_guard_cleanup :: "local_state \<Rightarrow> local_state" where
  "local_guard_cleanup s = note_effect LocalFeedAborted s"

definition drop_local_runner :: "('p, 'c) local_world \<Rightarrow> ('p, 'c) local_runner \<Rightarrow> local_state \<Rightarrow> local_state" where
  "drop_local_runner lw r s = drop_nodes lw (lr_nodes r) False (local_guard_cleanup s)"

definition local_deploy :: "('p, 'c) local_world \<Rightarrow> bool \<Rightarrow> 'p generated_topology \<Rightarrow> duration \<Rightarrow> ('p, 'c) local_runner local_io" where
  "local_deploy lw membership_check t run_duration =
     (let n_val = n_validators (gt_config t) in
      bind_io (spawn_local_nodes lw t) (\<lambda>ns. unwinding (drop_nodes lw ns)
        (bind_io (wait_for_readiness lw (topology_of n_val ns) (\<not> membership_check)) (\<lambda>_.
         let clients = local_node_clients lw n_val ns in
         bind_io (lift_io id (local_block_feed lw clients)) (\<lambda>feed.
         bind_io (rust_io (run_context_new t run_duration False)) (\<lambda>ctx.
           ret_io \<lparr>lr_context = ctx, lr_nodes = ns, lr_clients = clients, lr_feed = feed\<rparr>))))))"

text \<open>Entries are added and none is changed, whatever fails; in an empty directory that can be written, all are made.\<close>

definition grows :: "file_tree \<Rightarrow> file_tree \<Rightarrow> bool" where
  "grows fs fs' \<longleftrightarrow> (\<forall>q k. kind_at fs q = Some k \<longrightarrow> kind_at fs' q = Some k)"

lemma create_dir_grows: "triple (grows fs) (create_dir_all w p) (\<lambda>_. grows fs) (\<lambda>_. grows fs) (\<lambda>_. False)"
proof -
  have "kind_at s' q = Some k" if "make_dirs p s = Some s'" "kind_at s q = Some k" for s s' q k
    using that make_dirs_defined [of p s] by (cases k) (auto simp: kind_make_dirs)
  then show ?thesis by (auto simp: triple_def grows_def create_dir_all_def change_tree_def split: option.split)
qed

lemma write_missing_grows: "triple (grows fs) (write_missing w p c) (\<lambda>_. grows fs) (\<lambda>_. grows fs) (\<lambda>_. False)"
proof -
  have "kind_at s' q = Some k" if "\<not> path_exists s p" "put_path p (File c) s = Some s'" "kind_at s q = Some k" for s s' q k
  proof -
    have "kind_at s (p @ r) = None" for r using that(1) kind_beyond [of s p] by (cases r) (auto simp: kind_views)
    with that show ?thesis by (auto simp: kind_put prefix_def)
  qed
  then show ?thesis
    by (auto simp: triple_def grows_def write_missing_def write_copy_def change_tree_def ret_io_def split: option.split)
qed

lemma recovery_paths_grow: "triple (grows fs) (ensure_recovery_paths w base_dir) (\<lambda>_. grows fs) (\<lambda>_. grows fs) (\<lambda>_. False)"
  unfolding ensure_recovery_paths_def by (intro triple_bind [OF create_dir_grows] triple_bind [OF write_missing_grows] write_missing_grows)

lemma recovery_steps:
  assumes "p \<noteq> []" and "kind_at fs (butlast p) = Some IsDir" and "kind_at fs p = None"
  shows "\<exists>fs'. create_dir_all (\<lambda>_. True) p fs = (Returns (), fs') \<and> kind_at fs' = (kind_at fs)(p \<mapsto> IsDir)"
    and "\<exists>fs'. write_missing (\<lambda>_. True) p c fs = (Returns (), fs') \<and> kind_at fs' = (kind_at fs)(p \<mapsto> IsFile c)"
proof -
  show "\<exists>fs'. create_dir_all (\<lambda>_. True) p fs = (Returns (), fs') \<and> kind_at fs' = (kind_at fs)(p \<mapsto> IsDir)"
    using create_dir_outcome [OF assms(1,2), of "\<lambda>_. True"] assms(3) by (auto split: prod.splits outcome.splits)
  have "kind_at fs (p @ r) = None" for r using assms(3) kind_beyond [of fs p] by (cases r) auto
  then have "overlay (kind_at (File c)) p (kind_at fs) = (kind_at fs)(p \<mapsto> IsFile c)" "fits (kind_at (File c)) p (kind_at fs)"
    by (auto simp: overlay_def fits_def fun_eq_iff prefix_def kind_file)
  then show "\<exists>fs'. write_missing (\<lambda>_. True) p c fs = (Returns (), fs') \<and> kind_at fs' = (kind_at fs)(p \<mapsto> IsFile c)"
    using write_copy_copies [OF assms(2), of "\<lambda>_. True" c] assms(3)
    by (cases "write_copy (\<lambda>_. True) c p fs") (auto simp: copies_def write_missing_def kind_views split: outcome.splits)
qed

lemma recovery_paths_made:
  assumes "kind_at fs base_dir = Some IsDir" and "\<And>n. kind_at fs (base_dir @ [n]) = None"
  shows "\<exists>fs'. ensure_recovery_paths (\<lambda>_. True) base_dir fs = (Returns (), fs')
    \<and> kind_at fs' = (kind_at fs)(base_dir @ [''recovery''] \<mapsto> IsDir, base_dir @ [''recovery'', ''mempool.json''] \<mapsto> IsFile ''{}'',
        base_dir @ [''recovery'', ''blend''] \<mapsto> IsDir, base_dir @ [''recovery'', ''blend'', ''core.json''] \<mapsto> IsFile ''{}'')"
proof -
  have none: "kind_at fs (base_dir @ n # r) = None" for n r using assms(2) [of n] kind_beyond [of fs "base_dir @ [n]"] by (cases r) auto
  obtain fs1 where 1: "create_dir_all (\<lambda>_. True) (base_dir @ [''recovery'']) fs = (Returns (), fs1)"
      "kind_at fs1 = (kind_at fs)(base_dir @ [''recovery''] \<mapsto> IsDir)"
    using recovery_steps(1) [of "base_dir @ [''recovery'']" fs] assms none by auto
  obtain fs2 where 2: "write_missing (\<lambda>_. True) (base_dir @ [''recovery'', ''mempool.json'']) ''{}'' fs1 = (Returns (), fs2)"
      "kind_at fs2 = (kind_at fs1)(base_dir @ [''recovery'', ''mempool.json''] \<mapsto> IsFile ''{}'')"
    using recovery_steps(2) [of "base_dir @ [''recovery'', ''mempool.json'']" fs1 "''{}''"] 1 none by (auto simp: butlast_append)
  obtain fs3 where 3: "create_dir_all (\<lambda>_. True) (base_dir @ [''recovery'', ''blend'']) fs2 = (Returns (), fs3)"
      "kind_at fs3 = (kind_at fs2)(base_dir @ [''recovery'', ''blend''] \<mapsto> IsDir)"
    using recovery_steps(1) [of "base_dir @ [''recovery'', ''blend'']" fs2] 1 2 none by (auto simp: butlast_append)
  obtain fs4 where 4: "write_missing (\<lambda>_. True) (base_dir @ [''recovery'', ''blend'', ''core.json'']) ''{}'' fs3 = (Returns (), fs4)"
      "kind_at fs4 = (kind_at fs3)(base_dir @ [''recovery'', ''blend'', ''core.json''] \<mapsto> IsFile ''{}'')"
    using recovery_steps(2) [of "base_dir @ [''recovery'', ''blend'', ''core.json'']" fs3 "''{}''"] 1 2 3 none by (auto simp: butlast_append)
  from 1 2 3 4 show ?thesis by (simp add: ensure_recovery_paths_def bind_io_def)
qed

lemma wait_for_exit_iff: "wait_for_exit try_wait timeout \<longleftrightarrow> (\<exists>k. k * from_millis 100 \<le> timeout \<and> \<not> is_running (try_wait k))"
proof -
  have time: "sample_time poll (\<lambda>_. 0) k = k * poll" for poll k by (induction k) auto
  have "0 < from_millis 100" by (simp add: from_millis_def)
  from single_port_result [OF this, of "\<lambda>_ k. \<not> is_running (try_wait k)" "\<lambda>_ _. 0" Validator timeout 0]
  show ?thesis by (auto simp: wait_for_exit_def time)
qed

section \<open>Processes and directories\<close>

text \<open>The processes that run and the directories that are neither removed nor kept for the user.\<close>

fun local_effect_on :: "local_effect \<Rightarrow> nat set \<times> nat set \<Rightarrow> nat set \<times> nat set" where
  "local_effect_on (DirCreated n) (ps, ds) = (ps, insert n ds)"
| "local_effect_on (DirRemoved n) (ps, ds) = (ps, ds - {n})"
| "local_effect_on (DirKept n) (ps, ds) = (ps, ds - {n})"
| "local_effect_on (ProcessStarted n) (ps, ds) = (insert n ps, ds)"
| "local_effect_on (ProcessKilled n) (ps, ds) = (ps - {n}, ds)"
| "local_effect_on LocalFeedAborted r = r"

definition local_resources :: "local_effect list \<Rightarrow> nat set \<times> nat set" where
  "local_resources evs = fold local_effect_on evs ({}, {})"

definition unready_started :: "('p, 'c) local_world \<Rightarrow> local_state \<Rightarrow> nat set" where
  "unready_started lw s = {n. ProcessStarted n \<in> set (ls_log s) \<and> \<not> node_ready lw n}"

text \<open>
  Nodes \<open>ids\<close> run, each with its directory; the processes \<open>stuck\<close> run without one, and are exactly those
  that were started and did not become ready.
\<close>

definition hosts_nodes :: "('p, 'c) local_world \<Rightarrow> nat set \<Rightarrow> nat set \<Rightarrow> local_state \<Rightarrow> bool" where
  "hosts_nodes lw stuck ids s \<longleftrightarrow> local_resources (ls_log s) = (stuck \<union> ids, ids) \<and> stuck = unready_started lw s \<and> stuck \<inter> ids = {}
     \<and> (\<forall>n \<in> ids. n < ls_nodes s)"

definition ids_of :: "local_node list \<Rightarrow> nat set" where "ids_of ns = ln_id ` set ns"

lemma local_resources_note: "local_resources (ls_log (note_effect ev s)) = local_effect_on ev (local_resources (ls_log s))"
  "set (ls_log (note_effect ev s)) = insert ev (set (ls_log s))" "ls_nodes (note_effect ev s) = ls_nodes s"
  by (simp_all add: local_resources_def note_effect_def)

text \<open>A node whose directory is made and removed, one that is started, and one that is started and stuck.\<close>

lemma spawn_steps:
  assumes "hosts_nodes lw {} ids s" and "s1 = note_effect (DirCreated (ls_nodes s)) (s\<lparr>ls_nodes := Suc (ls_nodes s)\<rparr>)"
  shows "hosts_nodes lw {} ids (note_effect (DirRemoved (ls_nodes s)) s1)"
    and "node_ready lw (ls_nodes s) \<Longrightarrow> hosts_nodes lw {} (insert (ls_nodes s) ids) (note_effect (ProcessStarted (ls_nodes s)) s1)"
    and "\<not> node_ready lw (ls_nodes s) \<Longrightarrow> hosts_nodes lw {ls_nodes s} ids (persist_tempdir lw (ls_nodes s) (note_effect (ProcessStarted (ls_nodes s)) s1))"
proof -
  have n: "ls_nodes s \<notin> ids" "\<forall>n \<in> ids. n < Suc (ls_nodes s)" using assms(1) by (auto simp: hosts_nodes_def)
  note d = assms(2) hosts_nodes_def unready_started_def local_resources_note persist_tempdir_def
  show "hosts_nodes lw {} ids (note_effect (DirRemoved (ls_nodes s)) s1)" using assms(1) n by (auto simp: d)
  show "node_ready lw (ls_nodes s) \<Longrightarrow> hosts_nodes lw {} (insert (ls_nodes s) ids) (note_effect (ProcessStarted (ls_nodes s)) s1)"
    using assms(1) n by (auto simp: d)
  show "\<not> node_ready lw (ls_nodes s) \<Longrightarrow> hosts_nodes lw {ls_nodes s} ids (persist_tempdir lw (ls_nodes s) (note_effect (ProcessStarted (ls_nodes s)) s1))"
    using assms(1) n by (auto simp: d)
qed

lemma spawn_node_triple:
  "triple (hosts_nodes lw {} ids) (spawn_node lw to_yaml file binary c)
     (\<lambda>r s. case r of Some n \<Rightarrow> hosts_nodes lw {} (insert (ln_id n) ids) s | None \<Rightarrow> \<exists>stuck. hosts_nodes lw stuck ids s) (\<lambda>_ _. False)
     (\<lambda>s. \<exists>stuck. hosts_nodes lw stuck ids s)"
  unfolding triple_def
proof (intro allI impI)
  fix s assume h: "hosts_nodes lw {} ids s"
  have skip: "hosts_nodes lw {} ids (s\<lparr>ls_nodes := Suc (ls_nodes s)\<rparr>)" using h by (auto simp: hosts_nodes_def unready_started_def)
  show "case spawn_node lw to_yaml file binary c s of
      (Returns r, s') \<Rightarrow> (case r of Some n \<Rightarrow> hosts_nodes lw {} (insert (ln_id n) ids) s' | None \<Rightarrow> \<exists>stuck. hosts_nodes lw stuck ids s')
    | (Fails e, s') \<Rightarrow> False | (Panics msg, s') \<Rightarrow> \<exists>stuck. hosts_nodes lw stuck ids s' | (Hangs, s') \<Rightarrow> False"
    using spawn_steps [OF h refl] skip
    by (auto simp: spawn_node_def Let_def panic_io_def ret_io_def node_of_config_def split: sum.split)
qed

lemma node_spawn_triple:
  assumes "\<And>c. spawn c = bind_io (spawn_node lw to_yaml file binary c) (\<lambda>r. case r of Some n \<Rightarrow> ret_io n | None \<Rightarrow> panic_io msg)"
  shows "triple (hosts_nodes lw {} ids) (bind_io (rust_io q) spawn) (\<lambda>n. hosts_nodes lw {} (insert (ln_id n) ids)) (\<lambda>_ _. False)
    (\<lambda>s. \<exists>stuck. hosts_nodes lw stuck ids s)"
proof (rule triple_bind [OF triple_rust [where Q = "\<lambda>_. hosts_nodes lw {} ids"]])
  fix c
  show "triple (hosts_nodes lw {} ids) (spawn c) (\<lambda>n. hosts_nodes lw {} (insert (ln_id n) ids)) (\<lambda>_ _. False) (\<lambda>s. \<exists>stuck. hosts_nodes lw stuck ids s)"
    unfolding assms by (rule triple_bind [OF spawn_node_triple]) (auto intro!: triple_basic split: option.split)
qed auto

lemma spawn_at_triple:
  "triple (hosts_nodes lw {} ids) (spawn_validator_at lw configs i) (\<lambda>n. hosts_nodes lw {} (insert (ln_id n) ids)) (\<lambda>_ _. False) (\<lambda>s. \<exists>stuck. hosts_nodes lw stuck ids s)"
  "triple (hosts_nodes lw {} ids) (spawn_executor_at lw configs i) (\<lambda>n. hosts_nodes lw {} (insert (ln_id n) ids)) (\<lambda>_ _. False) (\<lambda>s. \<exists>stuck. hosts_nodes lw stuck ids s)"
  unfolding spawn_validator_at_def spawn_executor_at_def
  by (rule node_spawn_triple, rule validator_spawn_def) (rule node_spawn_triple, rule executor_spawn_def)

lemma drop_nodes_hosts:
  assumes "hosts_nodes lw stuck ids s" and "ids_of ns \<subseteq> ids"
  shows "hosts_nodes lw stuck (ids - ids_of ns) (drop_nodes lw ns panicking s)"
proof -
  have one: "hosts_nodes lw stuck (js - {ln_id n}) (drop_node lw panicking n u)" if "hosts_nodes lw stuck js u" "ln_id n \<notin> stuck" for js n u
    using that by (auto simp: hosts_nodes_def unready_started_def drop_node_def persist_tempdir_def local_resources_note)
  have "ids_of ns \<inter> stuck = {}" using assms by (auto simp: hosts_nodes_def)
  with assms(1) show ?thesis
  proof (induction ns arbitrary: ids s)
    case (Cons n ns)
    have "hosts_nodes lw stuck (ids - {ln_id n} - ids_of ns) (drop_nodes lw ns panicking (drop_node lw panicking n s))"
      using Cons.prems one by (intro Cons.IH) (auto simp: ids_of_def)
    moreover have "ids - {ln_id n} - ids_of ns = ids - ids_of (n # ns)" by (auto simp: ids_of_def)
    ultimately show ?case by (simp add: drop_nodes_def)
  qed (simp add: ids_of_def drop_nodes_def)
qed

lemma spawn_each_triple:
  assumes "\<And>i ids. triple (hosts_nodes lw {} ids) (spawn i) (\<lambda>n. hosts_nodes lw {} (insert (ln_id n) ids)) (\<lambda>_ _. False) (\<lambda>s. \<exists>stuck. hosts_nodes lw stuck ids s)"
  shows "triple (hosts_nodes lw {} (ids_of acc)) (spawn_each lw spawn js acc) (\<lambda>ns. hosts_nodes lw {} (ids_of ns)) (\<lambda>_ _. False) (\<lambda>s. \<exists>stuck. hosts_nodes lw stuck {} s)"
proof (induction js arbitrary: acc)
  case Nil
  show ?case by (simp add: triple_basic)
next
  case (Cons j js)
  have "\<exists>stuck. hosts_nodes lw stuck {} (drop_nodes lw acc True s)" if "hosts_nodes lw stuck (ids_of acc) s" for stuck s
    using drop_nodes_hosts [OF that order_refl, of True] by auto
  then have "triple (hosts_nodes lw {} (ids_of acc)) (unwinding (drop_nodes lw acc) (spawn j)) (\<lambda>n. hosts_nodes lw {} (insert (ln_id n) (ids_of acc)))
      (\<lambda>_ _. False) (\<lambda>s. \<exists>stuck. hosts_nodes lw stuck {} s)"
    by (intro triple_unwinding triple_conseq [OF assms [where i = j and ids = "ids_of acc"]]) auto
  moreover have "insert (ln_id n) (ids_of acc) = ids_of (acc @ [n])" for n by (simp add: ids_of_def)
  ultimately show ?case using Cons [where acc = "acc @ [_]"] by (auto intro!: triple_bind)
qed

lemma readiness_keeps: "keeps id (wait_for_readiness lw d skip)"
proof -
  note w = wait_ends [OF poll_intervals_pos(1)] wait_ends [OF poll_intervals_pos(2)]
  have "wait_network_ready d env infos \<noteq> None" "wait_membership_ready_for_session d env members \<noteq> None" "wait_da_balancer_ready d env stats \<noteq> None"
    for env infos members stats
    by (simp_all add: wait_network_ready_def wait_membership_ready_for_session_def wait_membership_assignations_def wait_da_balancer_ready_def
        w Let_def split: sum.split)
  then show ?thesis unfolding wait_for_readiness_def by (intro keeps_intros)
qed

lemma all_nodes_dropped: "hosts_nodes lw {} (ids_of ns) s \<Longrightarrow> hosts_nodes lw {} {} (drop_nodes lw ns p s)"
  using drop_nodes_hosts [OF _ order_refl] by fastforce

lemma spawn_local_nodes_triple:
  "triple (hosts_nodes lw {} (ids_of [])) (spawn_local_nodes lw t) (\<lambda>ns. hosts_nodes lw {} (ids_of ns)) (\<lambda>_. hosts_nodes lw {} {}) (\<lambda>s. \<exists>stuck. hosts_nodes lw stuck {} s)"
  unfolding spawn_local_nodes_def Let_def
  by (rule triple_conseq [OF triple_bind [OF spawn_each_triple [OF spawn_at_triple(1)] spawn_each_triple [OF spawn_at_triple(2)]]]) auto

lemma local_deploy_triple:
  "triple (hosts_nodes lw {} (ids_of [])) (local_deploy lw membership_check t run_duration)
    (\<lambda>r. hosts_nodes lw {} (ids_of (lr_nodes r))) (\<lambda>_. hosts_nodes lw {} {}) (\<lambda>s. \<exists>stuck. hosts_nodes lw stuck {} s)"
  unfolding local_deploy_def Let_def
proof (rule triple_bind [OF spawn_local_nodes_triple], rule triple_unwinding)
  fix ns
  let ?P = "hosts_nodes lw {} (ids_of ns)"
  have keep: "triple ?P m (\<lambda>_. ?P) (\<lambda>e s. hosts_nodes lw {} {} (drop_nodes lw ns False s)) (\<lambda>s. \<exists>stuck. hosts_nodes lw stuck {} (drop_nodes lw ns True s))"
    if "keeps id m" for m :: "'x local_io"
    by (rule triple_conseq [OF triple_keeps [OF that, of ?P]]) (use all_nodes_dropped in \<open>simp, blast+\<close>)
  show "triple ?P (bind_io (wait_for_readiness lw (topology_of (n_validators (gt_config t)) ns) (\<not> membership_check)) (\<lambda>_.
       bind_io (lift_io id (local_block_feed lw (local_node_clients lw (n_validators (gt_config t)) ns))) (\<lambda>feed.
       bind_io (rust_io (run_context_new t run_duration False)) (\<lambda>ctx.
         ret_io \<lparr>lr_context = ctx, lr_nodes = ns, lr_clients = local_node_clients lw (n_validators (gt_config t)) ns, lr_feed = feed\<rparr>))))
     (\<lambda>r. hosts_nodes lw {} (ids_of (lr_nodes r))) (\<lambda>_ s. hosts_nodes lw {} {} (drop_nodes lw ns False s))
     (\<lambda>s. \<exists>stuck. hosts_nodes lw stuck {} (drop_nodes lw ns True s))"
    by (intro triple_bind [OF keep [OF readiness_keeps]] triple_bind [OF keep [OF keeps_basic(4)]] triple_bind [OF keep [OF keeps_basic(5)]] triple_basic) simp
qed


end
