(* ===== verification/Api_Client.thy ===== *)
theory Api_Client
  imports Cfgsync_Client Deploy_Monad Node_Yaml Chain_Types
begin

text \<open>
  The HTTP client of a node: \<open>core/src/nodes/api_client.rs\<close>.

  A request is a value; sending one appends it to the log and yields the node's answer, both parts of
  the record \<open>api_world\<close>, as are the parser and the join of the URL library, the decoders of response
  bodies, and the endpoint paths, which are constants of the node crates. Bodies of requests are JSON values.
\<close>

section \<open>Requests\<close>

datatype http_method = HttpGet | HttpPost json

record api_request =
  rq_method :: http_method
  rq_url :: string
  rq_query :: "(string \<times> string) list"

record api_response =
  rs_status :: nat
  rs_body :: string

datatype api_error = SendError string | StatusError nat | DecodeError string

record api_world =
  hw_parse_url :: "string \<Rightarrow> string option"
  hw_join :: "string \<Rightarrow> string \<Rightarrow> string option"
  hw_send :: "api_request list \<Rightarrow> api_request \<Rightarrow> string + api_response"

type_synonym 'a api_io = "(api_request list, api_error, 'a) io"
type_synonym 'a decoder = "string \<Rightarrow> string + 'a"

record api_paths =
  ep_block_peer :: string
  ep_unblock_peer :: string
  ep_blacklisted_peers :: string
  ep_balancer_stats :: string
  ep_monitor_stats :: string
  ep_cryptarchia_info :: string
  ep_network_info :: string
  ep_storage_block :: string
  ep_cryptarchia_headers :: string
  ep_get_membership :: string
  ep_historic_sampling :: string
  ep_mempool_add_tx :: string

section \<open>The client\<close>

record api_client =
  ac_base_url :: string
  ac_testing_url :: "string option"

definition from_urls :: "string \<Rightarrow> string option \<Rightarrow> api_client" where
  "from_urls base_url testing_url = \<lparr>ac_base_url = base_url, ac_testing_url = testing_url\<rparr>"

definition expect :: "string \<Rightarrow> 'a option \<Rightarrow> 'a rust" where
  "expect msg x = (case x of Some v \<Rightarrow> Inr v | None \<Rightarrow> Inl msg)"

definition api_client_new :: "api_world \<Rightarrow> string \<Rightarrow> string option \<Rightarrow> api_client rust" where
  "api_client_new w base_addr testing_addr =
     rbind (expect ''Valid base address for node'' (hw_parse_url w (''http://'' @ base_addr))) (\<lambda>base_url.
       case testing_addr of
         None \<Rightarrow> Inr (from_urls base_url None)
       | Some addr \<Rightarrow> rbind (expect ''Valid testing address'' (hw_parse_url w (''http://'' @ addr))) (\<lambda>testing_url.
           Inr (from_urls base_url (Some testing_url))))"

definition join_url :: "api_world \<Rightarrow> string \<Rightarrow> string \<Rightarrow> string rust" where
  "join_url w base p = expect ''valid relative path'' (hw_join w base (dropWhile (\<lambda>c. c = CHR ''/'') p))"

definition join_base :: "api_world \<Rightarrow> api_client \<Rightarrow> string \<Rightarrow> string rust" where
  "join_base w c p = join_url w (ac_base_url c) p"

definition testing_endpoint_error :: string where
  "testing_endpoint_error = ''Failed to connect to testing endpoint. The binary was likely built without the 'testing' feature. Try: cargo build --workspace --all-features''"

definition join_testing :: "api_world \<Rightarrow> api_client \<Rightarrow> string \<Rightarrow> string rust" where
  "join_testing w c p = rbind (expect testing_endpoint_error (ac_testing_url c)) (\<lambda>testing_url. join_url w testing_url p)"

definition send :: "api_world \<Rightarrow> api_request \<Rightarrow> api_response api_io" where
  "send w rq sent = (case hw_send w sent rq of
     Inl e \<Rightarrow> (Fails (SendError e), sent @ [rq]) | Inr rs \<Rightarrow> (Returns rs, sent @ [rq]))"

text \<open>\<open>error_for_status\<close>: client and server errors. \<open>json\<close>: the decoded body.\<close>

definition is_error_status :: "nat \<Rightarrow> bool" where
  "is_error_status s \<longleftrightarrow> 400 \<le> s \<and> s < 600"

definition error_for_status :: "api_response \<Rightarrow> api_response api_io" where
  "error_for_status rs = (if is_error_status (rs_status rs) then fail_io (StatusError (rs_status rs)) else ret_io rs)"

definition decode_json :: "'a decoder \<Rightarrow> api_response \<Rightarrow> 'a api_io" where
  "decode_json d rs = lift_io DecodeError (d (rs_body rs))"

definition decoded :: "'a decoder \<Rightarrow> api_response api_io \<Rightarrow> 'a api_io" where
  "decoded d m = bind_io (bind_io m error_for_status) (decode_json d)"

definition checked :: "api_response api_io \<Rightarrow> unit api_io" where
  "checked m = bind_io (bind_io m error_for_status) (\<lambda>_. ret_io ())"

definition request_to :: "api_world \<Rightarrow> http_method \<Rightarrow> string rust \<Rightarrow> (string \<times> string) list \<Rightarrow> api_response api_io" where
  "request_to w m url query = bind_io (rust_io url) (\<lambda>u. send w \<lparr>rq_method = m, rq_url = u, rq_query = query\<rparr>)"

definition get_response :: "api_world \<Rightarrow> api_client \<Rightarrow> string \<Rightarrow> api_response api_io" where
  "get_response w c p = request_to w HttpGet (join_base w c p) []"

definition get_json :: "api_world \<Rightarrow> api_client \<Rightarrow> 'a decoder \<Rightarrow> string \<Rightarrow> 'a api_io" where
  "get_json w c d p = decoded d (get_response w c p)"

definition post_json_response :: "api_world \<Rightarrow> api_client \<Rightarrow> string \<Rightarrow> json \<Rightarrow> api_response api_io" where
  "post_json_response w c p body = request_to w (HttpPost body) (join_base w c p) []"

definition post_json_decode :: "api_world \<Rightarrow> api_client \<Rightarrow> 'a decoder \<Rightarrow> string \<Rightarrow> json \<Rightarrow> 'a api_io" where
  "post_json_decode w c d p body = decoded d (post_json_response w c p body)"

definition post_json_unit :: "api_world \<Rightarrow> api_client \<Rightarrow> string \<Rightarrow> json \<Rightarrow> unit api_io" where
  "post_json_unit w c p body = checked (post_json_response w c p body)"

definition get_testing_response :: "api_world \<Rightarrow> api_client \<Rightarrow> string \<Rightarrow> api_response api_io" where
  "get_testing_response w c p = request_to w HttpGet (join_testing w c p) []"

definition get_testing_json :: "api_world \<Rightarrow> api_client \<Rightarrow> 'a decoder \<Rightarrow> string \<Rightarrow> 'a api_io" where
  "get_testing_json w c d p = decoded d (get_testing_response w c p)"

definition post_testing_json_response :: "api_world \<Rightarrow> api_client \<Rightarrow> string \<Rightarrow> json \<Rightarrow> api_response api_io" where
  "post_testing_json_response w c p body = request_to w (HttpPost body) (join_testing w c p) []"

definition post_testing_json_decode :: "api_world \<Rightarrow> api_client \<Rightarrow> 'a decoder \<Rightarrow> string \<Rightarrow> json \<Rightarrow> 'a api_io" where
  "post_testing_json_decode w c d p body = decoded d (post_testing_json_response w c p body)"

definition post_testing_json_unit :: "api_world \<Rightarrow> api_client \<Rightarrow> string \<Rightarrow> json \<Rightarrow> unit api_io" where
  "post_testing_json_unit w c p body = checked (post_testing_json_response w c p body)"

section \<open>Endpoints\<close>

definition block_peer :: "api_world \<Rightarrow> api_paths \<Rightarrow> api_client \<Rightarrow> bool decoder \<Rightarrow> string \<Rightarrow> bool api_io" where
  "block_peer w ep c d peer_id = post_json_decode w c d (ep_block_peer ep) (JStr peer_id)"

definition unblock_peer :: "api_world \<Rightarrow> api_paths \<Rightarrow> api_client \<Rightarrow> bool decoder \<Rightarrow> string \<Rightarrow> bool api_io" where
  "unblock_peer w ep c d peer_id = post_json_decode w c d (ep_unblock_peer ep) (JStr peer_id)"

definition blacklisted_peers :: "api_world \<Rightarrow> api_paths \<Rightarrow> api_client \<Rightarrow> string list decoder \<Rightarrow> string list api_io" where
  "blacklisted_peers w ep c d = get_json w c d (ep_blacklisted_peers ep)"

definition balancer_stats_of :: "api_world \<Rightarrow> api_paths \<Rightarrow> api_client \<Rightarrow> 'a decoder \<Rightarrow> 'a api_io" where
  "balancer_stats_of w ep c d = get_json w c d (ep_balancer_stats ep)"

definition monitor_stats :: "api_world \<Rightarrow> api_paths \<Rightarrow> api_client \<Rightarrow> 'a decoder \<Rightarrow> 'a api_io" where
  "monitor_stats w ep c d = get_json w c d (ep_monitor_stats ep)"

definition consensus_info :: "api_world \<Rightarrow> api_paths \<Rightarrow> api_client \<Rightarrow> 'a decoder \<Rightarrow> 'a api_io" where
  "consensus_info w ep c d = get_json w c d (ep_cryptarchia_info ep)"

definition network_info :: "api_world \<Rightarrow> api_paths \<Rightarrow> api_client \<Rightarrow> 'a decoder \<Rightarrow> 'a api_io" where
  "network_info w ep c d = get_json w c d (ep_network_info ep)"

text \<open>\<open>to_json\<close> is the serialiser of the argument.\<close>

definition storage_block :: "api_world \<Rightarrow> api_paths \<Rightarrow> api_client \<Rightarrow> (header_id \<Rightarrow> json) \<Rightarrow> 'b option decoder \<Rightarrow> header_id \<Rightarrow> 'b option api_io" where
  "storage_block w ep c to_json d i = post_json_decode w c d (ep_storage_block ep) (to_json i)"

definition header_bound :: "string \<Rightarrow> header_id option \<Rightarrow> (string \<times> string) list" where
  "header_bound name i = (case i of Some bytes \<Rightarrow> [(name, hex_encode (map unat bytes))] | None \<Rightarrow> [])"

definition consensus_headers :: "api_world \<Rightarrow> api_paths \<Rightarrow> api_client \<Rightarrow> header_id list decoder \<Rightarrow> header_id option \<Rightarrow> header_id option
    \<Rightarrow> header_id list api_io" where
  "consensus_headers w ep c d from_id to_id =
     decoded d (request_to w HttpGet (join_base w c (ep_cryptarchia_headers ep)) (header_bound ''from'' from_id @ header_bound ''to'' to_id))"

definition da_get_membership :: "api_world \<Rightarrow> api_paths \<Rightarrow> api_client \<Rightarrow> 'a decoder \<Rightarrow> nat \<Rightarrow> 'a api_io" where
  "da_get_membership w ep c d session_id = post_testing_json_decode w c d (ep_get_membership ep) (JNum (int session_id))"

definition da_historic_sampling :: "api_world \<Rightarrow> api_paths \<Rightarrow> api_client \<Rightarrow> bool decoder \<Rightarrow> json \<Rightarrow> bool api_io" where
  "da_historic_sampling w ep c d request = post_testing_json_decode w c d (ep_historic_sampling ep) request"

text \<open>The body of a refused submission is only logged.\<close>

definition submit_transaction :: "api_world \<Rightarrow> api_paths \<Rightarrow> api_client \<Rightarrow> json \<Rightarrow> unit api_io" where
  "submit_transaction w ep c tx = bind_io (post_json_response w c (ep_mempool_add_tx ep) tx) (\<lambda>rs.
     if is_error_status (rs_status rs) then fail_io (StatusError (rs_status rs)) else ret_io ())"

definition mempool_metrics :: "api_world \<Rightarrow> api_client \<Rightarrow> 'a decoder \<Rightarrow> string \<Rightarrow> 'a api_io" where
  "mempool_metrics w c d pool = get_json w c d (''/'' @ pool @ ''/metrics'')"

section \<open>Outcomes\<close>

text \<open>What a call with request \<open>rq\<close> does when the node answers \<open>answer\<close>: one request, and a result by its status and body.\<close>

definition answered :: "string + api_response \<Rightarrow> (api_response \<Rightarrow> api_error + 'a) \<Rightarrow> (api_error, 'a) outcome" where
  "answered answer f = (case answer of Inl e \<Rightarrow> Fails (SendError e)
     | Inr rs \<Rightarrow> if rs_status rs \<in> {400..<600} then Fails (StatusError (rs_status rs))
                else (case f rs of Inl e \<Rightarrow> Fails e | Inr v \<Rightarrow> Returns v))"

definition call_outcome :: "api_world \<Rightarrow> http_method \<Rightarrow> string rust \<Rightarrow> (string \<times> string) list \<Rightarrow> (api_response \<Rightarrow> api_error + 'a)
    \<Rightarrow> api_request list \<Rightarrow> (api_error, 'a) outcome \<times> api_request list" where
  "call_outcome w m url query f sent = (case url of Inl msg \<Rightarrow> (Panics msg, sent)
     | Inr u \<Rightarrow> (let rq = \<lparr>rq_method = m, rq_url = u, rq_query = query\<rparr> in (answered (hw_send w sent rq) f, sent @ [rq])))"

lemma decoded_outcome:
  "decoded d (request_to w m url query) sent = call_outcome w m url query (\<lambda>rs. map_sum DecodeError id (d (rs_body rs))) sent"
  by (auto simp: decoded_def request_to_def call_outcome_def answered_def is_error_status_def bind_io_def rust_io_def send_def panic_io_def ret_io_def fail_io_def
      error_for_status_def decode_json_def lift_io_def Let_def split: sum.splits)

lemma checked_outcome: "checked (request_to w m url query) sent = call_outcome w m url query (\<lambda>_. Inr ()) sent"
  by (auto simp: checked_def request_to_def call_outcome_def answered_def is_error_status_def bind_io_def rust_io_def send_def panic_io_def ret_io_def fail_io_def
      error_for_status_def Let_def split: sum.splits)


lemma submit_transaction_outcome:
  "submit_transaction w ep c tx sent = call_outcome w (HttpPost tx) (join_base w c (ep_mempool_add_tx ep)) [] (\<lambda>_. Inr ()) sent"
  by (auto simp: submit_transaction_def post_json_response_def request_to_def call_outcome_def answered_def is_error_status_def bind_io_def rust_io_def send_def
      panic_io_def ret_io_def fail_io_def Let_def split: sum.splits)

lemmas api_outcomes = get_json_def get_response_def post_json_decode_def post_json_unit_def post_json_response_def
  get_testing_json_def get_testing_response_def post_testing_json_decode_def post_testing_json_unit_def post_testing_json_response_def
  decoded_outcome checked_outcome submit_transaction_outcome

text \<open>A URL of a node, and a request of one call to it.\<close>

definition node_url :: "string \<Rightarrow> string \<Rightarrow> string" where
  "node_url addr p = ''http://'' @ addr @ ''/'' @ dropWhile (\<lambda>c. c = CHR ''/'') p"

definition single_call :: "api_world \<Rightarrow> http_method \<Rightarrow> string \<Rightarrow> (string \<times> string) list \<Rightarrow> (api_response \<Rightarrow> api_error + 'a)
    \<Rightarrow> api_request list \<Rightarrow> (api_error, 'a) outcome \<times> api_request list" where
  "single_call w m url query f sent = (let rq = \<lparr>rq_method = m, rq_url = url, rq_query = query\<rparr> in (answered (hw_send w sent rq) f, sent @ [rq]))"

text \<open>
  C38. A client made from the addresses of a node sends one request per call, to the API or the testing
  API of that node at the path of the call, and none when it has no testing address, in which case a call
  to the testing API panics. A call with a result succeeds exactly when an answer arrives, its status is no
  client or server error and its body decodes; submitting a transaction asks only for the former two. What
  is assumed of the URL library is how it reads an address and appends this path.
\<close>

theorem api_call_outcome:
  assumes "api_client_new w base_addr testing_addr = Inr c"
    and "hw_parse_url w (''http://'' @ base_addr) = Some (node_url base_addr [])"
    and "\<And>a. testing_addr = Some a \<Longrightarrow> hw_parse_url w (''http://'' @ a) = Some (node_url a [])"
    and "\<And>a q. a = base_addr \<or> testing_addr = Some a \<Longrightarrow> q \<in> {p, ep_mempool_add_tx ep, ep_cryptarchia_headers ep, ep_get_membership ep} \<Longrightarrow>
       hw_join w (node_url a []) (dropWhile (\<lambda>c. c = CHR ''/'') q) = Some (node_url a q)"
  shows "get_json w c d p sent = single_call w HttpGet (node_url base_addr p) [] (\<lambda>rs. map_sum DecodeError id (d (rs_body rs))) sent
    \<and> post_json_decode w c d p body sent = single_call w (HttpPost body) (node_url base_addr p) [] (\<lambda>rs. map_sum DecodeError id (d (rs_body rs))) sent
    \<and> submit_transaction w ep c tx sent = single_call w (HttpPost tx) (node_url base_addr (ep_mempool_add_tx ep)) [] (\<lambda>_. Inr ()) sent
    \<and> consensus_headers w ep c dh from_id to_id sent = single_call w HttpGet (node_url base_addr (ep_cryptarchia_headers ep))
       (header_bound ''from'' from_id @ header_bound ''to'' to_id) (\<lambda>rs. map_sum DecodeError id (dh (rs_body rs))) sent
    \<and> da_get_membership w ep c d session sent = (case testing_addr of
       None \<Rightarrow> (Panics testing_endpoint_error, sent)
     | Some a \<Rightarrow> single_call w (HttpPost (JNum (int session))) (node_url a (ep_get_membership ep)) [] (\<lambda>rs. map_sum DecodeError id (d (rs_body rs))) sent)"
proof -
  have c: "c = from_urls (node_url base_addr []) (map_option (\<lambda>a. node_url a []) testing_addr)"
    using assms(1-3) by (cases testing_addr) (auto simp: api_client_new_def expect_def)
  let ?Q = "{p, ep_mempool_add_tx ep, ep_cryptarchia_headers ep, ep_get_membership ep}"
  have base: "join_base w c q = Inr (node_url base_addr q)" if "q \<in> ?Q" for q
    using assms(4) [OF _ that] by (simp add: c join_base_def join_url_def from_urls_def expect_def)
  have testing: "join_testing w c q = (case testing_addr of None \<Rightarrow> Inl testing_endpoint_error | Some a \<Rightarrow> Inr (node_url a q))" if "q \<in> ?Q" for q
    using assms(4) [OF _ that] by (auto simp: c join_testing_def join_url_def from_urls_def expect_def split: option.split)
  note d = api_outcomes call_outcome_def single_call_def base
  show ?thesis by (simp add: d consensus_headers_def da_get_membership_def testing split: option.split)
qed

definition sample_api :: api_world where
  "sample_api = \<lparr>hw_parse_url = (\<lambda>u. Some (u @ ''/'')), hw_join = (\<lambda>b r. Some (b @ r)),
     hw_send = (\<lambda>sent rq. if rq_method rq = HttpGet then Inr \<lparr>rs_status = 200, rs_body = ''ok''\<rparr> else Inr \<lparr>rs_status = 503, rs_body = []\<rparr>)\<rparr>"

definition sample_paths :: api_paths where
  "sample_paths = \<lparr>ep_block_peer = ''/da/block'', ep_unblock_peer = ''/da/unblock'', ep_blacklisted_peers = ''/da/blacklist'',
     ep_balancer_stats = ''/da/balancer'', ep_monitor_stats = ''/da/monitor'', ep_cryptarchia_info = ''/cryptarchia/info'',
     ep_network_info = ''/network/info'', ep_storage_block = ''/storage/block'', ep_cryptarchia_headers = ''/cryptarchia/headers'',
     ep_get_membership = ''/da/membership'', ep_historic_sampling = ''/da/sampling'', ep_mempool_add_tx = ''/mempool/add''\<rparr>"

theorem api_call_outcome_witness:
  "\<exists>c. api_client_new sample_api ''127.0.0.1:8080'' None = Inr c
     \<and> get_json sample_api c Inr ''/cryptarchia/info'' []
       = (Returns ''ok'', [\<lparr>rq_method = HttpGet, rq_url = ''http://127.0.0.1:8080/cryptarchia/info'', rq_query = []\<rparr>])
     \<and> fst (submit_transaction sample_api sample_paths c JNull []) = Fails (StatusError 503)
     \<and> da_get_membership sample_api sample_paths c Inr 0 [] = (Panics testing_endpoint_error, [])"
proof -
  let ?c = "\<lparr>ac_base_url = ''http://127.0.0.1:8080/'', ac_testing_url = None\<rparr>"
  have c: "api_client_new sample_api ''127.0.0.1:8080'' None = Inr ?c"
    by (simp add: api_client_new_def sample_api_def expect_def from_urls_def)
  have url: "hw_parse_url sample_api (''http://'' @ ''127.0.0.1:8080'') = Some (node_url ''127.0.0.1:8080'' [])"
    "hw_join sample_api (node_url a []) (dropWhile (\<lambda>c. c = CHR ''/'') q) = Some (node_url a q)" for a q
    by (simp_all add: sample_api_def node_url_def)
  note o = api_call_outcome [OF c url(1) _ url(2), where p = "''/cryptarchia/info''" and ep = sample_paths and session = 0 and tx = JNull and sent = "[]"
    and d = Inr and body = JNull and dh = "\<lambda>_. Inl []" and from_id = None and to_id = None]
  have "get_json sample_api ?c Inr ''/cryptarchia/info'' []
       = (Returns ''ok'', [\<lparr>rq_method = HttpGet, rq_url = ''http://127.0.0.1:8080/cryptarchia/info'', rq_query = []\<rparr>])"
    using o by (simp add: single_call_def sample_api_def answered_def is_error_status_def node_url_def Let_def)
  moreover have "fst (submit_transaction sample_api sample_paths ?c JNull []) = Fails (StatusError 503)"
    using o by (simp add: single_call_def sample_api_def answered_def is_error_status_def Let_def)
  moreover have "da_get_membership sample_api sample_paths ?c Inr 0 [] = (Panics testing_endpoint_error, [])"
    using o by simp
  ultimately show ?thesis using c by blast
qed

end
