(* ===== verification/Spec2Isabelle.thy ===== *)
theory Spec2Isabelle
  imports Runner Block_Feed Readiness Runtime_Clients Consensus_Liveness Chaos Tx_Workload Da_Workload Cfgsync_Client
    Cfgsync_Template Node_Configs Workflow_Builder Compose_Lifecycle K8s_Reach Local_Deployer
    Api_Client
begin

text \<open>
  Verification development for the Nomos testing framework (\<open>src/testing-framework\<close>).

  The program. A test author describes a network of validators and executors, workloads that act on it
  and expectations to check, with the builders of \<open>core\<close> and \<open>workflows\<close>. Building the scenario
  generates a topology: node ids, ports, a network layout, the genesis transaction, DA membership, wallets
  and one configuration per node (\<open>configs\<close>, \<open>core/src/topology\<close>). A deployer (\<open>runners/local\<close>,
  \<open>runners/compose\<close>, \<open>runners/k8s\<close>) starts the nodes, as processes, containers or pods. Local
  nodes get their configuration as a file; the others ask a cfgsync server (\<open>tools/cfgsync\<close>), which waits for
  all hosts and builds the configurations from the same parameters. The deployer waits until the nodes are
  ready, makes clients and a block feed, and returns a runner. The runner (\<open>core/src/scenario/runtime\<close>) runs
  the workloads, evaluates the expectations and cleans up.

  Conventions. Panics and errors are values: \<open>'a rust\<close> (\<open>string + 'a\<close>) for a call that may panic,
  a sum with an error type for \<open>Result\<close>, and in the deployers the outcomes of \<open>Deploy_Monad\<close>
  (a value, an error, a panic, not returning) with the state reached. Integers are natural numbers with
  their width written out; an unchecked operation that leaves the range is the overflow panic of the dev
  profile. Code outside the repository (cryptography, docker, kubectl, Helm, the operating system, HTTP, the
  answers of nodes, serialisers, random choices) is a parameter: a record of functions or an argument.

  Theories, with the sources they model.

  \<^item> \<open>Prelude\<close>: results, iterator idioms, decimal text, byte encodings, \<open>Path::join\<close>.
    \<open>Durations\<close>: \<open>std::time::Duration\<close>. \<open>F64\<close>: the floating point arithmetic the source uses, with rounding.
    \<open>Chain_Types\<close>: notes, transactions, blocks and declarations of the node crates.
  \<^item> \<open>Wallet\<close>, \<open>Network_Layout\<close>, \<open>Da_Membership\<close>, \<open>Genesis\<close>, \<open>Tracing_Config\<close>:
    \<open>configs/src/topology/configs\<close>: \<open>wallet.rs\<close>, \<open>network.rs\<close> (with the expected peer counts of
    \<open>core/src/topology/generation.rs\<close>), \<open>da.rs\<close>, \<open>consensus.rs\<close>, \<open>tracing.rs\<close>.
    Wallet funds are allocated exactly; expected peer counts are the degrees of the
    undirected graph of the layout; every DA subnetwork is filled and every node has one; service notes are
    outputs of the genesis transaction.
  \<^item> \<open>Topology_Config\<close>: \<open>core/src/topology/config.rs\<close>, \<open>generation.rs\<close>, \<open>utils.rs\<close>: when a topology builds,
    what its nodes are, and that genesis declares each of them once.
    \<open>Node_Configs\<close> and \<open>Node_Yaml\<close>: the validator and executor files (\<open>configs/src/nodes\<close>) and the edits
    before they are written (\<open>core/src/nodes/common/config/injection.rs\<close>).
  \<^item> \<open>Scenario\<close>, \<open>Runner\<close>, \<open>Block_Feed\<close>, \<open>Readiness\<close>, \<open>Runtime_Clients\<close>, \<open>Api_Client\<close>:
    \<open>core/src/scenario\<close>, \<open>core/src/topology/readiness\<close> and \<open>core/src/nodes/api_client.rs\<close>.
    Phase order, one cleanup on every path, the outcome of a run by the first failing or late workload; the feed delivers
    each block once, parents first; readiness returns exactly when a sample in time is ready; an API call
    sends one request and its result follows from the answer.
  \<^item> \<open>Consensus_Liveness\<close>, \<open>Chaos\<close>, \<open>Tx_Workload\<close>, \<open>Da_Workload\<close>, \<open>Workflow_Builder\<close>: \<open>workflows/src\<close>. Verdicts are
    characterised by what was observed; restarts are spaced by the cooldown, by rule induction on the step
    relation; planned channels suffice for the target rate; funded scenarios build.
  \<^item> \<open>Cfgsync_Config\<close>, \<open>Cfgsync_Server\<close>, \<open>Cfgsync_Client\<close>, \<open>Cfgsync_Template\<close>: \<open>tools/cfgsync/src\<close> and
    \<open>core/src/scenario/cfgsync.rs\<close>. The repository is a state machine with an invariant; complete deployments are
    served, the server ends, overcrowding crashes it; the configurations handed out refine those of the topology
    whatever the order in which hosts arrive; assignations survive the way through JSON.
  \<^item> \<open>Deploy_Monad\<close>: computations with outcomes and their triples, for all three deployers.
    \<open>File_System\<close>: a file system as a tree, the operations
    of \<open>std::fs\<close> on it, and what they do to the entry shown at every path.
    \<open>Stack_Hosts\<close>: the start script \<open>assets/stack/scripts/run_nomos.sh\<close> and the ports of a topology.
  \<^item> \<open>Compose_Descriptor\<close>, \<open>Compose_Workspace\<close>, \<open>Compose_Runner\<close>, \<open>Compose_Lifecycle\<close>: \<open>runners/compose/src\<close>.
    \<open>K8s_Assets\<close>, \<open>K8s_Runner\<close>, \<open>K8s_Lifecycle\<close>, \<open>K8s_Reach\<close>: \<open>runners/k8s/src\<close> with the Helm chart's node templates.
    \<open>Local_Deployer\<close>: \<open>core/src/nodes\<close>, \<open>core/src/topology/deployment.rs\<close> and \<open>runners/local/src\<close>.
    A compose workspace is a copy of the assets or nothing. What is left running or on disk after every outcome of a deployment, including what leaks; that the nodes a
    stack starts get the configurations of the topology; that a healthy cluster is reached.

  Interfaces. \<open>readiness_check\<close> (a check the polling loop can run; interpreted on the network, membership and balancer
  checks), \<open>cleanup_guard\<close> (a guard taken once; the runner and the run handle), \<open>counted_source\<close>, \<open>config_source\<close> and
  \<open>cfgsync_deployment\<close> (what the cfgsync repository needs of the configuration builder; the builder on the settings of a
  deployment), \<open>rendered_stack\<close> (what a stack's files must say so that its nodes are the topology's;
  compose projects and Helm releases).

  Termination. The polling loop of readiness is a partial function whose \<open>None\<close> is not returning; it is shown to
  return for a positive interval, which all callers have. The cooldown wait of the chaos workload and the deployment
  wait of Kubernetes recurse until a deadline and have measures. Retry loops recurse on the attempts left. No model
  uses fuel. The chaos workload does not end by itself and is a step relation.

  Not modelled. \<open>configs/src/topology/configs/deployment.rs\<close> is a constant structure of the node crates. The programs under
  \<open>src/examples\<close> and the end-to-end tests call the framework and have no logic of their own. Log output, sleeping as such,
  the template engine, YAML and JSON text, unit tests, and fields the repository leaves at the node crates' defaults are left
  out; the Grafana and Prometheus objects of the chart are not represented. Each theory says what its parameters stand for.
\<close>

end
